(* ===== verification/Prelude.thy ===== *)
theory Prelude
  imports Main "HOL-Library.Word"
begin

text \<open>
  Prelude of the development: the types every component shares (the result of a
  command handler, the exceptions the C++ code can raise), the collections of
  rewrite rules, and generic facts about lists and options.

  \<^item> \<open>cmd_result\<close> is the struct \<open>CmdResult\<close> of \<open>daemon/include/Types.h\<close>.
  \<^item> \<open>exn\<close> lists the exceptions of the standard library and of the JSON library that
    the handlers can raise. \<open>AssertFail\<close> is no exception: it marks a point past which the code
    gives no result, the abort of the JSON library's debug assertion when a constant object is
    indexed with a missing key, or an access to freed memory, which C++ leaves undefined.
  \<^item> A fallible C++ function that does not touch state returns \<open>exn + 'a\<close>
    (\<open>Inl\<close> the exception); a stateful one returns the state together with such a sum.
\<close>

named_theorems cpp_simps \<open>evaluation rules of the modelled parts of the C++ library\<close>
named_theorems db_simps \<open>effect of the table operations on the tables\<close>

datatype exn =
    InvalidArgument string
  | OutOfRange string
  | TypeError nat
  | ParseError
  | AssertFail
  | FilesystemError string
  | RuntimeError string

type_synonym 'a result = "exn + 'a"

record cmd_result =
  status :: int
  message :: string

abbreviation CmdResult :: "int \<Rightarrow> string \<Rightarrow> cmd_result" where
  "CmdResult s m \<equiv> \<lparr>status = s, message = m\<rparr>"

abbreviation NL :: string where
  "NL \<equiv> [CHR 0x0A]"

definition try_result :: "'a result \<Rightarrow> ('a \<Rightarrow> 'b result) \<Rightarrow> 'b result" where
  "try_result r f = (case r of Inl e \<Rightarrow> Inl e | Inr x \<Rightarrow> f x)"

lemma try_result_simps [simp]:
  "try_result (Inl e) f = Inl e"
  "try_result (Inr x) f = f x"
  by (simp_all add: try_result_def)

lemma try_result_Inr_iff:
  "try_result r f = Inr y \<longleftrightarrow> (\<exists>x. r = Inr x \<and> f x = Inr y)"
  by (cases r) simp_all

subsection \<open>Backward and forward searches\<close>

text \<open>
  The C++ loops that scan an index range for the first hit, downwards
  (\<open>for (int i = start; i >= 0; i--)\<close>) and upwards
  (\<open>for (int i = start; i <= max; i++)\<close>).
\<close>

function scan_down :: "(int \<Rightarrow> bool) \<Rightarrow> int \<Rightarrow> int option" where
  "scan_down P i = (if i < 0 then None else if P i then Some i else scan_down P (i - 1))"
  by pat_completeness auto
termination by (relation "measure (\<lambda>(P, i). nat (i + 1))") auto

function scan_up :: "(int \<Rightarrow> bool) \<Rightarrow> int \<Rightarrow> int \<Rightarrow> int option" where
  "scan_up P i m = (if i > m then None else if P i then Some i else scan_up P (i + 1) m)"
  by pat_completeness auto
termination by (relation "measure (\<lambda>(P, i, m). nat (m + 1 - i))") auto

declare scan_down.simps [simp del] scan_up.simps [simp del]

lemma scan_down_None_iff:
  "scan_down P i = None \<longleftrightarrow> (\<forall>k. 0 \<le> k \<and> k \<le> i \<longrightarrow> \<not> P k)"
proof (induction P i rule: scan_down.induct)
  case (1 P i)
  have split: "k \<le> i \<longleftrightarrow> k = i \<or> k \<le> i - 1" for k by linarith
  show ?case
    using 1 by (auto simp: scan_down.simps [of P i] split not_less intro: exI [of _ i])
qed

lemma scan_down_SomeD:
  "scan_down P i = Some j \<Longrightarrow> 0 \<le> j \<and> j \<le> i \<and> P j \<and> (\<forall>k. j < k \<and> k \<le> i \<longrightarrow> \<not> P k)"
proof (induction P i rule: scan_down.induct)
  case (1 P i)
  have split: "k \<le> i \<longleftrightarrow> k = i \<or> k \<le> i - 1" for k by linarith
  show ?case
    using 1 by (auto simp: scan_down.simps [of P i] split split: if_splits)
qed

lemma scan_down_Some_iff:
  "scan_down P i = Some j \<longleftrightarrow> 0 \<le> j \<and> j \<le> i \<and> P j \<and> (\<forall>k. j < k \<and> k \<le> i \<longrightarrow> \<not> P k)"
  (is "_ \<longleftrightarrow> ?R")
proof
  assume R: ?R
  show "scan_down P i = Some j"
  proof (cases "scan_down P i")
    case None
    with R show ?thesis by (auto simp: scan_down_None_iff)
  next
    case (Some l)
    from scan_down_SomeD [OF this] R have "l = j" by (metis linorder_less_linear)
    with Some show ?thesis by simp
  qed
qed (rule scan_down_SomeD)

lemma scan_up_None_iff:
  "scan_up P i m = None \<longleftrightarrow> (\<forall>k. i \<le> k \<and> k \<le> m \<longrightarrow> \<not> P k)"
proof (induction P i m rule: scan_up.induct)
  case (1 P i m)
  have split: "i \<le> k \<longleftrightarrow> k = i \<or> i + 1 \<le> k" for k by linarith
  show ?case
    using 1 by (auto simp: scan_up.simps [of P i m] split not_less intro: exI [of _ i])
qed

lemma scan_up_SomeD:
  "scan_up P i m = Some j \<Longrightarrow> i \<le> j \<and> j \<le> m \<and> P j \<and> (\<forall>k. i \<le> k \<and> k < j \<longrightarrow> \<not> P k)"
proof (induction P i m rule: scan_up.induct)
  case (1 P i m)
  have split: "i \<le> k \<longleftrightarrow> k = i \<or> i + 1 \<le> k" for k by linarith
  show ?case
    using 1 by (auto simp: scan_up.simps [of P i m] split split: if_splits)
qed

lemma scan_up_Some_iff:
  "scan_up P i m = Some j \<longleftrightarrow> i \<le> j \<and> j \<le> m \<and> P j \<and> (\<forall>k. i \<le> k \<and> k < j \<longrightarrow> \<not> P k)"
  (is "_ \<longleftrightarrow> ?R")
proof
  assume R: ?R
  show "scan_up P i m = Some j"
  proof (cases "scan_up P i m")
    case None
    with R show ?thesis by (auto simp: scan_up_None_iff)
  next
    case (Some l)
    from scan_up_SomeD [OF this] R have "l = j" by (metis linorder_less_linear)
    with Some show ?thesis by simp
  qed
qed (rule scan_up_SomeD)

text \<open>
  The same loops when the test itself can throw (\<open>Inl\<close>): the first index at which the test does
  not answer \<open>false\<close> ends the loop, either with a hit or with the exception.
\<close>

function try_scan_down :: "(int \<Rightarrow> 'e + bool) \<Rightarrow> int \<Rightarrow> 'e + int option" where
  "try_scan_down P i =
     (if i < 0 then Inr None
      else case P i of Inl e \<Rightarrow> Inl e | Inr hit \<Rightarrow> if hit then Inr (Some i) else try_scan_down P (i - 1))"
  by pat_completeness auto
termination by (relation "measure (\<lambda>(P, i). nat (i + 1))") auto

function try_scan_up :: "(int \<Rightarrow> 'e + bool) \<Rightarrow> int \<Rightarrow> int \<Rightarrow> 'e + int option" where
  "try_scan_up P i m =
     (if i > m then Inr None
      else case P i of Inl e \<Rightarrow> Inl e | Inr hit \<Rightarrow> if hit then Inr (Some i) else try_scan_up P (i + 1) m)"
  by pat_completeness auto
termination by (relation "measure (\<lambda>(P, i, m). nat (m + 1 - i))") auto

declare try_scan_down.simps [simp del] try_scan_up.simps [simp del]

definition scan_stop :: "('i \<Rightarrow> 'e + bool) \<Rightarrow> 'i option \<Rightarrow> 'e + 'i option" where
  "scan_stop P r = (case r of None \<Rightarrow> Inr None
     | Some k \<Rightarrow> (case P k of Inl e \<Rightarrow> Inl e | Inr _ \<Rightarrow> Inr (Some k)))"

lemma scan_stop_simps [simp]:
  "scan_stop P None = Inr None"
  "scan_stop P (Some k) = (case P k of Inl e \<Rightarrow> Inl e | Inr _ \<Rightarrow> Inr (Some k))"
  by (simp_all add: scan_stop_def)

lemma try_scan_down_eq: "try_scan_down P i = scan_stop P (scan_down (\<lambda>k. P k \<noteq> Inr False) i)"
proof (induction P i rule: try_scan_down.induct)
  case (1 P i)
  then show ?case
    by (simp add: try_scan_down.simps [of P i] scan_down.simps [of _ i] split: sum.splits)
qed

lemma try_scan_up_eq: "try_scan_up P i m = scan_stop P (scan_up (\<lambda>k. P k \<noteq> Inr False) i m)"
proof (induction P i m rule: try_scan_up.induct)
  case (1 P i m)
  then show ?case
    by (simp add: try_scan_up.simps [of P i m] scan_up.simps [of _ i m] split: sum.splits)
qed

lemma try_scan_down_SomeD: "try_scan_down P i = Inr (Some j) \<Longrightarrow> 0 \<le> j \<and> j \<le> i \<and> P j = Inr True"
  by (auto simp: try_scan_down_eq scan_stop_def dest!: scan_down_SomeD split: option.splits sum.splits)

lemma try_scan_up_SomeD: "try_scan_up P i m = Inr (Some j) \<Longrightarrow> i \<le> j \<and> j \<le> m \<and> P j = Inr True"
  by (auto simp: try_scan_up_eq scan_stop_def dest!: scan_up_SomeD split: option.splits sum.splits)

text \<open>The same searches over lists of indices.\<close>

lemma scan_down_find: "scan_down P (int n - 1) = map_option int (find (\<lambda>j. P (int j)) (rev [0..<n]))"
proof (induction n)
  case 0
  show ?case by (simp add: scan_down.simps)
next
  case (Suc n)
  have "scan_down P (int (Suc n) - 1) = (if P (int n) then Some (int n) else scan_down P (int n - 1))"
    by (simp add: scan_down.simps [of P "int n"])
  with Suc show ?case by simp
qed

lemma scan_up_find: "scan_up P (int i) (int n - 1) = map_option int (find (\<lambda>j. P (int j)) [i..<n])"
proof (induction "n - i" arbitrary: i)
  case 0
  then show ?case by (simp add: scan_up.simps)
next
  case (Suc k)
  then have "i < n" by simp
  then have "scan_up P (int i) (int n - 1)
      = (if P (int i) then Some (int i) else scan_up P (int (Suc i)) (int n - 1))"
    by (simp add: scan_up.simps [of P "int i"] add.commute)
  moreover have "k = n - Suc i" using Suc.hyps(2) by simp
  ultimately show ?case
    using Suc.hyps(1) [of "Suc i"] \<open>i < n\<close> by (simp add: upt_conv_Cons del: of_nat_Suc)
qed

lemma find_rev_uptD:
  assumes "find P (rev [0..<i]) = Some j"
  shows "j < i \<and> P j \<and> (\<forall>k. j < k \<and> k < i \<longrightarrow> \<not> P k)"
proof -
  have "scan_down (\<lambda>z. P (nat z)) (int i - 1) = Some (int j)"
    using assms by (simp add: scan_down_find)
  from scan_down_SomeD [OF this] have P: "j < i" "P j"
    and gap: "\<And>z. int j < z \<Longrightarrow> z \<le> int i - 1 \<Longrightarrow> \<not> P (nat z)" by auto
  moreover have "\<not> P k" if "j < k" "k < i" for k using gap [of "int k"] that by simp
  ultimately show ?thesis by blast
qed

lemma find_uptI:
  assumes "a \<le> j" "j < n" "P j" "\<And>k. a \<le> k \<Longrightarrow> k < j \<Longrightarrow> \<not> P k"
  shows "find P [a..<n] = Some j"
proof -
  have "scan_up (\<lambda>z. P (nat z)) (int a) (int n - 1) = Some (int j)"
    using assms by (auto simp: scan_up_Some_iff)
  then show ?thesis by (simp add: scan_up_find)
qed

end
