(* ===== verification/Cpp_Strings.thy ===== *)
theory Cpp_Strings
  imports Prelude
begin

text \<open>
  The parts of the C++ string library the daemon uses: \<open>std::to_string\<close> on integers,
  \<open>std::stoi\<close> and \<open>std::stoul\<close> with their exceptions, prefix search
  (\<open>find(p) == 0\<close>), \<open>substr\<close>, and \<open>std::setw\<close> with \<open>std::left\<close>.
  The main fact is that \<open>stoi\<close> reads back what \<open>to_string\<close> prints, for every
  value of the C++ type \<open>int\<close>.
\<close>

subsection \<open>Printing integers\<close>

definition digit_char :: "nat \<Rightarrow> char" where
  "digit_char d = char_of (48 + d)"

fun nat_to_string :: "nat \<Rightarrow> string" where
  "nat_to_string n =
     (if n < 10 then [digit_char n] else nat_to_string (n div 10) @ [digit_char (n mod 10)])"

declare nat_to_string.simps [simp del]

definition to_string :: "int \<Rightarrow> string" where
  "to_string i = (if i < 0 then CHR ''-'' # nat_to_string (nat (- i)) else nat_to_string (nat i))"

subsection \<open>Reading integers\<close>

definition is_digit :: "char \<Rightarrow> bool" where
  "is_digit c \<longleftrightarrow> 48 \<le> (of_char c :: nat) \<and> (of_char c :: nat) \<le> 57"

definition digit_val :: "char \<Rightarrow> nat" where
  "digit_val c = of_char c - 48"

definition is_space :: "char \<Rightarrow> bool" where
  "is_space c \<longleftrightarrow> (of_char c :: nat) = 32 \<or> 9 \<le> (of_char c :: nat) \<and> (of_char c :: nat) \<le> 13"

fun read_digits :: "nat \<Rightarrow> string \<Rightarrow> nat" where
  "read_digits acc [] = acc"
| "read_digits acc (c # cs) = (if is_digit c then read_digits (10 * acc + digit_val c) cs else acc)"

definition strip_sign :: "string \<Rightarrow> bool \<times> string" where
  "strip_sign s = (case s of
      [] \<Rightarrow> (False, [])
    | c # cs \<Rightarrow> if c = CHR ''-'' then (True, cs) else if c = CHR ''+'' then (False, cs) else (False, s))"

text \<open>\<open>strtol\<close>: leading white space, a sign, and the longest run of decimal digits.\<close>

definition strtol :: "string \<Rightarrow> int option" where
  "strtol s = (let (neg, ds) = strip_sign (dropWhile is_space s) in
     if ds = [] \<or> \<not> is_digit (hd ds) then None
     else Some (if neg then - int (read_digits 0 ds) else int (read_digits 0 ds)))"

definition INT_MIN :: int where "INT_MIN = - (2 ^ 31)"
definition INT_MAX :: int where "INT_MAX = 2 ^ 31 - 1"

lemmas int_range_defs = INT_MIN_def INT_MAX_def

definition stoi :: "string \<Rightarrow> int result" where
  "stoi s = (case strtol s of
      None \<Rightarrow> Inl (InvalidArgument ''stoi'')
    | Some i \<Rightarrow> if i < INT_MIN \<or> INT_MAX < i then Inl (OutOfRange ''stoi'') else Inr i)"

text \<open>\<open>strtoul\<close> accepts a minus sign and negates in the unsigned type.\<close>

definition stoul :: "string \<Rightarrow> 64 word result" where
  "stoul s = (case strtol s of
      None \<Rightarrow> Inl (InvalidArgument ''stoul'')
    | Some i \<Rightarrow> if \<bar>i\<bar> \<ge> 2 ^ 64 then Inl (OutOfRange ''stoul'') else Inr (word_of_int i))"

subsection \<open>Searching and cutting\<close>

fun starts_with :: "string \<Rightarrow> string \<Rightarrow> bool" where
  "starts_with [] s = True"
| "starts_with (p # ps) [] = False"
| "starts_with (p # ps) (c # cs) = (p = c \<and> starts_with ps cs)"

definition ends_with_nl :: "string \<Rightarrow> bool" where
  "ends_with_nl s \<longleftrightarrow> s \<noteq> [] \<and> last s = CHR 0x0A"

fun contains_str :: "string \<Rightarrow> string \<Rightarrow> bool" where
  "contains_str p [] = (p = [])"
| "contains_str p (c # cs) = (starts_with p (c # cs) \<or> contains_str p cs)"

definition setw_left :: "nat \<Rightarrow> string \<Rightarrow> string" where
  "setw_left n s = s @ replicate (n - length s) (CHR '' '')"

subsection \<open>Facts\<close>

lemma of_char_digit_char: "d < 10 \<Longrightarrow> (of_char (digit_char d) :: nat) = 48 + d"
  by (simp add: digit_char_def)

lemma is_digit_digit_char [simp]: "d < 10 \<Longrightarrow> is_digit (digit_char d)"
  by (simp add: is_digit_def of_char_digit_char)

lemma digit_val_digit_char [simp]: "d < 10 \<Longrightarrow> digit_val (digit_char d) = d"
  by (simp add: digit_val_def of_char_digit_char)

lemma is_digit_not_space [simp]: "is_digit c \<Longrightarrow> \<not> is_space c"
  by (auto simp: is_digit_def is_space_def)

lemma is_digit_not_sign [simp]: "is_digit c \<Longrightarrow> c \<noteq> CHR ''-'' \<and> c \<noteq> CHR ''+''"
  by (auto simp: is_digit_def)

lemma nat_to_string_digits: "c \<in> set (nat_to_string n) \<Longrightarrow> is_digit c"
  by (induction n rule: nat_to_string.induct)
     (subst (asm) (2) nat_to_string.simps, auto split: if_splits)

lemma nat_to_string_nonempty [simp]: "nat_to_string n \<noteq> []"
  by (subst nat_to_string.simps) simp

lemma hd_nat_to_string [simp]: "is_digit (hd (nat_to_string n))"
  by (rule nat_to_string_digits [of _ n]) simp

lemma read_digits_append:
  "\<forall>c \<in> set xs. is_digit c \<Longrightarrow> read_digits acc (xs @ ys) = read_digits (read_digits acc xs) ys"
  by (induction xs arbitrary: acc) auto

lemma read_digits_nat_to_string [simp]: "read_digits 0 (nat_to_string n) = n"
proof (induction n rule: nat_to_string.induct)
  case (1 n)
  show ?case
  proof (cases "n < 10")
    case True
    then show ?thesis by (simp add: nat_to_string.simps [of n])
  next
    case False
    have "read_digits 0 (nat_to_string n)
        = read_digits (read_digits 0 (nat_to_string (n div 10))) [digit_char (n mod 10)]"
      using False nat_to_string_digits
      by (simp add: nat_to_string.simps [of n] read_digits_append del: read_digits.simps)
    also have "\<dots> = 10 * (n div 10) + n mod 10"
      using 1 [OF False] by simp
    finally show ?thesis by simp
  qed
qed

lemma to_string_nonempty [simp]: "to_string i \<noteq> []"
  by (simp add: to_string_def)

lemma to_string_no_newline: "CHR 0x0A \<notin> set (to_string i)"
  by (auto simp: to_string_def is_digit_def dest!: nat_to_string_digits)

lemma strtol_nat_to_string: "strtol (nat_to_string n) = Some (int n)"
proof -
  have "dropWhile is_space (nat_to_string n) = nat_to_string n"
    by (simp add: dropWhile_eq_self_iff)
  moreover have "strip_sign (nat_to_string n) = (False, nat_to_string n)"
    using hd_nat_to_string [of n] nat_to_string_nonempty [of n]
    by (cases "nat_to_string n") (auto simp: strip_sign_def simp del: hd_nat_to_string)
  ultimately show ?thesis by (simp add: strtol_def)
qed

lemma strtol_to_string [simp]: "strtol (to_string i) = Some i"
proof (cases "i < 0")
  case True
  then have "dropWhile is_space (to_string i) = to_string i"
    by (simp add: to_string_def is_space_def)
  with True show ?thesis
    by (simp add: strtol_def strip_sign_def to_string_def)
next
  case False
  then show ?thesis by (simp add: to_string_def strtol_nat_to_string)
qed

lemma to_string_inject [simp]: "to_string i = to_string j \<longleftrightarrow> i = j"
  by (metis option.inject strtol_to_string)

lemma stoi_to_string [cpp_simps]:
  "INT_MIN \<le> i \<Longrightarrow> i \<le> INT_MAX \<Longrightarrow> stoi (to_string i) = Inr i"
  by (simp add: stoi_def)

lemma stoi_Nil [simp]: "stoi [] = Inl (InvalidArgument ''stoi'')"
  by (simp add: stoi_def strtol_def strip_sign_def)

lemma stoi_range: "stoi s = Inr i \<Longrightarrow> INT_MIN \<le> i \<and> i \<le> INT_MAX"
  by (auto simp: stoi_def split: option.splits if_splits)

lemma starts_with_iff: "starts_with p s \<longleftrightarrow> (\<exists>r. s = p @ r)"
  by (induction p s rule: starts_with.induct) auto

lemma starts_with_append [simp]: "starts_with p (p @ s)"
  by (simp add: starts_with_iff)

lemma starts_with_drop: "starts_with p s \<Longrightarrow> p @ drop (length p) s = s"
  by (auto simp: starts_with_iff)

lemma ends_with_nl_append [simp]: "ends_with_nl (s @ NL)"
  by (simp add: ends_with_nl_def)

lemma ends_with_nl_Cons [simp]: "ends_with_nl (c # s) \<longleftrightarrow> (if s = [] then c = CHR 0x0A else ends_with_nl s)"
  by (simp add: ends_with_nl_def)

lemma ends_with_nl_append_right [simp]: "ends_with_nl t \<Longrightarrow> ends_with_nl (s @ t)"
  by (simp add: ends_with_nl_def)

end
