(* ===== verification/Ordered_Map.thy ===== *)
theory Ordered_Map
  imports Prelude "HOL-Library.Char_ord" "HOL-Library.List_Lexorder"
begin

text \<open>
  \<open>std::map\<close> as the daemon uses it: an association list kept in strictly ascending key
  order, so that iteration is a plain traversal. The locale \<open>ordered_map\<close> is the
  contract the clients use; its interpretation on the operations below discharges it.
\<close>

type_synonym ('k, 'v) omap = "('k \<times> 'v) list"

fun om_find :: "'k \<Rightarrow> ('k, 'v) omap \<Rightarrow> 'v option" where
  "om_find k [] = None"
| "om_find k ((k', v) # m) = (if k = k' then Some v else om_find k m)"

fun om_put :: "'k::linorder \<Rightarrow> 'v \<Rightarrow> ('k, 'v) omap \<Rightarrow> ('k, 'v) omap" where
  "om_put k v [] = [(k, v)]"
| "om_put k v ((k', v') # m) =
     (if k < k' then (k, v) # (k', v') # m
      else if k = k' then (k, v) # m
      else (k', v') # om_put k v m)"

fun om_erase :: "'k \<Rightarrow> ('k, 'v) omap \<Rightarrow> ('k, 'v) omap" where
  "om_erase k [] = []"
| "om_erase k ((k', v') # m) = (if k = k' then m else (k', v') # om_erase k m)"

definition om_sorted :: "('k::linorder, 'v) omap \<Rightarrow> bool" where
  "om_sorted m \<longleftrightarrow> sorted_wrt (<) (map fst m)"

definition om_index :: "'v \<Rightarrow> 'k \<Rightarrow> ('k, 'v) omap \<Rightarrow> 'v" where
  "om_index d k m = (case om_find k m of None \<Rightarrow> d | Some v \<Rightarrow> v)"

locale ordered_map =
  fixes find :: "'k::linorder \<Rightarrow> 'm \<Rightarrow> 'v option"
    and put :: "'k \<Rightarrow> 'v \<Rightarrow> 'm \<Rightarrow> 'm"
    and erase :: "'k \<Rightarrow> 'm \<Rightarrow> 'm"
    and wf :: "'m \<Rightarrow> bool"
  assumes find_put: "wf m \<Longrightarrow> find k (put k' v m) = (if k = k' then Some v else find k m)"
    and find_erase: "wf m \<Longrightarrow> find k (erase k' m) = (if k = k' then None else find k m)"
    and wf_put: "wf m \<Longrightarrow> wf (put k v m)"
    and wf_erase: "wf m \<Longrightarrow> wf (erase k m)"
    and ext: "wf m \<Longrightarrow> wf m' \<Longrightarrow> (\<And>k. find k m = find k m') \<Longrightarrow> m = m'"
begin

lemma put_put: "wf m \<Longrightarrow> put k v (put k v' m) = put k v m"
  by (rule ext) (simp_all add: wf_put find_put)

lemma put_commute: "wf m \<Longrightarrow> k \<noteq> k' \<Longrightarrow> put k v (put k' v' m) = put k' v' (put k v m)"
  by (rule ext) (auto simp: wf_put find_put)

lemma erase_put: "wf m \<Longrightarrow> erase k (put k v m) = erase k m"
  by (rule ext) (simp_all add: wf_put wf_erase find_put find_erase)

lemma put_same: "wf m \<Longrightarrow> find k m = Some v \<Longrightarrow> put k v m = m"
  by (rule ext) (simp_all add: wf_put find_put)

lemma erase_absent: "wf m \<Longrightarrow> find k m = None \<Longrightarrow> erase k m = m"
  by (rule ext) (simp_all add: wf_erase find_erase)

end

lemma om_sorted_Nil [simp]: "om_sorted []"
  by (simp add: om_sorted_def)

lemma om_sorted_Cons: "om_sorted ((k, v) # m) \<longleftrightarrow> (\<forall>k' \<in> fst ` set m. k < k') \<and> om_sorted m"
  by (simp add: om_sorted_def)

lemma om_find_None_iff: "om_find k m = None \<longleftrightarrow> k \<notin> fst ` set m"
  by (induction k m rule: om_find.induct) auto

lemma om_find_SomeD: "om_find k m = Some v \<Longrightarrow> (k, v) \<in> set m"
  by (induction k m rule: om_find.induct) (auto split: if_splits)

lemma om_find_Some_iff: "om_sorted m \<Longrightarrow> om_find k m = Some v \<longleftrightarrow> (k, v) \<in> set m"
  by (induction k m rule: om_find.induct) (auto simp: om_sorted_Cons)

lemma om_put_keys: "fst ` set (om_put k v m) = insert k (fst ` set m)"
  by (induction k v m rule: om_put.induct) auto

lemma om_put_set: "set (om_put k v m) \<subseteq> insert (k, v) (set m)"
  by (induction k v m rule: om_put.induct) auto

lemma om_erase_set: "set (om_erase k m) \<subseteq> set m"
  by (induction k m rule: om_erase.induct) auto

lemma om_sorted_put: "om_sorted m \<Longrightarrow> om_sorted (om_put k v m)"
proof (induction k v m rule: om_put.induct)
  case (2 k v k' v' m)
  have "fst ` set (om_put k v m) = insert k (fst ` set m)" by (rule om_put_keys)
  with 2 show ?case by (auto simp: om_sorted_Cons)
qed (simp add: om_sorted_Cons)

lemma om_sorted_erase: "om_sorted m \<Longrightarrow> om_sorted (om_erase k m)"
proof (induction k m rule: om_erase.induct)
  case (2 k k' v' m)
  then show ?case using om_erase_set [of k m] by (auto simp: om_sorted_Cons)
qed simp

lemma om_find_put: "om_find k (om_put k' v m) = (if k = k' then Some v else om_find k m)"
  by (induction k' v m rule: om_put.induct) auto

lemma om_find_erase:
  "om_sorted m \<Longrightarrow> om_find k (om_erase k' m) = (if k = k' then None else om_find k m)"
proof (induction k' m rule: om_erase.induct)
  case (2 k' k'' v m)
  then have "k' = k'' \<Longrightarrow> om_find k' m = None"
    by (auto simp: om_sorted_Cons om_find_None_iff)
  with 2 show ?case by (auto simp: om_sorted_Cons)
qed simp

lemma om_ext:
  assumes "om_sorted m" "om_sorted m'" "\<And>k. om_find k m = om_find k m'"
  shows "m = m'"
proof (rule map_sorted_distinct_set_unique [of fst])
  have "\<And>k v. (k, v) \<in> set m \<longleftrightarrow> (k, v) \<in> set m'"
    using assms by (simp flip: om_find_Some_iff)
  then show same: "set m = set m'" by auto
  show "inj_on fst (set m \<union> set m')"
    unfolding same using assms(2) by (auto simp: inj_on_def simp flip: om_find_Some_iff)
qed (use assms in \<open>auto simp: om_sorted_def strict_sorted_iff\<close>)

lemma om_index_put [simp]: "om_index d k (om_put k' v m) = (if k = k' then v else om_index d k m)"
  by (simp add: om_index_def om_find_put)

interpretation om: ordered_map om_find om_put om_erase om_sorted
  by unfold_locales
     (simp_all add: om_find_put om_find_erase om_sorted_put om_sorted_erase, rule om_ext)

end
