(* ===== verification/Json_Values.thy ===== *)
theory Json_Values
  imports Cpp_Strings Ordered_Map
begin

text \<open>
  JSON values as the handlers see them (\<open>nlohmann::json\<close>): a value type and the
  accessors the sources call, with the exceptions those accessors raise. An object keeps
  its members in key order, as \<open>std::map\<close> does. A floating point number is the dyadic
  rational \<open>m * 2 ^ e\<close>. The text parser and printer are not part of the repository
  and are parameters wherever the code calls them.
\<close>

datatype json =
    JNull
  | JBool bool
  | JInt int
  | JFloat int int
  | JStr string
  | JArr "json list"
  | JObj "(string, json) omap"

definition jcontains :: "json \<Rightarrow> string \<Rightarrow> bool" where
  "jcontains j k = (case j of JObj m \<Rightarrow> om_find k m \<noteq> None | _ \<Rightarrow> False)"

text \<open>\<open>operator[]\<close> on a constant value: a type error on a value that is no object, a failed
  assertion on a missing key.\<close>

definition jat :: "json \<Rightarrow> string \<Rightarrow> json result" where
  "jat j k = (case j of
      JObj m \<Rightarrow> (case om_find k m of Some v \<Rightarrow> Inr v | None \<Rightarrow> Inl AssertFail)
    | _ \<Rightarrow> Inl (TypeError 305))"

text \<open>\<open>j[key] = v\<close> on a mutable value: null becomes an object.\<close>

definition jput :: "json \<Rightarrow> string \<Rightarrow> json \<Rightarrow> json result" where
  "jput j k v = (case j of
      JObj m \<Rightarrow> Inr (JObj (om_put k v m))
    | JNull \<Rightarrow> Inr (JObj [(k, v)])
    | _ \<Rightarrow> Inl (TypeError 305))"

definition is_string :: "json \<Rightarrow> bool" where
  "is_string j = (case j of JStr _ \<Rightarrow> True | _ \<Rightarrow> False)"

definition is_number :: "json \<Rightarrow> bool" where
  "is_number j = (case j of JInt _ \<Rightarrow> True | JFloat _ _ \<Rightarrow> True | _ \<Rightarrow> False)"

definition float_trunc :: "int \<Rightarrow> int \<Rightarrow> int" where
  "float_trunc m e =
     (if e \<ge> 0 then m * 2 ^ nat e else sgn m * (\<bar>m\<bar> div 2 ^ nat (- e)))"

definition jget_string :: "json \<Rightarrow> string result" where
  "jget_string j = (case j of JStr s \<Rightarrow> Inr s | _ \<Rightarrow> Inl (TypeError 302))"

definition jget_bool :: "json \<Rightarrow> bool result" where
  "jget_bool j = (case j of JBool b \<Rightarrow> Inr b | _ \<Rightarrow> Inl (TypeError 302))"

text \<open>The conversions to arithmetic types accept integers, floats and booleans; the target
  type's width is applied by the caller.\<close>

definition jget_arith :: "json \<Rightarrow> int result" where
  "jget_arith j = (case j of
      JInt i \<Rightarrow> Inr i
    | JFloat m e \<Rightarrow> Inr (float_trunc m e)
    | JBool b \<Rightarrow> Inr (if b then 1 else 0)
    | _ \<Rightarrow> Inl (TypeError 302))"

definition jget_int :: "json \<Rightarrow> int result" where
  "jget_int j = try_result (jget_arith j) (\<lambda>i. Inr (signed_take_bit 31 i))"

definition jget_llong :: "json \<Rightarrow> int result" where
  "jget_llong j = try_result (jget_arith j) (\<lambda>i. Inr (signed_take_bit 63 i))"

definition jget_uint :: "json \<Rightarrow> 32 word result" where
  "jget_uint j = try_result (jget_arith j) (\<lambda>i. Inr (word_of_int i))"

definition jget_u16 :: "json \<Rightarrow> 16 word result" where
  "jget_u16 j = try_result (jget_arith j) (\<lambda>i. Inr (word_of_int i))"

text \<open>\<open>j.value(key, default)\<close>: the default for a missing key, a type error on a non-object.\<close>

definition jvalue :: "(json \<Rightarrow> 'a result) \<Rightarrow> json \<Rightarrow> string \<Rightarrow> 'a \<Rightarrow> 'a result" where
  "jvalue get j k d = (case j of
      JObj m \<Rightarrow> (case om_find k m of Some v \<Rightarrow> get v | None \<Rightarrow> Inr d)
    | _ \<Rightarrow> Inl (TypeError 306))"

definition command_string :: "json \<Rightarrow> string \<Rightarrow> string result" where
  "command_string j k = try_result (jat j k) jget_string"

lemmas json_access_defs =
  jcontains_def jat_def jput_def is_string_def is_number_def jget_string_def jget_bool_def
  jget_arith_def jget_int_def jget_llong_def jget_uint_def jget_u16_def jvalue_def
  command_string_def

lemma jat_contains: "jat j k = Inr v \<Longrightarrow> jcontains j k"
  by (auto simp: jat_def jcontains_def split: json.splits option.splits)

lemma jput_jat: "jput j k v = Inr j' \<Longrightarrow> jat j' k = Inr v"
  by (auto simp: jput_def jat_def om_find_put split: json.splits)

lemma jput_jat_other: "jput (JObj m) k v = Inr j' \<Longrightarrow> k \<noteq> k' \<Longrightarrow> jat j' k' = jat (JObj m) k'"
  by (auto simp: jput_def jat_def om_find_put)

end
