(* ===== verification/Database.thy ===== *)
theory Database
  imports Json_Values
begin

text \<open>
  The daemon's MySQL tables and the table managers of
  \<open>daemon/src/DatabaseTableManagers.cpp\<close>. The tables are those created by
  \<open>MySQLManager::createDatabaseAndUser\<close>; every manager operation runs one (for
  \<open>pruneHistory\<close>, several) SQL statements, whose effect on the rows is written out.

  The server itself is not part of the repository. What the code relies on is carried by
  the first fields of the record: whether a connection can be opened (every manager
  returns a default and changes nothing when it cannot), the collation of the text keys
  (two keys name the same row iff their collation weights agree), the normal form the
  \<open>JSON\<close> column type gives a text (\<open>None\<close> when the text is rejected) and the text
  form of a timestamp. A text longer than its column raises \<open>SQLException\<close>, which the
  managers catch, so the statement has no effect.

  Integer keyed tables are kept in primary key order; a text keyed table is a list of
  rows, and no fact depends on the order in which a query without \<open>ORDER BY\<close> returns them.
\<close>

record PeerRow =
  pr_peer_id :: string
  pr_ip :: string
  pr_mac :: string
  pr_hostname :: string
  pr_last_seen :: int
  pr_online :: bool
  pr_version :: int

record PeerRecord =
  peer_id :: string
  ip_address :: string
  mac_address :: string
  peer_hostname :: string
  last_seen :: string
  is_online :: bool
  daemon_version :: int

record ExtraAppRecord =
  app_id :: string
  display_name :: string
  repo_url :: string
  has_server_component :: bool
  server_service_template :: string
  client_service_template :: string
  port_key_client :: string
  port_key_server :: string
  dev_path :: string
  prod_path :: string
  server_build_subdir :: string
  client_subdir :: string

record db =
  db_conn :: bool
  db_collate :: "string \<Rightarrow> string"
  db_json :: "string \<Rightarrow> string option"
  db_timestamp :: "int \<Rightarrow> string"
  terminal_history :: "(int, string) omap"
  terminal_sessions :: "(int, int) omap"
  automation_configs :: "(string \<times> string) list"
  device_registry :: "(string \<times> string) list"
  system_settings :: "(string \<times> string) list"
  peer_registry :: "PeerRow list"
  extra_apps :: "ExtraAppRecord list"

abbreviation text_max :: nat where "text_max \<equiv> 65535"

definition fits :: "nat \<Rightarrow> string \<Rightarrow> bool" where
  "fits n s \<longleftrightarrow> length s \<le> n"

subsection \<open>Text keyed rows\<close>

text \<open>\<open>INSERT ... ON DUPLICATE KEY UPDATE\<close>, \<open>SELECT ... WHERE key = ?\<close>,
  \<open>DELETE ... WHERE key = ?\<close> and \<open>UPDATE ... WHERE key = ?\<close> on two-column rows.
  The insert keeps the spelling of the key of an existing row.\<close>

fun row_get :: "(string \<Rightarrow> string) \<Rightarrow> string \<Rightarrow> (string \<times> string) list \<Rightarrow> string option" where
  "row_get c k [] = None"
| "row_get c k ((k', v) # rs) = (if c k' = c k then Some v else row_get c k rs)"

fun row_upsert ::
  "(string \<Rightarrow> string) \<Rightarrow> string \<Rightarrow> string \<Rightarrow> (string \<times> string) list \<Rightarrow> (string \<times> string) list" where
  "row_upsert c k v [] = [(k, v)]"
| "row_upsert c k v ((k', v') # rs) =
     (if c k' = c k then (k', v) # rs else (k', v') # row_upsert c k v rs)"

definition row_update ::
  "(string \<Rightarrow> string) \<Rightarrow> string \<Rightarrow> string \<Rightarrow> (string \<times> string) list \<Rightarrow> (string \<times> string) list" where
  "row_update c k v rs = map (\<lambda>(k', v'). if c k' = c k then (k', v) else (k', v')) rs"

definition row_delete ::
  "(string \<Rightarrow> string) \<Rightarrow> string \<Rightarrow> (string \<times> string) list \<Rightarrow> (string \<times> string) list" where
  "row_delete c k rs = filter (\<lambda>(k', v). c k' \<noteq> c k) rs"

subsection \<open>\<open>TerminalTable\<close>\<close>

definition upsertHistory :: "int \<Rightarrow> string \<Rightarrow> db \<Rightarrow> db" where
  "upsertHistory index path d =
     (if \<not> db_conn d \<or> \<not> fits text_max path then d
      else d\<lparr>terminal_history := om_put index path (terminal_history d)\<rparr>)"

definition getHistory :: "int \<Rightarrow> db \<Rightarrow> string" where
  "getHistory index d =
     (if \<not> db_conn d then []
      else case om_find index (terminal_history d) of Some p \<Rightarrow> p | None \<Rightarrow> [])"

definition setSessionPointer :: "int \<Rightarrow> int \<Rightarrow> db \<Rightarrow> db" where
  "setSessionPointer tty index d =
     (if \<not> db_conn d then d
      else d\<lparr>terminal_sessions := om_put tty index (terminal_sessions d)\<rparr>)"

definition getSessionPointer :: "int \<Rightarrow> db \<Rightarrow> int" where
  "getSessionPointer tty d =
     (if \<not> db_conn d then - 1
      else case om_find tty (terminal_sessions d) of Some i \<Rightarrow> i | None \<Rightarrow> - 1)"

definition deleteSession :: "int \<Rightarrow> db \<Rightarrow> db" where
  "deleteSession tty d =
     (if \<not> db_conn d then d
      else d\<lparr>terminal_sessions := om_erase tty (terminal_sessions d)\<rparr>)"

definition getAllHistoryEntries :: "db \<Rightarrow> (int \<times> string) list" where
  "getAllHistoryEntries d = (if \<not> db_conn d then [] else terminal_history d)"

text \<open>The join of sessions and history on \<open>entry_index = history_index\<close>, in tty order.\<close>

definition getAllHistory :: "db \<Rightarrow> (int \<times> int \<times> string) list" where
  "getAllHistory d =
     (if \<not> db_conn d then []
      else List.map_filter
        (\<lambda>(tty, i). map_option (\<lambda>p. (tty, i, p)) (om_find i (terminal_history d)))
        (terminal_sessions d))"

definition getAllSessions :: "db \<Rightarrow> (int \<times> int) list" where
  "getAllSessions d = (if \<not> db_conn d then [] else terminal_sessions d)"

definition getMaxHistoryIndex :: "db \<Rightarrow> int" where
  "getMaxHistoryIndex d =
     (if \<not> db_conn d \<or> terminal_history d = [] then - 1 else fst (last (terminal_history d)))"

definition getHistoryCount :: "db \<Rightarrow> int" where
  "getHistoryCount d = (if \<not> db_conn d then 0 else int (length (terminal_history d)))"

text \<open>\<open>SELECT MIN(entry_index)\<close>; \<open>getInt\<close> reads SQL \<open>NULL\<close> as 0.\<close>

definition min_entry_index :: "(int, string) omap \<Rightarrow> int" where
  "min_entry_index h = (if h = [] then 0 else fst (hd h))"

definition rebase_last_touched :: "int \<Rightarrow> db \<Rightarrow> db" where
  "rebase_last_touched newMin d =
     (case row_get (db_collate d) ''indexOfLastTouchedDir'' (system_settings d) of
        None \<Rightarrow> d
      | Some val \<Rightarrow> (case stoi val of
            Inl _ \<Rightarrow> d
          | Inr oldIdx \<Rightarrow> d\<lparr>system_settings :=
              row_update (db_collate d) ''indexOfLastTouchedDir''
                (to_string (max 0 (oldIdx - newMin))) (system_settings d)\<rparr>))"

definition pruneHistory :: "int \<Rightarrow> db \<Rightarrow> db" where
  "pruneHistory maxSize d =
     (if \<not> db_conn d then d
      else let count = int (length (terminal_history d)) in
      if count \<le> maxSize then d
      else let
          minIndex = min_entry_index (terminal_history d);
          cutoff = minIndex + (count - maxSize);
          h1 = filter (\<lambda>(i, p). \<not> i < cutoff) (terminal_history d);
          d1 = d\<lparr>terminal_history := h1\<rparr>;
          newMin = min_entry_index h1
        in
        if newMin \<le> 0 then d1
        else rebase_last_touched newMin
          (d1\<lparr>terminal_history := map (\<lambda>(i, p). (i - newMin, p)) h1,
              terminal_sessions := map (\<lambda>(t, i). (t, max 0 (i - newMin))) (terminal_sessions d)\<rparr>))"

subsection \<open>\<open>ConfigTable\<close>, \<open>DeviceTable\<close> and \<open>SettingsTable\<close>\<close>

definition setConfig :: "string \<Rightarrow> string \<Rightarrow> db \<Rightarrow> db" where
  "setConfig key jsonValue d =
     (if \<not> db_conn d \<or> \<not> fits 255 key then d
      else case db_json d jsonValue of
        None \<Rightarrow> d
      | Some v \<Rightarrow> d\<lparr>automation_configs :=
          row_upsert (db_collate d) key v (automation_configs d)\<rparr>)"

definition getConfig :: "string \<Rightarrow> db \<Rightarrow> string" where
  "getConfig key d =
     (if \<not> db_conn d then []
      else case row_get (db_collate d) key (automation_configs d) of Some v \<Rightarrow> v | None \<Rightarrow> [])"

definition setDevicePath :: "string \<Rightarrow> string \<Rightarrow> db \<Rightarrow> db" where
  "setDevicePath type path d =
     (if \<not> db_conn d \<or> \<not> fits 50 type \<or> \<not> fits text_max path then d
      else d\<lparr>device_registry := row_upsert (db_collate d) type path (device_registry d)\<rparr>)"

definition getDevicePath :: "string \<Rightarrow> db \<Rightarrow> string" where
  "getDevicePath type d =
     (if \<not> db_conn d then []
      else case row_get (db_collate d) type (device_registry d) of Some v \<Rightarrow> v | None \<Rightarrow> [])"

definition setSetting :: "string \<Rightarrow> string \<Rightarrow> db \<Rightarrow> db" where
  "setSetting key v d =
     (if \<not> db_conn d \<or> \<not> fits 255 key \<or> \<not> fits text_max v then d
      else d\<lparr>system_settings := row_upsert (db_collate d) key v (system_settings d)\<rparr>)"

definition getSetting :: "string \<Rightarrow> db \<Rightarrow> string" where
  "getSetting key d =
     (if \<not> db_conn d then []
      else case row_get (db_collate d) key (system_settings d) of Some v \<Rightarrow> v | None \<Rightarrow> [])"

definition deleteSetting :: "string \<Rightarrow> db \<Rightarrow> db \<times> int" where
  "deleteSetting key d =
     (if \<not> db_conn d then (d, 0)
      else let rs = row_delete (db_collate d) key (system_settings d) in
        (d\<lparr>system_settings := rs\<rparr>, int (length (system_settings d)) - int (length rs)))"

definition getAllSettings :: "db \<Rightarrow> (string \<times> string) list" where
  "getAllSettings d = (if \<not> db_conn d then [] else system_settings d)"

subsection \<open>\<open>PeerTable\<close>\<close>

text \<open>\<open>now\<close> is the value of SQL \<open>NOW()\<close> in seconds.\<close>

abbreviation peer_key_eq :: "db \<Rightarrow> string \<Rightarrow> PeerRow \<Rightarrow> bool" where
  "peer_key_eq d pid r \<equiv> db_collate d (pr_peer_id r) = db_collate d pid"

definition peer_find :: "db \<Rightarrow> string \<Rightarrow> PeerRow option" where
  "peer_find d pid = find (peer_key_eq d pid) (peer_registry d)"

definition update_peers :: "string \<Rightarrow> (PeerRow \<Rightarrow> PeerRow) \<Rightarrow> db \<Rightarrow> db" where
  "update_peers pid f d =
     d\<lparr>peer_registry := map (\<lambda>r. if peer_key_eq d pid r then f r else r) (peer_registry d)\<rparr>"

definition upsertPeer ::
  "int \<Rightarrow> string \<Rightarrow> string \<Rightarrow> string \<Rightarrow> string \<Rightarrow> bool \<Rightarrow> int \<Rightarrow> db \<Rightarrow> db" where
  "upsertPeer now pid ip mac hostname online version d =
     (if \<not> db_conn d \<or> \<not> fits 64 pid \<or> \<not> fits 15 ip \<or> \<not> fits 17 mac \<or> \<not> fits 255 hostname then d
      else if peer_find d pid = None
      then d\<lparr>peer_registry := peer_registry d @
             [\<lparr>pr_peer_id = pid, pr_ip = ip, pr_mac = mac, pr_hostname = hostname,
               pr_last_seen = now, pr_online = online, pr_version = version\<rparr>]\<rparr>
      else update_peers pid
             (\<lambda>r. r\<lparr>pr_ip := ip, pr_mac := mac, pr_hostname := hostname, pr_online := online,
                   pr_last_seen := now, pr_version := version\<rparr>) d)"

definition peer_record :: "db \<Rightarrow> bool \<Rightarrow> PeerRow \<Rightarrow> PeerRecord" where
  "peer_record d online r =
     \<lparr>peer_id = pr_peer_id r, ip_address = pr_ip r, mac_address = pr_mac r,
      peer_hostname = pr_hostname r, last_seen = db_timestamp d (pr_last_seen r),
      is_online = online, daemon_version = pr_version r\<rparr>"

text \<open>A default constructed \<open>PeerRecord\<close> leaves \<open>is_online\<close> uninitialised; \<open>junk\<close> is
  the value the caller then finds there.\<close>

definition empty_peer_record :: "bool \<Rightarrow> PeerRecord" where
  "empty_peer_record junk =
     \<lparr>peer_id = [], ip_address = [], mac_address = [], peer_hostname = [], last_seen = [],
      is_online = junk, daemon_version = 0\<rparr>"

definition getPeer :: "bool \<Rightarrow> string \<Rightarrow> db \<Rightarrow> PeerRecord" where
  "getPeer junk pid d =
     (if \<not> db_conn d then empty_peer_record junk
      else case peer_find d pid of
        None \<Rightarrow> empty_peer_record junk
      | Some r \<Rightarrow> peer_record d (pr_online r) r)"

definition getAllPeers :: "int \<Rightarrow> db \<Rightarrow> PeerRecord list" where
  "getAllPeers now d =
     (if \<not> db_conn d then []
      else map (\<lambda>r. peer_record d (pr_online r \<and> pr_last_seen r > now - 20) r)
             (sort_key (\<lambda>r. db_collate d (pr_peer_id r)) (peer_registry d)))"

definition updateOnlineStatus :: "int \<Rightarrow> string \<Rightarrow> bool \<Rightarrow> db \<Rightarrow> db" where
  "updateOnlineStatus now pid online d =
     (if \<not> db_conn d then d
      else update_peers pid (\<lambda>r. r\<lparr>pr_online := online, pr_last_seen := now\<rparr>) d)"

definition touchLastSeen :: "int \<Rightarrow> string \<Rightarrow> db \<Rightarrow> db" where
  "touchLastSeen now pid d =
     (if \<not> db_conn d then d
      else update_peers pid (\<lambda>r. r\<lparr>pr_last_seen := now, pr_online := True\<rparr>) d)"

definition touchLastSeenVersion :: "int \<Rightarrow> string \<Rightarrow> int \<Rightarrow> db \<Rightarrow> db" where
  "touchLastSeenVersion now pid version d =
     (if \<not> db_conn d then d
      else update_peers pid
        (\<lambda>r. r\<lparr>pr_last_seen := now, pr_online := True, pr_version := version\<rparr>) d)"

definition deletePeer :: "string \<Rightarrow> db \<Rightarrow> db" where
  "deletePeer pid d =
     (if \<not> db_conn d then d
      else d\<lparr>peer_registry := filter (\<lambda>r. \<not> peer_key_eq d pid r) (peer_registry d)\<rparr>)"

definition getIpAddress :: "string \<Rightarrow> db \<Rightarrow> string" where
  "getIpAddress pid d =
     (if \<not> db_conn d then []
      else case peer_find d pid of Some r \<Rightarrow> pr_ip r | None \<Rightarrow> [])"

definition clearAllPeers :: "db \<Rightarrow> db \<times> int" where
  "clearAllPeers d =
     (if \<not> db_conn d then (d, 0)
      else (d\<lparr>peer_registry := []\<rparr>, int (length (peer_registry d))))"

subsection \<open>\<open>ExtraAppTable\<close>\<close>

abbreviation app_key_eq :: "db \<Rightarrow> string \<Rightarrow> ExtraAppRecord \<Rightarrow> bool" where
  "app_key_eq d aid r \<equiv> db_collate d (app_id r) = db_collate d aid"

definition app_columns_fit :: "ExtraAppRecord \<Rightarrow> bool" where
  "app_columns_fit a \<longleftrightarrow>
     fits 64 (app_id a) \<and> fits 128 (display_name a) \<and> fits text_max (repo_url a) \<and>
     fits 128 (server_service_template a) \<and> fits 128 (client_service_template a) \<and>
     fits 64 (port_key_client a) \<and> fits 64 (port_key_server a) \<and>
     fits text_max (dev_path a) \<and> fits text_max (prod_path a) \<and>
     fits 128 (server_build_subdir a) \<and> fits 128 (client_subdir a)"

definition upsertApp :: "ExtraAppRecord \<Rightarrow> db \<Rightarrow> db" where
  "upsertApp a d =
     (if \<not> db_conn d \<or> \<not> app_columns_fit a then d
      else if find (app_key_eq d (app_id a)) (extra_apps d) = None
      then d\<lparr>extra_apps := extra_apps d @ [a]\<rparr>
      else d\<lparr>extra_apps :=
             map (\<lambda>r. if app_key_eq d (app_id a) r then a\<lparr>app_id := app_id r\<rparr> else r) (extra_apps d)\<rparr>)"

definition empty_app :: ExtraAppRecord where
  "empty_app =
     \<lparr>app_id = [], display_name = [], repo_url = [], has_server_component = False,
      server_service_template = [], client_service_template = [], port_key_client = [],
      port_key_server = [], dev_path = [], prod_path = [], server_build_subdir = [],
      client_subdir = []\<rparr>"

definition getApp :: "string \<Rightarrow> db \<Rightarrow> ExtraAppRecord" where
  "getApp aid d =
     (if \<not> db_conn d then empty_app
      else case find (app_key_eq d aid) (extra_apps d) of Some r \<Rightarrow> r | None \<Rightarrow> empty_app)"

definition getAllApps :: "db \<Rightarrow> ExtraAppRecord list" where
  "getAllApps d =
     (if \<not> db_conn d then [] else sort_key (\<lambda>r. db_collate d (app_id r)) (extra_apps d))"

definition deleteApp :: "string \<Rightarrow> db \<Rightarrow> db" where
  "deleteApp aid d =
     (if \<not> db_conn d then d
      else d\<lparr>extra_apps := filter (\<lambda>r. \<not> app_key_eq d aid r) (extra_apps d)\<rparr>)"

definition appExists :: "string \<Rightarrow> db \<Rightarrow> bool" where
  "appExists aid d = (db_conn d \<and> find (app_key_eq d aid) (extra_apps d) \<noteq> None)"

text \<open>\<open>MySQLManager::emptyTable\<close> on the one table the handlers empty.\<close>

definition emptyTable_terminal_history :: "db \<Rightarrow> db" where
  "emptyTable_terminal_history d = (if db_conn d then d\<lparr>terminal_history := []\<rparr> else d)"

subsection \<open>The contract of a key/value table\<close>

text \<open>
  The three two-column tables promise the same thing to their clients: a value read after
  a write is the stored form of the last value written to a key with the same collation
  weight, and writes leave other keys alone. \<open>stored d v\<close> is the text the server returns
  for a stored \<open>v\<close>; \<open>accepts d k v\<close> says that the statement is not rejected.
\<close>

locale kv_table =
  fixes get :: "string \<Rightarrow> db \<Rightarrow> string"
    and put :: "string \<Rightarrow> string \<Rightarrow> db \<Rightarrow> db"
    and accepts :: "db \<Rightarrow> string \<Rightarrow> string \<Rightarrow> bool"
    and stored :: "db \<Rightarrow> string \<Rightarrow> string"
  assumes get_put: "accepts d k v \<Longrightarrow>
      get k' (put k v d) = (if db_collate d k' = db_collate d k then stored d v else get k' d)"
    and put_rejected: "\<not> accepts d k v \<Longrightarrow> put k v d = d"
    and accepts_put: "accepts (put k v d) = accepts d"
    and stored_put: "stored (put k v d) = stored d"
    and collate_put: "db_collate (put k v d) = db_collate d"
begin

lemma get_put_same: "accepts d k v \<Longrightarrow> get k (put k v d) = stored d v"
  by (simp add: get_put)

lemma get_put_other: "db_collate d k' \<noteq> db_collate d k \<Longrightarrow> get k' (put k v d) = get k' d"
  by (cases "accepts d k v") (simp_all add: get_put put_rejected)

lemma last_write_wins:
  assumes "accepts d k v" "\<forall>(k', v') \<in> set ws. db_collate d k' \<noteq> db_collate d k"
  shows "get k (fold (\<lambda>(k', v'). put k' v') ws (put k v d)) = stored d v"
proof -
  have "get k (fold (\<lambda>(k', v'). put k' v') ws e) = get k e"
    if "db_collate e = db_collate d" "\<forall>(k', v') \<in> set ws. db_collate d k' \<noteq> db_collate d k" for e
    using that
  proof (induction ws arbitrary: e)
    case (Cons w ws)
    obtain k' v' where w: "w = (k', v')" by fastforce
    have "get k (fold (\<lambda>(k', v'). put k' v') ws (put k' v' e)) = get k (put k' v' e)"
      using Cons.prems by (intro Cons.IH) (auto simp: collate_put)
    also have "\<dots> = get k e"
      using Cons.prems by (intro get_put_other) (auto simp: w)
    finally show ?case by (simp add: w)
  qed simp
  from this [OF collate_put assms(2)] show ?thesis using get_put_same assms(1) by simp
qed

end

subsection \<open>Facts about the rows\<close>

lemma row_get_upsert [simp]:
  "row_get c k (row_upsert c k' v rs) = (if c k = c k' then Some v else row_get c k rs)"
  by (induction c k' v rs rule: row_upsert.induct) auto

lemma row_get_delete [simp]:
  "row_get c k (row_delete c k' rs) = (if c k = c k' then None else row_get c k rs)"
  by (induction rs) (auto simp: row_delete_def)

lemma row_get_update [simp]:
  "row_get c k (row_update c k' v rs)
     = (if c k = c k' \<and> row_get c k rs \<noteq> None then Some v else row_get c k rs)"
  by (induction c k rs rule: row_get.induct) (auto simp: row_update_def)

lemma row_get_None_iff: "row_get c k rs = None \<longleftrightarrow> (\<forall>(k', v) \<in> set rs. c k' \<noteq> c k)"
  by (induction c k rs rule: row_get.induct) auto

lemma row_delete_shorter: "length (row_delete c k rs) \<le> length rs"
  by (simp add: row_delete_def)

lemma row_delete_Cons:
  "row_delete c k ((k', v) # rs) = (if c k' = c k then row_delete c k rs else (k', v) # row_delete c k rs)"
  by (simp add: row_delete_def)

lemma row_delete_length_eq_iff:
  "length (row_delete c k rs) = length rs \<longleftrightarrow> row_get c k rs = None"
proof (induction rs)
  case (Cons r rs)
  then show ?case using row_delete_shorter [of c k rs] by (cases r) (auto simp: row_delete_Cons)
qed (simp add: row_delete_def)

lemmas table_simps =
  upsertHistory_def getHistory_def setSessionPointer_def getSessionPointer_def deleteSession_def
  getMaxHistoryIndex_def setSetting_def getSetting_def

interpretation settings_kv: kv_table getSetting setSetting
  "\<lambda>d k v. db_conn d \<and> fits 255 k \<and> fits text_max v" "\<lambda>d v. v"
  by unfold_locales (auto simp: getSetting_def setSetting_def)

interpretation devices_kv: kv_table getDevicePath setDevicePath
  "\<lambda>d k v. db_conn d \<and> fits 50 k \<and> fits text_max v" "\<lambda>d v. v"
  by unfold_locales (auto simp: getDevicePath_def setDevicePath_def)

interpretation configs_kv: kv_table getConfig setConfig
  "\<lambda>d k v. db_conn d \<and> fits 255 k \<and> db_json d v \<noteq> None" "\<lambda>d v. the (db_json d v)"
  by unfold_locales (auto simp: getConfig_def setConfig_def split: option.splits)

subsection \<open>What each operation leaves alone\<close>

lemma setSetting_frame [db_simps]:
  "terminal_history (setSetting k v d) = terminal_history d"
  "terminal_sessions (setSetting k v d) = terminal_sessions d"
  "db_conn (setSetting k v d) = db_conn d"
  "db_collate (setSetting k v d) = db_collate d"
  by (simp_all add: setSetting_def)

lemma setSessionPointer_frame [db_simps]:
  "terminal_history (setSessionPointer t i d) = terminal_history d"
  "system_settings (setSessionPointer t i d) = system_settings d"
  "db_conn (setSessionPointer t i d) = db_conn d"
  "db_collate (setSessionPointer t i d) = db_collate d"
  by (simp_all add: setSessionPointer_def)

lemma upsertHistory_frame [db_simps]:
  "terminal_sessions (upsertHistory i p d) = terminal_sessions d"
  "system_settings (upsertHistory i p d) = system_settings d"
  "db_conn (upsertHistory i p d) = db_conn d"
  "db_collate (upsertHistory i p d) = db_collate d"
  by (simp_all add: upsertHistory_def)

lemma rebase_last_touched_frame [db_simps]:
  "terminal_history (rebase_last_touched n d) = terminal_history d"
  "terminal_sessions (rebase_last_touched n d) = terminal_sessions d"
  "db_conn (rebase_last_touched n d) = db_conn d"
  "db_collate (rebase_last_touched n d) = db_collate d"
  by (simp_all add: rebase_last_touched_def split: option.splits sum.splits)

lemma setSessionPointer_sessions [db_simps]:
  "db_conn d \<Longrightarrow> terminal_sessions (setSessionPointer t i d) = om_put t i (terminal_sessions d)"
  by (simp add: setSessionPointer_def)

lemma upsertHistory_history [db_simps]:
  "db_conn d \<Longrightarrow> fits text_max p \<Longrightarrow>
     terminal_history (upsertHistory i p d) = om_put i p (terminal_history d)"
  by (simp add: upsertHistory_def)

subsection \<open>Contiguous histories\<close>

text \<open>\<open>number_from k ps\<close> are the rows of a history whose paths \<open>ps\<close> carry the consecutive
  indices \<open>k\<close>, \<open>k + 1\<close>, \<dots>\<close>

fun number_from :: "int \<Rightarrow> string list \<Rightarrow> (int, string) omap" where
  "number_from k [] = []"
| "number_from k (p # ps) = (k, p) # number_from (k + 1) ps"

lemma number_from_length [simp]: "length (number_from k ps) = length ps"
  by (induction k ps rule: number_from.induct) auto

lemma number_from_Nil_iff [simp]: "number_from k ps = [] \<longleftrightarrow> ps = []"
  by (cases ps) auto

lemma number_from_snd [simp]: "map snd (number_from k ps) = ps"
  by (induction k ps rule: number_from.induct) auto

lemma om_find_number_from:
  "om_find i (number_from k ps)
     = (if k \<le> i \<and> i < k + int (length ps) then Some (ps ! nat (i - k)) else None)"
proof (induction k ps rule: number_from.induct)
  case (2 k p ps)
  have "nat (i - k) = Suc (nat (i - (k + 1)))" if "k < i" using that by linarith
  with 2 show ?case by auto
qed simp

lemma om_put_number_from_end:
  "i = k + int (length ps) \<Longrightarrow> om_put i p (number_from k ps) = number_from k (ps @ [p])"
  by (induction k ps rule: number_from.induct) auto

lemma om_put_number_from_in:
  "k \<le> i \<Longrightarrow> i < k + int (length ps) \<Longrightarrow>
     om_put i p (number_from k ps) = number_from k (ps[nat (i - k) := p])"
proof (induction k ps rule: number_from.induct)
  case (2 k q ps)
  have "nat (i - k) = Suc (nat (i - (k + 1)))" if "k < i" using that by linarith
  with 2 show ?case by auto
qed simp

lemma fst_last_number_from:
  "ps \<noteq> [] \<Longrightarrow> fst (last (number_from k ps)) = k + int (length ps) - 1"
  by (induction k ps rule: number_from.induct) auto

lemma fst_hd_number_from: "ps \<noteq> [] \<Longrightarrow> fst (hd (number_from k ps)) = k"
  by (cases ps) auto

lemma number_from_indices: "(i, p) \<in> set (number_from k ps) \<Longrightarrow> k \<le> i"
  by (induction k ps rule: number_from.induct) force+

lemma filter_number_from:
  "filter (\<lambda>(i, p). \<not> i < k + int n) (number_from k ps) = number_from (k + int n) (drop n ps)"
proof (induction k ps arbitrary: n rule: number_from.induct)
  case (2 k p ps)
  show ?case
  proof (cases n)
    case 0
    have "filter (\<lambda>(i, p). \<not> i < k) (number_from (k + 1) ps) = number_from (k + 1) ps"
      using number_from_indices by (fastforce simp: filter_id_conv)
    with 0 show ?thesis by simp
  next
    case (Suc m)
    then show ?thesis using 2 [of m] by (simp add: add.assoc)
  qed
qed simp

lemma map_shift_number_from:
  "map (\<lambda>(i, p). (i - m, p)) (number_from k ps) = number_from (k - m) ps"
  by (induction k ps rule: number_from.induct) (auto simp: algebra_simps)

lemma om_find_map_values: "om_find k (map (\<lambda>(k', v). (k', f v)) m) = map_option f (om_find k m)"
  by (induction k m rule: om_find.induct) auto

lemma om_sorted_map_values: "om_sorted (map (\<lambda>(k, v). (k, f v)) m) = om_sorted m"
  by (simp add: om_sorted_def case_prod_unfold comp_def)

text \<open>On a contiguous history \<open>pruneHistory\<close> keeps the newest \<open>m\<close> entries, renumbers them from
  0 and moves every session pointer along with its entry (pointers to dropped entries go to 0).\<close>

lemma pruneHistory_small:
  "int (length (terminal_history d)) \<le> m \<Longrightarrow> pruneHistory m d = d"
  by (simp add: pruneHistory_def Let_def)

lemma pruneHistory_big:
  assumes "db_conn d" "terminal_history d = number_from 0 ps" "0 < m" "m < length ps"
  shows "pruneHistory (int m) d = rebase_last_touched (int (length ps - m))
    (d\<lparr>terminal_history := number_from 0 (drop (length ps - m) ps),
       terminal_sessions := map (\<lambda>(t, i). (t, max 0 (i - int (length ps - m)))) (terminal_sessions d)\<rparr>)"
proof -
  let ?n = "length ps - m"
  have ne: "drop ?n ps \<noteq> []" "ps \<noteq> []" using assms by auto
  have "int (length ps) - int m = int ?n" using assms by simp
  moreover have "filter (\<lambda>(i, p). \<not> i < int ?n) (number_from 0 ps) = number_from (int ?n) (drop ?n ps)"
    using filter_number_from [of 0 ?n ps] by simp
  moreover have "min_entry_index (number_from (int ?n) (drop ?n ps)) = int ?n"
    "min_entry_index (number_from 0 ps) = 0"
    using ne by (simp_all add: min_entry_index_def fst_hd_number_from)
  ultimately show ?thesis
    using assms by (simp add: pruneHistory_def Let_def map_shift_number_from)
qed

end
