(* ===== verification/Dir_History.thy ===== *)
theory Dir_History
  imports Database
begin

text \<open>
  The shared directory history of the terminals: \<open>daemon/src/terminal.cpp\<close> and its command
  handlers in \<open>daemon/src/cmdTerminal.cpp\<close>. The state is the database together with the
  list \<open>Terminal::instances\<close> (an instance is determined by its tty number, the only field
  of the class). \<open>isdir\<close> is \<open>std::filesystem::is_directory\<close>, answered by the file
  system: a boolean, or the text of the \<open>filesystem_error\<close> it throws (a missing search permission,
  a dead mount). A handler returns the new state and either its result or the exception that leaves
  it; the state changes made before the exception remain.

  A constructor that throws has already put \<open>this\<close> at the end of the vector, and the memory of the
  terminal is freed: \<open>dangling\<close> says that the vector ends with such a pointer. The next search that
  finds no match before it reads the freed memory. The model has no result from there on
  (\<open>AssertFail\<close>); since a terminal is only created after such a search, nothing is ever added behind
  the dangling pointer.

  The abstract view is a list of visited directories with one cursor per terminal
  (\<open>visit_spec\<close>); the theorems show that the database operations implement it, that the
  history stays contiguous and bounded, and what the cursor commands return.
\<close>

record term_state =
  ts_db :: db
  instances :: "int list"
  dangling :: bool

type_synonym is_dir = "string \<Rightarrow> string + bool"

definition DIR_HISTORY_DEFAULT_DIR :: string where
  "DIR_HISTORY_DEFAULT_DIR = ''/opt/automateLinux/''"

definition INDEX_OF_LAST_TOUCHED_DIR_KEY :: string where
  "INDEX_OF_LAST_TOUCHED_DIR_KEY = ''indexOfLastTouchedDir''"

definition MAX_DIR_HISTORY_SIZE :: int where
  "MAX_DIR_HISTORY_SIZE = 500"

definition standardizePath :: "string \<Rightarrow> string" where
  "standardizePath path =
     (if path = [] then ''/'' else if last path \<noteq> CHR ''/'' then path @ ''/'' else path)"

text \<open>The test the loops apply to a candidate directory.\<close>

definition usable_dir :: "is_dir \<Rightarrow> string \<Rightarrow> string + bool" where
  "usable_dir isdir dir = (if dir \<noteq> [] \<and> dir \<noteq> ''/'' then isdir dir else Inr False)"

definition ctor_start_index :: "db \<Rightarrow> int" where
  "ctor_start_index d =
     (let lastTouched = getSetting INDEX_OF_LAST_TOUCHED_DIR_KEY d;
          s0 = (if lastTouched \<noteq> [] then (case stoi lastTouched of Inl _ \<Rightarrow> - 1 | Inr i \<Rightarrow> i) else - 1)
      in if s0 < 0 then getMaxHistoryIndex d else s0)"

definition Terminal_ctor :: "is_dir \<Rightarrow> int \<Rightarrow> term_state \<Rightarrow> term_state \<times> unit result" where
  "Terminal_ctor isdir tty ts =
     (let d0 = ts_db ts;
          s1 = ctor_start_index d0;
          (s2, d1) = (if s1 < 0 then (0, upsertHistory 0 (standardizePath DIR_HISTORY_DEFAULT_DIR) d0)
                      else (s1, d0))
      in case try_scan_down (\<lambda>i. usable_dir isdir (getHistory i d1)) s2 of
        Inl w \<Rightarrow> (ts\<lparr>ts_db := d1, dangling := True\<rparr>, Inl (FilesystemError w))
      | Inr hit \<Rightarrow>
          let (s3, d2) = (case hit of
              Some i \<Rightarrow> (i, d1)
            | None \<Rightarrow>
                let m = getMaxHistoryIndex d1; s = (if m < 0 then 0 else m)
                in (s, upsertHistory s (standardizePath DIR_HISTORY_DEFAULT_DIR) d1))
          in (ts\<lparr>instances := instances ts @ [tty], ts_db := setSessionPointer tty s3 d2\<rparr>, Inr ()))"

definition Terminal_dtor :: "int \<Rightarrow> term_state \<Rightarrow> term_state" where
  "Terminal_dtor tty ts =
     ts\<lparr>instances := remove1 tty (instances ts), ts_db := deleteSession tty (ts_db ts)\<rparr>"

definition getInstanceByTTY :: "int \<Rightarrow> term_state \<Rightarrow> int option result" where
  "getInstanceByTTY tty ts =
     (case find (\<lambda>t. t = tty) (instances ts) of
        Some t \<Rightarrow> Inr (Some t)
      | None \<Rightarrow> if dangling ts then Inl AssertFail else Inr None)"

definition getJsonString :: "json \<Rightarrow> string \<Rightarrow> string" where
  "getJsonString j key =
     (if \<not> jcontains j key then []
      else case jat j key of
        Inl _ \<Rightarrow> []
      | Inr v \<Rightarrow>
          if is_string v then (case jget_string v of Inr s \<Rightarrow> s | Inl _ \<Rightarrow> [])
          else if is_number v then (case jget_llong v of Inr i \<Rightarrow> to_string i | Inl _ \<Rightarrow> [])
          else [])"

text \<open>The member functions, on the terminal with the given tty.\<close>

definition getIndex :: "int \<Rightarrow> db \<Rightarrow> int" where
  "getIndex tty d = (let idx = getSessionPointer tty d in if idx \<ge> 0 then idx else 0)"

definition getPWD :: "json \<Rightarrow> string result" where
  "getPWD command = command_string command ''pwd''"

definition openedTty_error :: "string \<Rightarrow> cmd_result" where
  "openedTty_error w = CmdResult 1 (''Error in openedTty: '' @ w @ NL)"

definition openedTty_member :: "is_dir \<Rightarrow> int \<Rightarrow> db \<Rightarrow> db \<times> cmd_result" where
  "openedTty_member isdir tty d0 =
     (let idx = getSessionPointer tty d0;
          (index, d1) = (if idx < 0
             then (0, upsertHistory 0 (standardizePath DIR_HISTORY_DEFAULT_DIR) (setSessionPointer tty 0 d0))
             else (idx, d0));
          dir0 = standardizePath (getHistory index d1)
      in case (if dir0 \<noteq> [] \<and> dir0 \<noteq> ''/'' then isdir dir0 else Inr True) of
        Inl w \<Rightarrow> (d1, openedTty_error w)
      | Inr ok \<Rightarrow>
      case (if ok then Inr (dir0, index, d1)
            else case try_scan_down (\<lambda>i. usable_dir isdir (standardizePath (getHistory i d1))) (index - 1) of
                Inl w \<Rightarrow> Inl w
              | Inr (Some i) \<Rightarrow> Inr (standardizePath (getHistory i d1), i, setSessionPointer tty i d1)
              | Inr None \<Rightarrow> Inr (standardizePath DIR_HISTORY_DEFAULT_DIR, index, setSessionPointer tty 0 d1)) of
        Inl w \<Rightarrow> (d1, openedTty_error w)
      | Inr (dir1, index1, d2) \<Rightarrow>
          let (dir2, d3) =
            (if dir1 = [] \<or> dir1 = ''/''
             then (standardizePath DIR_HISTORY_DEFAULT_DIR,
                   upsertHistory index1 (standardizePath DIR_HISTORY_DEFAULT_DIR) d2)
             else (dir1, d2))
          in (d3, CmdResult 0 (dir2 @ NL)))"

definition closedTty_member :: "int \<Rightarrow> term_state \<Rightarrow> term_state \<times> cmd_result" where
  "closedTty_member tty ts =
     (let ts1 = ts\<lparr>instances := remove1 tty (instances ts), ts_db := deleteSession tty (ts_db ts)\<rparr>
      in (Terminal_dtor tty ts1, CmdResult 0 NL))"

definition updateDirHistory_member :: "int \<Rightarrow> json \<Rightarrow> db \<Rightarrow> db \<times> cmd_result result" where
  "updateDirHistory_member tty command d =
     (let index = getIndex tty d in
      case getPWD command of
        Inl e \<Rightarrow> (d, Inl e)
      | Inr p \<Rightarrow>
        (let pwd = standardizePath p;
             currentDir = standardizePath (getHistory index d);
             nextDir = standardizePath (getHistory (index + 1) d);
             d1 = setSetting INDEX_OF_LAST_TOUCHED_DIR_KEY (to_string index) d
         in if pwd = [] \<or> pwd = ''/''
            then (d1, Inr (CmdResult 1 (''No directory provided to updateDirHistory'' @ NL)))
            else if currentDir = pwd then (d1, Inr (CmdResult 0 NL))
            else if nextDir = pwd then (setSessionPointer tty (index + 1) d1, Inr (CmdResult 0 NL))
            else let
                insertIndex = getMaxHistoryIndex d1 + 1;
                d2 = upsertHistory insertIndex pwd d1;
                d3 = setSessionPointer tty insertIndex d2;
                d4 = setSetting INDEX_OF_LAST_TOUCHED_DIR_KEY (to_string insertIndex) d3
              in (pruneHistory MAX_DIR_HISTORY_SIZE d4, Inr (CmdResult 0 NL))))"

definition cdForward_member :: "is_dir \<Rightarrow> int \<Rightarrow> db \<Rightarrow> db \<times> cmd_result result" where
  "cdForward_member isdir tty d =
     (let index = getIndex tty d; maxIndex = getMaxHistoryIndex d in
      case try_scan_up (\<lambda>i. usable_dir isdir (standardizePath (getHistory i d))) (index + 1) maxIndex of
        Inl w \<Rightarrow> (d, Inl (FilesystemError w))
      | Inr (Some i) \<Rightarrow> (setSessionPointer tty i d,
                   Inr (CmdResult 0 (''cd '' @ standardizePath (getHistory i d) @ NL)))
      | Inr None \<Rightarrow> (d, Inr (CmdResult 0 (''echo '' @ NL @ ''END OF HISTORY reached'' @ NL @ NL))))"

definition cdBackward_member :: "is_dir \<Rightarrow> int \<Rightarrow> db \<Rightarrow> db \<times> cmd_result result" where
  "cdBackward_member isdir tty d =
     (let index = getIndex tty d in
      case try_scan_down (\<lambda>i. usable_dir isdir (standardizePath (getHistory i d))) (index - 1) of
        Inl w \<Rightarrow> (d, Inl (FilesystemError w))
      | Inr (Some i) \<Rightarrow> (setSessionPointer tty i d,
                   Inr (CmdResult 0 (''cd '' @ standardizePath (getHistory i d) @ NL)))
      | Inr None \<Rightarrow> (d, Inr (CmdResult 0 (''echo '' @ NL @ ''BEGINNING OF HISTORY reached'' @ NL @ NL))))"

definition Terminal_toString :: "int \<Rightarrow> db \<Rightarrow> string" where
  "Terminal_toString tty d =
     (let index = getIndex tty d; dir = getHistory index d in
      ''tty: '' @ to_string tty @ NL @ ''Dir history index: '' @ to_string index @ NL @
      ''cwd: '' @ dir @ NL)"

text \<open>The static entry points. \<open>with_tty\<close> is the argument check they all start with.\<close>

definition with_tty ::
  "json \<Rightarrow> (string \<Rightarrow> int \<Rightarrow> term_state \<Rightarrow> term_state \<times> cmd_result result)
    \<Rightarrow> term_state \<Rightarrow> term_state \<times> cmd_result result" where
  "with_tty command body ts =
     (let ttyStr = getJsonString command ''tty'' in
      if ttyStr = [] then (ts, Inr (CmdResult 1 (''Missing tty argument'' @ NL)))
      else case stoi ttyStr of Inl e \<Rightarrow> (ts, Inl e) | Inr tty \<Rightarrow> body ttyStr tty ts)"

definition ensure_instance :: "is_dir \<Rightarrow> int \<Rightarrow> term_state \<Rightarrow> term_state \<times> unit result" where
  "ensure_instance isdir tty ts =
     (case getInstanceByTTY tty ts of
        Inl e \<Rightarrow> (ts, Inl e)
      | Inr (Some t) \<Rightarrow> (ts, Inr ())
      | Inr None \<Rightarrow> Terminal_ctor isdir tty ts)"

text \<open>Find or create the terminal, then run a member function on it.\<close>

definition on_instance ::
  "is_dir \<Rightarrow> (int \<Rightarrow> db \<Rightarrow> db \<times> cmd_result result) \<Rightarrow> int \<Rightarrow> term_state
    \<Rightarrow> term_state \<times> cmd_result result" where
  "on_instance isdir h tty ts =
     (case ensure_instance isdir tty ts of
        (ts1, Inl e) \<Rightarrow> (ts1, Inl e)
      | (ts1, Inr u) \<Rightarrow> let (d, r) = h tty (ts_db ts1) in (ts1\<lparr>ts_db := d\<rparr>, r))"

definition openedTty :: "is_dir \<Rightarrow> json \<Rightarrow> term_state \<Rightarrow> term_state \<times> cmd_result result" where
  "openedTty isdir command = with_tty command (\<lambda>ttyStr.
     on_instance isdir (\<lambda>tty d. let (d1, r) = openedTty_member isdir tty d in (d1, Inr r)))"

definition closedTty :: "json \<Rightarrow> term_state \<Rightarrow> term_state \<times> cmd_result result" where
  "closedTty command = with_tty command (\<lambda>ttyStr tty ts.
     case getInstanceByTTY tty ts of
       Inl e \<Rightarrow> (ts, Inl e)
     | Inr (Some t) \<Rightarrow> let (ts1, r) = closedTty_member tty ts in (ts1, Inr r)
     | Inr None \<Rightarrow> (ts, Inr (CmdResult 1 (''Terminal instance not found for tty '' @ ttyStr @ NL))))"

definition updateDirHistory :: "is_dir \<Rightarrow> json \<Rightarrow> term_state \<Rightarrow> term_state \<times> cmd_result result" where
  "updateDirHistory isdir command = with_tty command (\<lambda>ttyStr.
     on_instance isdir (\<lambda>tty. updateDirHistory_member tty command))"

definition cdForward :: "is_dir \<Rightarrow> json \<Rightarrow> term_state \<Rightarrow> term_state \<times> cmd_result result" where
  "cdForward isdir command = with_tty command (\<lambda>ttyStr. on_instance isdir (cdForward_member isdir))"

definition cdBackward :: "is_dir \<Rightarrow> json \<Rightarrow> term_state \<Rightarrow> term_state \<times> cmd_result result" where
  "cdBackward isdir command = with_tty command (\<lambda>ttyStr. on_instance isdir (cdBackward_member isdir))"

definition showTerminalInstance :: "json \<Rightarrow> term_state \<Rightarrow> term_state \<times> cmd_result result" where
  "showTerminalInstance command = with_tty command (\<lambda>ttyStr tty ts.
     case getInstanceByTTY tty ts of
       Inl e \<Rightarrow> (ts, Inl e)
     | Inr (Some t) \<Rightarrow> (ts, Inr (CmdResult 0 (Terminal_toString t (ts_db ts))))
     | Inr None \<Rightarrow> (ts, Inr (CmdResult 1 (''Terminal instance not found for tty '' @ ttyStr @ NL))))"

definition showAllTerminalInstances :: "term_state \<Rightarrow> term_state \<times> cmd_result result" where
  "showAllTerminalInstances ts =
     (if dangling ts then (ts, Inl AssertFail)
      else if instances ts = [] then (ts, Inr (CmdResult 0 (''No terminal instances found'' @ NL)))
      else (ts, Inr (CmdResult 0
        (butlast (concat (map (\<lambda>tty. Terminal_toString tty (ts_db ts) @ NL) (instances ts)))))))"

definition handlePrintDirHistory :: "term_state \<Rightarrow> cmd_result" where
  "handlePrintDirHistory ts =
     (let d = ts_db ts; history = getAllHistory d; sessions = getAllSessions d;
          lastTouched = getSetting INDEX_OF_LAST_TOUCHED_DIR_KEY d
      in CmdResult 0
       (''--- Directory History Entries ---'' @ NL @
        (if history = [] then ''No directory entries found.'' @ NL
         else concat (map (\<lambda>(t, i, p). ''  TTY '' @ to_string t @ '' Index '' @ to_string i @ '': '' @ p @ NL)
                history)) @
        NL @ ''--- Terminal Sessions ---'' @ NL @
        (if sessions = [] then ''No active sessions found.'' @ NL
         else concat (map (\<lambda>(t, i). ''  TTY '' @ to_string t @ '': Index '' @ to_string i @ NL) sessions)) @
        NL @ ''--- Last Touched Directory ---'' @ NL @
        (if lastTouched \<noteq> []
         then ''  Index: '' @ lastTouched @ '' (lookup disabled due to per-TTY schema)'' @ NL
         else ''No last touched directory recorded.'' @ NL)))"

definition handleEmptyDirHistoryTable :: "term_state \<Rightarrow> term_state \<times> cmd_result" where
  "handleEmptyDirHistoryTable ts =
     (ts\<lparr>ts_db := emptyTable_terminal_history (ts_db ts)\<rparr>,
      CmdResult 0 (''terminal_history table emptied.'' @ NL))"

definition handleShellSignal :: "json \<Rightarrow> cmd_result result" where
  "handleShellSignal command =
     try_result (command_string command ''signal'')
       (\<lambda>signal. Inr (CmdResult 0 (''kill -'' @ signal @ '' $$'' @ NL)))"

subsection \<open>The invariant\<close>

definition std_dir :: "string \<Rightarrow> bool" where
  "std_dir p \<longleftrightarrow> p \<noteq> [] \<and> last p = CHR ''/'' \<and> p \<noteq> ''/''"

definition entries :: "db \<Rightarrow> string list" where
  "entries d = map snd (terminal_history d)"

text \<open>The history holds standardised directories under the indices 0, 1, \<dots>; it is bounded by
  \<open>MAX_DIR_HISTORY_SIZE\<close>; every session pointer names an existing entry.\<close>

definition dir_inv :: "db \<Rightarrow> bool" where
  "dir_inv d \<longleftrightarrow>
     db_conn d \<and>
     terminal_history d = number_from 0 (entries d) \<and>
     int (length (entries d)) \<le> MAX_DIR_HISTORY_SIZE \<and>
     (\<forall>p \<in> set (entries d). std_dir p) \<and>
     om_sorted (terminal_sessions d) \<and>
     (\<forall>(t, i) \<in> set (terminal_sessions d). 0 \<le> i \<and> i < int (length (entries d)))"

definition ts_inv :: "term_state \<Rightarrow> bool" where
  "ts_inv ts \<longleftrightarrow>
     dir_inv (ts_db ts) \<and> distinct (instances ts) \<and>
     set (instances ts) \<subseteq> fst ` set (terminal_sessions (ts_db ts))"

lemma dir_invI:
  assumes "db_conn d" "terminal_history d = number_from 0 ps" "length ps \<le> 500"
    "\<forall>p \<in> set ps. std_dir p" "om_sorted (terminal_sessions d)"
    "\<forall>(t, i) \<in> set (terminal_sessions d). 0 \<le> i \<and> i < int (length ps)"
  shows "dir_inv d" "entries d = ps"
  using assms by (auto simp: dir_inv_def entries_def MAX_DIR_HISTORY_SIZE_def)

lemma dir_invD:
  assumes "dir_inv d"
  shows "db_conn d" "terminal_history d = number_from 0 (entries d)" "length (entries d) \<le> 500"
    "\<And>p. p \<in> set (entries d) \<Longrightarrow> std_dir p" "om_sorted (terminal_sessions d)"
    "\<And>t i. om_find t (terminal_sessions d) = Some i \<Longrightarrow> 0 \<le> i \<and> i < int (length (entries d))"
  using assms by (auto simp: dir_inv_def MAX_DIR_HISTORY_SIZE_def dest!: om_find_SomeD)

lemma standardizePath_std: "std_dir p \<Longrightarrow> standardizePath p = p"
  by (simp add: std_dir_def standardizePath_def)

lemma standardizePath_nonempty [simp]: "standardizePath p \<noteq> []"
  by (simp add: standardizePath_def)

lemma std_dir_standardizePath: "standardizePath p \<noteq> ''/'' \<Longrightarrow> std_dir (standardizePath p)"
  by (auto simp: std_dir_def standardizePath_def split: if_splits)

lemma default_dir_simps [simp]:
  "standardizePath DIR_HISTORY_DEFAULT_DIR = DIR_HISTORY_DEFAULT_DIR"
  "std_dir DIR_HISTORY_DEFAULT_DIR"
  "DIR_HISTORY_DEFAULT_DIR \<noteq> []"
  "DIR_HISTORY_DEFAULT_DIR \<noteq> ''/''"
  "fits 65535 DIR_HISTORY_DEFAULT_DIR"
  by (simp_all add: DIR_HISTORY_DEFAULT_DIR_def standardizePath_def std_dir_def fits_def)

lemma getHistory_inv:
  assumes "dir_inv d"
  shows "getHistory i d
    = (if 0 \<le> i \<and> i < int (length (entries d)) then entries d ! nat i else [])"
  using dir_invD(1,2) [OF assms] by (simp add: getHistory_def om_find_number_from)

lemma getMaxHistoryIndex_inv:
  "dir_inv d \<Longrightarrow> getMaxHistoryIndex d = int (length (entries d)) - 1"
  using dir_invD(1,2) [of d] fst_last_number_from [of "entries d" 0]
  by (cases "entries d = []") (simp_all add: getMaxHistoryIndex_def)

lemma usable_history_in_range:
  "dir_inv d \<Longrightarrow> usable_dir isdir (standardizePath (getHistory i d)) \<noteq> Inr False \<Longrightarrow>
     0 \<le> i \<and> i < int (length (entries d))"
  "dir_inv d \<Longrightarrow> usable_dir isdir (getHistory i d) \<noteq> Inr False \<Longrightarrow>
     0 \<le> i \<and> i < int (length (entries d))"
  by (auto simp: getHistory_inv usable_dir_def standardizePath_def split: if_splits)

lemma standardizePath_getHistory:
  "dir_inv d \<Longrightarrow> 0 \<le> i \<Longrightarrow> i < int (length (entries d)) \<Longrightarrow>
     standardizePath (getHistory i d) = entries d ! nat i"
  using dir_invD(4) [of d "entries d ! nat i"] by (simp add: getHistory_inv standardizePath_std)

lemma getSessionPointer_inv:
  "dir_inv d \<Longrightarrow> getSessionPointer t d = (case om_find t (terminal_sessions d) of Some i \<Rightarrow> i | None \<Rightarrow> - 1)"
  by (simp add: getSessionPointer_def dir_invD(1))

lemma dir_inv_setSetting [simp]: "dir_inv (setSetting k v d) = dir_inv d"
  "entries (setSetting k v d) = entries d"
  by (auto simp: dir_inv_def entries_def db_simps)

lemma dir_inv_setSessionPointer:
  assumes "dir_inv d" "0 \<le> i" "i < int (length (entries d))"
  shows "dir_inv (setSessionPointer t i d)" "entries (setSessionPointer t i d) = entries d"
proof -
  have "\<forall>(t, i) \<in> set (om_put t i (terminal_sessions d)). 0 \<le> i \<and> i < int (length (entries d))"
    using assms om_put_set [of t i "terminal_sessions d"] by (auto simp: dir_inv_def)
  then show "dir_inv (setSessionPointer t i d)" "entries (setSessionPointer t i d) = entries d"
    using assms dir_invD [OF assms(1)]
    by (auto intro!: dir_invI simp: db_simps om_sorted_put)
qed

text \<open>Writing an entry at an index up to the current length: overwrite, or append below the bound.\<close>

definition put_entry :: "nat \<Rightarrow> string \<Rightarrow> string list \<Rightarrow> string list" where
  "put_entry i p es = (if i < length es then es[i := p] else es @ [p])"

lemma upsertHistory_inv:
  assumes "dir_inv d" "std_dir p" "fits text_max p" "0 \<le> i" "i \<le> int (length (entries d))" "i < 500"
  shows "dir_inv (upsertHistory i p d)" "entries (upsertHistory i p d) = put_entry (nat i) p (entries d)"
proof -
  note D = dir_invD [OF assms(1)]
  have h: "terminal_history (upsertHistory i p d) = number_from 0 (put_entry (nat i) p (entries d))"
  proof (cases "i = int (length (entries d))")
    case True
    with assms D(1,2) show ?thesis
      by (simp add: db_simps put_entry_def om_put_number_from_end)
  next
    case False
    with assms D(1,2) show ?thesis
      by (simp add: db_simps put_entry_def om_put_number_from_in nat_less_iff)
  qed
  have "set (put_entry (nat i) p (entries d)) \<subseteq> insert p (set (entries d))"
    by (auto simp: put_entry_def dest: set_update_subset_insert [THEN subsetD])
  moreover have "length (entries d) \<le> length (put_entry (nat i) p (entries d))"
    "length (put_entry (nat i) p (entries d)) \<le> 500"
    using assms(4-6) D(3) by (auto simp: put_entry_def)
  moreover have "\<forall>(t, j) \<in> set (terminal_sessions d). 0 \<le> j \<and> j < int (length (entries d))"
    using assms(1) by (simp add: dir_inv_def)
  ultimately show "dir_inv (upsertHistory i p d)"
    "entries (upsertHistory i p d) = put_entry (nat i) p (entries d)"
    using assms(2) D by (intro dir_invI [OF _ h]; force simp: db_simps)+
qed

subsection \<open>Starting a terminal\<close>

text \<open>The constructor in two steps: the entry it settles on (or the exception), then the session
  pointer.\<close>

definition ctor_settle :: "is_dir \<Rightarrow> db \<Rightarrow> db \<times> (string + int)" where
  "ctor_settle isdir d0 =
     (let s1 = ctor_start_index d0;
          (s2, d1) = (if s1 < 0 then (0, upsertHistory 0 (standardizePath DIR_HISTORY_DEFAULT_DIR) d0)
                      else (s1, d0))
      in case try_scan_down (\<lambda>i. usable_dir isdir (getHistory i d1)) s2 of
          Inl w \<Rightarrow> (d1, Inl w)
        | Inr (Some i) \<Rightarrow> (d1, Inr i)
        | Inr None \<Rightarrow>
            let m = getMaxHistoryIndex d1; s = (if m < 0 then 0 else m)
            in (upsertHistory s (standardizePath DIR_HISTORY_DEFAULT_DIR) d1, Inr s))"

lemma Terminal_ctor_settle:
  "Terminal_ctor isdir tty ts =
     (case ctor_settle isdir (ts_db ts) of
        (d, Inl w) \<Rightarrow> (ts\<lparr>ts_db := d, dangling := True\<rparr>, Inl (FilesystemError w))
      | (d, Inr s) \<Rightarrow>
          (ts\<lparr>instances := instances ts @ [tty], ts_db := setSessionPointer tty s d\<rparr>, Inr ()))"
  by (simp add: Terminal_ctor_def ctor_settle_def Let_def case_prod_unfold
      split: option.splits sum.splits)

lemma ctor_start_negative:
  "dir_inv d \<Longrightarrow> ctor_start_index d < 0 \<Longrightarrow> entries d = []"
  by (auto simp: ctor_start_index_def Let_def getMaxHistoryIndex_inv split: if_splits sum.splits)

lemma ctor_search_inv:
  assumes "dir_inv d1"
    and "(d2, r) = (case try_scan_down (\<lambda>i. usable_dir isdir (getHistory i d1)) s2 of
          Inl w \<Rightarrow> (d1, Inl w)
        | Inr (Some i) \<Rightarrow> (d1, Inr i)
        | Inr None \<Rightarrow>
            let m = getMaxHistoryIndex d1; s = (if m < 0 then 0 else m)
            in (upsertHistory s (standardizePath DIR_HISTORY_DEFAULT_DIR) d1, Inr s))"
  shows "dir_inv d2 \<and> terminal_sessions d2 = terminal_sessions d1 \<and>
    (\<forall>s. r = Inr s \<longrightarrow> 0 \<le> s \<and> s < int (length (entries d2)) \<and>
      (isdir (entries d2 ! nat s) = Inr True \<or> entries d2 ! nat s = DIR_HISTORY_DEFAULT_DIR))"
proof (cases "try_scan_down (\<lambda>i. usable_dir isdir (getHistory i d1)) s2")
  case (Inl w)
  with assms show ?thesis by simp
next
  case (Inr hit)
  show ?thesis
  proof (cases hit)
    case (Some i)
    then have u: "usable_dir isdir (getHistory i d1) = Inr True"
      using Inr try_scan_down_SomeD by blast
    with usable_history_in_range(2) [OF assms(1), of isdir i] Some Inr assms show ?thesis
      by (simp add: getHistory_inv usable_dir_def split: if_splits)
  next
    case None
    let ?s = "if entries d1 = [] then 0 else int (length (entries d1)) - 1"
    have s: "r = Inr ?s" "d2 = upsertHistory ?s DIR_HISTORY_DEFAULT_DIR d1"
      using None Inr assms by (auto simp: getMaxHistoryIndex_inv Let_def)
    have "dir_inv d2 \<and> entries d2 = put_entry (nat ?s) DIR_HISTORY_DEFAULT_DIR (entries d1)"
      unfolding s(2)
      using upsertHistory_inv [of d1 DIR_HISTORY_DEFAULT_DIR ?s] assms(1) dir_invD(3) [OF assms(1)]
      by simp
    moreover have "nat (int (length (entries d1)) - 1) < length (entries d1)" if "entries d1 \<noteq> []"
      using that by (cases "entries d1") simp_all
    ultimately show ?thesis by (auto simp: s db_simps put_entry_def)
  qed
qed

lemma ctor_settle_inv:
  assumes "dir_inv d" "ctor_settle isdir d = (d2, r)"
  shows "dir_inv d2 \<and> terminal_sessions d2 = terminal_sessions d \<and>
    (\<forall>s. r = Inr s \<longrightarrow> 0 \<le> s \<and> s < int (length (entries d2)) \<and>
      (isdir (entries d2 ! nat s) = Inr True \<or> entries d2 ! nat s = DIR_HISTORY_DEFAULT_DIR))"
proof (cases "ctor_start_index d < 0")
  case True
  let ?d1 = "upsertHistory 0 DIR_HISTORY_DEFAULT_DIR d"
  have "dir_inv ?d1" using assms(1) by (intro upsertHistory_inv) simp_all
  from ctor_search_inv [OF this, of d2 r isdir 0] True assms(2) show ?thesis
    by (simp add: ctor_settle_def db_simps eq_commute)
next
  case False
  from ctor_search_inv [OF assms(1), of d2 r isdir "ctor_start_index d"] False assms(2) show ?thesis
    by (simp add: ctor_settle_def eq_commute)
qed

lemma ts_inv_ctor:
  assumes "ts_inv ts" "tty \<notin> set (instances ts)"
  shows "ts_inv (fst (Terminal_ctor isdir tty ts))"
proof -
  obtain d2 r where c: "ctor_settle isdir (ts_db ts) = (d2, r)" by fastforce
  have inv: "dir_inv (ts_db ts)" using assms by (simp add: ts_inv_def)
  note C = ctor_settle_inv [OF inv c]
  show ?thesis
  proof (cases r)
    case (Inl w)
    then show ?thesis using C assms c by (simp add: ts_inv_def Terminal_ctor_settle)
  next
    case (Inr s)
    then have "dir_inv (setSessionPointer tty s d2)" using C by (simp add: dir_inv_setSessionPointer)
    moreover have "fst ` set (terminal_sessions (setSessionPointer tty s d2))
        = insert tty (fst ` set (terminal_sessions (ts_db ts)))"
      using C dir_invD(1) [of d2] by (simp add: db_simps om_put_keys)
    ultimately show ?thesis
      using assms c Inr by (auto simp: ts_inv_def Terminal_ctor_settle)
  qed
qed

lemma find_eq: "find (\<lambda>t. t = x) xs = (if x \<in> set xs then Some x else None)"
  by (induction xs) auto

lemma getInstanceByTTY_eq:
  "getInstanceByTTY tty ts =
     (if tty \<in> set (instances ts) then Inr (Some tty)
      else if dangling ts then Inl AssertFail else Inr None)"
  by (simp add: getInstanceByTTY_def find_eq)

text \<open>Whether a search for a terminal reads the freed one.\<close>

definition reads_freed :: "int \<Rightarrow> term_state \<Rightarrow> bool" where
  "reads_freed tty ts \<longleftrightarrow> dangling ts \<and> tty \<notin> set (instances ts)"

lemma ensure_instance_eq:
  "ensure_instance isdir tty ts =
     (if tty \<in> set (instances ts) then (ts, Inr ())
      else if dangling ts then (ts, Inl AssertFail) else Terminal_ctor isdir tty ts)"
  by (simp add: ensure_instance_def getInstanceByTTY_eq)

lemma ts_inv_ensure: "ts_inv ts \<Longrightarrow> ts_inv (fst (ensure_instance isdir tty ts))"
  using ts_inv_ctor [of ts tty isdir] by (auto simp: ensure_instance_eq)

lemma ensure_instance_in:
  "ensure_instance isdir tty ts = (ts1, Inr u) \<Longrightarrow> tty \<in> set (instances ts1)"
  by (auto simp: ensure_instance_eq Terminal_ctor_settle split: if_splits prod.splits sum.splits)

lemma ensure_instance_present: "tty \<in> set (instances ts) \<Longrightarrow> ensure_instance isdir tty ts = (ts, Inr ())"
  by (simp add: ensure_instance_eq)

lemma on_instance_present:
  "tty \<in> set (instances ts) \<Longrightarrow>
     on_instance isdir h tty ts = (let (d, r) = h tty (ts_db ts) in (ts\<lparr>ts_db := d\<rparr>, r))"
  by (simp add: on_instance_def ensure_instance_present)

text \<open>A known terminal has a session pointer into the history.\<close>

lemma session_of_instance:
  assumes "ts_inv ts" "tty \<in> set (instances ts)"
  obtains i where "om_find tty (terminal_sessions (ts_db ts)) = Some i"
    "0 \<le> i" "i < int (length (entries (ts_db ts)))"
proof -
  have "om_find tty (terminal_sessions (ts_db ts)) \<noteq> None"
    using assms by (auto simp: ts_inv_def om_find_None_iff)
  then obtain i where i: "om_find tty (terminal_sessions (ts_db ts)) = Some i" by auto
  with dir_invD(6) [of "ts_db ts" tty i] assms(1) that show thesis by (simp add: ts_inv_def)
qed

subsection \<open>The abstract history\<close>

text \<open>A list of visited directories and a cursor per terminal.\<close>

type_synonym hist = "string list \<times> (int \<Rightarrow> nat option)"

definition abs_hist :: "db \<Rightarrow> hist" where
  "abs_hist d = (entries d, \<lambda>t. map_option nat (om_find t (terminal_sessions d)))"

text \<open>Visiting \<open>dir\<close>: stay when the cursor is there already, step forward when the next entry is
  \<open>dir\<close>, otherwise append it, move there, and drop the oldest entries above 500.\<close>

definition visit_spec :: "int \<Rightarrow> string \<Rightarrow> hist \<Rightarrow> hist" where
  "visit_spec tty dir h =
     (case h of (es, cur) \<Rightarrow> case cur tty of
        None \<Rightarrow> h
      | Some i \<Rightarrow>
          if es ! i = dir then h
          else if Suc i < length es \<and> es ! Suc i = dir then (es, cur(tty \<mapsto> Suc i))
          else let k = Suc (length es) - 500
               in (drop k (es @ [dir]), \<lambda>t. map_option (\<lambda>j. j - k) ((cur(tty \<mapsto> length es)) t)))"

text \<open>Moving the cursor: the first of the candidate indices whose directory the file system does not
  deny decides, either by being a directory or by the exception of the test.\<close>

definition cursor_spec :: "is_dir \<Rightarrow> (nat \<Rightarrow> nat \<Rightarrow> nat list) \<Rightarrow> int \<Rightarrow> hist \<Rightarrow> hist \<times> (string + string option)"
  where
  "cursor_spec isdir candidates tty h =
     (case h of (es, cur) \<Rightarrow> case cur tty of
        None \<Rightarrow> (h, Inr None)
      | Some i \<Rightarrow> (case find (\<lambda>j. isdir (es ! j) \<noteq> Inr False) (candidates i (length es)) of
            None \<Rightarrow> (h, Inr None)
          | Some j \<Rightarrow> (case isdir (es ! j) of
                Inl w \<Rightarrow> (h, Inl w)
              | Inr _ \<Rightarrow> ((es, cur(tty \<mapsto> j)), Inr (Some (es ! j))))))"

definition back_spec :: "is_dir \<Rightarrow> int \<Rightarrow> hist \<Rightarrow> hist \<times> (string + string option)" where
  "back_spec isdir = cursor_spec isdir (\<lambda>i n. rev [0..<i])"

definition forward_spec :: "is_dir \<Rightarrow> int \<Rightarrow> hist \<Rightarrow> hist \<times> (string + string option)" where
  "forward_spec isdir = cursor_spec isdir (\<lambda>i n. [Suc i..<n])"

lemma abs_hist_setSetting [simp]: "abs_hist (setSetting k v d) = abs_hist d"
  by (simp add: abs_hist_def db_simps)

lemma abs_hist_setSessionPointer:
  "dir_inv d \<Longrightarrow> 0 \<le> i \<Longrightarrow> i < int (length (entries d)) \<Longrightarrow>
     abs_hist (setSessionPointer t i d) = (entries d, (snd (abs_hist d))(t \<mapsto> nat i))"
  by (auto simp: abs_hist_def dir_inv_setSessionPointer(2) dir_invD(1) db_simps om_find_put)

lemma usable_entry:
  "dir_inv d \<Longrightarrow> j < length (entries d) \<Longrightarrow>
     usable_dir isdir (standardizePath (getHistory (int j) d)) = isdir (entries d ! j)"
  using dir_invD(4) [of d "entries d ! j"]
  by (auto simp: standardizePath_getHistory usable_dir_def std_dir_def)

lemma find_cong_set: "(\<And>x. x \<in> set xs \<Longrightarrow> P x = Q x) \<Longrightarrow> find P xs = find Q xs"
  by (induction xs) auto

lemma find_SomeD: "find P xs = Some x \<Longrightarrow> x \<in> set xs \<and> P x"
  by (auto simp: find_Some_iff)

text \<open>The loops over the database are searches over the list of entries.\<close>

definition entry_search :: "is_dir \<Rightarrow> string list \<Rightarrow> nat list \<Rightarrow> string + int option" where
  "entry_search isdir es js =
     (case find (\<lambda>j. isdir (es ! j) \<noteq> Inr False) js of
        None \<Rightarrow> Inr None
      | Some j \<Rightarrow> (case isdir (es ! j) of Inl w \<Rightarrow> Inl w | Inr _ \<Rightarrow> Inr (Some (int j))))"

lemma entry_search_eq:
  assumes "dir_inv d" "set js \<subseteq> {..<length (entries d)}"
  shows "scan_stop (\<lambda>j. usable_dir isdir (standardizePath (getHistory j d)))
      (map_option int (find (\<lambda>j. usable_dir isdir (standardizePath (getHistory (int j) d)) \<noteq> Inr False) js))
    = entry_search isdir (entries d) js"
proof -
  have "find (\<lambda>j. usable_dir isdir (standardizePath (getHistory (int j) d)) \<noteq> Inr False) js
      = find (\<lambda>j. isdir (entries d ! j) \<noteq> Inr False) js"
    using assms by (intro find_cong_set) (auto simp: usable_entry)
  moreover have "j < length (entries d)" if "find P js = Some j" for P j
    using find_SomeD [OF that] assms(2) by auto
  ultimately show ?thesis
    using assms(1) by (auto simp: entry_search_def usable_entry split: option.splits)
qed

lemma scan_back_entries:
  assumes "dir_inv d" "i \<le> length (entries d)"
  shows "try_scan_down (\<lambda>j. usable_dir isdir (standardizePath (getHistory j d))) (int i - 1)
    = entry_search isdir (entries d) (rev [0..<i])"
  unfolding try_scan_down_eq scan_down_find using assms by (intro entry_search_eq) auto

lemma scan_forward_entries:
  assumes "dir_inv d"
  shows "try_scan_up (\<lambda>j. usable_dir isdir (standardizePath (getHistory j d))) (int i) (int (length (entries d)) - 1)
    = entry_search isdir (entries d) [i..<length (entries d)]"
  unfolding try_scan_up_eq scan_up_find using assms by (intro entry_search_eq) auto

lemma entry_search_SomeD: "entry_search isdir es js = Inr (Some i) \<Longrightarrow>
   \<exists>j \<in> set js. i = int j \<and> isdir (es ! j) = Inr True"
  by (auto simp: entry_search_def dest!: find_SomeD split: option.splits sum.splits)

lemma getIndex_inv:
  "dir_inv d \<Longrightarrow> om_find tty (terminal_sessions d) = Some i \<Longrightarrow> getIndex tty d = i"
  using dir_invD(6) [of d tty i] by (simp add: getIndex_def getSessionPointer_inv)

text \<open>The cursor commands implement their specifications.\<close>

lemma cdBackward_member_refines:
  assumes "dir_inv d" "om_find tty (terminal_sessions d) = Some i"
  shows "cdBackward_member isdir tty d =
    (case entry_search isdir (entries d) (rev [0..<nat i]) of
       Inl w \<Rightarrow> (d, Inl (FilesystemError w))
     | Inr None \<Rightarrow> (d, Inr (CmdResult 0 (''echo '' @ NL @ ''BEGINNING OF HISTORY reached'' @ NL @ NL)))
     | Inr (Some j) \<Rightarrow> (setSessionPointer tty j d, Inr (CmdResult 0 (''cd '' @ entries d ! nat j @ NL))))"
proof -
  have i: "0 \<le> i" "i < int (length (entries d))" using dir_invD(6) [OF assms] by auto
  then have "try_scan_down (\<lambda>j. usable_dir isdir (standardizePath (getHistory j d))) (i - 1)
    = entry_search isdir (entries d) (rev [0..<nat i])"
    using scan_back_entries [OF assms(1), of "nat i" isdir] by simp
  then show ?thesis
    using assms i standardizePath_getHistory [OF assms(1)]
    by (auto simp: cdBackward_member_def getIndex_inv dest!: entry_search_SomeD
        split: option.splits sum.splits)
qed

lemma cdForward_member_refines:
  assumes "dir_inv d" "om_find tty (terminal_sessions d) = Some i"
  shows "cdForward_member isdir tty d =
    (case entry_search isdir (entries d) [Suc (nat i)..<length (entries d)] of
       Inl w \<Rightarrow> (d, Inl (FilesystemError w))
     | Inr None \<Rightarrow> (d, Inr (CmdResult 0 (''echo '' @ NL @ ''END OF HISTORY reached'' @ NL @ NL)))
     | Inr (Some j) \<Rightarrow> (setSessionPointer tty j d, Inr (CmdResult 0 (''cd '' @ entries d ! nat j @ NL))))"
proof -
  have i: "0 \<le> i" "i < int (length (entries d))" using dir_invD(6) [OF assms] by auto
  then have "try_scan_up (\<lambda>j. usable_dir isdir (standardizePath (getHistory j d))) (i + 1) (getMaxHistoryIndex d)
    = entry_search isdir (entries d) [Suc (nat i)..<length (entries d)]"
    using scan_forward_entries [OF assms(1), of isdir "Suc (nat i)"]
    by (simp add: getMaxHistoryIndex_inv assms(1) add.commute)
  then show ?thesis
    using assms i standardizePath_getHistory [OF assms(1)]
    by (auto simp: cdForward_member_def getIndex_inv dest!: entry_search_SomeD
        split: option.splits sum.splits)
qed

lemma openedTty_member_refines:
  assumes "dir_inv d" "om_find tty (terminal_sessions d) = Some i"
  shows "openedTty_member isdir tty d =
    (case isdir (entries d ! nat i) of
       Inl w \<Rightarrow> (d, openedTty_error w)
     | Inr True \<Rightarrow> (d, CmdResult 0 (entries d ! nat i @ NL))
     | Inr False \<Rightarrow> (case entry_search isdir (entries d) (rev [0..<nat i]) of
         Inl w \<Rightarrow> (d, openedTty_error w)
       | Inr None \<Rightarrow> (setSessionPointer tty 0 d, CmdResult 0 (DIR_HISTORY_DEFAULT_DIR @ NL))
       | Inr (Some j) \<Rightarrow> (setSessionPointer tty j d, CmdResult 0 (entries d ! nat j @ NL))))"
proof -
  have i: "0 \<le> i" "i < int (length (entries d))" using dir_invD(6) [OF assms] by auto
  then have scan: "try_scan_down (\<lambda>j. usable_dir isdir (standardizePath (getHistory j d))) (i - 1)
    = entry_search isdir (entries d) (rev [0..<nat i])"
    using scan_back_entries [OF assms(1), of "nat i" isdir] by simp
  have std: "entries d ! j \<noteq> ''/'' \<and> entries d ! j \<noteq> []" if "j \<le> nat i" for j
    using that i dir_invD(4) [OF assms(1), of "entries d ! j"] by (simp add: std_dir_def)
  show ?thesis
    using assms i scan standardizePath_getHistory [OF assms(1)]
    by (auto simp: openedTty_member_def getSessionPointer_inv std Let_def
        dest!: entry_search_SomeD split: option.splits sum.splits bool.splits)
qed

subsection \<open>Visiting a directory\<close>

text \<open>The append branch of \<open>_updateDirHistory\<close>: insert, point, record, prune.\<close>

definition append_visit :: "int \<Rightarrow> string \<Rightarrow> db \<Rightarrow> db" where
  "append_visit tty pwd d =
     (let insertIndex = getMaxHistoryIndex d + 1;
          d2 = upsertHistory insertIndex pwd d;
          d3 = setSessionPointer tty insertIndex d2;
          d4 = setSetting INDEX_OF_LAST_TOUCHED_DIR_KEY (to_string insertIndex) d3
      in pruneHistory MAX_DIR_HISTORY_SIZE d4)"

lemma append_visit_tables:
  assumes "dir_inv d" "std_dir pwd" "fits text_max pwd"
  defines "k \<equiv> Suc (length (entries d)) - 500"
  shows "terminal_history (append_visit tty pwd d) = number_from 0 (drop k (entries d @ [pwd]))"
    and "terminal_sessions (append_visit tty pwd d)
      = map (\<lambda>(t, i). (t, max 0 (i - int k))) (om_put tty (int (length (entries d))) (terminal_sessions d))"
    and "db_conn (append_visit tty pwd d)"
proof -
  let ?n = "length (entries d)"
  let ?d4 = "setSetting INDEX_OF_LAST_TOUCHED_DIR_KEY (to_string (int ?n))
     (setSessionPointer tty (int ?n) (upsertHistory (int ?n) pwd d))"
  note D = dir_invD [OF assms(1)]
  have v: "append_visit tty pwd d = pruneHistory (int 500) ?d4"
    by (simp add: append_visit_def Let_def getMaxHistoryIndex_inv assms(1) MAX_DIR_HISTORY_SIZE_def)
  have d4: "db_conn ?d4" "terminal_history ?d4 = number_from 0 (entries d @ [pwd])"
    "terminal_sessions ?d4 = om_put tty (int ?n) (terminal_sessions d)"
    using D(1,2) assms(3) om_put_number_from_end [of "int ?n" 0 "entries d" pwd]
    by (simp_all add: db_simps)
  have small: "\<forall>(t, i) \<in> set (om_put tty (int ?n) (terminal_sessions d)). 0 \<le> i"
    using assms(1) om_put_set [of tty "int ?n" "terminal_sessions d"] by (auto simp: dir_inv_def)
  have "terminal_history (append_visit tty pwd d) = number_from 0 (drop k (entries d @ [pwd])) \<and>
    terminal_sessions (append_visit tty pwd d)
      = map (\<lambda>(t, i). (t, max 0 (i - int k))) (om_put tty (int ?n) (terminal_sessions d)) \<and>
    db_conn (append_visit tty pwd d)"
  proof (cases "?n < 500")
    case True
    then have k: "k = 0" by (simp add: k_def)
    have "map (\<lambda>(t, i). (t, max 0 i)) (om_put tty (int ?n) (terminal_sessions d))
        = om_put tty (int ?n) (terminal_sessions d)"
      using small by (intro map_idI) auto
    then show ?thesis using True d4 k by (simp add: v pruneHistory_small)
  next
    case False
    then have "pruneHistory (int 500) ?d4 = rebase_last_touched (int k)
      (?d4\<lparr>terminal_history := number_from 0 (drop k (entries d @ [pwd])),
         terminal_sessions := map (\<lambda>(t, i). (t, max 0 (i - int k))) (terminal_sessions ?d4)\<rparr>)"
      using pruneHistory_big [OF d4(1,2), of 500] by (simp add: k_def)
    then show ?thesis using d4 by (simp add: v db_simps)
  qed
  then show "terminal_history (append_visit tty pwd d) = number_from 0 (drop k (entries d @ [pwd]))"
    "terminal_sessions (append_visit tty pwd d)
      = map (\<lambda>(t, i). (t, max 0 (i - int k))) (om_put tty (int ?n) (terminal_sessions d))"
    "db_conn (append_visit tty pwd d)"
    by auto
qed

lemma append_visit_inv:
  assumes "dir_inv d" "std_dir pwd" "fits text_max pwd"
  shows "dir_inv (append_visit tty pwd d)"
    and "entries (append_visit tty pwd d) = drop (Suc (length (entries d)) - 500) (entries d @ [pwd])"
proof -
  let ?k = "Suc (length (entries d)) - 500"
  note T = append_visit_tables [OF assms, of tty]
  note D = dir_invD [OF assms(1)]
  have k: "?k \<le> length (entries d)" by simp
  have "\<forall>(t, i) \<in> set (om_put tty (int (length (entries d))) (terminal_sessions d)).
      i \<le> int (length (entries d))"
    using assms(1) om_put_set [of tty "int (length (entries d))" "terminal_sessions d"]
    by (force simp: dir_inv_def)
  then have "\<forall>(t, i) \<in> set (terminal_sessions (append_visit tty pwd d)).
      0 \<le> i \<and> i < int (length (drop ?k (entries d @ [pwd])))"
    using k unfolding T(2) by auto
  moreover have "\<forall>p \<in> set (drop ?k (entries d @ [pwd])). std_dir p"
    using D(4) assms(2) by (auto dest!: in_set_dropD)
  moreover have "length (drop ?k (entries d @ [pwd])) \<le> 500" by simp
  moreover have "om_sorted (terminal_sessions (append_visit tty pwd d))"
    unfolding T(2) by (simp add: om_sorted_map_values om_sorted_put D(5))
  ultimately show "dir_inv (append_visit tty pwd d)"
    "entries (append_visit tty pwd d) = drop ?k (entries d @ [pwd])"
    using dir_invI [OF T(3,1)] by blast+
qed

lemma append_visit_abs:
  assumes "dir_inv d" "std_dir pwd" "fits text_max pwd"
  defines "k \<equiv> Suc (length (entries d)) - 500"
  shows "abs_hist (append_visit tty pwd d) =
    (drop k (entries d @ [pwd]),
     \<lambda>t. map_option (\<lambda>j. j - k) (((snd (abs_hist d))(tty \<mapsto> length (entries d))) t))"
proof -
  have "nat (max 0 (i - int k)) = nat i - k" for i by simp
  then show ?thesis
    using append_visit_inv(2) [OF assms(1-3), of tty]
    unfolding abs_hist_def append_visit_tables(2) [OF assms(1-3), of tty]
    by (auto simp: k_def om_find_map_values om_find_put option.map_comp comp_def fun_eq_iff)
qed

lemma append_visit_keys:
  assumes "dir_inv d" "std_dir pwd" "fits text_max pwd"
  shows "fst ` set (terminal_sessions (append_visit tty pwd d))
    = insert tty (fst ` set (terminal_sessions d))"
proof -
  have "fst ` set (terminal_sessions (append_visit tty pwd d))
     = fst ` set (om_put tty (int (length (entries d))) (terminal_sessions d))"
    unfolding append_visit_tables(2) [OF assms, of tty] by force
  then show ?thesis by (simp add: om_put_keys)
qed

lemma updateDirHistory_member_cases:
  assumes "dir_inv d" "om_find tty (terminal_sessions d) = Some i" "getPWD command = Inr p"
  defines "pwd \<equiv> standardizePath p"
    and "d1 \<equiv> setSetting INDEX_OF_LAST_TOUCHED_DIR_KEY (to_string i) d"
  shows "updateDirHistory_member tty command d =
    (if pwd = ''/'' then (d1, Inr (CmdResult 1 (''No directory provided to updateDirHistory'' @ NL)))
     else if entries d ! nat i = pwd then (d1, Inr (CmdResult 0 NL))
     else if Suc (nat i) < length (entries d) \<and> entries d ! Suc (nat i) = pwd
     then (setSessionPointer tty (i + 1) d1, Inr (CmdResult 0 NL))
     else (append_visit tty pwd d1, Inr (CmdResult 0 NL)))"
proof -
  have i: "0 \<le> i" "i < int (length (entries d))" using dir_invD(6) [OF assms(1,2)] by auto
  have next_dir: "standardizePath (getHistory (i + 1) d)
      = (if Suc (nat i) < length (entries d) then entries d ! Suc (nat i) else ''/'')"
  proof (cases "Suc (nat i) < length (entries d)")
    case True
    then show ?thesis
      using i standardizePath_getHistory [OF assms(1), of "i + 1"] by (simp add: nat_add_distrib)
  next
    case False
    then have "\<not> i + 1 < int (length (entries d))" using i by linarith
    with False show ?thesis using assms(1) by (simp add: getHistory_inv standardizePath_def)
  qed
  show ?thesis
    using assms i next_dir standardizePath_getHistory [OF assms(1), of i]
    unfolding updateDirHistory_member_def append_visit_def
    by (simp add: getIndex_inv Let_def eq_commute [of "''/''"])
qed

lemma updateDirHistory_member_inv:
  assumes "dir_inv d" "om_find tty (terminal_sessions d) = Some i"
    "\<And>p. getPWD command = Inr p \<Longrightarrow> fits text_max (standardizePath p)"
  shows "dir_inv (fst (updateDirHistory_member tty command d))"
    and "fst ` set (terminal_sessions (fst (updateDirHistory_member tty command d)))
      = fst ` set (terminal_sessions d)"
proof -
  let ?d1 = "setSetting INDEX_OF_LAST_TOUCHED_DIR_KEY (to_string i) d"
  have i: "0 \<le> i" "i < int (length (entries d))" using dir_invD(6) [OF assms(1,2)] by auto
  have tty: "insert tty (fst ` set (terminal_sessions d)) = fst ` set (terminal_sessions d)"
    using om_find_SomeD [OF assms(2)] by force
  have "dir_inv (fst (updateDirHistory_member tty command d)) \<and>
    fst ` set (terminal_sessions (fst (updateDirHistory_member tty command d)))
      = fst ` set (terminal_sessions d)"
  proof (cases "getPWD command")
    case (Inl e)
    then show ?thesis using assms(1) by (simp add: updateDirHistory_member_def Let_def)
  next
    case (Inr p)
    have app: "dir_inv (append_visit tty (standardizePath p) ?d1)"
      "fst ` set (terminal_sessions (append_visit tty (standardizePath p) ?d1))
        = insert tty (fst ` set (terminal_sessions d))" if "standardizePath p \<noteq> ''/''"
      using append_visit_inv(1) [of ?d1 "standardizePath p" tty]
        append_visit_keys [of ?d1 "standardizePath p" tty] assms(1) assms(3) [OF Inr]
        std_dir_standardizePath [OF that]
      by (simp_all add: db_simps)
    have "dir_inv (setSessionPointer tty (i + 1) ?d1)" if "Suc (nat i) < length (entries d)"
      using i that assms(1) by (intro dir_inv_setSessionPointer) (auto simp: nat_less_iff)
    with app show ?thesis
      unfolding updateDirHistory_member_cases [OF assms(1,2) Inr]
      using assms(1) tty dir_invD(1) [OF assms(1)] by (auto simp: db_simps om_put_keys)
  qed
  then show "dir_inv (fst (updateDirHistory_member tty command d))"
    "fst ` set (terminal_sessions (fst (updateDirHistory_member tty command d)))
      = fst ` set (terminal_sessions d)" by auto
qed

lemma cursor_move_inv:
  assumes "dir_inv d" "om_find tty (terminal_sessions d) = Some i" "j < length (entries d)"
  shows "dir_inv (setSessionPointer tty (int j) d)"
    "fst ` set (terminal_sessions (setSessionPointer tty (int j) d)) = fst ` set (terminal_sessions d)"
  using assms dir_inv_setSessionPointer(1) [of d "int j" tty] om_find_SomeD [OF assms(2)]
  by (force simp: db_simps dir_invD(1) om_put_keys)+

definition cursor_moved :: "int \<Rightarrow> db \<Rightarrow> db \<Rightarrow> bool" where
  "cursor_moved tty d d' \<longleftrightarrow>
     d' = d \<or> (\<exists>j < length (entries d). d' = setSessionPointer tty (int j) d)"

lemma cursor_movedI: "j < length (entries d) \<Longrightarrow> cursor_moved tty d (setSessionPointer tty (int j) d)"
  by (auto simp: cursor_moved_def)

lemma cursor_moved_members:
  assumes "dir_inv d" "om_find tty (terminal_sessions d) = Some i"
  shows "cursor_moved tty d (fst (cdForward_member isdir tty d))"
    and "cursor_moved tty d (fst (cdBackward_member isdir tty d))"
    and "cursor_moved tty d (fst (openedTty_member isdir tty d))"
proof -
  have i: "nat i < length (entries d)" using dir_invD(6) [OF assms] by linarith
  then have zero: "cursor_moved tty d (setSessionPointer tty 0 d)"
    unfolding cursor_moved_def by (intro disjI2 exI [of _ 0]) auto
  have bwd: "cursor_moved tty d (setSessionPointer tty j d)"
    if "entry_search isdir (entries d) (rev [0..<nat i]) = Inr (Some j)" for j
    using entry_search_SomeD [OF that] i by (auto intro!: cursor_movedI)
  have fwd: "cursor_moved tty d (setSessionPointer tty j d)"
    if "entry_search isdir (entries d) [Suc (nat i)..<length (entries d)] = Inr (Some j)" for j
    using entry_search_SomeD [OF that] by (auto intro!: cursor_movedI)
  have stay: "cursor_moved tty d d" by (simp add: cursor_moved_def)
  show "cursor_moved tty d (fst (cdForward_member isdir tty d))"
    unfolding cdForward_member_refines [OF assms] by (simp add: stay fwd split: option.splits sum.splits)
  show "cursor_moved tty d (fst (cdBackward_member isdir tty d))"
    unfolding cdBackward_member_refines [OF assms] by (simp add: stay bwd split: option.splits sum.splits)
  show "cursor_moved tty d (fst (openedTty_member isdir tty d))"
    unfolding openedTty_member_refines [OF assms]
    by (simp add: stay zero bwd split: option.splits sum.splits bool.splits)
qed

lemma cursor_moved_inv:
  assumes "dir_inv d" "om_find tty (terminal_sessions d) = Some i" "cursor_moved tty d d'"
  shows "dir_inv d' \<and> fst ` set (terminal_sessions d') = fst ` set (terminal_sessions d)"
  using assms(3) cursor_move_inv [OF assms(1,2)] assms(1) unfolding cursor_moved_def by metis

subsection \<open>Every entry point preserves the invariant\<close>

lemma with_tty_inv:
  assumes "\<And>s tty. stoi s = Inr tty \<Longrightarrow> ts_inv (fst (body s tty ts))" "ts_inv ts"
  shows "ts_inv (fst (with_tty command body ts))"
  using assms by (auto simp: with_tty_def Let_def split: sum.splits)

lemma ts_inv_db:
  assumes "ts_inv ts" "dir_inv d"
    "fst ` set (terminal_sessions d) = fst ` set (terminal_sessions (ts_db ts))"
  shows "ts_inv (ts\<lparr>ts_db := d\<rparr>)"
  using assms by (simp add: ts_inv_def)

lemma ts_inv_on_instance:
  assumes "ts_inv ts"
    and "\<And>d i. dir_inv d \<Longrightarrow> om_find tty (terminal_sessions d) = Some i \<Longrightarrow>
      dir_inv (fst (h tty d)) \<and> fst ` set (terminal_sessions (fst (h tty d))) = fst ` set (terminal_sessions d)"
  shows "ts_inv (fst (on_instance isdir h tty ts))"
proof -
  obtain ts1 r where e: "ensure_instance isdir tty ts = (ts1, r)" by fastforce
  have inv: "ts_inv ts1" using ts_inv_ensure [OF assms(1), of isdir tty] e by simp
  show ?thesis
  proof (cases r)
    case (Inl x)
    with e inv show ?thesis by (simp add: on_instance_def)
  next
    case (Inr u)
    then obtain i where "om_find tty (terminal_sessions (ts_db ts1)) = Some i"
      using session_of_instance [OF inv] ensure_instance_in e by metis
    then show ?thesis
      using assms(2) [of "ts_db ts1" i] inv e Inr
      by (auto simp: on_instance_def Let_def case_prod_unfold ts_inv_def)
  qed
qed

lemma openedTty_inv: "ts_inv ts \<Longrightarrow> ts_inv (fst (openedTty isdir command ts))"
  unfolding openedTty_def
  by (rule with_tty_inv, rule ts_inv_on_instance)
     (use cursor_moved_inv cursor_moved_members(3) in \<open>auto simp: Let_def case_prod_unfold\<close>)

lemma cdForward_inv: "ts_inv ts \<Longrightarrow> ts_inv (fst (cdForward isdir command ts))"
  unfolding cdForward_def
  by (rule with_tty_inv, rule ts_inv_on_instance) (use cursor_moved_inv cursor_moved_members(1) in auto)

lemma cdBackward_inv: "ts_inv ts \<Longrightarrow> ts_inv (fst (cdBackward isdir command ts))"
  unfolding cdBackward_def
  by (rule with_tty_inv, rule ts_inv_on_instance) (use cursor_moved_inv cursor_moved_members(2) in auto)

definition pwd_fits :: "json \<Rightarrow> bool" where
  "pwd_fits command = (case getPWD command of Inl _ \<Rightarrow> True | Inr p \<Rightarrow> fits text_max (standardizePath p))"

lemma updateDirHistory_inv:
  assumes "ts_inv ts" "pwd_fits command"
  shows "ts_inv (fst (updateDirHistory isdir command ts))"
  unfolding updateDirHistory_def
proof (rule with_tty_inv, rule ts_inv_on_instance)
  fix tty d i
  assume d: "dir_inv d" "om_find tty (terminal_sessions d) = Some i"
  have "getPWD command = Inr p \<Longrightarrow> fits text_max (standardizePath p)" for p
    using assms(2) by (simp add: pwd_fits_def)
  from updateDirHistory_member_inv [OF d, of command, OF this]
  show "dir_inv (fst (updateDirHistory_member tty command d)) \<and>
    fst ` set (terminal_sessions (fst (updateDirHistory_member tty command d)))
      = fst ` set (terminal_sessions d)" by simp
qed (rule assms(1))+

lemma deleteSession_inv:
  assumes "dir_inv d"
  shows "dir_inv (deleteSession tty d)"
    "fst ` set (terminal_sessions (deleteSession tty d)) = fst ` set (terminal_sessions d) - {tty}"
proof -
  note D = dir_invD [OF assms]
  have "k \<in> fst ` set (om_erase tty (terminal_sessions d)) \<longleftrightarrow>
      k \<in> fst ` set (terminal_sessions d) - {tty}" for k
    using om_find_erase [OF D(5), of k tty] by (metis Diff_iff om_find_None_iff singleton_iff)
  then show "fst ` set (terminal_sessions (deleteSession tty d)) = fst ` set (terminal_sessions d) - {tty}"
    using D(1) by (simp add: deleteSession_def set_eq_iff)
  show "dir_inv (deleteSession tty d)"
    using assms om_erase_set [of tty "terminal_sessions d"] om_sorted_erase [OF D(5)]
    by (auto simp: dir_inv_def deleteSession_def entries_def)
qed

lemma Terminal_dtor_inv: "ts_inv ts \<Longrightarrow> ts_inv (Terminal_dtor tty ts)"
  using deleteSession_inv [of "ts_db ts" tty]
  by (auto simp: ts_inv_def Terminal_dtor_def)

lemma closedTty_inv: "ts_inv ts \<Longrightarrow> ts_inv (fst (closedTty command ts))"
proof -
  have dtor: "Terminal_dtor tty ts = ts\<lparr>instances := remove1 tty (instances ts),
      ts_db := deleteSession tty (ts_db ts)\<rparr>" for tty ts by (simp add: Terminal_dtor_def)
  show "ts_inv ts \<Longrightarrow> ts_inv (fst (closedTty command ts))"
    unfolding closedTty_def
    by (rule with_tty_inv)
       (auto simp: closedTty_member_def getInstanceByTTY_eq Let_def Terminal_dtor_inv simp flip: dtor)
qed

subsection \<open>What survives every command\<close>

text \<open>
  Two weaker invariants of the two tables that need no connection. \<open>hist_wf\<close> only speaks of the
  rows. \<open>rows_inv 0\<close> adds that the entries are numbered 0, 1, \dots, that there are at most 500, and
  that every pointer names one; \<open>rows_inv 1\<close> tolerates what a visited path longer than the \<open>TEXT\<close>
  column leaves behind: a pointer one past the last entry, and later a 501st entry.
\<close>

definition hist_wf :: "db \<Rightarrow> bool" where
  "hist_wf d \<longleftrightarrow>
     om_sorted (terminal_history d) \<and> (\<forall>(i, p) \<in> set (terminal_history d). 0 \<le> i \<and> std_dir p) \<and>
     om_sorted (terminal_sessions d) \<and> (\<forall>(t, i) \<in> set (terminal_sessions d). 0 \<le> i)"

definition rows_inv :: "nat \<Rightarrow> db \<Rightarrow> bool" where
  "rows_inv b d \<longleftrightarrow>
     hist_wf d \<and> terminal_history d = number_from 0 (entries d) \<and> length (entries d) \<le> 500 + b \<and>
     (\<forall>(t, i) \<in> set (terminal_sessions d). i < int (length (entries d)) + int b \<and> i < 500 + int b)"

lemma no_connection:
  assumes "\<not> db_conn d"
  shows "upsertHistory i p d = d" "setSessionPointer t i d = d" "deleteSession t d = d"
    "setSetting k v d = d" "pruneHistory m d = d"
  using assms by (simp_all add: upsertHistory_def setSessionPointer_def deleteSession_def
      setSetting_def pruneHistory_def)

lemma hist_wf_history: "hist_wf d \<Longrightarrow> getHistory i d \<noteq> [] \<Longrightarrow> 0 \<le> i \<and> std_dir (getHistory i d)"
  by (auto simp: hist_wf_def getHistory_def dest!: om_find_SomeD split: option.splits if_splits)

lemma hist_wf_pointer: "hist_wf d \<Longrightarrow> om_find t (terminal_sessions d) = Some i \<Longrightarrow> 0 \<le> i"
  by (auto simp: hist_wf_def dest!: om_find_SomeD)

lemma hist_wf_max: assumes "hist_wf d" shows "- 1 \<le> getMaxHistoryIndex d"
proof (cases "terminal_history d = []")
  case False
  obtain i p where "last (terminal_history d) = (i, p)" by fastforce
  with last_in_set [OF False] assms show ?thesis by (auto simp: hist_wf_def getMaxHistoryIndex_def)
qed (simp add: getMaxHistoryIndex_def)

lemma hist_wf_upsert: "hist_wf d \<Longrightarrow> 0 \<le> i \<Longrightarrow> std_dir p \<Longrightarrow> hist_wf (upsertHistory i p d)"
  using om_put_set [of i p "terminal_history d"]
  by (auto simp: hist_wf_def upsertHistory_def om_sorted_put)

lemma hist_wf_point: "hist_wf d \<Longrightarrow> 0 \<le> i \<Longrightarrow> hist_wf (setSessionPointer t i d)"
  using om_put_set [of t i "terminal_sessions d"]
  by (auto simp: hist_wf_def setSessionPointer_def om_sorted_put)

lemma hist_wf_delete: "hist_wf d \<Longrightarrow> hist_wf (deleteSession t d)"
  using om_erase_set [of t "terminal_sessions d"]
  by (auto simp: hist_wf_def deleteSession_def om_sorted_erase)

lemma hist_wf_setSetting [simp]: "hist_wf (setSetting k v d) = hist_wf d"
  by (simp add: hist_wf_def db_simps)

lemma om_sorted_filter: "om_sorted m \<Longrightarrow> om_sorted (filter P m)"
  by (induction m) (auto simp: om_sorted_Cons)

lemma om_sorted_shift: "om_sorted m \<Longrightarrow> om_sorted (map (\<lambda>(i :: int, p). (i - n, p)) m)"
  by (induction m) (force simp: om_sorted_Cons)+

lemma min_entry_index_le:
  assumes "om_sorted h" "(i, p) \<in> set h" shows "min_entry_index h \<le> i"
proof (cases h)
  case (Cons a h')
  obtain k q where "a = (k, q)" by fastforce
  with Cons assms show ?thesis by (force simp: min_entry_index_def om_sorted_Cons)
qed (use assms in simp)

lemma hist_wf_prune:
  assumes "hist_wf d" shows "hist_wf (pruneHistory m d)"
proof -
  let ?c = "min_entry_index (terminal_history d) + (int (length (terminal_history d)) - m)"
  let ?h = "filter (\<lambda>(i, p). \<not> i < ?c) (terminal_history d)"
  have h: "om_sorted ?h" using assms by (simp add: hist_wf_def om_sorted_filter)
  have "(i, p) \<in> set ?h \<Longrightarrow> min_entry_index ?h \<le> i" for i p
    using min_entry_index_le [OF h] by blast
  then have "\<forall>(i, p) \<in> set (map (\<lambda>(i, p). (i - min_entry_index ?h, p)) ?h). 0 \<le> i \<and> std_dir p"
    using assms by (force simp: hist_wf_def)
  then have shifted: "hist_wf (d\<lparr>terminal_history := map (\<lambda>(i, p). (i - min_entry_index ?h, p)) ?h,
      terminal_sessions := map (\<lambda>(t, i). (t, max 0 (i - min_entry_index ?h))) (terminal_sessions d)\<rparr>)"
    using assms om_sorted_shift [OF h] by (auto simp: hist_wf_def om_sorted_map_values)
  moreover have "hist_wf (rebase_last_touched n e) = hist_wf e" for n e
    by (simp add: hist_wf_def db_simps)
  moreover have "hist_wf (d\<lparr>terminal_history := ?h\<rparr>)"
    using assms h by (auto simp: hist_wf_def)
  ultimately show ?thesis using assms by (simp add: pruneHistory_def Let_def)
qed

lemma getIndex_nonneg [simp]: "0 \<le> getIndex t d"
  by (simp add: getIndex_def Let_def)

lemma after_getIndex: "getIndex t d + 1 \<le> i \<Longrightarrow> 0 \<le> i"
  using getIndex_nonneg [of t d] by linarith

lemmas hist_wf_intros = hist_wf_upsert hist_wf_point hist_wf_delete hist_wf_prune

lemma hist_wf_ctor_settle:
  assumes "hist_wf d" "ctor_settle isdir d = (d2, r)"
  shows "hist_wf d2 \<and> (\<forall>s. r = Inr s \<longrightarrow> 0 \<le> s)"
  using assms hist_wf_upsert [OF assms(1), of 0 DIR_HISTORY_DEFAULT_DIR]
  by (auto simp: ctor_settle_def Let_def dest: try_scan_down_SomeD intro!: hist_wf_upsert
      split: if_splits option.splits sum.splits)

lemma usable_True_iff: "usable_dir isdir p = Inr True \<longleftrightarrow> p \<noteq> [] \<and> p \<noteq> ''/'' \<and> isdir p = Inr True"
  by (simp add: usable_dir_def)

text \<open>What \<open>openedTty\<close> can do to the tables: register the terminal when it has no pointer, then move
  the pointer to a directory that exists, reset it, or store the default directory.\<close>

definition opened_start :: "int \<Rightarrow> db \<Rightarrow> int \<times> db" where
  "opened_start tty d =
     (if getSessionPointer tty d < 0
      then (0, upsertHistory 0 (standardizePath DIR_HISTORY_DEFAULT_DIR) (setSessionPointer tty 0 d))
      else (getSessionPointer tty d, d))"

lemma openedTty_member_cases:
  assumes "opened_start tty d = (index, d1)"
  shows "fst (openedTty_member isdir tty d) = d1 \<or>
    (\<exists>i\<ge>0. usable_dir isdir (standardizePath (getHistory i d1)) = Inr True \<and>
       fst (openedTty_member isdir tty d) = setSessionPointer tty i d1) \<or>
    standardizePath (getHistory index d1) \<noteq> ''/'' \<and>
      fst (openedTty_member isdir tty d) = setSessionPointer tty 0 d1 \<or>
    standardizePath (getHistory index d1) = ''/'' \<and>
      fst (openedTty_member isdir tty d) = upsertHistory index DIR_HISTORY_DEFAULT_DIR d1"
proof -
  let ?dir = "standardizePath (getHistory index d1)"
  let ?scan = "try_scan_down (\<lambda>i. usable_dir isdir (standardizePath (getHistory i d1))) (index - 1)"
  have start: "(if getSessionPointer tty d < 0
      then (0, upsertHistory 0 (standardizePath DIR_HISTORY_DEFAULT_DIR) (setSessionPointer tty 0 d))
      else (getSessionPointer tty d, d)) = (index, d1)"
    using assms by (simp add: opened_start_def)
  note member = openedTty_member_def [of isdir tty d, unfolded Let_def start prod.case]
  show ?thesis
  proof (cases "?dir = ''/''")
    case True
    then show ?thesis unfolding member by simp
  next
    case dir: False
    show ?thesis
    proof (cases "isdir ?dir = Inr False")
      case no: True
      show ?thesis
      proof (cases "\<exists>i. ?scan = Inr (Some i)")
        case True
        then obtain i where i: "?scan = Inr (Some i)" by blast
        then have "0 \<le> i" "usable_dir isdir (standardizePath (getHistory i d1)) = Inr True"
          using try_scan_down_SomeD by blast+
        then show ?thesis unfolding member using dir no i by (auto simp: usable_True_iff)
      next
        case False
        then show ?thesis unfolding member using dir no by (auto split: sum.splits option.splits)
      qed
    next
      case False
      then show ?thesis unfolding member using dir by (simp split: sum.splits)
    qed
  qed
qed

lemma hist_wf_opened_start:
  "hist_wf d \<Longrightarrow> opened_start tty d = (index, d1) \<Longrightarrow> hist_wf d1 \<and> 0 \<le> index"
  by (auto simp: opened_start_def intro!: hist_wf_intros split: if_splits)

lemma hist_wf_openedTty_member:
  assumes "hist_wf d" shows "hist_wf (fst (openedTty_member isdir tty d))"
proof -
  obtain index d1 where st: "opened_start tty d = (index, d1)" by fastforce
  have "hist_wf d1" "0 \<le> index" using hist_wf_opened_start [OF assms st] by auto
  with openedTty_member_cases [OF st, of isdir] show ?thesis by (auto intro!: hist_wf_intros)
qed

lemma hist_wf_cd_members:
  "hist_wf d \<Longrightarrow> hist_wf (fst (cdForward_member isdir tty d))"
  "hist_wf d \<Longrightarrow> hist_wf (fst (cdBackward_member isdir tty d))"
  by (auto simp: cdForward_member_def cdBackward_member_def Let_def
      dest!: try_scan_down_SomeD try_scan_up_SomeD dest: after_getIndex
      intro!: hist_wf_intros split: option.splits sum.splits)

lemma hist_wf_update_member: "hist_wf d \<Longrightarrow> hist_wf (fst (updateDirHistory_member tty command d))"
  using hist_wf_max [of "setSetting INDEX_OF_LAST_TOUCHED_DIR_KEY (to_string (getIndex tty d)) d"]
  by (auto simp: updateDirHistory_member_def Let_def std_dir_standardizePath
      intro!: hist_wf_intros split: sum.splits)

subsection \<open>Numbered rows\<close>

lemma rows_invD:
  assumes "rows_inv b d"
  shows "hist_wf d" "terminal_history d = number_from 0 (entries d)" "length (entries d) \<le> 500 + b"
    "\<And>t i. om_find t (terminal_sessions d) = Some i \<Longrightarrow>
       0 \<le> i \<and> i < int (length (entries d)) + int b \<and> i < 500 + int b"
    "\<And>p. p \<in> set (entries d) \<Longrightarrow> std_dir p"
proof -
  show wf: "hist_wf d" and "terminal_history d = number_from 0 (entries d)" "length (entries d) \<le> 500 + b"
    using assms by (simp_all add: rows_inv_def)
  show "0 \<le> i \<and> i < int (length (entries d)) + int b \<and> i < 500 + int b"
    if "om_find t (terminal_sessions d) = Some i" for t i
    using hist_wf_pointer [OF wf that] om_find_SomeD [OF that] assms by (auto simp: rows_inv_def)
  show "std_dir p" if "p \<in> set (entries d)" for p
    using that wf by (auto simp: hist_wf_def entries_def)
qed

lemma rows_lookup:
  assumes "rows_inv b d" "db_conn d"
  shows "standardizePath (getHistory i d)
      = (if 0 \<le> i \<and> i < int (length (entries d)) then entries d ! nat i else ''/'')"
    and "getMaxHistoryIndex d = int (length (entries d)) - 1"
    and "usable_dir isdir (standardizePath (getHistory i d)) = Inr True \<Longrightarrow>
      0 \<le> i \<and> i < int (length (entries d))"
    and "usable_dir isdir (getHistory i d) = Inr True \<Longrightarrow> 0 \<le> i \<and> i < int (length (entries d))"
proof -
  note R = rows_invD [OF assms(1)]
  have h: "getHistory i d = (if 0 \<le> i \<and> i < int (length (entries d)) then entries d ! nat i else [])"
    using R(2) assms(2) by (simp add: getHistory_def om_find_number_from)
  show p: "standardizePath (getHistory i d)
      = (if 0 \<le> i \<and> i < int (length (entries d)) then entries d ! nat i else ''/'')"
    using R(5) [of "entries d ! nat i"] by (auto simp: h standardizePath_std standardizePath_def [of "[]"])
  show "getMaxHistoryIndex d = int (length (entries d)) - 1"
    using R(2) assms(2) fst_last_number_from [of "entries d" 0]
    by (cases "entries d = []") (simp_all add: getMaxHistoryIndex_def)
  show "usable_dir isdir (standardizePath (getHistory i d)) = Inr True \<Longrightarrow>
      0 \<le> i \<and> i < int (length (entries d))"
    by (auto simp: p usable_True_iff split: if_splits)
  show "usable_dir isdir (getHistory i d) = Inr True \<Longrightarrow> 0 \<le> i \<and> i < int (length (entries d))"
    by (auto simp: h usable_True_iff split: if_splits)
qed

lemma rows_setSetting [simp]:
  "rows_inv b (setSetting k v d) = rows_inv b d" "db_conn (setSetting k v d) = db_conn d"
  by (simp_all add: rows_inv_def entries_def db_simps)

lemma entries_setSessionPointer [simp]: "entries (setSessionPointer t i d) = entries d"
  by (simp add: setSessionPointer_def entries_def)

lemma rows_point:
  assumes "rows_inv b d" "0 \<le> i" "i < int (length (entries d)) + int b" "i < 500 + int b"
  shows "rows_inv b (setSessionPointer t i d)"
proof (cases "db_conn d")
  case True
  then show ?thesis
    using assms hist_wf_point [of d i t] om_put_set [of t i "terminal_sessions d"]
    by (auto simp: rows_inv_def db_simps)
qed (simp add: no_connection assms)

lemma rows_upsert:
  assumes "rows_inv b d" "std_dir p" "fits text_max p" "0 \<le> i" "i \<le> int (length (entries d))"
    "i < 500 + int b" "db_conn d"
  shows "rows_inv b (upsertHistory i p d)" "entries (upsertHistory i p d) = put_entry (nat i) p (entries d)"
proof -
  note R = rows_invD [OF assms(1)]
  have h: "terminal_history (upsertHistory i p d) = number_from 0 (put_entry (nat i) p (entries d))"
  proof (cases "i = int (length (entries d))")
    case True
    with assms R(2) show ?thesis
      by (simp add: db_simps put_entry_def om_put_number_from_end)
  next
    case False
    with assms R(2) show ?thesis
      by (simp add: db_simps put_entry_def om_put_number_from_in nat_less_iff)
  qed
  then show e: "entries (upsertHistory i p d) = put_entry (nat i) p (entries d)"
    by (simp add: entries_def)
  have len: "length (entries d) \<le> length (put_entry (nat i) p (entries d))"
    "length (put_entry (nat i) p (entries d)) \<le> 500 + b"
    using assms(4-6) R(3) by (auto simp: put_entry_def)
  have "\<forall>(t, j) \<in> set (terminal_sessions d). j < int (length (entries d)) + int b \<and> j < 500 + int b"
    using assms(1) by (simp add: rows_inv_def)
  then have "\<forall>(t, j) \<in> set (terminal_sessions (upsertHistory i p d)).
      j < int (length (put_entry (nat i) p (entries d))) + int b \<and> j < 500 + int b"
    using len(1) by (force simp: db_simps)
  with hist_wf_upsert [OF R(1) assms(4,2)] h e len show "rows_inv b (upsertHistory i p d)"
    by (simp add: rows_inv_def)
qed

lemma rows_ctor_settle:
  assumes "rows_inv b d" "db_conn d" "ctor_settle isdir d = (d2, r)"
  shows "rows_inv b d2 \<and> (\<forall>s. r = Inr s \<longrightarrow> 0 \<le> s \<and> s < int (length (entries d2)))"
proof -
  let ?dflt = "standardizePath DIR_HISTORY_DEFAULT_DIR" and ?s1 = "ctor_start_index d"
  obtain s2 d1 where st: "(if ?s1 < 0 then (0, upsertHistory 0 ?dflt d) else (?s1, d)) = (s2, d1)"
    by fastforce
  have d1: "rows_inv b d1" "db_conn d1"
    using st assms(1,2) rows_upsert(1) [OF assms(1), of DIR_HISTORY_DEFAULT_DIR 0]
    by (auto simp: db_simps split: if_splits)
  note settle = assms(3) [unfolded ctor_settle_def Let_def st prod.case]
  show ?thesis
  proof (cases "try_scan_down (\<lambda>i. usable_dir isdir (getHistory i d1)) s2")
    case (Inl w)
    with settle d1 show ?thesis by auto
  next
    case (Inr hit)
    show ?thesis
    proof (cases hit)
      case (Some i)
      with Inr have "usable_dir isdir (getHistory i d1) = Inr True" using try_scan_down_SomeD by blast
      with rows_lookup(4) [OF d1] settle Inr Some d1(1) show ?thesis by auto
    next
      case None
      let ?s = "if getMaxHistoryIndex d1 < 0 then 0 else getMaxHistoryIndex d1"
      have s: "0 \<le> ?s" "?s \<le> int (length (entries d1))" "?s < 500 + int b"
        using rows_lookup(2) [OF d1] rows_invD(3) [OF d1(1)] by auto
      note up = rows_upsert [OF d1(1) _ _ s d1(2), of DIR_HISTORY_DEFAULT_DIR]
      have "d2 = upsertHistory ?s DIR_HISTORY_DEFAULT_DIR d1" "r = Inr ?s"
        using settle Inr None by auto
      moreover have "?s < int (length (put_entry (nat ?s) DIR_HISTORY_DEFAULT_DIR (entries d1)))"
        using s(1,2) unfolding put_entry_def by (split if_split) (auto simp: nat_less_iff)
      ultimately show ?thesis using up s(1) by auto
    qed
  qed
qed

lemma rows_openedTty_member:
  assumes "rows_inv b d" "db_conn d" "b \<le> 1"
  shows "rows_inv b (fst (openedTty_member isdir tty d))"
proof -
  obtain index d1 where st: "opened_start tty d = (index, d1)" by fastforce
  have d1: "rows_inv b d1 \<and> db_conn d1 \<and> 0 \<le> index \<and> index < int (length (entries d1)) + int b \<and>
      index < 500 + int b"
  proof (cases "getSessionPointer tty d < 0")
    case True
    let ?e = "upsertHistory 0 DIR_HISTORY_DEFAULT_DIR d"
    have e: "rows_inv b ?e" "0 < length (entries ?e)"
      using rows_upsert [OF assms(1), of DIR_HISTORY_DEFAULT_DIR 0] assms(2) by (auto simp: put_entry_def)
    have "d1 = setSessionPointer tty 0 ?e" "index = 0"
      using st True by (auto simp: opened_start_def setSessionPointer_def upsertHistory_def)
    then show ?thesis
      using rows_point [OF e(1), of 0 tty] e(2) assms(2)
      by (auto simp: db_simps intro: add_pos_nonneg)
  next
    case False
    with st assms rows_invD(4) [OF assms(1), of tty] show ?thesis
      by (auto simp: opened_start_def getSessionPointer_def split: option.splits)
  qed
  have rows: "rows_inv b d1" and conn: "db_conn d1" using d1 by auto
  have range: "0 \<le> i \<and> i < int (length (entries d1))"
    if "usable_dir isdir (standardizePath (getHistory i d1)) = Inr True \<or>
      standardizePath (getHistory i d1) \<noteq> ''/''" for i
    using that rows_lookup(1,3) [OF rows conn] by (metis usable_True_iff)
  have point: "rows_inv b (setSessionPointer tty i d1)" if "0 \<le> i" "i < int (length (entries d1))" for i
    using that rows_point [OF rows] rows_invD(3) [OF rows] by simp
  have zero: "rows_inv b (setSessionPointer tty 0 d1)" if "standardizePath (getHistory index d1) \<noteq> ''/''"
    using range [of index] that by (intro point) auto
  have put: "rows_inv b (upsertHistory index DIR_HISTORY_DEFAULT_DIR d1)"
    if "standardizePath (getHistory index d1) = ''/''"
  proof -
    have "\<not> index < int (length (entries d1))"
    proof
      assume "index < int (length (entries d1))"
      then have "nat index < length (entries d1)" "entries d1 ! nat index = ''/''"
        using that d1 rows_lookup(1) [OF rows conn, of index] by auto
      then show False using rows_invD(5) [OF rows nth_mem] by (force simp: std_dir_def)
    qed
    with d1 assms(3) show ?thesis by (intro rows_upsert(1)) auto
  qed
  from openedTty_member_cases [OF st, of isdir] show ?thesis
    using rows point range zero put by metis
qed

lemma rows_prune:
  assumes "hist_wf d" "db_conn d" "terminal_history d = number_from 0 ps"
    and "\<forall>(t, i) \<in> set (terminal_sessions d). i < int (length ps) + int b" "b \<le> 1"
  shows "rows_inv b (pruneHistory MAX_DIR_HISTORY_SIZE d)"
proof (cases "length ps \<le> 500")
  case True
  have "entries d = ps" using assms(3) by (simp add: entries_def)
  moreover have "i < 500 + int b" if "(t, i) \<in> set (terminal_sessions d)" for t i
    using that assms(4) True by force
  ultimately show ?thesis
    using True assms by (auto simp: pruneHistory_small MAX_DIR_HISTORY_SIZE_def rows_inv_def)
next
  case False
  then obtain k where k: "length ps = 500 + k" "0 < k"
    by (metis add_diff_inverse_nat le_add_diff_inverse nat_le_linear not_gr_zero add_0_right le_refl)
  let ?d = "d\<lparr>terminal_history := number_from 0 (drop k ps),
       terminal_sessions := map (\<lambda>(t, i). (t, max 0 (i - int k))) (terminal_sessions d)\<rparr>"
  have p: "pruneHistory MAX_DIR_HISTORY_SIZE d = rebase_last_touched (int k) ?d"
    using pruneHistory_big [OF assms(2,3), of 500] k by (simp add: MAX_DIR_HISTORY_SIZE_def)
  have e: "entries (rebase_last_touched (int k) ?d) = drop k ps"
    by (simp add: entries_def db_simps)
  have "max 0 (i - int k) < 500 + int b" if "(t, i) \<in> set (terminal_sessions d)" for t i
    using that assms(4) k by force
  then show ?thesis
    using hist_wf_prune [OF assms(1), of MAX_DIR_HISTORY_SIZE] k
    unfolding rows_inv_def p e by (auto simp: db_simps)
qed

lemma rows_append:
  assumes "rows_inv b d" "db_conn d" "b \<le> 1" "std_dir pwd" "fits text_max pwd \<or> b = 1"
  shows "rows_inv b (append_visit tty pwd d)"
proof -
  note R = rows_invD [OF assms(1)]
  let ?n = "int (length (entries d))"
  let ?ps = "if fits text_max pwd then entries d @ [pwd] else entries d"
  let ?d = "setSetting INDEX_OF_LAST_TOUCHED_DIR_KEY (to_string ?n)
     (setSessionPointer tty ?n (upsertHistory ?n pwd d))"
  have v: "append_visit tty pwd d = pruneHistory MAX_DIR_HISTORY_SIZE ?d"
    by (simp add: append_visit_def Let_def rows_lookup(2) [OF assms(1,2)])
  have up: "terminal_history (upsertHistory ?n pwd d) = number_from 0 ?ps"
    "terminal_sessions (upsertHistory ?n pwd d) = terminal_sessions d" "db_conn (upsertHistory ?n pwd d)"
    using assms(2) R(2) om_put_number_from_end [of ?n 0 "entries d" pwd]
    by (auto simp: upsertHistory_def)
  have "hist_wf ?d" using R(1) assms(4) by (simp add: hist_wf_intros)
  moreover have "db_conn ?d" "terminal_history ?d = number_from 0 ?ps"
    "terminal_sessions ?d = om_put tty ?n (terminal_sessions d)"
    using up by (simp_all add: db_simps)
  moreover have "\<forall>(t, i) \<in> set (om_put tty ?n (terminal_sessions d)). i < int (length ?ps) + int b"
  proof (clarify)
    fix t i assume "(t, i) \<in> set (om_put tty ?n (terminal_sessions d))"
    then have "i = ?n \<or> (t, i) \<in> set (terminal_sessions d)" using om_put_set by fastforce
    then have "i \<le> ?n \<and> (b = 1 \<or> i < ?n \<or> i = ?n)" "i < ?n + int b \<or> i = ?n"
      using assms(1,3) by (auto simp: rows_inv_def)
    then show "i < int (length ?ps) + int b" using assms(5) by auto
  qed
  ultimately show ?thesis unfolding v by (intro rows_prune [OF _ _ _ _ assms(3)]) simp_all
qed

lemma rows_update_member:
  assumes "rows_inv b d" "db_conn d" "b \<le> 1"
    and "\<And>p. getPWD command = Inr p \<Longrightarrow> fits text_max (standardizePath p) \<or> b = 1"
  shows "rows_inv b (fst (updateDirHistory_member tty command d))"
proof (cases "getPWD command")
  case (Inl e)
  then show ?thesis using assms(1) by (simp add: updateDirHistory_member_def Let_def)
next
  case (Inr p)
  let ?i = "getIndex tty d" and ?pwd = "standardizePath p"
  let ?d1 = "setSetting INDEX_OF_LAST_TOUCHED_DIR_KEY (to_string ?i) d"
  have u: "fst (updateDirHistory_member tty command d) =
    (if ?pwd = ''/'' then ?d1
     else if standardizePath (getHistory ?i d) = ?pwd then ?d1
     else if standardizePath (getHistory (?i + 1) d) = ?pwd then setSessionPointer tty (?i + 1) ?d1
     else append_visit tty ?pwd ?d1)"
    by (simp add: updateDirHistory_member_def append_visit_def Inr Let_def)
  have d1: "rows_inv b ?d1" "db_conn ?d1" "entries ?d1 = entries d"
    using assms(1,2) by (simp_all add: entries_def db_simps)
  have "rows_inv b (setSessionPointer tty (?i + 1) ?d1)"
    if "standardizePath (getHistory (?i + 1) d) = ?pwd" "?pwd \<noteq> ''/''"
    using that rows_lookup(1) [OF assms(1,2), of "?i + 1"] rows_invD(3) [OF assms(1)]
      getIndex_nonneg [of tty d]
    by (intro rows_point d1(1)) (auto simp: d1(3) split: if_splits simp del: getIndex_nonneg)
  moreover have "rows_inv b (append_visit tty ?pwd ?d1)" if "?pwd \<noteq> ''/''"
    using that d1(1,2) assms(3) assms(4) [OF Inr] std_dir_standardizePath by (intro rows_append) auto
  ultimately show ?thesis using d1(1) by (simp add: u)
qed

lemma rows_cd_members:
  assumes "rows_inv b d" "db_conn d"
  shows "rows_inv b (fst (cdForward_member isdir tty d))" "rows_inv b (fst (cdBackward_member isdir tty d))"
proof -
  have point: "rows_inv b (setSessionPointer tty i d)"
    if "usable_dir isdir (standardizePath (getHistory i d)) = Inr True" for i
    using rows_lookup(3) [OF assms that] rows_invD(3) [OF assms(1)] by (intro rows_point assms(1)) auto
  show "rows_inv b (fst (cdForward_member isdir tty d))" "rows_inv b (fst (cdBackward_member isdir tty d))"
    using assms(1)
    by (auto simp: cdForward_member_def cdBackward_member_def Let_def intro!: point
        dest!: try_scan_down_SomeD try_scan_up_SomeD split: option.splits sum.splits)
qed

lemma rows_delete:
  assumes "rows_inv b d" shows "rows_inv b (deleteSession t d)"
  using assms hist_wf_delete [of d t] om_erase_set [of t "terminal_sessions d"]
  by (auto simp: rows_inv_def deleteSession_def entries_def)

text \<open>Without a connection nothing changes.\<close>

lemma no_connection_members:
  assumes "\<not> db_conn d"
  shows "fst (openedTty_member isdir tty d) = d" "fst (updateDirHistory_member tty command d) = d"
    "fst (cdForward_member isdir tty d) = d" "fst (cdBackward_member isdir tty d) = d"
    "ctor_settle isdir d = (d2, r) \<Longrightarrow> d2 = d"
proof -
  obtain index d1 where st: "opened_start tty d = (index, d1)" by fastforce
  then have "d1 = d" using assms by (auto simp: opened_start_def no_connection split: if_splits)
  then show "fst (openedTty_member isdir tty d) = d"
    using openedTty_member_cases [OF st, of isdir] assms by (auto simp: no_connection)
  show "ctor_settle isdir d = (d2, r) \<Longrightarrow> d2 = d"
    using assms by (auto simp: ctor_settle_def no_connection Let_def split: if_splits sum.splits option.splits)
qed (use assms in \<open>auto simp: no_connection updateDirHistory_member_def cdForward_member_def
      cdBackward_member_def Let_def split: sum.splits option.splits\<close>)

lemma db_conn_ctor_settle: "ctor_settle isdir d = (d2, r) \<Longrightarrow> db_conn d2 = db_conn d"
  by (auto simp: ctor_settle_def upsertHistory_def Let_def split: if_splits sum.splits option.splits)

lemma on_instance_pred:
  assumes "P (ts_db ts)"
    and "\<And>d2 r s. ctor_settle isdir (ts_db ts) = (d2, r) \<Longrightarrow>
      P d2 \<and> (r = Inr s \<longrightarrow> P (setSessionPointer tty s d2))"
    and "\<And>d. P d \<Longrightarrow> P (fst (h tty d))"
  shows "P (ts_db (fst (on_instance isdir h tty ts)))"
proof -
  obtain d2 r where c: "ctor_settle isdir (ts_db ts) = (d2, r)" by fastforce
  then show ?thesis
    using assms(1,3) assms(2) [OF c]
    by (cases r) (auto simp: on_instance_def ensure_instance_eq Terminal_ctor_settle Let_def case_prod_unfold)
qed

lemma hist_wf_on_instance:
  assumes "hist_wf (ts_db ts)" "\<And>d. hist_wf d \<Longrightarrow> hist_wf (fst (h tty d))"
  shows "hist_wf (ts_db (fst (on_instance isdir h tty ts)))"
  by (rule on_instance_pred) (use assms hist_wf_ctor_settle hist_wf_point in blast)+

lemma rows_on_instance:
  assumes "rows_inv b (ts_db ts)"
    "\<And>d. rows_inv b d \<Longrightarrow> db_conn d \<Longrightarrow> rows_inv b (fst (h tty d))"
    "\<And>d. \<not> db_conn d \<Longrightarrow> fst (h tty d) = d"
  shows "rows_inv b (ts_db (fst (on_instance isdir h tty ts)))"
proof (rule on_instance_pred)
  fix d2 r s
  assume c: "ctor_settle isdir (ts_db ts) = (d2, r)"
  show "rows_inv b d2 \<and> (r = Inr s \<longrightarrow> rows_inv b (setSessionPointer tty s d2))"
  proof (cases "db_conn (ts_db ts)")
    case True
    from rows_ctor_settle [OF assms(1) True c] rows_invD(3) [of b d2] show ?thesis
      by (auto intro!: rows_point)
  next
    case False
    from no_connection_members(5) [OF this c] assms(1) False show ?thesis by (simp add: no_connection)
  qed
qed (use assms in metis)+

subsection \<open>Runs\<close>

text \<open>
  What can happen to the terminals between two commands and in one: every terminal command of a
  client, each with the file system it finds; other commands, which may change every table but the
  two of the history (in particular the setting \<open>indexOfLastTouchedDir\<close>); the loss and the return of
  the database connection; a restart of the daemon, which forgets the instances and keeps the
  database.
\<close>

datatype term_event =
    OpenedTty is_dir json
  | ClosedTty json
  | UpdateDirHistory is_dir json
  | CdForward is_dir json
  | CdBackward is_dir json
  | ShowTerminalInstance json
  | ShowAllTerminalInstances
  | EmptyDirHistoryTable
  | OtherTables db
  | Connection bool
  | Restart

fun term_do :: "term_event \<Rightarrow> term_state \<Rightarrow> term_state" where
  "term_do (OpenedTty isdir command) ts = fst (openedTty isdir command ts)"
| "term_do (ClosedTty command) ts = fst (closedTty command ts)"
| "term_do (UpdateDirHistory isdir command) ts = fst (updateDirHistory isdir command ts)"
| "term_do (CdForward isdir command) ts = fst (cdForward isdir command ts)"
| "term_do (CdBackward isdir command) ts = fst (cdBackward isdir command ts)"
| "term_do (ShowTerminalInstance command) ts = fst (showTerminalInstance command ts)"
| "term_do ShowAllTerminalInstances ts = fst (showAllTerminalInstances ts)"
| "term_do EmptyDirHistoryTable ts = fst (handleEmptyDirHistoryTable ts)"
| "term_do (OtherTables d) ts = ts\<lparr>ts_db := d\<lparr>db_conn := db_conn (ts_db ts),
     terminal_history := terminal_history (ts_db ts), terminal_sessions := terminal_sessions (ts_db ts)\<rparr>\<rparr>"
| "term_do (Connection c) ts = ts\<lparr>ts_db := (ts_db ts)\<lparr>db_conn := c\<rparr>\<rparr>"
| "term_do Restart ts = ts\<lparr>instances := [], dangling := False\<rparr>"

definition tty_defined :: "json \<Rightarrow> term_state \<Rightarrow> bool" where
  "tty_defined command ts =
     (case stoi (getJsonString command ''tty'') of Inl _ \<Rightarrow> True | Inr tty \<Rightarrow> \<not> reads_freed tty ts)"

text \<open>Commands that do not read a freed terminal.\<close>

fun term_defined :: "term_event \<Rightarrow> term_state \<Rightarrow> bool" where
  "term_defined (OpenedTty isdir command) ts = tty_defined command ts"
| "term_defined (ClosedTty command) ts = tty_defined command ts"
| "term_defined (UpdateDirHistory isdir command) ts = tty_defined command ts"
| "term_defined (CdForward isdir command) ts = tty_defined command ts"
| "term_defined (CdBackward isdir command) ts = tty_defined command ts"
| "term_defined (ShowTerminalInstance command) ts = tty_defined command ts"
| "term_defined ShowAllTerminalInstances ts = (\<not> dangling ts)"
| "term_defined _ ts = True"

inductive term_run :: "term_state \<Rightarrow> term_event list \<Rightarrow> term_state \<Rightarrow> bool" for ts0 where
  run_start: "term_run ts0 [] ts0"
| run_step: "term_run ts0 es ts \<Longrightarrow> term_defined e ts \<Longrightarrow> term_run ts0 (es @ [e]) (term_do e ts)"

definition fresh_terminals :: "term_state \<Rightarrow> bool" where
  "fresh_terminals ts \<longleftrightarrow>
     db_conn (ts_db ts) \<and> terminal_history (ts_db ts) = [] \<and> terminal_sessions (ts_db ts) = [] \<and>
     instances ts = [] \<and> \<not> dangling ts"

fun short_visit :: "term_event \<Rightarrow> bool" where
  "short_visit (UpdateDirHistory isdir command) = pwd_fits command"
| "short_visit e = True"

lemma with_tty_pred:
  assumes "P ts" "\<And>s tty. P (fst (body s tty ts))"
  shows "P (fst (with_tty command body ts))"
  using assms by (auto simp: with_tty_def Let_def split: sum.splits)

lemma closedTty_cases:
  "fst (closedTty command ts) = ts \<or>
   (\<exists>tty. fst (closedTty command ts) = Terminal_dtor tty (Terminal_dtor tty ts))"
  unfolding closedTty_def
  by (rule with_tty_pred [where P = "\<lambda>x. x = ts \<or> (\<exists>tty. x = Terminal_dtor tty (Terminal_dtor tty ts))"])
     (auto simp: closedTty_member_def getInstanceByTTY_eq Terminal_dtor_def Let_def)

lemma show_commands_frame [simp]:
  "fst (showTerminalInstance command ts) = ts" "fst (showAllTerminalInstances ts) = ts"
  unfolding showTerminalInstance_def showAllTerminalInstances_def
  by (rule with_tty_pred [where P = "\<lambda>x. x = ts"]) (auto simp: getInstanceByTTY_eq)

lemmas entry_point_defs = openedTty_def updateDirHistory_def cdForward_def cdBackward_def

lemma hist_wf_entry_points:
  assumes "hist_wf (ts_db ts)"
  shows "hist_wf (ts_db (fst (openedTty isdir command ts)))"
    "hist_wf (ts_db (fst (updateDirHistory isdir command ts)))"
    "hist_wf (ts_db (fst (cdForward isdir command ts)))"
    "hist_wf (ts_db (fst (cdBackward isdir command ts)))"
  unfolding entry_point_defs
  by (rule with_tty_pred [where P = "\<lambda>ts. hist_wf (ts_db ts)"], rule assms, rule hist_wf_on_instance,
      rule assms, simp add: Let_def case_prod_unfold hist_wf_openedTty_member hist_wf_cd_members hist_wf_update_member)+

lemma hist_wf_do:
  assumes "hist_wf (ts_db ts)" shows "hist_wf (ts_db (term_do e ts))"
proof (cases e)
  case (ClosedTty command)
  with closedTty_cases [of command ts] show ?thesis
    using assms by (auto simp: Terminal_dtor_def hist_wf_delete)
next
  case EmptyDirHistoryTable
  then show ?thesis
    using assms by (simp add: handleEmptyDirHistoryTable_def emptyTable_terminal_history_def hist_wf_def)
next
  case (OtherTables d)
  then show ?thesis using assms by (simp add: hist_wf_def)
next
  case (Connection c)
  then show ?thesis using assms by (simp add: hist_wf_def)
qed (use assms in \<open>simp_all add: hist_wf_entry_points\<close>)

lemma rows_entry_points:
  assumes "rows_inv b (ts_db ts)" "b \<le> 1"
  shows "rows_inv b (ts_db (fst (openedTty isdir command ts)))"
    "pwd_fits command \<or> b = 1 \<Longrightarrow> rows_inv b (ts_db (fst (updateDirHistory isdir command ts)))"
    "rows_inv b (ts_db (fst (cdForward isdir command ts)))"
    "rows_inv b (ts_db (fst (cdBackward isdir command ts)))"
  unfolding entry_point_defs
proof -
  note rule = with_tty_pred [where P = "\<lambda>ts. rows_inv b (ts_db ts)", OF assms(1)]
  show "rows_inv b (ts_db (fst (with_tty command (\<lambda>ttyStr. on_instance isdir
     (\<lambda>tty d. let (d1, r) = openedTty_member isdir tty d in (d1, Inr r))) ts)))"
    by (rule rule, rule rows_on_instance [OF assms(1)])
       (use assms(2) rows_openedTty_member in \<open>simp_all add: Let_def case_prod_unfold no_connection_members\<close>)
  show "rows_inv b (ts_db (fst (with_tty command (\<lambda>ttyStr. on_instance isdir (cdForward_member isdir)) ts)))"
    "rows_inv b (ts_db (fst (with_tty command (\<lambda>ttyStr. on_instance isdir (cdBackward_member isdir)) ts)))"
    by (rule rule, rule rows_on_instance [OF assms(1)], simp_all add: rows_cd_members no_connection_members)+
  assume fit: "pwd_fits command \<or> b = 1"
  show "rows_inv b (ts_db (fst (with_tty command (\<lambda>ttyStr. on_instance isdir
     (\<lambda>tty. updateDirHistory_member tty command)) ts)))"
  proof (rule rule, rule rows_on_instance [OF assms(1)])
    fix tty d assume d: "rows_inv b d" "db_conn d"
    show "rows_inv b (fst (updateDirHistory_member tty command d))"
      using fit by (intro rows_update_member [OF d assms(2)]) (auto simp: pwd_fits_def)
  qed (simp add: no_connection_members)
qed

lemma rows_do:
  assumes "rows_inv b (ts_db ts)" "b \<le> 1" "e \<noteq> EmptyDirHistoryTable" "short_visit e \<or> b = 1"
  shows "rows_inv b (ts_db (term_do e ts))"
proof (cases e)
  case (ClosedTty command)
  with closedTty_cases [of command ts] show ?thesis
    using assms by (auto simp: Terminal_dtor_def rows_delete)
next
  case (OtherTables d)
  then show ?thesis using assms by (simp add: rows_inv_def hist_wf_def entries_def)
next
  case (Connection c)
  then show ?thesis using assms by (simp add: rows_inv_def hist_wf_def entries_def)
qed (use assms in \<open>simp_all add: rows_entry_points\<close>)

lemma distinct_on_instance:
  assumes "distinct (instances ts)"
  shows "distinct (instances (fst (on_instance isdir h tty ts)))"
proof -
  obtain d2 r where "ctor_settle isdir (ts_db ts) = (d2, r)" by fastforce
  then show ?thesis
    using assms
    by (cases r) (auto simp: on_instance_def ensure_instance_eq Terminal_ctor_settle Let_def case_prod_unfold)
qed

text \<open>A file system that always answers leaves no dangling pointer.\<close>

lemma on_instance_not_dangling:
  assumes "\<And>p w. isdir p \<noteq> Inl w" "\<not> dangling ts"
  shows "\<not> dangling (fst (on_instance isdir h tty ts))"
proof -
  obtain d2 r where c: "ctor_settle isdir (ts_db ts) = (d2, r)" by fastforce
  have "try_scan_down (\<lambda>i. usable_dir isdir (g i)) s \<noteq> Inl w" for g s w
    using assms(1) by (auto simp: try_scan_down_eq scan_stop_def usable_dir_def split: option.splits sum.splits)
  then have "r \<noteq> Inl w" for w
    using c by (auto simp: ctor_settle_def Let_def split: if_splits sum.splits option.splits)
  then show ?thesis
    using c assms(2)
    by (cases r) (auto simp: on_instance_def ensure_instance_eq Terminal_ctor_settle Let_def case_prod_unfold)
qed

lemma distinct_do:
  assumes "distinct (instances ts)" shows "distinct (instances (term_do e ts))"
proof -
  note rule = with_tty_pred [where P = "\<lambda>ts. distinct (instances ts)", OF assms]
  have points: "distinct (instances (fst (openedTty isdir command ts)))"
    "distinct (instances (fst (updateDirHistory isdir command ts)))"
    "distinct (instances (fst (cdForward isdir command ts)))"
    "distinct (instances (fst (cdBackward isdir command ts)))" for isdir command
    unfolding entry_point_defs by (rule rule, rule distinct_on_instance, rule assms)+
  show ?thesis
  proof (cases e)
    case (ClosedTty command)
    with closedTty_cases [of command ts] show ?thesis using assms by (auto simp: Terminal_dtor_def)
  qed (use assms in \<open>simp_all add: points handleEmptyDirHistoryTable_def\<close>)
qed

lemma ts_inv_do:
  assumes "ts_inv ts" "e \<noteq> EmptyDirHistoryTable" "short_visit e" "e \<noteq> Connection False"
  shows "ts_inv (term_do e ts)"
proof (cases e)
  case (OtherTables d)
  then show ?thesis using assms by (simp add: ts_inv_def dir_inv_def entries_def)
next
  case (Connection c)
  then have c using assms(4) by (cases c) simp_all
  with Connection assms(1) show ?thesis by (simp add: ts_inv_def dir_inv_def entries_def)
next
  case Restart
  then show ?thesis using assms(1) by (simp add: ts_inv_def)
qed (use assms in \<open>simp_all add: openedTty_inv closedTty_inv updateDirHistory_inv cdForward_inv
    cdBackward_inv\<close>)

lemma fresh_terminals_inv:
  "fresh_terminals ts \<Longrightarrow> ts_inv ts \<and> rows_inv b (ts_db ts)"
  by (simp add: fresh_terminals_def ts_inv_def dir_inv_def rows_inv_def hist_wf_def entries_def
      MAX_DIR_HISTORY_SIZE_def)

lemma run_hist_wf: "term_run ts0 es ts \<Longrightarrow> hist_wf (ts_db ts0) \<Longrightarrow> hist_wf (ts_db ts)"
  by (induction rule: term_run.induct) (auto intro: hist_wf_do)

lemma run_distinct: "term_run ts0 es ts \<Longrightarrow> distinct (instances ts0) \<Longrightarrow> distinct (instances ts)"
  by (induction rule: term_run.induct) (auto intro: distinct_do)

lemma run_rows:
  "term_run ts0 es ts \<Longrightarrow> rows_inv b (ts_db ts0) \<Longrightarrow> b \<le> 1 \<Longrightarrow> EmptyDirHistoryTable \<notin> set es \<Longrightarrow>
     (\<forall>e \<in> set es. short_visit e) \<or> b = 1 \<Longrightarrow> rows_inv b (ts_db ts)"
  by (induction rule: term_run.induct) (auto intro!: rows_do)

lemma run_ts_inv:
  "term_run ts0 es ts \<Longrightarrow> ts_inv ts0 \<Longrightarrow> EmptyDirHistoryTable \<notin> set es \<Longrightarrow>
     \<forall>e \<in> set es. short_visit e \<Longrightarrow> Connection False \<notin> set es \<Longrightarrow> ts_inv ts"
  by (induction rule: term_run.induct) (auto intro!: ts_inv_do)

subsection \<open>The last touched directory\<close>

lemma getSetting_last_touched:
  "db_conn d \<Longrightarrow> fits text_max v \<Longrightarrow>
     getSetting INDEX_OF_LAST_TOUCHED_DIR_KEY (setSetting INDEX_OF_LAST_TOUCHED_DIR_KEY v d) = v"
  by (simp add: settings_kv.get_put_same INDEX_OF_LAST_TOUCHED_DIR_KEY_def fits_def)

lemma getSetting_setSessionPointer [db_simps]: "getSetting k (setSessionPointer t i d) = getSetting k d"
  by (simp add: getSetting_def db_simps)

lemma getSetting_tables [db_simps]:
  "getSetting k (d\<lparr>terminal_history := h, terminal_sessions := s\<rparr>) = getSetting k d"
  by (simp add: getSetting_def)

lemma small_to_string: "0 \<le> i \<Longrightarrow> i < 1000 \<Longrightarrow> stoi (to_string i) = Inr i"
  by (simp add: stoi_to_string int_range_defs)

lemma nat_to_string_short: "n < 10 ^ k \<Longrightarrow> 0 < k \<Longrightarrow> length (nat_to_string n) \<le> k"
proof (induction k arbitrary: n)
  case (Suc k)
  show ?case
  proof (cases "n < 10")
    case True
    then show ?thesis by (simp add: nat_to_string.simps [of n])
  next
    case False
    then have "0 < k" using Suc.prems by (cases k) auto
    moreover have "n div 10 < 10 ^ k" using Suc.prems by (simp add: div_less_iff_less_mult mult.commute)
    ultimately have "length (nat_to_string (n div 10)) \<le> k" using Suc.IH by simp
    with False show ?thesis by (simp add: nat_to_string.simps [of n])
  qed
qed simp

lemma fits_index: "0 \<le> i \<Longrightarrow> i < 1000 \<Longrightarrow> fits text_max (to_string i)"
  using nat_to_string_short [of "nat i" 3] by (auto simp: fits_def to_string_def nat_less_iff)

lemma rebase_last_touched_setting:
  assumes "db_conn d" "getSetting INDEX_OF_LAST_TOUCHED_DIR_KEY d = to_string i" "0 \<le> i" "i < 1000"
  shows "getSetting INDEX_OF_LAST_TOUCHED_DIR_KEY (rebase_last_touched k d) = to_string (max 0 (i - k))"
proof -
  have "row_get (db_collate d) ''indexOfLastTouchedDir'' (system_settings d) = Some (to_string i)"
    using assms(1,2) to_string_nonempty [of i, symmetric]
    by (simp add: getSetting_def INDEX_OF_LAST_TOUCHED_DIR_KEY_def split: option.splits)
  then show ?thesis
    using assms(1) small_to_string [OF assms(3,4)]
    by (simp add: rebase_last_touched_def getSetting_def INDEX_OF_LAST_TOUCHED_DIR_KEY_def)
qed

lemma append_visit_setting:
  assumes "dir_inv d" "std_dir pwd" "fits text_max pwd"
  shows "getSetting INDEX_OF_LAST_TOUCHED_DIR_KEY (append_visit tty pwd d)
    = to_string (int (length (entries d) - (Suc (length (entries d)) - 500)))"
proof -
  let ?n = "length (entries d)"
  let ?d4 = "setSetting INDEX_OF_LAST_TOUCHED_DIR_KEY (to_string (int ?n))
     (setSessionPointer tty (int ?n) (upsertHistory (int ?n) pwd d))"
  note D = dir_invD [OF assms(1)]
  have v: "append_visit tty pwd d = pruneHistory (int 500) ?d4"
    by (simp add: append_visit_def Let_def getMaxHistoryIndex_inv assms(1) MAX_DIR_HISTORY_SIZE_def)
  have d4: "db_conn ?d4" "terminal_history ?d4 = number_from 0 (entries d @ [pwd])"
    using D(1,2) assms(3) om_put_number_from_end [of "int ?n" 0 "entries d" pwd]
    by (simp_all add: db_simps)
  have set: "getSetting INDEX_OF_LAST_TOUCHED_DIR_KEY ?d4 = to_string (int ?n)"
    using D(1,3) by (intro getSetting_last_touched) (simp_all add: db_simps fits_index)
  show ?thesis
  proof (cases "?n < 500")
    case True
    then show ?thesis using d4 set by (simp add: v pruneHistory_small)
  next
    case False
    then show ?thesis
      using pruneHistory_big [OF d4, of 500] D(1,3) set
      by (simp add: v db_simps rebase_last_touched_setting)
  qed
qed

subsection \<open>Sample states\<close>

definition sample_db :: db where
  "sample_db =
     \<lparr>db_conn = True, db_collate = (\<lambda>s. s), db_json = Some, db_timestamp = to_string,
      terminal_history = [(0, ''/a/''), (1, ''/b/''), (2, ''/c/'')],
      terminal_sessions = [(1, 2), (2, 0)], automation_configs = [], device_registry = [],
      system_settings = [], peer_registry = [], extra_apps = []\<rparr>"

definition sample_terminals :: term_state where
  "sample_terminals = \<lparr>ts_db = sample_db, instances = [2, 1], dangling = False\<rparr>"

definition empty_terminals :: term_state where
  "empty_terminals =
     \<lparr>ts_db = sample_db\<lparr>terminal_history := [], terminal_sessions := []\<rparr>, instances = [],
      dangling = False\<rparr>"

definition tty_command :: "int \<Rightarrow> string \<Rightarrow> json" where
  "tty_command tty pwd = JObj [(''pwd'', JStr pwd), (''tty'', JInt tty)]"

lemma sample_inv: "dir_inv sample_db" "ts_inv sample_terminals"
  by (simp_all add: sample_terminals_def ts_inv_def sample_db_def dir_inv_def entries_def std_dir_def
      om_sorted_def MAX_DIR_HISTORY_SIZE_def)

lemma sample_lookups [simp]:
  "ts_db sample_terminals = sample_db" "instances sample_terminals = [2, 1]" "\<not> dangling sample_terminals"
  "getIndex 1 sample_db = 2" "getIndex 2 sample_db = 0" "getSessionPointer 1 sample_db = 2"
  "getHistory 0 sample_db = ''/a/''" "getHistory 1 sample_db = ''/b/''" "getHistory 2 sample_db = ''/c/''"
  by (simp_all add: sample_terminals_def sample_db_def getIndex_def getSessionPointer_def getHistory_def)

lemma to_string_0 [simp]: "to_string 0 = ''0''"
  by code_simp

lemma getPWD_tty_command [simp]: "getPWD (tty_command t p) = Inr p"
  by (simp add: getPWD_def tty_command_def json_access_defs)

lemma tty_command_tty [simp]:
  "0 \<le> t \<Longrightarrow> t < 1000 \<Longrightarrow> stoi (getJsonString (tty_command t p) ''tty'') = Inr t"
  by (simp add: getJsonString_def tty_command_def json_access_defs signed_take_bit_int_eq_self
      small_to_string)

subsection \<open>Handler level facts\<close>

lemma with_tty_ok:
  "stoi (getJsonString command ''tty'') = Inr tty \<Longrightarrow>
     with_tty command body ts = body (getJsonString command ''tty'') tty ts"
  by (cases "getJsonString command ''tty'' = []") (simp_all add: with_tty_def Let_def)

lemma updateDirHistory_member_abs:
  assumes "dir_inv d" "om_find tty (terminal_sessions d) = Some i" "getPWD command = Inr p"
    "standardizePath p \<noteq> ''/''" "fits text_max (standardizePath p)"
  shows "abs_hist (fst (updateDirHistory_member tty command d))
           = visit_spec tty (standardizePath p) (abs_hist d)"
    and "snd (updateDirHistory_member tty command d) = Inr (CmdResult 0 NL)"
proof -
  let ?d1 = "setSetting INDEX_OF_LAST_TOUCHED_DIR_KEY (to_string i) d"
  have i: "0 \<le> i" "i < int (length (entries d))" using dir_invD(6) [OF assms(1,2)] by auto
  have spec: "visit_spec tty dir (abs_hist d) =
      (if entries d ! nat i = dir then abs_hist d
       else if Suc (nat i) < length (entries d) \<and> entries d ! Suc (nat i) = dir
       then (entries d, (snd (abs_hist d))(tty \<mapsto> Suc (nat i)))
       else let k = Suc (length (entries d)) - 500
         in (drop k (entries d @ [dir]),
             \<lambda>t. map_option (\<lambda>j. j - k) (((snd (abs_hist d))(tty \<mapsto> length (entries d))) t)))" for dir
    using assms(2) by (simp add: visit_spec_def abs_hist_def del: fun_upd_apply)
  have step: "abs_hist (setSessionPointer tty (i + 1) ?d1)
      = (entries d, (snd (abs_hist d))(tty \<mapsto> Suc (nat i)))" if "Suc (nat i) < length (entries d)"
    using that i assms(1) abs_hist_setSessionPointer [of ?d1 "i + 1" tty]
    by (simp add: nat_add_distrib nat_less_iff)
  have app: "abs_hist (append_visit tty (standardizePath p) ?d1)
      = (let k = Suc (length (entries d)) - 500
         in (drop k (entries d @ [standardizePath p]),
             \<lambda>t. map_option (\<lambda>j. j - k) (((snd (abs_hist d))(tty \<mapsto> length (entries d))) t)))"
    using append_visit_abs [of ?d1 "standardizePath p" tty] assms(1,5)
      std_dir_standardizePath [OF assms(4)]
    by (simp add: Let_def)
  show "abs_hist (fst (updateDirHistory_member tty command d))
           = visit_spec tty (standardizePath p) (abs_hist d)"
    unfolding updateDirHistory_member_cases [OF assms(1-3)]
    by (simp add: assms(4) step app spec del: fun_upd_apply)
  show "snd (updateDirHistory_member tty command d) = Inr (CmdResult 0 NL)"
    unfolding updateDirHistory_member_cases [OF assms(1-3)] by (simp add: assms(4))
qed

lemma ctor_settle_last_touched:
  assumes "dir_inv d" "getSetting INDEX_OF_LAST_TOUCHED_DIR_KEY d = to_string (int j)"
    "j < length (entries d)" "isdir (entries d ! j) = Inr True"
  shows "ctor_settle isdir d = (d, Inr (int j))"
proof -
  have "j < 500" using assms(1,3) dir_invD(3) [of d] by simp
  then have start: "ctor_start_index d = int j"
    by (simp add: ctor_start_index_def assms(2) small_to_string)
  have "usable_dir isdir (getHistory (int j) d) = Inr True"
    using assms dir_invD(4) [of d "entries d ! j"] by (simp add: getHistory_inv usable_dir_def std_dir_def)
  then have "try_scan_down (\<lambda>i. usable_dir isdir (getHistory i d)) (int j) = Inr (Some (int j))"
    by (subst try_scan_down.simps) simp
  then show ?thesis by (simp add: ctor_settle_def start)
qed

lemma openedTty_new:
  assumes "ts_inv ts" "tty \<notin> set (instances ts)" "\<not> dangling ts"
    and "stoi (getJsonString command ''tty'') = Inr tty"
    and "getSetting INDEX_OF_LAST_TOUCHED_DIR_KEY (ts_db ts) = to_string (int j)"
    and "j < length (entries (ts_db ts))" "isdir (entries (ts_db ts) ! j) = Inr True"
  shows "snd (openedTty isdir command ts) = Inr (CmdResult 0 (entries (ts_db ts) ! j @ NL))"
proof -
  let ?d = "ts_db ts" and ?d1 = "setSessionPointer tty (int j) (ts_db ts)"
  have d: "dir_inv ?d" using assms(1) by (simp add: ts_inv_def)
  have e: "ensure_instance isdir tty ts = (ts\<lparr>instances := instances ts @ [tty], ts_db := ?d1\<rparr>, Inr ())"
    using assms(2,3) ctor_settle_last_touched [OF d assms(5,6), of isdir, OF assms(7)]
    by (simp add: ensure_instance_eq Terminal_ctor_settle)
  have d1: "dir_inv ?d1" "entries ?d1 = entries ?d" "om_find tty (terminal_sessions ?d1) = Some (int j)"
    using dir_inv_setSessionPointer [OF d, of "int j" tty] assms(6) dir_invD(1) [OF d]
    by (auto simp: db_simps om_find_put)
  show ?thesis
    using openedTty_member_refines [OF d1(1,3), of isdir] d1(2) assms(7)
    by (simp add: openedTty_def with_tty_ok [OF assms(4)] on_instance_def e)
qed

lemma updateDirHistory_instances:
  "tty \<in> set (instances ts) \<Longrightarrow> stoi (getJsonString command ''tty'') = Inr tty \<Longrightarrow>
   updateDirHistory isdir command ts
     = (ts\<lparr>ts_db := fst (updateDirHistory_member tty command (ts_db ts))\<rparr>,
        snd (updateDirHistory_member tty command (ts_db ts)))"
  by (simp add: updateDirHistory_def with_tty_ok on_instance_present Let_def case_prod_unfold)

text \<open>Where the setting \<open>indexOfLastTouchedDir\<close> points after a recorded visit.\<close>

lemma update_last_touched:
  assumes "dir_inv d" "om_find tty (terminal_sessions d) = Some i" "getPWD command = Inr p"
    "standardizePath p \<noteq> ''/''" "fits text_max (standardizePath p)"
    "\<not> (Suc (nat i) < length (entries d) \<and> entries d ! Suc (nat i) = standardizePath p) \<or>
     entries d ! nat i = standardizePath p"
  defines "d' \<equiv> fst (updateDirHistory_member tty command d)"
  shows "\<exists>j < length (entries d').
    getSetting INDEX_OF_LAST_TOUCHED_DIR_KEY d' = to_string (int j) \<and> entries d' ! j = standardizePath p"
proof -
  let ?d1 = "setSetting INDEX_OF_LAST_TOUCHED_DIR_KEY (to_string i) d"
  note D = dir_invD [OF assms(1)]
  have i: "0 \<le> i" "i < int (length (entries d))" "i < 1000" using D(6) [OF assms(2)] D(3) by auto
  show ?thesis
  proof (cases "entries d ! nat i = standardizePath p")
    case True
    then have "d' = ?d1" unfolding d'_def updateDirHistory_member_cases [OF assms(1-3)]
      by (simp add: assms(4))
    with True i D(1) show ?thesis
      by (intro exI [of _ "nat i"]) (simp add: getSetting_last_touched fits_index nat_less_iff)
  next
    case False
    let ?n = "length (entries d)" let ?k = "Suc ?n - 500"
    have "d' = append_visit tty (standardizePath p) ?d1"
      unfolding d'_def updateDirHistory_member_cases [OF assms(1-3)] using False assms(4,6) by auto
    then have "getSetting INDEX_OF_LAST_TOUCHED_DIR_KEY d' = to_string (int (?n - ?k))"
      "entries d' = drop ?k (entries d @ [standardizePath p])"
      using append_visit_setting [of ?d1 "standardizePath p" tty] assms(1,5)
        append_visit_inv(2) [of ?d1 "standardizePath p" tty] std_dir_standardizePath [OF assms(4)]
      by simp_all
    then show ?thesis by (intro exI [of _ "?n - ?k"]) (simp add: nth_append)
  qed
qed

subsection \<open>Properties\<close>

text \<open>
  C1 (invariant). Start from fresh tables and run any sequence of terminal commands, with any answers
  or exceptions of the file system, other commands, restarts of the daemon and losses of the database
  connection between commands, none of which reads a terminal freed by a throwing constructor. Then
  the history rows are sorted by distinct indices that are not negative and hold standardised
  directories, no pointer is negative and no terminal is listed twice. If the history was never
  emptied, the entries are numbered 0, 1, \dots, there are at most 501 and a pointer is at most one
  past the last; if besides every visited path fitted its column, there are at most 500 and every
  pointer names an entry; and if besides the connection was never lost, every known terminal has a
  pointer.
\<close>

theorem dir_history_invariant:
  assumes "fresh_terminals ts0" "term_run ts0 es ts"
  shows "hist_wf (ts_db ts) \<and> distinct (instances ts) \<and>
    (EmptyDirHistoryTable \<notin> set es \<longrightarrow> rows_inv 1 (ts_db ts)) \<and>
    (EmptyDirHistoryTable \<notin> set es \<and> (\<forall>e \<in> set es. short_visit e) \<longrightarrow> rows_inv 0 (ts_db ts)) \<and>
    (EmptyDirHistoryTable \<notin> set es \<and> (\<forall>e \<in> set es. short_visit e) \<and> Connection False \<notin> set es
       \<longrightarrow> ts_inv ts)"
proof -
  have start: "ts_inv ts0" "\<And>b. rows_inv b (ts_db ts0)" "distinct (instances ts0)"
    using fresh_terminals_inv [OF assms(1)] assms(1) by (simp_all add: fresh_terminals_def)
  have "hist_wf (ts_db ts)" using run_hist_wf [OF assms(2) rows_invD(1) [OF start(2)]] .
  moreover have "distinct (instances ts)" using run_distinct [OF assms(2) start(3)] .
  moreover have "EmptyDirHistoryTable \<notin> set es \<Longrightarrow> rows_inv 1 (ts_db ts)"
    using run_rows [OF assms(2) start(2)] by simp
  moreover have "EmptyDirHistoryTable \<notin> set es \<Longrightarrow> \<forall>e \<in> set es. short_visit e \<Longrightarrow> rows_inv 0 (ts_db ts)"
    using run_rows [OF assms(2) start(2)] by simp
  ultimately show ?thesis using run_ts_inv [OF assms(2) start(1)] by blast
qed

theorem dir_history_invariant_witness:
  "let ts = fst (cdForward (\<lambda>_. Inl ''EACCES'') (tty_command 8 [])
     (fst (updateDirHistory (\<lambda>_. Inr True) (tty_command 7 ''/x'') empty_terminals)))
   in rows_inv 0 (ts_db ts) \<and> ts_inv ts"
proof -
  let ?e1 = "UpdateDirHistory (\<lambda>_. Inr True) (tty_command 7 ''/x'')"
  let ?e2 = "CdForward (\<lambda>_. Inl ''EACCES'') (tty_command 8 [])"
  have fresh: "fresh_terminals empty_terminals"
    by (simp add: fresh_terminals_def empty_terminals_def sample_db_def)
  have "\<not> dangling (term_do ?e1 empty_terminals)"
    by (simp add: updateDirHistory_def with_tty_ok [of _ 7] on_instance_not_dangling empty_terminals_def)
  then have "term_run empty_terminals ([] @ [?e1] @ [?e2]) (term_do ?e2 (term_do ?e1 empty_terminals))"
    unfolding append_assoc [symmetric]
    by (intro term_run.intros) (simp_all add: tty_defined_def reads_freed_def empty_terminals_def)
  moreover have "pwd_fits (tty_command 7 ''/x'')"
    by (simp add: pwd_fits_def fits_def standardizePath_def)
  ultimately show ?thesis
    using dir_history_invariant [OF fresh] by (auto simp: Let_def)
qed

text \<open>
  C3 (refinement). \<open>updateDirHistory\<close> for a known terminal and a directory other than the root
  implements the abstract visit: stay, step forward, or append and keep the newest 500 entries with
  every cursor shifted along, and it replies with status 0.
\<close>

theorem updateDirHistory_refines:
  assumes "ts_inv ts" "tty \<in> set (instances ts)"
    and "stoi (getJsonString command ''tty'') = Inr tty"
    and "getPWD command = Inr p" "standardizePath p \<noteq> ''/''" "fits text_max (standardizePath p)"
  shows "abs_hist (ts_db (fst (updateDirHistory isdir command ts)))
           = visit_spec tty (standardizePath p) (abs_hist (ts_db ts)) \<and>
         snd (updateDirHistory isdir command ts) = Inr (CmdResult 0 NL)"
proof -
  obtain i where i: "om_find tty (terminal_sessions (ts_db ts)) = Some i"
    using session_of_instance [OF assms(1,2)] .
  have "dir_inv (ts_db ts)" using assms(1) by (simp add: ts_inv_def)
  from updateDirHistory_member_abs [OF this i assms(4-6)] show ?thesis
    by (simp add: updateDirHistory_instances [OF assms(2,3)])
qed

theorem updateDirHistory_refines_witness:
  "abs_hist (ts_db (fst (updateDirHistory (\<lambda>_. Inr True) (tty_command 2 ''/b'') sample_terminals)))
     = visit_spec 2 ''/b/'' (abs_hist sample_db) \<and>
   snd (updateDirHistory (\<lambda>_. Inr True) (tty_command 2 ''/b'') sample_terminals) = Inr (CmdResult 0 NL)"
  using updateDirHistory_refines [of sample_terminals 2 "tty_command 2 ''/b''" "''/b''" "\<lambda>_. Inr True"]
    sample_inv(2)
  by (simp add: sample_terminals_def standardizePath_def fits_def)

text \<open>
  C15 (refinement). \<open>cdBackward\<close> and \<open>cdForward\<close> for a known terminal look for the nearest
  earlier, respectively later, entry that the file system does not deny to be a directory. If it is
  one, the cursor moves there and the reply is the matching \<open>cd\<close> command; if the test of it throws,
  the exception leaves the handler and nothing has changed; if there is none, nothing changes and the
  reply reports the end of the history.
\<close>

theorem cursor_commands_refine:
  assumes "ts_inv ts" "tty \<in> set (instances ts)"
    and "stoi (getJsonString command ''tty'') = Inr tty"
  shows "(case back_spec isdir tty (abs_hist (ts_db ts)) of (h, r) \<Rightarrow>
      abs_hist (ts_db (fst (cdBackward isdir command ts))) = h \<and>
      snd (cdBackward isdir command ts) = (case r of
          Inl w \<Rightarrow> Inl (FilesystemError w)
        | Inr (Some dir) \<Rightarrow> Inr (CmdResult 0 (''cd '' @ dir @ NL))
        | Inr None \<Rightarrow> Inr (CmdResult 0 (''echo '' @ NL @ ''BEGINNING OF HISTORY reached'' @ NL @ NL)))) \<and>
    (case forward_spec isdir tty (abs_hist (ts_db ts)) of (h, r) \<Rightarrow>
      abs_hist (ts_db (fst (cdForward isdir command ts))) = h \<and>
      snd (cdForward isdir command ts) = (case r of
          Inl w \<Rightarrow> Inl (FilesystemError w)
        | Inr (Some dir) \<Rightarrow> Inr (CmdResult 0 (''cd '' @ dir @ NL))
        | Inr None \<Rightarrow> Inr (CmdResult 0 (''echo '' @ NL @ ''END OF HISTORY reached'' @ NL @ NL))))"
proof -
  let ?d = "ts_db ts"
  obtain i where i: "om_find tty (terminal_sessions ?d) = Some i" "0 \<le> i" "i < int (length (entries ?d))"
    using session_of_instance [OF assms(1,2)] .
  have d: "dir_inv ?d" using assms(1) by (simp add: ts_inv_def)
  have move: "abs_hist (setSessionPointer tty (int j) ?d)
      = (entries ?d, (snd (abs_hist ?d))(tty \<mapsto> j))" if "j < length (entries ?d)" for j
    using abs_hist_setSessionPointer [OF d, of "int j" tty] that by simp
  have lt: "j < length (entries ?d)" if "find P (rev [0..<nat i]) = Some j" for P j
    using find_SomeD [OF that] i by auto
  have gt: "j < length (entries ?d)" if "find P [Suc (nat i)..<length (entries ?d)] = Some j" for P j
    using find_SomeD [OF that] by simp
  obtain cur where spec: "abs_hist ?d = (entries ?d, cur)" "cur tty = Some (nat i)"
    using i by (simp add: abs_hist_def)
  show ?thesis
    unfolding back_spec_def forward_spec_def cursor_spec_def cdBackward_def cdForward_def
      with_tty_ok [OF assms(3)] on_instance_present [OF assms(2)]
      cdBackward_member_refines [OF d i(1)] cdForward_member_refines [OF d i(1)] entry_search_def
    by (simp add: spec move lt gt split: option.splits sum.splits)
qed

theorem cursor_commands_refine_witness:
  "let isdir = (\<lambda>p. if p = ''/b/'' then Inr False else if p = ''/c/'' then Inl ''ENOTCONN'' else Inr True) in
   abs_hist (ts_db (fst (cdBackward isdir (tty_command 1 []) sample_terminals)))
     = fst (back_spec isdir 1 (abs_hist sample_db)) \<and>
   snd (cdBackward isdir (tty_command 1 []) sample_terminals) = Inr (CmdResult 0 (''cd /a/'' @ NL)) \<and>
   snd (cdForward isdir (tty_command 2 []) sample_terminals) = Inl (FilesystemError ''ENOTCONN'')"
  using cursor_commands_refine [of sample_terminals 1 "tty_command 1 []"
      "\<lambda>p. if p = ''/b/'' then Inr False else if p = ''/c/'' then Inl ''ENOTCONN'' else Inr True"]
    cursor_commands_refine [of sample_terminals 2 "tty_command 2 []"
      "\<lambda>p. if p = ''/b/'' then Inr False else if p = ''/c/'' then Inl ''ENOTCONN'' else Inr True"]
    sample_inv(2)
  by (auto simp: sample_terminals_def sample_db_def abs_hist_def entries_def back_spec_def
      forward_spec_def cursor_spec_def upt_rec Let_def)

text \<open>
  When the default directory exists and the file system answers, the reply of \<open>openedTty\<close> to a known
  terminal always names an existing directory, whatever became of the directories in the history.
\<close>

theorem openedTty_reply_exists:
  assumes "ts_inv ts" "tty \<in> set (instances ts)" "stoi (getJsonString command ''tty'') = Inr tty"
    and "isdir DIR_HISTORY_DEFAULT_DIR = Inr True" "\<And>p w. isdir p \<noteq> Inl w"
  shows "\<exists>dir. snd (openedTty isdir command ts) = Inr (CmdResult 0 (dir @ NL)) \<and> isdir dir = Inr True"
proof -
  let ?d = "ts_db ts"
  have d: "dir_inv ?d" using assms(1) by (simp add: ts_inv_def)
  obtain i where i: "om_find tty (terminal_sessions ?d) = Some i"
    using session_of_instance [OF assms(1,2)] .
  have "\<exists>dir. snd (openedTty_member isdir tty ?d) = CmdResult 0 (dir @ NL) \<and> isdir dir = Inr True"
    unfolding openedTty_member_refines [OF d i] using assms(4,5)
    by (auto simp: entry_search_def split: option.splits sum.splits bool.splits dest!: find_SomeD)
  then show ?thesis
    by (auto simp: openedTty_def with_tty_ok [OF assms(3)] on_instance_present [OF assms(2)]
        Let_def case_prod_unfold)
qed

text \<open>
  A constructor that meets an exception of the file system leaves a pointer to a terminal that no
  longer exists: the command fails, and the next command for a terminal not in the list reads freed
  memory.
\<close>

theorem throwing_ctor_dangles:
  assumes "tty \<notin> set (instances ts)" "\<not> dangling ts" "stoi (getJsonString command ''tty'') = Inr tty"
    and "ctor_settle isdir (ts_db ts) = (d, Inl w)"
    and "stoi (getJsonString command' ''tty'') = Inr tty'" "tty' \<notin> set (instances ts)"
  shows "openedTty isdir command ts = (ts\<lparr>ts_db := d, dangling := True\<rparr>, Inl (FilesystemError w)) \<and>
    snd (openedTty isdir' command' (fst (openedTty isdir command ts))) = Inl AssertFail"
  using assms
  by (simp add: openedTty_def with_tty_ok on_instance_def ensure_instance_eq Terminal_ctor_settle)

text \<open>
  A terminal that is opened right after another terminal has recorded a visit to an
  existing directory starts in that directory, provided the visit did not take the step to the
  following entry.
\<close>

theorem new_terminal_starts_at_last_visit:
  assumes "ts_inv ts" "tty \<in> set (instances ts)" "tty' \<notin> set (instances ts)" "\<not> dangling ts"
    and "stoi (getJsonString command ''tty'') = Inr tty"
    and "stoi (getJsonString command' ''tty'') = Inr tty'"
    and "getPWD command = Inr p" "standardizePath p \<noteq> ''/''" "fits text_max (standardizePath p)"
    and "standardizePath (getHistory (getIndex tty (ts_db ts) + 1) (ts_db ts)) \<noteq> standardizePath p"
    and "isdir (standardizePath p) = Inr True"
  shows "snd (openedTty isdir command' (fst (updateDirHistory isdir command ts)))
    = Inr (CmdResult 0 (standardizePath p @ NL))"
proof -
  let ?d' = "fst (updateDirHistory_member tty command (ts_db ts))"
  have d: "dir_inv (ts_db ts)" using assms(1) by (simp add: ts_inv_def)
  obtain i where i: "om_find tty (terminal_sessions (ts_db ts)) = Some i" "0 \<le> i"
    using session_of_instance [OF assms(1,2)] .
  have "\<not> (Suc (nat i) < length (entries (ts_db ts)) \<and>
      entries (ts_db ts) ! Suc (nat i) = standardizePath p)"
    using assms(10) standardizePath_getHistory [OF d, of "i + 1"] i
    by (auto simp: getIndex_inv [OF d i(1)] nat_add_distrib)
  then obtain j where j: "j < length (entries ?d')" "entries ?d' ! j = standardizePath p"
    "getSetting INDEX_OF_LAST_TOUCHED_DIR_KEY ?d' = to_string (int j)"
    using update_last_touched [OF d i(1) assms(7-9)] by blast
  have "ts_inv (ts\<lparr>ts_db := ?d'\<rparr>)"
    using updateDirHistory_inv [OF assms(1), of command isdir] assms(7,9)
    by (simp add: pwd_fits_def updateDirHistory_instances [OF assms(2,5)])
  from openedTty_new [OF this _ _ assms(6), of j isdir] j assms(3,4,11) show ?thesis
    by (simp add: updateDirHistory_instances [OF assms(2,5)])
qed

text \<open>
  When the visited directory is the entry after the cursor, the cursor moves there
  but \<open>indexOfLastTouchedDir\<close> keeps the index the terminal came from, so a terminal opened
  next starts in the previous directory although the constructor means to start at the
  last-interacted one.
\<close>

theorem forward_visit_keeps_last_touched:
  assumes "ts_inv ts" "tty \<in> set (instances ts)"
    and "stoi (getJsonString command ''tty'') = Inr tty"
    and "getPWD command = Inr p" "standardizePath p \<noteq> ''/''"
    and "standardizePath (getHistory (getIndex tty (ts_db ts)) (ts_db ts)) \<noteq> standardizePath p"
    and "standardizePath (getHistory (getIndex tty (ts_db ts) + 1) (ts_db ts)) = standardizePath p"
  shows "let d' = ts_db (fst (updateDirHistory isdir command ts)) in
    getIndex tty d' = getIndex tty (ts_db ts) + 1 \<and>
    getSetting INDEX_OF_LAST_TOUCHED_DIR_KEY d' = to_string (getIndex tty (ts_db ts))"
proof -
  let ?d' = "ts_db (fst (updateDirHistory isdir command ts))"
  have d: "dir_inv (ts_db ts)" using assms(1) by (simp add: ts_inv_def)
  obtain i where i: "om_find tty (terminal_sessions (ts_db ts)) = Some i" "0 \<le> i"
      "i < int (length (entries (ts_db ts)))"
    using session_of_instance [OF assms(1,2)] .
  have idx: "getIndex tty (ts_db ts) = i" using getIndex_inv [OF d i(1)] .
  have fit: "fits text_max (to_string i)" using i dir_invD(3) [OF d] by (intro fits_index) auto
  have "?d' = setSessionPointer tty (i + 1)
      (setSetting INDEX_OF_LAST_TOUCHED_DIR_KEY (to_string i) (ts_db ts))"
    using assms(4-7)
    by (simp add: updateDirHistory_instances [OF assms(2,3)] updateDirHistory_member_def idx
        Let_def)
  then show ?thesis
    using i(2) idx fit dir_invD(1) [OF d]
    by (simp add: getIndex_def getSessionPointer_def db_simps om_find_put getSetting_last_touched Let_def)
qed

theorem forward_visit_keeps_last_touched_witness:
  "let d' = ts_db (fst (updateDirHistory (\<lambda>_. Inr True) (tty_command 2 ''/b'') sample_terminals))
   in getIndex 2 d' = 1 \<and> getSetting INDEX_OF_LAST_TOUCHED_DIR_KEY d' = ''0''"
  using forward_visit_keeps_last_touched [of sample_terminals 2 "tty_command 2 ''/b''" "''/b''"
      "\<lambda>_. Inr True"] sample_inv(2)
  by (simp add: standardizePath_def)

text \<open>
  \<open>emptyDirHistoryTable\<close> leaves the session pointers alone: the next \<open>openedTty\<close> of
  a terminal whose pointer was positive stores the default directory under that stale index, so
  the history no longer starts at 0.
\<close>

theorem emptied_history_gap:
  assumes "ts_inv ts" "tty \<in> set (instances ts)"
    and "stoi (getJsonString command ''tty'') = Inr tty"
    and "0 < getSessionPointer tty (ts_db ts)"
  shows "terminal_history (ts_db (fst (openedTty isdir command (fst (handleEmptyDirHistoryTable ts)))))
    = [(getSessionPointer tty (ts_db ts), DIR_HISTORY_DEFAULT_DIR)]"
proof -
  let ?ts = "fst (handleEmptyDirHistoryTable ts)"
  have d: "dir_inv (ts_db ts)" using assms(1) by (simp add: ts_inv_def)
  have ts: "?ts = ts\<lparr>ts_db := ts_db ts\<lparr>terminal_history := []\<rparr>\<rparr>"
    using dir_invD(1) [OF d]
    by (simp add: handleEmptyDirHistoryTable_def emptyTable_terminal_history_def)
  have ptr: "getSessionPointer tty (ts_db ?ts) = getSessionPointer tty (ts_db ts)"
    by (simp add: ts getSessionPointer_def)
  have gone: "standardizePath (getHistory i (ts_db ?ts)) = ''/''" for i
    by (simp add: ts getHistory_def standardizePath_def)
  have "tty \<in> set (instances ?ts)" using assms(2) by (simp add: ts)
  then show ?thesis
    using assms(4) dir_invD(1) [OF d] gone
    by (simp add: openedTty_def with_tty_ok [OF assms(3)] on_instance_present openedTty_member_def ptr
        Let_def db_simps)
       (simp add: ts db_simps)
qed

theorem emptied_history_gap_witness:
  "terminal_history (ts_db (fst (openedTty (\<lambda>_. Inr True) (tty_command 1 [])
     (fst (handleEmptyDirHistoryTable sample_terminals))))) = [(2, ''/opt/automateLinux/'')]"
  using emptied_history_gap [of sample_terminals 1 "tty_command 1 []" "\<lambda>_. Inr True"] sample_inv(2)
  by (simp add: DIR_HISTORY_DEFAULT_DIR_def)

text \<open>
  A missing tty argument gives status 1 and a tty argument that is no \<open>int\<close> raises the
  exception of \<open>std::stoi\<close>; neither changes the state, in any of the terminal commands.
\<close>

theorem terminal_commands_reject_bad_tty:
  assumes "h = openedTty isdir command \<or> h = closedTty command \<or> h = updateDirHistory isdir command \<or>
    h = cdForward isdir command \<or> h = cdBackward isdir command \<or> h = showTerminalInstance command"
  shows "h ts = (case stoi (getJsonString command ''tty'') of
      Inl e \<Rightarrow> if getJsonString command ''tty'' = []
        then (ts, Inr (CmdResult 1 (''Missing tty argument'' @ NL))) else (ts, Inl e)
    | Inr tty \<Rightarrow> h ts)"
  using assms
  by (auto simp: openedTty_def closedTty_def updateDirHistory_def cdForward_def cdBackward_def
      showTerminalInstance_def with_tty_def split: sum.splits)

theorem terminal_commands_reject_bad_tty_witness:
  "cdForward (\<lambda>_. Inr True) (JObj [(''tty'', JStr ''x'')]) sample_terminals
     = (sample_terminals, Inl (InvalidArgument ''stoi''))"
proof -
  have g: "getJsonString (JObj [(''tty'', JStr ''x'')]) ''tty'' = ''x''"
    by (simp add: getJsonString_def json_access_defs)
  have "stoi ''x'' = Inl (InvalidArgument ''stoi'')"
    by (simp add: stoi_def strtol_def strip_sign_def is_space_def is_digit_def)
  with g show ?thesis
    using terminal_commands_reject_bad_tty [of "cdForward (\<lambda>_. Inr True) (JObj [(''tty'', JStr ''x'')])"
        "\<lambda>_. Inr True" "JObj [(''tty'', JStr ''x'')]" sample_terminals]
    by simp
qed

end
