(* ===== verification/Settings_Commands.thy ===== *)
theory Settings_Commands
  imports Dir_History
begin

text \<open>
  The command handlers that work on the settings table: the port registry of
  \<open>daemon/src/cmdPort.cpp\<close>, the entry commands of \<open>daemon/src/cmdDatabase.cpp\<close>, and the
  port allocation helpers of \<open>daemon/src/cmdApp.cpp\<close>. A port assignment is a setting whose key
  starts with \<open>port_\<close>.

  On a worker the port commands are forwarded to the leader; \<open>peer_link\<close> carries what the peer
  connection answers. The operating system calls of the proxy command are in \<open>os_env\<close>.
\<close>

record peer_link =
  pl_isLeader :: bool
  pl_connected :: bool
  pl_connect :: bool
  pl_write_ok :: bool
  pl_reply :: "json \<Rightarrow> string option"

record os_env =
  os_exec :: "string \<Rightarrow> string"
  os_system :: "string \<Rightarrow> int"
  os_socket_ok :: bool
  os_bind_ok :: bool
  os_getsockname_ok :: bool
  os_free_port :: "16 word"
  os_port_file_ok :: bool

subsection \<open>Port commands\<close>

definition forwardToLeader :: "peer_link \<Rightarrow> json \<Rightarrow> string \<Rightarrow> cmd_result" where
  "forwardToLeader pl cmd cmdName =
     (if pl_isLeader pl then CmdResult (- 1) []
      else if \<not> pl_connected pl \<and> \<not> pl_connect pl
      then CmdResult 1 (''Not connected to leader. Run '' @ [CHR 0x27] @ ''d registerWorker'' @ [CHR 0x27] @ '' first.'' @ NL)
      else if \<not> pl_write_ok pl then CmdResult 1 (''Failed to forward '' @ cmdName @ '' to leader'' @ NL)
      else case pl_reply pl cmd of
        Some s \<Rightarrow> CmdResult 0 s
      | None \<Rightarrow> CmdResult 1 (''No response from leader'' @ NL))"

text \<open>A command handler on the database: forwards on a worker, else runs \<open>body\<close>.\<close>

definition forwarded ::
  "peer_link \<Rightarrow> json \<Rightarrow> string \<Rightarrow> (db \<Rightarrow> db \<times> cmd_result result) \<Rightarrow> db \<Rightarrow> db \<times> cmd_result result" where
  "forwarded pl command name body d =
     (case jput command ''command'' (JStr name) of
        Inl e \<Rightarrow> (d, Inl e)
      | Inr fwdCmd \<Rightarrow>
          let fwdResult = forwardToLeader pl fwdCmd name in
          if status fwdResult \<noteq> - 1 then (d, Inr fwdResult) else body d)"

definition handleGetPort :: "peer_link \<Rightarrow> json \<Rightarrow> db \<Rightarrow> db \<times> cmd_result result" where
  "handleGetPort pl command = forwarded pl command ''getPort'' (\<lambda>d.
     case command_string command ''key'' of
       Inl e \<Rightarrow> (d, Inl e)
     | Inr key \<Rightarrow>
         let v = getSetting (''port_'' @ key) d in
         if v = [] then (d, Inr (CmdResult 1 (''Port not set for '' @ key @ NL)))
         else (d, Inr (CmdResult 0 (v @ NL))))"

definition port_value :: "json \<Rightarrow> string result" where
  "port_value command = try_result (jat command ''value'') (\<lambda>v.
     if is_number v then try_result (jget_llong v) (\<lambda>i. Inr (to_string i)) else jget_string v)"

definition handleSetPort :: "peer_link \<Rightarrow> json \<Rightarrow> db \<Rightarrow> db \<times> cmd_result result" where
  "handleSetPort pl command = forwarded pl command ''setPort'' (\<lambda>d.
     case command_string command ''key'' of
       Inl e \<Rightarrow> (d, Inl e)
     | Inr key \<Rightarrow> (case port_value command of
         Inl e \<Rightarrow> (d, Inl e)
       | Inr v \<Rightarrow> (setSetting (''port_'' @ key) v d,
                   Inr (CmdResult 0 (''Port set for '' @ key @ '' to '' @ v @ NL)))))"

definition handleDeletePort :: "peer_link \<Rightarrow> json \<Rightarrow> db \<Rightarrow> db \<times> cmd_result result" where
  "handleDeletePort pl command = forwarded pl command ''deletePort'' (\<lambda>d.
     case command_string command ''key'' of
       Inl e \<Rightarrow> (d, Inl e)
     | Inr key \<Rightarrow>
         let (d', rc) = deleteSetting (''port_'' @ key) d in
         if rc \<ge> 1 then (d', Inr (CmdResult 0 (''Port entry deleted for '' @ key @ NL)))
         else (d', Inr (CmdResult 1 (''Port entry not found for '' @ key @ NL))))"

text \<open>The port assignments of the settings rows; an unreadable value is skipped.\<close>

definition port_rows :: "(string \<times> string) list \<Rightarrow> (string \<times> int) list" where
  "port_rows rows = List.map_filter
     (\<lambda>(k, v). if starts_with ''port_'' k
        then (case stoi v of Inl _ \<Rightarrow> None | Inr p \<Rightarrow> Some (drop 5 k, p)) else None) rows"

definition listed_ports :: "db \<Rightarrow> (string \<times> int) list" where
  "listed_ports d = sort_key snd (port_rows (getAllSettings d))"

definition port_repo_path :: "string \<Rightarrow> string" where
  "port_repo_path key =
     (if key = ''dashboard-dev'' \<or> key = ''dashboard-bridge'' then ''/opt/dev/dashboard''
      else if key = ''dashboard-prod'' then ''/opt/prod/dashboard''
      else if key = ''cad-dev'' then ''/opt/dev/cad''
      else if key = ''cad-prod'' then ''/opt/prod/cad''
      else if key = ''pt-dev'' then ''/opt/dev/publicTransportation''
      else if key = ''pt-prod'' then ''/opt/prod/publicTransportation''
      else [])"

definition chomp :: "string \<Rightarrow> string" where
  "chomp s = (if s \<noteq> [] \<and> last s = CHR 0x0A then butlast s else s)"

definition getGitVersion :: "os_env \<Rightarrow> string \<Rightarrow> string" where
  "getGitVersion os path =
     (let hash = os_exec os (''git -C '' @ path @ '' rev-parse --short HEAD'') in
      if hash = [] then ''N/A''
      else chomp hash @ '' - '' @
           chomp (os_exec os (''git -C '' @ path @ '' log -1 --format='' @ [CHR 0x22] @ ''%s'' @ [CHR 0x22])))"

definition port_line :: "os_env \<Rightarrow> string \<times> int \<Rightarrow> string" where
  "port_line os p =
     (let repo = port_repo_path (fst p);
          versionInfo = (if repo \<noteq> [] then getGitVersion os repo else [])
      in setw_left 20 (fst p) @ setw_left 8 (to_string (snd p)) @ versionInfo @ NL)"

definition handleListPorts :: "peer_link \<Rightarrow> os_env \<Rightarrow> db \<Rightarrow> db \<times> cmd_result result" where
  "handleListPorts pl os = forwarded pl JNull ''listPorts'' (\<lambda>d.
     let ports = listed_ports d in
     (d, Inr (CmdResult 0
       (''--- Registered Port Mappings ---'' @ NL @
        setw_left 20 ''Key'' @ setw_left 8 ''Port'' @ ''Version'' @ NL @
        replicate 80 (CHR ''-'') @ NL @
        (if ports = [] then ''  (No ports registered)'' @ NL
         else concat (map (port_line os) ports))))))"

definition start_tunnel :: "os_env \<Rightarrow> int \<Rightarrow> cmd_result" where
  "start_tunnel os port =
     (if os_system os (''ssh -f -N -L '' @ to_string port @ '':moran.mot.gov.il:110 root@10.0.0.1'') \<noteq> 0
      then CmdResult 1 (''Failed to start SSH tunnel'' @ NL)
      else if \<not> os_port_file_ok os then CmdResult 1 (''Failed to write port file'' @ NL)
      else CmdResult 0 (''Proxy started on port '' @ to_string port @ NL))"

definition handlePublicTransportationStartProxy :: "os_env \<Rightarrow> db \<Rightarrow> db \<times> cmd_result" where
  "handlePublicTransportationStartProxy os d =
     (let portStr = getSetting ''port_pt-proxy'' d in
      case (if portStr \<noteq> [] then stoi portStr else Inr 0) of
        Inl _ \<Rightarrow> (d, CmdResult 1 (''Invalid port for pt-proxy in registry: '' @ portStr @ NL))
      | Inr port \<Rightarrow>
          if port \<noteq> 0 then (d, start_tunnel os port)
          else if \<not> os_socket_ok os
          then (d, CmdResult 1 (''Failed to create socket for port discovery'' @ NL))
          else if \<not> os_bind_ok os then (d, CmdResult 1 (''Failed to bind to find free port'' @ NL))
          else if \<not> os_getsockname_ok os then (d, CmdResult 1 (''Failed to get socket name'' @ NL))
          else let free = uint (os_free_port os)
               in (setSetting ''port_pt-proxy'' (to_string free) d, start_tunnel os free))"

definition handlePublicTransportationOpenApp :: "os_env \<Rightarrow> json \<Rightarrow> db \<Rightarrow> cmd_result result" where
  "handlePublicTransportationOpenApp os command d =
     (let finish = (\<lambda>port.
            if port = [] then CmdResult 1
              (''PT app port not set. Use '' @ [CHR 0x27] @ ''d setPort pt <PORT>'' @ [CHR 0x27] @ '' to configure.'' @ NL)
            else let url = ''http://localhost:'' @ port in
              if os_system os (''google-chrome '' @ url @ '' > /dev/null 2>&1 &'') \<noteq> 0
              then CmdResult 1 (''Failed to open Chrome'' @ NL)
              else CmdResult 0 (''Opened '' @ url @ '' in Chrome'' @ NL))
      in if jcontains command ''variant'' then
           try_result (command_string command ''variant'') (\<lambda>variant.
             let port = getSetting (''port_pt-'' @ variant) d in
             if port = [] then Inr (CmdResult 1
               (''PT app port for variant '' @ [CHR 0x27] @ variant @ [CHR 0x27] @ '' not found.'' @ NL))
             else Inr (finish port))
         else
           let p1 = getSetting ''port_pt'' d;
               p2 = (if p1 = [] then getSetting ''port_pt-prod'' d else p1);
               p3 = (if p2 = [] then getSetting ''port_pt-dev'' d else p2)
           in Inr (finish p3))"

subsection \<open>Entry commands\<close>

definition handleUpsertEntry :: "json \<Rightarrow> db \<Rightarrow> db \<times> cmd_result result" where
  "handleUpsertEntry command d =
     (case command_string command ''key'' of
        Inl e \<Rightarrow> (d, Inl e)
      | Inr key \<Rightarrow> (case command_string command ''value'' of
          Inl e \<Rightarrow> (d, Inl e)
        | Inr v \<Rightarrow> (setSetting key v d, Inr (CmdResult 0 (''Entry upserted to settings table'' @ NL)))))"

definition handleGetEntry :: "json \<Rightarrow> db \<Rightarrow> cmd_result result" where
  "handleGetEntry command d =
     try_result (command_string command ''key'') (\<lambda>key.
       let v = getSetting key d in
       if v = [] then Inr (CmdResult 1 NL) else Inr (CmdResult 0 (v @ NL)))"

definition handleDeleteEntry :: "json \<Rightarrow> db \<Rightarrow> db \<times> cmd_result result" where
  "handleDeleteEntry command d =
     (case command_string command ''key'' of
        Inl e \<Rightarrow> (d, Inl e)
      | Inr key \<Rightarrow>
          let (d', rc) = deleteSetting key d in
          if rc \<ge> 1 then (d', Inr (CmdResult 0 (''Entry deleted from settings table'' @ NL)))
          else (d', Inr (CmdResult 1 (''Entry not found for key '' @ key @ NL))))"

definition handleShowEntriesByPrefix :: "json \<Rightarrow> cmd_result result" where
  "handleShowEntriesByPrefix command =
     try_result (command_string command ''prefix'') (\<lambda>prefix.
       Inr (CmdResult 1 (''showEntriesByPrefix is deprecated in the new multi-table schema.'' @ NL)))"

definition handleDeleteEntriesByPrefix :: "json \<Rightarrow> cmd_result" where
  "handleDeleteEntriesByPrefix command = CmdResult 1 (''deleteEntriesByPrefix is deprecated.'' @ NL)"

definition handleShowDb :: "db \<Rightarrow> cmd_result" where
  "handleShowDb d = CmdResult 0
     (''--- Terminal History ---'' @ NL @
      concat (map (\<lambda>(t, i, p). ''TTY '' @ to_string t @ '' Index '' @ to_string i @ '': '' @ p @ NL)
        (getAllHistory d)) @
      ''--- Terminal Sessions ---'' @ NL @
      concat (map (\<lambda>(t, i). ''TTY '' @ to_string t @ '' -> Index '' @ to_string i @ NL) (getAllSessions d)) @
      ''--- Device Registry ---'' @ NL @
      ''Keyboard: '' @ getDevicePath ''keyboard'' d @ NL @
      ''Mouse: '' @ getDevicePath ''mouse'' d @ NL @
      ''--- System Settings ---'' @ NL @
      ''shouldLogState: '' @ getSetting ''shouldLogState'' d @ NL)"

subsection \<open>Port allocation\<close>

definition usedPorts :: "db \<Rightarrow> int list" where
  "usedPorts d = map snd (port_rows (getAllSettings d))"

fun first_free_pair :: "int list \<Rightarrow> nat \<Rightarrow> int \<Rightarrow> int \<times> int" where
  "first_free_pair used 0 base = (- 1, - 1)"
| "first_free_pair used (Suc n) base =
     (if base \<notin> set used \<and> base + 1 \<notin> set used then (base, base + 1)
      else first_free_pair used n (base + 2))"

text \<open>\<open>for (int base = 3000; base < 3500; base += 2)\<close> runs 250 times.\<close>

definition findNextAvailablePortPair :: "db \<Rightarrow> int \<times> int" where
  "findNextAvailablePortPair d = first_free_pair (usedPorts d) 250 3000"

definition findNextAvailableServerPort :: "db \<Rightarrow> int" where
  "findNextAvailableServerPort d =
     (case scan_up (\<lambda>port. port \<notin> set (usedPorts d)) 3500 3999 of Some p \<Rightarrow> p | None \<Rightarrow> - 1)"

definition extractAppNameFromUrl :: "string \<Rightarrow> string" where
  "extractAppNameFromUrl repoUrl =
     (if CHR ''/'' \<notin> set repoUrl then []
      else let name = rev (takeWhile (\<lambda>c. c \<noteq> CHR ''/'') (rev repoUrl)) in
        if length name > 4 \<and> drop (length name - 4) name = ''.git''
        then take (length name - 4) name else name)"

subsection \<open>Facts\<close>

lemma forwardToLeader_status: "status (forwardToLeader pl c n) = - 1 \<longleftrightarrow> pl_isLeader pl"
  by (simp add: forwardToLeader_def split: option.split)

lemma forwarded_leader:
  "pl_isLeader pl \<Longrightarrow> forwarded pl (JObj m) n body d = body d"
  "pl_isLeader pl \<Longrightarrow> forwarded pl JNull n body d = body d"
  by (simp_all add: forwarded_def jput_def forwardToLeader_status Let_def)

lemma forwarded_worker:
  "\<not> pl_isLeader pl \<Longrightarrow> fst (forwarded pl command n body d) = d"
  by (auto simp: forwarded_def forwardToLeader_status Let_def split: sum.split)

lemma port_rows_simps:
  "port_rows [] = []"
  "port_rows ((''port_'' @ k, v) # rows) =
     (case stoi v of Inl _ \<Rightarrow> port_rows rows | Inr p \<Rightarrow> (k, p) # port_rows rows)"
  "\<not> starts_with ''port_'' k \<Longrightarrow> port_rows ((k, v) # rows) = port_rows rows"
  by (simp_all add: port_rows_def List.map_filter_def split: sum.splits)

lemma port_rows_iff:
  "(k, p) \<in> set (port_rows rows) \<longleftrightarrow> (\<exists>v. (''port_'' @ k, v) \<in> set rows \<and> stoi v = Inr p)"
proof (induction rows)
  case Nil
  show ?case by (simp add: port_rows_simps)
next
  case (Cons row rows)
  obtain k' v where row: "row = (k', v)" by fastforce
  show ?case
  proof (cases "starts_with ''port_'' k'")
    case True
    then obtain r where "k' = ''port_'' @ r" by (auto simp: starts_with_iff)
    with Cons show ?thesis unfolding row
      by (simp only: port_rows_simps(2)) (auto split: sum.splits)
  next
    case False
    then have "k' \<noteq> ''port_'' @ k" by auto
    with Cons False show ?thesis unfolding row
      by (simp only: port_rows_simps(3) [OF False]) auto
  qed
qed

lemma usedPorts_iff:
  "p \<in> set (usedPorts d) \<longleftrightarrow>
     (\<exists>k v. (''port_'' @ k, v) \<in> set (getAllSettings d) \<and> stoi v = Inr p)"
proof -
  have "p \<in> set (usedPorts d) \<longleftrightarrow> (\<exists>k. (k, p) \<in> set (port_rows (getAllSettings d)))"
    by (force simp: usedPorts_def)
  then show ?thesis by (simp add: port_rows_iff)
qed

text \<open>\<open>pair_free used b\<close>: the ports \<open>b\<close> and \<open>b + 1\<close> are both unassigned.\<close>

definition pair_free :: "int list \<Rightarrow> int \<Rightarrow> bool" where
  "pair_free used b \<longleftrightarrow> b \<notin> set used \<and> b + 1 \<notin> set used"

lemma first_free_pair_spec:
  "first_free_pair used n base = (- 1, - 1) \<and> (\<forall>i < n. \<not> pair_free used (base + 2 * int i)) \<or>
   (\<exists>i < n. first_free_pair used n base = (base + 2 * int i, base + 2 * int i + 1) \<and>
      pair_free used (base + 2 * int i) \<and> (\<forall>j < i. \<not> pair_free used (base + 2 * int j)))"
proof (induction used n base rule: first_free_pair.induct)
  case (2 used n base)
  show ?case
  proof (cases "pair_free used base")
    case True
    then show ?thesis by (intro disjI2 exI [of _ 0]) (simp add: pair_free_def)
  next
    case False
    then have step: "first_free_pair used (Suc n) base = first_free_pair used n (base + 2)"
      and IH: "first_free_pair used n (base + 2) = (- 1, - 1) \<and>
          (\<forall>i < n. \<not> pair_free used (base + 2 * int (Suc i))) \<or>
        (\<exists>i < n. first_free_pair used n (base + 2) = (base + 2 * int (Suc i), base + 2 * int (Suc i) + 1) \<and>
          pair_free used (base + 2 * int (Suc i)) \<and> (\<forall>j < i. \<not> pair_free used (base + 2 * int (Suc j))))"
      using 2 by (auto simp: pair_free_def algebra_simps)
    have all: "(\<forall>j < Suc m. \<not> pair_free used (base + 2 * int j)) \<longleftrightarrow>
        (\<forall>j < m. \<not> pair_free used (base + 2 * int (Suc j)))" for m
      using False by (subst All_less_Suc2) simp
    from IH show ?thesis
    proof
      assume "first_free_pair used n (base + 2) = (- 1, - 1) \<and>
          (\<forall>i < n. \<not> pair_free used (base + 2 * int (Suc i)))"
      then show ?thesis using step all [of n] by simp
    next
      assume "\<exists>i < n. first_free_pair used n (base + 2) = (base + 2 * int (Suc i), base + 2 * int (Suc i) + 1) \<and>
          pair_free used (base + 2 * int (Suc i)) \<and> (\<forall>j < i. \<not> pair_free used (base + 2 * int (Suc j)))"
      then obtain i where "i < n" "first_free_pair used n (base + 2) = (base + 2 * int (Suc i), base + 2 * int (Suc i) + 1)"
          "pair_free used (base + 2 * int (Suc i))" "\<forall>j < Suc i. \<not> pair_free used (base + 2 * int j)"
        using all by blast
      then show ?thesis using step by (intro disjI2 exI [of _ "Suc i"]) simp
    qed
  qed
qed simp

subsection \<open>Properties\<close>

text \<open>
  On the leader, with a reachable database: after \<open>setPort\<close> of a key to a
  non-empty value (a string, or a number, which is stored in decimal), \<open>getPort\<close> of the same key
  replies with that value, and \<open>getPort\<close> of a key with another collation weight replies as before.
\<close>

theorem setPort_getPort:
  assumes "pl_isLeader pl" "db_conn d" "fits 255 (''port_'' @ k)" "fits text_max v" "v \<noteq> []"
    and "command_string (JObj m) ''key'' = Inr k" "port_value (JObj m) = Inr v"
    and "command_string (JObj q) ''key'' = Inr k'"
  shows "snd (handleGetPort pl (JObj q) (fst (handleSetPort pl (JObj m) d))) =
    (if db_collate d (''port_'' @ k') = db_collate d (''port_'' @ k) then Inr (CmdResult 0 (v @ NL))
     else snd (handleGetPort pl (JObj q) d))"
proof -
  have "fst (handleSetPort pl (JObj m) d) = setSetting (''port_'' @ k) v d"
    using assms by (simp add: handleSetPort_def forwarded_leader)
  moreover have "getSetting (''port_'' @ k') (setSetting (''port_'' @ k) v d) =
      (if db_collate d (''port_'' @ k') = db_collate d (''port_'' @ k) then v else getSetting (''port_'' @ k') d)"
    using assms by (intro settings_kv.get_put) simp
  ultimately show ?thesis
    using assms by (simp add: handleGetPort_def forwarded_leader Let_def)
qed

definition sample_link :: peer_link where
  "sample_link = \<lparr>pl_isLeader = True, pl_connected = False, pl_connect = False, pl_write_ok = False,
     pl_reply = (\<lambda>_. None)\<rparr>"

theorem setPort_getPort_witness:
  "snd (handleGetPort sample_link (JObj [(''key'', JStr ''cad'')])
     (fst (handleSetPort sample_link (JObj [(''key'', JStr ''cad''), (''value'', JInt 3001)]) sample_db)))
   = Inr (CmdResult 0 (''3001'' @ NL))"
proof -
  have v: "to_string 3001 = ''3001''" by code_simp
  have "port_value (JObj [(''key'', JStr ''cad''), (''value'', JInt 3001)]) = Inr ''3001''"
    by (simp add: port_value_def json_access_defs signed_take_bit_int_eq_self v)
  then show ?thesis
    using setPort_getPort [of sample_link sample_db "''cad''" "''3001''"
        "[(''key'', JStr ''cad''), (''value'', JInt 3001)]" "[(''key'', JStr ''cad'')]" "''cad''"]
    by (simp add: sample_link_def sample_db_def fits_def json_access_defs)
qed

text \<open>
  On the leader, \<open>deletePort\<close> succeeds exactly when the key has an assignment,
  and afterwards \<open>getPort\<close> of that key reports that the port is not set.
\<close>

theorem deletePort_getPort:
  assumes "pl_isLeader pl" "db_conn d" "command_string (JObj m) ''key'' = Inr k"
  shows "snd (handleDeletePort pl (JObj m) d) =
      Inr (if row_get (db_collate d) (''port_'' @ k) (system_settings d) \<noteq> None
           then CmdResult 0 (''Port entry deleted for '' @ k @ NL)
           else CmdResult 1 (''Port entry not found for '' @ k @ NL)) \<and>
    snd (handleGetPort pl (JObj m) (fst (handleDeletePort pl (JObj m) d)))
      = Inr (CmdResult 1 (''Port not set for '' @ k @ NL))"
proof -
  let ?rs = "row_delete (db_collate d) (''port_'' @ k) (system_settings d)"
  have "1 \<le> int (length (system_settings d)) - int (length ?rs) \<longleftrightarrow>
      row_get (db_collate d) (''port_'' @ k) (system_settings d) \<noteq> None"
    using row_delete_shorter [of "db_collate d" "''port_'' @ k" "system_settings d"]
      row_delete_length_eq_iff [of "db_collate d" "''port_'' @ k" "system_settings d"] by linarith
  then show ?thesis
    using assms
    by (simp add: handleDeletePort_def handleGetPort_def forwarded_leader deleteSetting_def getSetting_def
        Let_def)
qed

theorem deletePort_getPort_witness:
  "snd (handleDeletePort sample_link (JObj [(''key'', JStr ''x'')]) sample_db)
     = Inr (CmdResult 1 (''Port entry not found for x'' @ NL))"
  using deletePort_getPort [of sample_link sample_db "[(''key'', JStr ''x'')]" "''x''"]
  by (simp add: sample_link_def sample_db_def json_access_defs)

text \<open>
  \<open>listPorts\<close> lists the assignments in ascending port order, and a key and port are
  listed iff the settings hold that key under the prefix \<open>port_\<close> with a value that
  \<open>std::stoi\<close> reads as that port.
\<close>

theorem listed_ports_correct:
  "sorted (map snd (listed_ports d)) \<and>
   ((k, p) \<in> set (listed_ports d) \<longleftrightarrow>
      (\<exists>v. (''port_'' @ k, v) \<in> set (getAllSettings d) \<and> stoi v = Inr p))"
  by (simp add: listed_ports_def port_rows_iff)

text \<open>
  C20 (safety). \<open>findNextAvailablePortPair\<close> returns the first pair of adjacent ports, starting at an
  even port of the range 3000 to 3498, neither of which is assigned; it returns (-1, -1) exactly
  when every such pair is taken.
\<close>

theorem findNextAvailablePortPair_correct:
  "let used = usedPorts d; r = findNextAvailablePortPair d in
   r = (- 1, - 1) \<and> (\<forall>i < 250. \<not> pair_free used (3000 + 2 * int i)) \<or>
   (\<exists>i < 250. r = (3000 + 2 * int i, 3000 + 2 * int i + 1) \<and> pair_free used (3000 + 2 * int i) \<and>
      (\<forall>j < i. \<not> pair_free used (3000 + 2 * int j)))"
  unfolding findNextAvailablePortPair_def Let_def by (rule first_free_pair_spec)

theorem findNextAvailablePortPair_correct_witness:
  "findNextAvailablePortPair sample_db = (3000, 3001)"
proof -
  have used: "usedPorts sample_db = []"
    by (simp add: usedPorts_def port_rows_def getAllSettings_def sample_db_def List.map_filter_def)
  have "\<exists>i < (250 :: nat). pair_free [] (3000 + 2 * int i)" by (rule exI [of _ 0]) (simp add: pair_free_def)
  moreover have "pair_free [] b" for b by (simp add: pair_free_def)
  ultimately show ?thesis
    using findNextAvailablePortPair_correct [of sample_db]
    by (auto simp: used Let_def) (metis gr_zeroI)
qed

text \<open>
  \<open>findNextAvailableServerPort\<close> returns the least unassigned port of 3500 to 3999,
  and -1 exactly when all of them are assigned.
\<close>

theorem findNextAvailableServerPort_correct:
  "let p = findNextAvailableServerPort d in
   if \<exists>q. 3500 \<le> q \<and> q \<le> 3999 \<and> q \<notin> set (usedPorts d)
   then 3500 \<le> p \<and> p \<le> 3999 \<and> p \<notin> set (usedPorts d) \<and>
        (\<forall>q. 3500 \<le> q \<and> q < p \<longrightarrow> q \<in> set (usedPorts d))
   else p = - 1"
proof (cases "scan_up (\<lambda>port. port \<notin> set (usedPorts d)) 3500 3999")
  case None
  then have "\<forall>q. 3500 \<le> q \<and> q \<le> 3999 \<longrightarrow> q \<in> set (usedPorts d)" by (simp add: scan_up_None_iff)
  with None show ?thesis by (auto simp: findNextAvailableServerPort_def Let_def)
next
  case (Some p)
  from scan_up_SomeD [OF this] Some show ?thesis
    by (auto simp: findNextAvailableServerPort_def Let_def)
qed

theorem findNextAvailableServerPort_correct_witness:
  "findNextAvailableServerPort sample_db = 3500"
proof -
  have used: "usedPorts sample_db = []"
    by (simp add: usedPorts_def port_rows_def getAllSettings_def sample_db_def List.map_filter_def)
  have "\<exists>q. (3500 :: int) \<le> q \<and> q \<le> 3999" by (rule exI [of _ 3500]) simp
  then show ?thesis
    using findNextAvailableServerPort_correct [of sample_db] by (auto simp: used Let_def)
qed

text \<open>
  On a worker the port commands never touch the local settings: they only relay the
  leader's answer or report why there is none.
\<close>

theorem worker_forwards_port_commands:
  assumes "\<not> pl_isLeader pl"
    and "h = handleGetPort pl (JObj m) \<or> h = handleSetPort pl (JObj m) \<or> h = handleDeletePort pl (JObj m)"
  shows "fst (h d) = d \<and> (\<exists>c n. snd (h d) = Inr (forwardToLeader pl c n))"
  using assms
  by (auto simp: handleGetPort_def handleSetPort_def handleDeletePort_def forwarded_worker)
     (auto simp: forwarded_def jput_def forwardToLeader_status Let_def)

theorem worker_forwards_port_commands_witness:
  "fst (handleSetPort (sample_link\<lparr>pl_isLeader := False\<rparr>)
     (JObj [(''key'', JStr ''cad''), (''value'', JStr ''1'')]) sample_db) = sample_db"
  using worker_forwards_port_commands [of "sample_link\<lparr>pl_isLeader := False\<rparr>"
      "handleSetPort (sample_link\<lparr>pl_isLeader := False\<rparr>) (JObj [(''key'', JStr ''cad''), (''value'', JStr ''1'')])"
      "[(''key'', JStr ''cad''), (''value'', JStr ''1'')]" sample_db]
  by simp

end
