(* ===== verification/Event_Codes.thy ===== *)
theory Event_Codes
  imports Prelude
begin

text \<open>
  The event types and key codes of the kernel's \<open>linux/input-event-codes.h\<close> that the daemon
  names, and the virtual codes \<open>G1_VIRTUAL\<close> to \<open>G6_VIRTUAL\<close> of
  \<open>daemon/include/InputMapper.h\<close>, as 16 bit words.
\<close>

type_synonym u16 = "16 word"
type_synonym i32 = "32 word"

abbreviation EV_SYN :: u16 where "EV_SYN \<equiv> 0"
abbreviation EV_KEY :: u16 where "EV_KEY \<equiv> 1"
abbreviation EV_REL :: u16 where "EV_REL \<equiv> 2"
abbreviation EV_ABS :: u16 where "EV_ABS \<equiv> 3"
abbreviation EV_MSC :: u16 where "EV_MSC \<equiv> 4"
abbreviation SYN_REPORT :: u16 where "SYN_REPORT \<equiv> 0"
abbreviation MSC_SCAN :: u16 where "MSC_SCAN \<equiv> 4"
abbreviation KEY_ESC :: u16 where "KEY_ESC \<equiv> 1"
abbreviation KEY_1 :: u16 where "KEY_1 \<equiv> 2"
abbreviation KEY_2 :: u16 where "KEY_2 \<equiv> 3"
abbreviation KEY_3 :: u16 where "KEY_3 \<equiv> 4"
abbreviation KEY_4 :: u16 where "KEY_4 \<equiv> 5"
abbreviation KEY_5 :: u16 where "KEY_5 \<equiv> 6"
abbreviation KEY_6 :: u16 where "KEY_6 \<equiv> 7"
abbreviation KEY_7 :: u16 where "KEY_7 \<equiv> 8"
abbreviation KEY_8 :: u16 where "KEY_8 \<equiv> 9"
abbreviation KEY_9 :: u16 where "KEY_9 \<equiv> 10"
abbreviation KEY_0 :: u16 where "KEY_0 \<equiv> 11"
abbreviation KEY_MINUS :: u16 where "KEY_MINUS \<equiv> 12"
abbreviation KEY_EQUAL :: u16 where "KEY_EQUAL \<equiv> 13"
abbreviation KEY_BACKSPACE :: u16 where "KEY_BACKSPACE \<equiv> 14"
abbreviation KEY_TAB :: u16 where "KEY_TAB \<equiv> 15"
abbreviation KEY_Q :: u16 where "KEY_Q \<equiv> 16"
abbreviation KEY_W :: u16 where "KEY_W \<equiv> 17"
abbreviation KEY_E :: u16 where "KEY_E \<equiv> 18"
abbreviation KEY_R :: u16 where "KEY_R \<equiv> 19"
abbreviation KEY_T :: u16 where "KEY_T \<equiv> 20"
abbreviation KEY_Y :: u16 where "KEY_Y \<equiv> 21"
abbreviation KEY_U :: u16 where "KEY_U \<equiv> 22"
abbreviation KEY_I :: u16 where "KEY_I \<equiv> 23"
abbreviation KEY_O :: u16 where "KEY_O \<equiv> 24"
abbreviation KEY_P :: u16 where "KEY_P \<equiv> 25"
abbreviation KEY_LEFTBRACE :: u16 where "KEY_LEFTBRACE \<equiv> 26"
abbreviation KEY_RIGHTBRACE :: u16 where "KEY_RIGHTBRACE \<equiv> 27"
abbreviation KEY_ENTER :: u16 where "KEY_ENTER \<equiv> 28"
abbreviation KEY_LEFTCTRL :: u16 where "KEY_LEFTCTRL \<equiv> 29"
abbreviation KEY_A :: u16 where "KEY_A \<equiv> 30"
abbreviation KEY_S :: u16 where "KEY_S \<equiv> 31"
abbreviation KEY_D :: u16 where "KEY_D \<equiv> 32"
abbreviation KEY_F :: u16 where "KEY_F \<equiv> 33"
abbreviation KEY_G :: u16 where "KEY_G \<equiv> 34"
abbreviation KEY_H :: u16 where "KEY_H \<equiv> 35"
abbreviation KEY_J :: u16 where "KEY_J \<equiv> 36"
abbreviation KEY_K :: u16 where "KEY_K \<equiv> 37"
abbreviation KEY_L :: u16 where "KEY_L \<equiv> 38"
abbreviation KEY_SEMICOLON :: u16 where "KEY_SEMICOLON \<equiv> 39"
abbreviation KEY_APOSTROPHE :: u16 where "KEY_APOSTROPHE \<equiv> 40"
abbreviation KEY_GRAVE :: u16 where "KEY_GRAVE \<equiv> 41"
abbreviation KEY_LEFTSHIFT :: u16 where "KEY_LEFTSHIFT \<equiv> 42"
abbreviation KEY_BACKSLASH :: u16 where "KEY_BACKSLASH \<equiv> 43"
abbreviation KEY_Z :: u16 where "KEY_Z \<equiv> 44"
abbreviation KEY_X :: u16 where "KEY_X \<equiv> 45"
abbreviation KEY_C :: u16 where "KEY_C \<equiv> 46"
abbreviation KEY_V :: u16 where "KEY_V \<equiv> 47"
abbreviation KEY_B :: u16 where "KEY_B \<equiv> 48"
abbreviation KEY_N :: u16 where "KEY_N \<equiv> 49"
abbreviation KEY_M :: u16 where "KEY_M \<equiv> 50"
abbreviation KEY_COMMA :: u16 where "KEY_COMMA \<equiv> 51"
abbreviation KEY_DOT :: u16 where "KEY_DOT \<equiv> 52"
abbreviation KEY_SLASH :: u16 where "KEY_SLASH \<equiv> 53"
abbreviation KEY_LEFTALT :: u16 where "KEY_LEFTALT \<equiv> 56"
abbreviation KEY_SPACE :: u16 where "KEY_SPACE \<equiv> 57"
abbreviation KEY_CAPSLOCK :: u16 where "KEY_CAPSLOCK \<equiv> 58"
abbreviation KEY_F1 :: u16 where "KEY_F1 \<equiv> 59"
abbreviation KEY_F2 :: u16 where "KEY_F2 \<equiv> 60"
abbreviation KEY_F3 :: u16 where "KEY_F3 \<equiv> 61"
abbreviation KEY_F4 :: u16 where "KEY_F4 \<equiv> 62"
abbreviation KEY_F5 :: u16 where "KEY_F5 \<equiv> 63"
abbreviation KEY_F6 :: u16 where "KEY_F6 \<equiv> 64"
abbreviation KEY_F7 :: u16 where "KEY_F7 \<equiv> 65"
abbreviation KEY_F8 :: u16 where "KEY_F8 \<equiv> 66"
abbreviation KEY_F9 :: u16 where "KEY_F9 \<equiv> 67"
abbreviation KEY_F10 :: u16 where "KEY_F10 \<equiv> 68"
abbreviation KEY_NUMLOCK :: u16 where "KEY_NUMLOCK \<equiv> 69"
abbreviation KEY_SCROLLLOCK :: u16 where "KEY_SCROLLLOCK \<equiv> 70"
abbreviation KEY_F11 :: u16 where "KEY_F11 \<equiv> 87"
abbreviation KEY_F12 :: u16 where "KEY_F12 \<equiv> 88"
abbreviation KEY_RIGHTCTRL :: u16 where "KEY_RIGHTCTRL \<equiv> 97"
abbreviation KEY_HOME :: u16 where "KEY_HOME \<equiv> 102"
abbreviation KEY_UP :: u16 where "KEY_UP \<equiv> 103"
abbreviation KEY_PAGEUP :: u16 where "KEY_PAGEUP \<equiv> 104"
abbreviation KEY_LEFT :: u16 where "KEY_LEFT \<equiv> 105"
abbreviation KEY_RIGHT :: u16 where "KEY_RIGHT \<equiv> 106"
abbreviation KEY_END :: u16 where "KEY_END \<equiv> 107"
abbreviation KEY_DOWN :: u16 where "KEY_DOWN \<equiv> 108"
abbreviation KEY_PAGEDOWN :: u16 where "KEY_PAGEDOWN \<equiv> 109"
abbreviation KEY_INSERT :: u16 where "KEY_INSERT \<equiv> 110"
abbreviation KEY_DELETE :: u16 where "KEY_DELETE \<equiv> 111"
abbreviation KEY_PAUSE :: u16 where "KEY_PAUSE \<equiv> 119"
abbreviation KEY_LEFTMETA :: u16 where "KEY_LEFTMETA \<equiv> 125"
abbreviation BTN_MISC :: u16 where "BTN_MISC \<equiv> 256"
abbreviation BTN_LEFT :: u16 where "BTN_LEFT \<equiv> 272"
abbreviation BTN_FORWARD :: u16 where "BTN_FORWARD \<equiv> 277"
abbreviation KEY_OK :: u16 where "KEY_OK \<equiv> 352"
abbreviation G1_VIRTUAL :: u16 where "G1_VIRTUAL \<equiv> 1001"
abbreviation G2_VIRTUAL :: u16 where "G2_VIRTUAL \<equiv> 1002"
abbreviation G3_VIRTUAL :: u16 where "G3_VIRTUAL \<equiv> 1003"
abbreviation G4_VIRTUAL :: u16 where "G4_VIRTUAL \<equiv> 1004"
abbreviation G5_VIRTUAL :: u16 where "G5_VIRTUAL \<equiv> 1005"
abbreviation G6_VIRTUAL :: u16 where "G6_VIRTUAL \<equiv> 1006"

text \<open>Key values: release, press and autorepeat (\<open>KEY_RELEASE\<close>, \<open>KEY_PRESS\<close>,
  \<open>KEY_REPEAT\<close> of \<open>daemon/include/Constants.h\<close>).\<close>

abbreviation KEY_RELEASE :: i32 where "KEY_RELEASE \<equiv> 0"
abbreviation KEY_PRESS :: i32 where "KEY_PRESS \<equiv> 1"
abbreviation KEY_REPEAT :: i32 where "KEY_REPEAT \<equiv> 2"

record input_event =
  ev_type :: u16
  ev_code :: u16
  ev_value :: i32

type_synonym raw_event = "u16 \<times> u16 \<times> i32"

abbreviation SYN :: raw_event where "SYN \<equiv> (EV_SYN, SYN_REPORT, 0)"

end
