(* ===== verification/Macro_Config.thy ===== *)
theory Macro_Config
  imports Event_Codes Json_Values
begin

text \<open>
  The macro data model of \<open>daemon/include/InputMapper.h\<close>, the built-in macros of
  \<open>daemon/src/MacroConfig.cpp\<close>, the application types of \<open>daemon/include/Types.h\<close> with
  their names (\<open>daemon/src/Utils.cpp\<close>), and the JSON import and export of macros
  (\<open>getMacrosJson\<close>, \<open>setMacrosFromJsonInternal\<close> of \<open>daemon/src/InputMapper.cpp\<close>).
\<close>

datatype AppType = OTHER | TERMINAL | CHROME | CODE

primrec app_rank :: "AppType \<Rightarrow> nat" where
  "app_rank OTHER = 0"
| "app_rank TERMINAL = 1"
| "app_rank CHROME = 2"
| "app_rank CODE = 3"

lemma app_rank_inject [simp]: "app_rank a = app_rank b \<longleftrightarrow> a = b"
  by (cases a; cases b) simp_all

instantiation AppType :: linorder
begin

definition less_eq_AppType :: "AppType \<Rightarrow> AppType \<Rightarrow> bool" where
  "less_eq_AppType a b \<longleftrightarrow> app_rank a \<le> app_rank b"

definition less_AppType :: "AppType \<Rightarrow> AppType \<Rightarrow> bool" where
  "less_AppType a b \<longleftrightarrow> app_rank a < app_rank b"

instance
  by standard (auto simp: less_eq_AppType_def less_AppType_def)

end

text \<open>A custom handler is either absent or the one handler the code binds, the ChatGPT paste.\<close>

datatype customHandler = NoHandler | ChatGPTHandler

record trigger_event =
  te_type :: u16
  te_code :: u16
  te_value :: i32
  te_suppress :: bool
  te_ignoreRepeat :: bool

record KeyTrigger =
  events :: "trigger_event list"
  hasSuppressedKeys :: bool
  noiseBreaks :: bool

record KeyAction =
  trigger :: KeyTrigger
  keySequence :: "(u16 \<times> i32) list"
  logMessage :: string
  handler :: customHandler

abbreviation TE :: "u16 \<Rightarrow> i32 \<Rightarrow> bool \<Rightarrow> bool \<Rightarrow> trigger_event" where
  "TE c v s r \<equiv> \<lparr>te_type = EV_KEY, te_code = c, te_value = v, te_suppress = s, te_ignoreRepeat = r\<rparr>"

abbreviation Trigger :: "trigger_event list \<Rightarrow> KeyTrigger" where
  "Trigger es \<equiv> \<lparr>events = es, hasSuppressedKeys = False, noiseBreaks = True\<rparr>"

subsection \<open>Built-in macros\<close>

definition defaultMacros :: "KeyAction list" where
  "defaultMacros =
    [\<lparr>trigger = Trigger [TE BTN_FORWARD KEY_PRESS False False],
      keySequence = [(KEY_ENTER, 1), (KEY_ENTER, 0)],
      logMessage = ''Triggering mouse forward button (press) '' @ [CHR 0xE2, CHR 0x86, CHR 0x92] @ '' Enter'', handler = NoHandler\<rparr>,
     \<lparr>trigger = Trigger [TE G6_VIRTUAL KEY_PRESS False False],
      keySequence = [(KEY_LEFTCTRL, 1), (KEY_C, 1), (KEY_C, 0), (KEY_LEFTCTRL, 0)],
      logMessage = ''Triggering G6 (press) Ctrl+C macro'', handler = NoHandler\<rparr>]"

text \<open>The inner loop of \<open>applyOverrides\<close>: overwrite the first macro with the same trigger, else append.\<close>

fun override_macro :: "KeyAction \<Rightarrow> KeyAction list \<Rightarrow> KeyAction list" where
  "override_macro a [] = [a]"
| "override_macro a (f # fs) = (if trigger f = trigger a then a # fs else f # override_macro a fs)"

definition applyOverrides :: "KeyAction list \<Rightarrow> KeyAction list" where
  "applyOverrides appSpecific = fold override_macro appSpecific defaultMacros"

definition terminalSpecificMacros :: "KeyAction list" where
  "terminalSpecificMacros =
    [\<lparr>trigger = Trigger [TE G1_VIRTUAL KEY_PRESS False False],
      keySequence = [(KEY_LEFTCTRL, 1), (KEY_LEFTALT, 1), (KEY_C, 1), (KEY_C, 0), (KEY_LEFTALT, 0),
        (KEY_LEFTCTRL, 0)],
      logMessage = ''Triggering G1 (press) SIGINT macro (Ctrl+Alt+C) for Gnome Terminal'',
      handler = NoHandler\<rparr>,
     \<lparr>trigger = Trigger [TE G2_VIRTUAL KEY_PRESS False False],
      keySequence = [(KEY_G, 1), (KEY_G, 0), (KEY_I, 1), (KEY_I, 0), (KEY_T, 1), (KEY_T, 0),
        (KEY_SPACE, 1), (KEY_SPACE, 0), (KEY_S, 1), (KEY_S, 0), (KEY_ENTER, 1), (KEY_ENTER, 0)],
      logMessage = ''Triggering G2 (press) GITS macro (G+I+T+S+Enter) for Gnome Terminal'',
      handler = NoHandler\<rparr>,
     \<lparr>trigger = \<lparr>events = [TE KEY_LEFTCTRL KEY_PRESS False False, TE BTN_LEFT KEY_PRESS True False],
        hasSuppressedKeys = True, noiseBreaks = False\<rparr>,
      keySequence = [(KEY_LEFTCTRL, KEY_RELEASE), (KEY_7, KEY_PRESS), (KEY_7, KEY_RELEASE),
        (KEY_LEFTCTRL, KEY_PRESS)],
      logMessage = ''Triggering Terminal Ctrl+Left Click macro (map to '' @ [CHR 0x27] @ ''7'' @ [CHR 0x27] @ '')'',
      handler = NoHandler\<rparr>]"

definition codeSpecificMacros :: "KeyAction list" where
  "codeSpecificMacros =
    [\<lparr>trigger = Trigger [TE G2_VIRTUAL KEY_PRESS False False],
      keySequence = [(KEY_END, KEY_PRESS), (KEY_END, KEY_RELEASE)],
      logMessage = ''Triggering G2 (press) End macro for VS Code'', handler = NoHandler\<rparr>,
     \<lparr>trigger = Trigger [TE BTN_FORWARD KEY_PRESS False False],
      keySequence = [(KEY_A, 1), (KEY_A, 0)],
      logMessage = ''Triggering mouse forward button (press) -> A in Code app (override default)'',
      handler = NoHandler\<rparr>]"

definition chromeSpecificMacros :: "KeyAction list" where
  "chromeSpecificMacros =
    [\<lparr>trigger = Trigger [TE KEY_LEFTCTRL KEY_PRESS False True, TE KEY_V KEY_PRESS True False],
      keySequence = [],
      logMessage = ''Triggering ChatGPT Ctrl+V macro (Focus + Paste)'', handler = ChatGPTHandler\<rparr>]"

text \<open>\<open>KEY_REPEAT_BREAKS_YES\<close> is the constant \<open>true\<close> and fills the field the matcher reads as
  \<open>ignoreRepeat\<close>.\<close>

definition initializeAppMacros :: "(AppType, KeyAction list) omap \<Rightarrow> (AppType, KeyAction list) omap" where
  "initializeAppMacros m =
     om_put OTHER defaultMacros
       (om_put CHROME (applyOverrides chromeSpecificMacros)
         (om_put CODE (applyOverrides codeSpecificMacros)
           (om_put TERMINAL (applyOverrides terminalSpecificMacros) m)))"

subsection \<open>Application names\<close>

definition to_lower :: "string \<Rightarrow> string" where
  "to_lower s = map (\<lambda>c. if 65 \<le> (of_char c :: nat) \<and> (of_char c :: nat) \<le> 90
     then char_of ((of_char c :: nat) + 32) else c) s"

definition stringToAppType :: "string \<Rightarrow> AppType" where
  "stringToAppType appName =
     (if appName = ''gnome-terminal-server'' then TERMINAL
      else if appName = ''google-chrome'' then CHROME
      else if appName = ''code'' then CODE
      else let lower = to_lower appName in
        if contains_str ''antigravity'' lower \<or> contains_str ''chatgpt'' lower then CHROME else OTHER)"

primrec appTypeToString :: "AppType \<Rightarrow> string" where
  "appTypeToString TERMINAL = ''TERMINAL''"
| "appTypeToString CHROME = ''CHROME''"
| "appTypeToString CODE = ''CODE''"
| "appTypeToString OTHER = ''OTHER''"

subsection \<open>JSON export\<close>

text \<open>Objects list their members in key order, as the JSON library's map does.\<close>

definition trigger_event_json :: "trigger_event \<Rightarrow> json" where
  "trigger_event_json e = JObj
     [(''code'', JInt (uint (te_code e))), (''ignoreRepeat'', JBool (te_ignoreRepeat e)),
      (''state'', JInt (sint (te_value e))), (''suppress'', JBool (te_suppress e)),
      (''type'', JInt (uint (te_type e)))]"

definition action_json :: "KeyAction \<Rightarrow> json" where
  "action_json a = JObj
     [(''hasHandler'', JBool (handler a \<noteq> NoHandler)), (''logMessage'', JStr (logMessage a)),
      (''sequence'', JArr (map (\<lambda>(c, v). JArr [JInt (uint c), JInt (sint v)]) (keySequence a))),
      (''trigger'', JObj [(''keys'', JArr (map trigger_event_json (events (trigger a))))])]"

definition getMacrosJson :: "(AppType, KeyAction list) omap \<Rightarrow> json" where
  "getMacrosJson appMacros = JObj
     (fold (\<lambda>(app, as). om_put (appTypeToString app) (JArr (map action_json as))) appMacros [])"

subsection \<open>JSON import\<close>

text \<open>Iterating a value: the elements of an array, the member values of an object, nothing for null,
  the value itself otherwise.\<close>

definition jiter :: "json \<Rightarrow> json list" where
  "jiter j = (case j of JArr xs \<Rightarrow> xs | JObj m \<Rightarrow> map snd m | JNull \<Rightarrow> [] | _ \<Rightarrow> [j])"

definition jget_i32 :: "json \<Rightarrow> i32 result" where
  "jget_i32 j = try_result (jget_arith j) (\<lambda>i. Inr (word_of_int i))"

text \<open>One trigger key: an object with defaults, an array \<open>[code, state, suppress?, ignoreRepeat?]\<close>,
  anything else is skipped.\<close>

definition trigger_key_of_json :: "json \<Rightarrow> trigger_event option result" where
  "trigger_key_of_json tk = (case tk of
      JObj _ \<Rightarrow>
        try_result (jvalue jget_u16 tk ''type'' EV_KEY) (\<lambda>t.
        try_result (jvalue jget_u16 tk ''code'' 0) (\<lambda>c.
        try_result (jvalue jget_i32 tk ''state'' 0) (\<lambda>v.
        try_result (jvalue jget_bool tk ''suppress'' False) (\<lambda>s.
        try_result (jvalue jget_bool tk ''ignoreRepeat'' False) (\<lambda>r.
          Inr (Some \<lparr>te_type = t, te_code = c, te_value = v, te_suppress = s, te_ignoreRepeat = r\<rparr>))))))
    | JArr xs \<Rightarrow>
        if length xs \<ge> 2 then
          try_result (jget_u16 (xs ! 0)) (\<lambda>c.
          try_result (jget_i32 (xs ! 1)) (\<lambda>v.
          try_result (if length xs \<ge> 3 then jget_bool (xs ! 2) else Inr False) (\<lambda>s.
          try_result (if length xs \<ge> 4 then jget_bool (xs ! 3) else Inr False) (\<lambda>r.
            Inr (Some (TE c v s r))))))
        else Inr None
    | _ \<Rightarrow> Inr None)"

fun collect_results :: "('a \<Rightarrow> 'b option result) \<Rightarrow> 'a list \<Rightarrow> 'b list result" where
  "collect_results f [] = Inr []"
| "collect_results f (x # xs) =
     try_result (f x) (\<lambda>r. try_result (collect_results f xs)
       (\<lambda>ys. Inr (case r of None \<Rightarrow> ys | Some y \<Rightarrow> y # ys)))"

definition trigger_of_json :: "json \<Rightarrow> KeyTrigger result" where
  "trigger_of_json t =
     try_result (jvalue jget_bool t ''noiseBreaks'' True) (\<lambda>nb.
     try_result (if jcontains t ''keys'' then try_result (jat t ''keys'') (\<lambda>ks. collect_results trigger_key_of_json (jiter ks))
                 else Inr []) (\<lambda>es.
       Inr \<lparr>events = es, hasSuppressedKeys = list_ex te_suppress es, noiseBreaks = nb\<rparr>))"

definition sequence_key_of_json :: "json \<Rightarrow> (u16 \<times> i32) option result" where
  "sequence_key_of_json s = (case s of
      JArr xs \<Rightarrow>
        if length xs \<ge> 2 then
          try_result (jget_u16 (xs ! 0)) (\<lambda>c. try_result (jget_i32 (xs ! 1)) (\<lambda>v. Inr (Some (c, v))))
        else Inr None
    | _ \<Rightarrow> Inr None)"

text \<open>One macro: \<open>None\<close> when it has no trigger (it is then not added to the list).\<close>

definition action_of_json :: "json \<Rightarrow> KeyAction option result" where
  "action_of_json ma =
     try_result (jvalue jget_string ma ''message'' []) (\<lambda>msg.
     if \<not> jcontains ma ''trigger'' then Inr None
     else
       try_result (try_result (jat ma ''trigger'') trigger_of_json) (\<lambda>t.
       try_result (if jcontains ma ''sequence''
                   then try_result (jat ma ''sequence'') (\<lambda>s. collect_results sequence_key_of_json (jiter s))
                   else Inr []) (\<lambda>sq.
       try_result (jvalue jget_bool ma ''hasHandler'' False) (\<lambda>hh.
         Inr (Some \<lparr>trigger = t, keySequence = sq, logMessage = msg,
           handler = (if hh \<and> contains_str ''ChatGPT'' msg then ChatGPTHandler else NoHandler)\<rparr>)))))"

text \<open>The macros of one application: \<open>appMacros_[app]\<close> is assigned after every element of the
  array, so an empty array assigns nothing and an exception keeps what was assigned before it.\<close>

fun import_app_macros ::
  "AppType \<Rightarrow> KeyAction list \<Rightarrow> json list \<Rightarrow> (AppType, KeyAction list) omap
    \<Rightarrow> (AppType, KeyAction list) omap \<times> unit result" where
  "import_app_macros app acc [] m = (m, Inr ())"
| "import_app_macros app acc (ma # rest) m =
     (case action_of_json ma of
        Inl e \<Rightarrow> (m, Inl e)
      | Inr r \<Rightarrow>
          let acc' = (case r of None \<Rightarrow> acc | Some a \<Rightarrow> acc @ [a])
          in import_app_macros app acc' rest (om_put app acc' m))"

fun import_macros ::
  "(string \<times> json) list \<Rightarrow> (AppType, KeyAction list) omap \<Rightarrow> (AppType, KeyAction list) omap \<times> unit result" where
  "import_macros [] m = (m, Inr ())"
| "import_macros ((k, v) # rest) m =
     (case import_app_macros (stringToAppType k) [] (jiter v) m of
        (m', Inl e) \<Rightarrow> (m', Inl e)
      | (m', Inr _) \<Rightarrow> import_macros rest m')"

text \<open>\<open>it.key()\<close> on an iterator of a non-object raises; an empty array has no iteration.\<close>

definition setMacros_overlay ::
  "json \<Rightarrow> (AppType, KeyAction list) omap \<Rightarrow> (AppType, KeyAction list) omap \<times> unit result" where
  "setMacros_overlay j m0 =
     (let m = (if m0 = [] then initializeAppMacros m0 else m0) in
      case j of
        JObj kvs \<Rightarrow> import_macros kvs m
      | _ \<Rightarrow> if jiter j = [] then (m, Inr ()) else (m, Inl (TypeError 207)))"

end
