(* ===== verification/Input_Mapper.thy ===== *)
theory Input_Mapper
  imports Macro_Config Database
begin

text \<open>
  The input pipeline of \<open>daemon/src/InputMapper.cpp\<close>: tracking, the G-key recogniser, macro
  matching with withheld events, and emission to the virtual device.

  The record \<open>mapper\<close> holds the members of the class. \<open>out\<close> is the trace of the
  events written to the virtual input device; writes go there only while the device exists
  (\<open>uinputDev\<close>). Keys held down are a sorted list of codes (\<open>std::set\<close>). A paste thread
  started by the ChatGPT handler is counted in \<open>pendingPastes\<close> until it runs as a step of its own
  (\<open>run_paste_thread\<close>). Log output is not part of the state.

  What the code asks of its environment while it handles one event is in \<open>ev_env\<close>: the readings
  of the steady clock in nanoseconds, the hardware key state seen at each poll of the grab loop, the
  time each poll takes on top of its 10 ms sleep, and whether the kernel grants a grab.
\<close>

datatype PipelineResult = CONTINUE | CONSUMED | DROP

record WithheldKey =
  wk_type :: u16
  wk_code :: u16
  wk_value :: i32
  owningComboIdx :: nat

record ComboState =
  nextKeyIndex :: nat
  suppressedEvents :: "raw_event list"
  lastMatchTime :: int

record mapper =
  keyboardPath :: string
  mousePath :: string
  keyboardDev :: bool
  mouseDev :: bool
  uinputDev :: bool
  kbdGrabbed :: bool
  mouseGrabbed :: bool
  running :: bool
  pressedKeys :: "u16 list"
  monitoringMode :: bool
  ctrlDown :: bool
  numLockActive :: bool
  withheld :: "(u16, WithheldKey list) omap"
  gToggleState :: int
  emergencyScrollCount :: int
  emergencyFirstPress :: int
  activeApp :: AppType
  activeUrl :: string
  activeTitle :: string
  appMacros :: "(AppType, KeyAction list) omap"
  logFilterPatterns :: "string list"
  comboProgress :: "(AppType, (nat, ComboState) omap) omap"
  focusAckReceived :: bool
  focusRequests :: nat
  pendingPastes :: nat
  out :: "raw_event list"

record ev_env =
  clk_context :: int
  clk_macros :: int
  clk_match :: "nat \<Rightarrow> int"
  hw_pressed :: "nat \<Rightarrow> bool"
  poll_time :: "nat \<Rightarrow> nat"
  grab_kbd_ok :: bool
  grab_mouse_ok :: bool

abbreviation sec :: int where "sec \<equiv> 1000000000"

subsection \<open>Emission\<close>

definition write_raw :: "raw_event list \<Rightarrow> mapper \<Rightarrow> mapper" where
  "write_raw es m = (if uinputDev m then m\<lparr>out := out m @ es\<rparr> else m)"

definition emit :: "u16 \<Rightarrow> u16 \<Rightarrow> i32 \<Rightarrow> mapper \<Rightarrow> mapper" where
  "emit t c v m = write_raw [(t, c, v), SYN] m"

definition emitNoSync :: "u16 \<Rightarrow> u16 \<Rightarrow> i32 \<Rightarrow> mapper \<Rightarrow> mapper" where
  "emitNoSync t c v m = write_raw [(t, c, v)] m"

definition sync :: "mapper \<Rightarrow> mapper" where
  "sync m = write_raw [SYN] m"

definition emitSequence :: "(u16 \<times> i32) list \<Rightarrow> mapper \<Rightarrow> mapper" where
  "emitSequence sq m = write_raw (concat (map (\<lambda>(c, v). [(EV_KEY, c, v), SYN]) sq)) m"

definition emitFinal :: "input_event \<Rightarrow> mapper \<Rightarrow> mapper" where
  "emitFinal ev m =
     (if ev_type ev = EV_REL \<or> ev_type ev = EV_ABS
      then write_raw [(ev_type ev, ev_code ev, ev_value ev)] m
      else emit (ev_type ev) (ev_code ev) (ev_value ev) m)"

subsection \<open>The suppression registry\<close>

definition reg_add :: "u16 \<Rightarrow> u16 \<Rightarrow> i32 \<Rightarrow> nat \<Rightarrow> (u16, WithheldKey list) omap
    \<Rightarrow> (u16, WithheldKey list) omap" where
  "reg_add t c v i w =
     om_put c (om_index [] c w @ [\<lparr>wk_type = t, wk_code = c, wk_value = v, owningComboIdx = i\<rparr>]) w"

text \<open>
  \<open>claim\<close> runs \<open>std::remove_if\<close>, which moves the kept elements to the front, and then copies
  the tail from the returned position. The standard leaves the tail unspecified; in libstdc++ the
  positions past the kept elements are never written, so they hold what was there before.
\<close>

definition claim_vec :: "nat \<Rightarrow> WithheldKey list \<Rightarrow> WithheldKey list \<times> WithheldKey list" where
  "claim_vec i vec =
     (let kept = filter (\<lambda>wk. owningComboIdx wk \<noteq> i) vec in (drop (length kept) vec, kept))"

definition claim :: "nat \<Rightarrow> (u16, WithheldKey list) omap
    \<Rightarrow> WithheldKey list \<times> (u16, WithheldKey list) omap" where
  "claim i w =
     (concat (map (\<lambda>(c, vec). fst (claim_vec i vec)) w),
      map (\<lambda>(c, vec). (c, snd (claim_vec i vec))) w)"

text \<open>\<open>isBlocked\<close> indexes the map and so may add an empty vector, which no operation observes.\<close>

definition isBlocked :: "u16 \<Rightarrow> (u16, WithheldKey list) omap \<Rightarrow> bool" where
  "isBlocked c w = (om_index [] c w \<noteq> [])"

definition registry_claim :: "nat \<Rightarrow> mapper \<Rightarrow> WithheldKey list \<times> mapper" where
  "registry_claim i m = (let (cl, w) = claim i (withheld m) in (cl, m\<lparr>withheld := w\<rparr>))"

text \<open>Give up a combo: claim its withheld events and emit those whose key no other combo withholds.\<close>

definition release_claimed :: "nat \<Rightarrow> mapper \<Rightarrow> mapper" where
  "release_claimed i m =
     (let (claimed, m1) = registry_claim i m
      in sync (fold (\<lambda>wk m. if \<not> isBlocked (wk_code wk) (withheld m)
                            then emit (wk_type wk) (wk_code wk) (wk_value wk) m else m) claimed m1))"

subsection \<open>Grabbing\<close>

text \<open>
  The wait loop of \<open>grabDevices\<close>: at poll \<open>i\<close>, \<open>elapsed\<close> nanoseconds after the start, it
  ends with success when neither the hardware nor \<open>pressedKeys_\<close> reports a key, and gives up once
  more than two seconds have passed. \<open>clear i\<close> says that \<open>pressedKeys_\<close> is empty at poll \<open>i\<close>.
\<close>

function grab_wait ::
  "(nat \<Rightarrow> bool) \<Rightarrow> (nat \<Rightarrow> bool) \<Rightarrow> (nat \<Rightarrow> nat) \<Rightarrow> nat \<Rightarrow> nat \<Rightarrow> bool" where
  "grab_wait hw clear time i elapsed =
     (if \<not> hw i \<and> clear i then True
      else if elapsed > 2000000000 then False
      else grab_wait hw clear time (Suc i) (elapsed + 10000000 + time i))"
  by pat_completeness auto
termination
  by (relation "measure (\<lambda>(hw, clear, time, i, elapsed). 2000000001 - elapsed)") auto

declare grab_wait.simps [simp del]

definition do_grab :: "ev_env \<Rightarrow> mapper \<Rightarrow> mapper" where
  "do_grab env m =
     m\<lparr>kbdGrabbed := kbdGrabbed m \<or> keyboardDev m \<and> grab_kbd_ok env,
       mouseGrabbed := mouseGrabbed m \<or> mouseDev m \<and> grab_mouse_ok env,
       monitoringMode := False\<rparr>"

definition grabDevices :: "ev_env \<Rightarrow> (nat \<Rightarrow> bool) \<Rightarrow> mapper \<Rightarrow> mapper" where
  "grabDevices env clear m =
     (if grab_wait (hw_pressed env) clear (poll_time env) 0 0 then do_grab env m else m)"

definition ungrabDevices :: "mapper \<Rightarrow> mapper" where
  "ungrabDevices m =
     m\<lparr>kbdGrabbed := kbdGrabbed m \<and> \<not> keyboardDev m, mouseGrabbed := mouseGrabbed m \<and> \<not> mouseDev m,
       monitoringMode := True\<rparr>"

definition ungrabDevicesSignalSafe :: "mapper \<Rightarrow> mapper" where
  "ungrabDevicesSignalSafe m =
     m\<lparr>kbdGrabbed := kbdGrabbed m \<and> \<not> keyboardDev m, mouseGrabbed := mouseGrabbed m \<and> \<not> mouseDev m\<rparr>"

subsection \<open>Resetting\<close>

definition reset_combo :: "ComboState \<Rightarrow> ComboState" where
  "reset_combo st = st\<lparr>suppressedEvents := [], nextKeyIndex := 0\<rparr>"

definition reset_progress ::
  "(AppType, (nat, ComboState) omap) omap \<Rightarrow> (AppType, (nat, ComboState) omap) omap" where
  "reset_progress cp = map (\<lambda>(a, cm). (a, map (\<lambda>(i, st). (i, reset_combo st)) cm)) cp"

definition combo_indices :: "(AppType, (nat, ComboState) omap) omap \<Rightarrow> nat list" where
  "combo_indices cp = concat (map (\<lambda>(a, cm). map fst cm) cp)"

definition releaseAllPressedKeys :: "mapper \<Rightarrow> mapper" where
  "releaseAllPressedKeys m =
     (let m1 = fold (\<lambda>i m. snd (registry_claim i m)) (combo_indices (comboProgress m)) m;
          m2 = m1\<lparr>comboProgress := reset_progress (comboProgress m1)\<rparr>;
          m3 = sync (fold (\<lambda>c m. emit EV_KEY c 0 m) (pressedKeys m2) m2)
      in m3\<lparr>pressedKeys := []\<rparr>)"

definition flushAndResetState :: "mapper \<Rightarrow> mapper" where
  "flushAndResetState m =
     (let m1 = fold (\<lambda>i m. let (claimed, m') = registry_claim i m
                           in fold (\<lambda>wk m. emit (wk_type wk) (wk_code wk) (wk_value wk) m) claimed m')
                 (combo_indices (comboProgress m)) m
      in m1\<lparr>comboProgress := reset_progress (comboProgress m1), gToggleState := 1\<rparr>)"

definition setNumLockState :: "ev_env \<Rightarrow> bool \<Rightarrow> mapper \<Rightarrow> mapper" where
  "setNumLockState env active m =
     (if numLockActive m \<noteq> active then
        let m1 = m\<lparr>numLockActive := active\<rparr>;
            m2 = (if active then ungrabDevices m1 else grabDevices env (\<lambda>_. pressedKeys m1 = []) m1)
        in releaseAllPressedKeys m2
      else m)"

definition setContext :: "AppType \<Rightarrow> string \<Rightarrow> string \<Rightarrow> mapper \<Rightarrow> mapper" where
  "setContext app url title m =
     (if activeApp m = app \<and> activeUrl m = url \<and> activeTitle m = title then m
      else releaseAllPressedKeys (m\<lparr>activeApp := app, activeUrl := url, activeTitle := title\<rparr>))"

subsection \<open>Stage 1: tracking\<close>

definition set_insert :: "u16 \<Rightarrow> u16 list \<Rightarrow> u16 list" where
  "set_insert c ks = insort_insert c ks"

definition set_erase :: "u16 \<Rightarrow> u16 list \<Rightarrow> u16 list" where
  "set_erase c ks = filter (\<lambda>k. k \<noteq> c) ks"

definition emergency_scroll :: "int \<Rightarrow> mapper \<Rightarrow> mapper" where
  "emergency_scroll now m =
     (if emergencyScrollCount m = 0 \<or> now - emergencyFirstPress m > sec
      then m\<lparr>emergencyScrollCount := 1, emergencyFirstPress := now\<rparr>
      else if emergencyScrollCount m + 1 \<ge> 3
      then ungrabDevices (m\<lparr>emergencyScrollCount := 0\<rparr>)
      else m\<lparr>emergencyScrollCount := emergencyScrollCount m + 1\<rparr>)"

definition track_key :: "ev_env \<Rightarrow> input_event \<Rightarrow> mapper \<Rightarrow> mapper" where
  "track_key env ev m =
     (let m1 = (if ev_value ev = 1 then m\<lparr>pressedKeys := set_insert (ev_code ev) (pressedKeys m)\<rparr>
                else if ev_value ev = 0 then m\<lparr>pressedKeys := set_erase (ev_code ev) (pressedKeys m)\<rparr>
                else m);
          m2 = (if ev_code ev = KEY_LEFTCTRL \<or> ev_code ev = KEY_RIGHTCTRL
                then m1\<lparr>ctrlDown := (ev_value ev \<noteq> 0)\<rparr> else m1)
      in if ev_code ev = KEY_NUMLOCK \<and> ev_value ev = 1
         then setNumLockState env (\<not> numLockActive m2) m2 else m2)"

definition stageContext :: "ev_env \<Rightarrow> input_event \<Rightarrow> mapper \<Rightarrow> mapper" where
  "stageContext env ev m =
     (let m1 = (if ev_type ev = EV_KEY \<and> ev_code ev = KEY_PAUSE \<and> ev_value ev = 1
                then ungrabDevices m else m);
          m2 = (if ev_type ev = EV_KEY \<and> ev_code ev = KEY_SCROLLLOCK \<and> ev_value ev = 1
                then emergency_scroll (clk_context env) m1 else m1)
      in if ev_type ev = EV_KEY then track_key env ev m2 else m2)"

subsection \<open>Stage 2: G-keys\<close>

text \<open>Returns the number of the detected G-key.\<close>

definition detectGKey :: "input_event \<Rightarrow> mapper \<Rightarrow> nat option \<times> mapper" where
  "detectGKey ev m =
     (if ev_type ev \<noteq> EV_KEY then (None, m)
      else if ev_code ev = KEY_LEFTCTRL then
        (None, if ev_value ev = 1
               then m\<lparr>gToggleState := (if gToggleState m = 1 then 2 else if gToggleState m = 3 then 4 else 1)\<rparr>
               else m)
      else if ev_code ev = KEY_LEFTSHIFT then
        (None, if ev_value ev = 1
               then m\<lparr>gToggleState := (if gToggleState m = 2 then 3 else if gToggleState m = 4 then 5 else 1)\<rparr>
               else m)
      else if gToggleState m = 5 then
        (if KEY_1 \<le> ev_code ev \<and> ev_code ev \<le> KEY_6
         then (Some (unat (ev_code ev - KEY_1 + 1)), m\<lparr>gToggleState := 1\<rparr>)
         else (None, m\<lparr>gToggleState := 1\<rparr>))
      else (None, m\<lparr>gToggleState := 1\<rparr>))"

subsection \<open>Stage 3: macros\<close>

definition mouse_area :: "u16 \<Rightarrow> bool" where
  "mouse_area c \<longleftrightarrow> BTN_MISC \<le> c \<and> c < KEY_OK"

definition isKeyboardOnlyMacro :: "KeyAction \<Rightarrow> bool" where
  "isKeyboardOnlyMacro a \<longleftrightarrow>
     list_all (\<lambda>e. te_type e = EV_KEY \<and> \<not> mouse_area (te_code e) \<and> \<not> 1000 \<le> te_code e) (events (trigger a)) \<and>
     list_all (\<lambda>(c, v). \<not> mouse_area c \<and> \<not> 1000 \<le> c) (keySequence a)"

text \<open>The handler clears the acknowledgement flag, asks the browser for focus and starts a thread.\<close>

definition triggerChromeChatGPTMacro :: "mapper \<Rightarrow> mapper" where
  "triggerChromeChatGPTMacro m =
     m\<lparr>focusAckReceived := False, focusRequests := focusRequests m + 1, pendingPastes := pendingPastes m + 1\<rparr>"

text \<open>A paste thread ends its wait, by acknowledgement or timeout, and pastes.\<close>

definition run_paste_thread :: "mapper \<Rightarrow> mapper" where
  "run_paste_thread m =
     (if pendingPastes m = 0 then m
      else sync (emitSequence [(KEY_LEFTCTRL, 1), (KEY_V, 1), (KEY_V, 0), (KEY_LEFTCTRL, 0)]
             (m\<lparr>pendingPastes := pendingPastes m - 1\<rparr>)))"

definition onFocusAck :: "mapper \<Rightarrow> mapper" where
  "onFocusAck m = m\<lparr>focusAckReceived := True\<rparr>"

definition executeKeyAction :: "KeyAction \<Rightarrow> mapper \<Rightarrow> mapper" where
  "executeKeyAction a m = (case handler a of
      ChatGPTHandler \<Rightarrow> triggerChromeChatGPTMacro m
    | NoHandler \<Rightarrow> emitSequence (keySequence a) m)"

definition initial_combo :: ComboState where
  "initial_combo = \<lparr>nextKeyIndex = 0, suppressedEvents = [], lastMatchTime = 0\<rparr>"

definition get_combo :: "AppType \<Rightarrow> nat \<Rightarrow> mapper \<Rightarrow> ComboState" where
  "get_combo app i m = om_index initial_combo i (om_index [] app (comboProgress m))"

definition put_combo :: "AppType \<Rightarrow> nat \<Rightarrow> ComboState \<Rightarrow> mapper \<Rightarrow> mapper" where
  "put_combo app i st m =
     m\<lparr>comboProgress := om_put app (om_put i st (om_index [] app (comboProgress m))) (comboProgress m)\<rparr>"

definition event_matches :: "trigger_event \<Rightarrow> input_event \<Rightarrow> bool" where
  "event_matches e ev \<longleftrightarrow>
     te_type e = ev_type ev \<and> te_code e = ev_code ev \<and>
     (if ev_type ev = EV_KEY
      then te_value e = 1 \<and> (ev_value ev = 1 \<or> ev_value ev = 2) \<or> te_value e = 0 \<and> ev_value ev = 0
      else te_value e = ev_value ev)"

definition breaks_combo :: "KeyAction \<Rightarrow> nat \<Rightarrow> input_event \<Rightarrow> bool" where
  "breaks_combo a n ev \<longleftrightarrow>
     ev_type ev = EV_KEY \<and>
     (let inCombo = list_ex (\<lambda>e. te_code e = ev_code ev) (take n (events (trigger a)));
          ignoreRepeat = te_ignoreRepeat (events (trigger a) ! n)
      in if ev_value ev = 1 \<and> noiseBreaks (trigger a) then True
         else if ev_value ev = 0 \<and> inCombo then True
         else ev_value ev = 2 \<and> \<not> inCombo \<and> \<not> ignoreRepeat)"

text \<open>A matching event: advance, withhold the event if the step says so, and on the last step
  forget what was withheld and run the action. The flag says that the event was withheld.\<close>

definition combo_match :: "ev_env \<Rightarrow> AppType \<Rightarrow> nat \<Rightarrow> KeyAction \<Rightarrow> input_event \<Rightarrow> ComboState
    \<Rightarrow> mapper \<Rightarrow> mapper \<times> bool" where
  "combo_match env app i a ev st m =
     (let e = events (trigger a) ! nextKeyIndex st;
          st1 = st\<lparr>nextKeyIndex := nextKeyIndex st + 1, lastMatchTime := clk_match env i\<rparr>;
          (st2, m2) = (if te_suppress e
             then (st1\<lparr>suppressedEvents := suppressedEvents st1 @ [(ev_type ev, ev_code ev, ev_value ev)]\<rparr>,
                   m\<lparr>withheld := reg_add (ev_type ev) (ev_code ev) (ev_value ev) i (withheld m)\<rparr>)
             else (st1, m))
      in if nextKeyIndex st2 = length (events (trigger a))
         then (put_combo app i (reset_combo st2) (executeKeyAction a (snd (registry_claim i m2))),
               te_suppress e)
         else (put_combo app i st2 m2, te_suppress e))"

text \<open>One iteration of the loop over the macros of the active application.\<close>

definition combo_step :: "ev_env \<Rightarrow> AppType \<Rightarrow> input_event \<Rightarrow> nat \<Rightarrow> KeyAction \<Rightarrow> mapper
    \<Rightarrow> mapper \<times> bool" where
  "combo_step env app ev i a m =
     (if events (trigger a) = [] then (m, False)
      else
        let st0 = get_combo app i m;
            (st, m1) = (if nextKeyIndex st0 > 0 \<and> clk_macros env - lastMatchTime st0 > 2 * sec
                        then (reset_combo st0, release_claimed i m) else (st0, m))
        in if numLockActive m1 \<and> \<not> isKeyboardOnlyMacro a then
             (if nextKeyIndex st > 0 then (put_combo app i (reset_combo st) (release_claimed i m1), False)
              else (put_combo app i st m1, False))
           else if nextKeyIndex st \<ge> length (events (trigger a)) then (put_combo app i st m1, False)
           else if event_matches (events (trigger a) ! nextKeyIndex st) ev
           then combo_match env app i a ev st m1
           else if nextKeyIndex st > 0 \<and> breaks_combo a (nextKeyIndex st) ev
           then (put_combo app i (reset_combo st) (release_claimed i m1), False)
           else (put_combo app i st m1, False))"

fun combo_loop :: "ev_env \<Rightarrow> AppType \<Rightarrow> input_event \<Rightarrow> nat \<Rightarrow> KeyAction list \<Rightarrow> mapper
    \<Rightarrow> mapper \<times> bool" where
  "combo_loop env app ev i [] m = (m, False)"
| "combo_loop env app ev i (a # as) m =
     (let (m1, b1) = combo_step env app ev i a m;
          (m2, b2) = combo_loop env app ev (Suc i) as m1
      in (m2, b1 \<or> b2))"

definition stageMacros :: "ev_env \<Rightarrow> input_event \<Rightarrow> bool \<Rightarrow> mapper \<Rightarrow> mapper \<times> PipelineResult" where
  "stageMacros env ev skipMacros m =
     (if skipMacros then (m, CONTINUE)
      else case om_find (activeApp m) (appMacros m) of
        None \<Rightarrow> (m, CONTINUE)
      | Some as \<Rightarrow>
          let m0 = m\<lparr>comboProgress := om_put (activeApp m) (om_index [] (activeApp m) (comboProgress m))
                                       (comboProgress m)\<rparr>;
              (m1, suppressed) = combo_loop env (activeApp m) ev 0 as m0
          in if suppressed then (m1, DROP)
             else if ev_type ev = EV_KEY \<and> isBlocked (ev_code ev) (withheld m1) then (m1, DROP)
             else (m1, CONTINUE))"

subsection \<open>What the helpers leave alone\<close>

named_theorems mapper_frame \<open>fields an operation of the mapper does not change\<close>

lemma write_raw_frame [mapper_frame]:
  "uinputDev (write_raw es m) = uinputDev m" "pressedKeys (write_raw es m) = pressedKeys m"
  "monitoringMode (write_raw es m) = monitoringMode m" "numLockActive (write_raw es m) = numLockActive m"
  "withheld (write_raw es m) = withheld m" "gToggleState (write_raw es m) = gToggleState m"
  "activeApp (write_raw es m) = activeApp m" "appMacros (write_raw es m) = appMacros m"
  "comboProgress (write_raw es m) = comboProgress m" "pendingPastes (write_raw es m) = pendingPastes m"
  "emergencyScrollCount (write_raw es m) = emergencyScrollCount m"
  "kbdGrabbed (write_raw es m) = kbdGrabbed m" "mouseGrabbed (write_raw es m) = mouseGrabbed m"
  "keyboardDev (write_raw es m) = keyboardDev m" "mouseDev (write_raw es m) = mouseDev m"
  by (simp_all add: write_raw_def)

lemmas emission_defs = emit_def sync_def emitNoSync_def emitSequence_def

text \<open>A fold of emissions changes nothing but the trace.\<close>

definition same_but_out :: "mapper \<Rightarrow> mapper \<Rightarrow> bool" where
  "same_but_out m m' \<longleftrightarrow> (\<exists>os. m' = m\<lparr>out := os\<rparr>)"

lemma same_but_out_refl [simp]: "same_but_out m m"
  unfolding same_but_out_def by (rule exI [of _ "out m"]) simp

lemma same_but_out_trans: "same_but_out a b \<Longrightarrow> same_but_out b c \<Longrightarrow> same_but_out a c"
  by (auto simp: same_but_out_def)

lemma same_but_out_write [simp]: "same_but_out m (write_raw es m)"
  unfolding same_but_out_def by (rule exI [of _ "out (write_raw es m)"]) (simp add: write_raw_def)

lemma same_but_out_emissions [simp]:
  "same_but_out m (emit t c v m)" "same_but_out m (sync m)" "same_but_out m (emitSequence sq m)"
  "same_but_out m (emitNoSync t c v m)"
  by (simp_all add: emission_defs)

lemma same_but_out_fold:
  "(\<And>x m. same_but_out m (f x m)) \<Longrightarrow> same_but_out m (fold f xs m)"
proof (induction xs arbitrary: m)
  case (Cons x xs)
  then show ?case using same_but_out_trans [of m "f x m"] by simp
qed simp

lemma same_but_outD:
  assumes "same_but_out m m'"
  shows "uinputDev m' = uinputDev m" "pressedKeys m' = pressedKeys m" "monitoringMode m' = monitoringMode m"
    "numLockActive m' = numLockActive m" "withheld m' = withheld m" "gToggleState m' = gToggleState m"
    "activeApp m' = activeApp m" "appMacros m' = appMacros m" "comboProgress m' = comboProgress m"
    "pendingPastes m' = pendingPastes m" "emergencyScrollCount m' = emergencyScrollCount m"
    "kbdGrabbed m' = kbdGrabbed m" "mouseGrabbed m' = mouseGrabbed m"
    "keyboardDev m' = keyboardDev m" "mouseDev m' = mouseDev m"
  using assms by (auto simp: same_but_out_def)

lemma registry_claim_frame [mapper_frame]:
  "gToggleState (snd (registry_claim i m)) = gToggleState m"
  "monitoringMode (snd (registry_claim i m)) = monitoringMode m"
  "pressedKeys (snd (registry_claim i m)) = pressedKeys m"
  "comboProgress (snd (registry_claim i m)) = comboProgress m"
  "appMacros (snd (registry_claim i m)) = appMacros m"
  "activeApp (snd (registry_claim i m)) = activeApp m"
  "uinputDev (snd (registry_claim i m)) = uinputDev m"
  "numLockActive (snd (registry_claim i m)) = numLockActive m"
  "out (snd (registry_claim i m)) = out m"
  by (simp_all add: registry_claim_def case_prod_unfold Let_def)

lemma fold_claim_frame [mapper_frame]:
  "gToggleState (fold (\<lambda>i m. snd (registry_claim i m)) is m) = gToggleState m"
  "monitoringMode (fold (\<lambda>i m. snd (registry_claim i m)) is m) = monitoringMode m"
  "pressedKeys (fold (\<lambda>i m. snd (registry_claim i m)) is m) = pressedKeys m"
  "comboProgress (fold (\<lambda>i m. snd (registry_claim i m)) is m) = comboProgress m"
  "appMacros (fold (\<lambda>i m. snd (registry_claim i m)) is m) = appMacros m"
  "activeApp (fold (\<lambda>i m. snd (registry_claim i m)) is m) = activeApp m"
  "uinputDev (fold (\<lambda>i m. snd (registry_claim i m)) is m) = uinputDev m"
  "numLockActive (fold (\<lambda>i m. snd (registry_claim i m)) is m) = numLockActive m"
  "out (fold (\<lambda>i m. snd (registry_claim i m)) is m) = out m"
  by (induction "is" arbitrary: m) (simp_all add: mapper_frame)

lemma releaseAll_frame [mapper_frame]:
  "gToggleState (releaseAllPressedKeys m) = gToggleState m"
  "monitoringMode (releaseAllPressedKeys m) = monitoringMode m"
  "appMacros (releaseAllPressedKeys m) = appMacros m"
  "activeApp (releaseAllPressedKeys m) = activeApp m"
  "uinputDev (releaseAllPressedKeys m) = uinputDev m"
  "numLockActive (releaseAllPressedKeys m) = numLockActive m"
  "pressedKeys (releaseAllPressedKeys m) = []"
  "comboProgress (releaseAllPressedKeys m) = reset_progress (comboProgress m)"
proof -
  let ?m1 = "fold (\<lambda>i m. snd (registry_claim i m)) (combo_indices (comboProgress m)) m"
  let ?m2 = "?m1\<lparr>comboProgress := reset_progress (comboProgress ?m1)\<rparr>"
  have "same_but_out ?m2 (sync (fold (\<lambda>c m. emit EV_KEY c 0 m) (pressedKeys ?m2) ?m2))"
    by (rule same_but_out_trans [OF _ same_but_out_emissions(2)], rule same_but_out_fold) simp
  note D = same_but_outD [OF this]
  show "gToggleState (releaseAllPressedKeys m) = gToggleState m"
    "monitoringMode (releaseAllPressedKeys m) = monitoringMode m"
    "appMacros (releaseAllPressedKeys m) = appMacros m"
    "activeApp (releaseAllPressedKeys m) = activeApp m"
    "uinputDev (releaseAllPressedKeys m) = uinputDev m"
    "numLockActive (releaseAllPressedKeys m) = numLockActive m"
    "pressedKeys (releaseAllPressedKeys m) = []"
    "comboProgress (releaseAllPressedKeys m) = reset_progress (comboProgress m)"
    using D by (simp_all add: releaseAllPressedKeys_def Let_def mapper_frame)
qed

lemma grab_frame [mapper_frame]:
  "gToggleState (grabDevices env c m) = gToggleState m" "appMacros (grabDevices env c m) = appMacros m"
  "activeApp (grabDevices env c m) = activeApp m" "uinputDev (grabDevices env c m) = uinputDev m"
  "comboProgress (grabDevices env c m) = comboProgress m" "pressedKeys (grabDevices env c m) = pressedKeys m"
  "numLockActive (grabDevices env c m) = numLockActive m" "out (grabDevices env c m) = out m"
  by (simp_all add: grabDevices_def do_grab_def)

lemma ungrab_frame [mapper_frame]:
  "gToggleState (ungrabDevices m) = gToggleState m" "appMacros (ungrabDevices m) = appMacros m"
  "activeApp (ungrabDevices m) = activeApp m" "uinputDev (ungrabDevices m) = uinputDev m"
  "comboProgress (ungrabDevices m) = comboProgress m" "pressedKeys (ungrabDevices m) = pressedKeys m"
  "numLockActive (ungrabDevices m) = numLockActive m" "out (ungrabDevices m) = out m"
  "monitoringMode (ungrabDevices m)" "withheld (ungrabDevices m) = withheld m"
  by (simp_all add: ungrabDevices_def)

lemma setNumLock_frame [mapper_frame]:
  "gToggleState (setNumLockState env b m) = gToggleState m"
  "appMacros (setNumLockState env b m) = appMacros m"
  "activeApp (setNumLockState env b m) = activeApp m"
  by (simp_all add: setNumLockState_def Let_def mapper_frame)

lemma emergency_scroll_frame [mapper_frame]:
  "gToggleState (emergency_scroll now m) = gToggleState m"
  "appMacros (emergency_scroll now m) = appMacros m"
  "activeApp (emergency_scroll now m) = activeApp m"
  "comboProgress (emergency_scroll now m) = comboProgress m"
  "pressedKeys (emergency_scroll now m) = pressedKeys m"
  "out (emergency_scroll now m) = out m"
  by (simp_all add: emergency_scroll_def mapper_frame)

lemma stageContext_frame [mapper_frame]:
  "gToggleState (stageContext env ev m) = gToggleState m"
  "appMacros (stageContext env ev m) = appMacros m"
  "activeApp (stageContext env ev m) = activeApp m"
  by (simp_all add: stageContext_def track_key_def Let_def mapper_frame)

lemma detectGKey_SomeD:
  "detectGKey ev m = (Some g, m') \<Longrightarrow>
     gToggleState m = 5 \<and> m' = m\<lparr>gToggleState := 1\<rparr> \<and> ev_type ev = EV_KEY \<and>
     KEY_1 \<le> ev_code ev \<and> ev_code ev \<le> KEY_6 \<and> g = unat (ev_code ev - KEY_1 + 1)"
  by (auto simp: detectGKey_def split: if_splits)

subsection \<open>The pipeline\<close>

text \<open>Stages 3 and 4, and the whole of \<open>processEvent\<close>. The third argument of the C++ function,
  named \<open>isMouse\<close> in the source file and \<open>skipMacros\<close> in the header, suppresses stages 2 and
  the matching of stage 3. \<open>env k\<close> is the environment of the \<open>k\<close>-th nested call.\<close>

definition finish_event :: "ev_env \<Rightarrow> input_event \<Rightarrow> bool \<Rightarrow> mapper \<Rightarrow> mapper" where
  "finish_event env ev skip m =
     (let (m1, r) = stageMacros env ev skip m in if r = DROP then m1 else emitFinal ev m1)"

function processEvent :: "(nat \<Rightarrow> ev_env) \<Rightarrow> input_event \<Rightarrow> bool \<Rightarrow> mapper \<Rightarrow> mapper" where
  "processEvent env ev skip m =
     (let m1 = stageContext (env 0) ev m in
      if monitoringMode m1 then m1
      else if skip then finish_event (env 0) ev skip m1
      else case detectGKey ev m1 of
          (Some g, m2) \<Rightarrow> processEvent (\<lambda>k. env (Suc k)) (ev\<lparr>ev_code := 1000 + of_nat g\<rparr>) False m2
        | (None, m2) \<Rightarrow> finish_event (env 0) ev skip m2)"
  by pat_completeness auto
termination
  by (relation "measure (\<lambda>(env, ev, skip, m). if gToggleState m = 5 then 1 else 0)")
     (auto dest!: detectGKey_SomeD [OF sym] simp: mapper_frame)

declare processEvent.simps [simp del]

lemma processEvent_monitoring:
  "monitoringMode (stageContext (env 0) ev m) \<Longrightarrow> processEvent env ev skip m = stageContext (env 0) ev m"
  by (simp add: processEvent.simps [of env ev skip m] Let_def)

lemma processEvent_skip:
  "\<not> monitoringMode (stageContext (env 0) ev m) \<Longrightarrow>
     processEvent env ev True m = finish_event (env 0) ev True (stageContext (env 0) ev m)"
  by (simp add: processEvent.simps [of env ev True m] Let_def)

lemma processEvent_gkey:
  "\<not> monitoringMode (stageContext (env 0) ev m) \<Longrightarrow> detectGKey ev (stageContext (env 0) ev m) = (Some g, m2) \<Longrightarrow>
     processEvent env ev False m = processEvent (\<lambda>k. env (Suc k)) (ev\<lparr>ev_code := 1000 + of_nat g\<rparr>) False m2"
  by (simp add: processEvent.simps [of env ev False m] Let_def)

lemma processEvent_plain:
  "\<not> monitoringMode (stageContext (env 0) ev m) \<Longrightarrow> detectGKey ev (stageContext (env 0) ev m) = (None, m2) \<Longrightarrow>
     processEvent env ev False m = finish_event (env 0) ev False m2"
  by (simp add: processEvent.simps [of env ev False m] Let_def)

lemmas processEvent_cases =
  processEvent_monitoring processEvent_skip processEvent_gkey processEvent_plain

text \<open>One result of \<open>libevdev_next_event\<close>: an event, or a sync notice with the events the
  resynchronisation delivers.\<close>

datatype device_read = ReadEvent input_event | ReadSync "input_event list"

definition handle_read :: "(nat \<Rightarrow> nat \<Rightarrow> ev_env) \<Rightarrow> device_read \<Rightarrow> mapper \<Rightarrow> mapper" where
  "handle_read env r m = (case r of
      ReadEvent ev \<Rightarrow> processEvent (env 0) ev False m
    | ReadSync evs \<Rightarrow> snd (fold (\<lambda>ev (k, m). (Suc k, processEvent (env k) ev True m)) evs
                        (0, flushAndResetState m)))"

definition run_loop :: "(nat \<Rightarrow> nat \<Rightarrow> nat \<Rightarrow> ev_env) \<Rightarrow> device_read list \<Rightarrow> mapper \<Rightarrow> mapper" where
  "run_loop env rs m = snd (fold (\<lambda>r (k, m). (Suc k, handle_read (env k) r m)) rs (0, m))"

subsection \<open>Logging filters and JSON access\<close>

text \<open>\<open>name\<close> is \<open>libevdev_event_code_get_name\<close>.\<close>

definition strip_prefix_lower :: "string \<Rightarrow> string \<Rightarrow> string" where
  "strip_prefix_lower p n = to_lower (if starts_with p n then drop (length p) n else n)"

definition formatEvent :: "(u16 \<Rightarrow> u16 \<Rightarrow> string option) \<Rightarrow> input_event \<Rightarrow> string \<Rightarrow> string" where
  "formatEvent name ev devicePath =
     (let number = to_string (uint (ev_code ev));
          code = (\<lambda>p. case name (ev_type ev) (ev_code ev) of Some n \<Rightarrow> strip_prefix_lower p n | None \<Rightarrow> number);
          render = (\<lambda>t c. t @ '':'' @ c @ '':'' @ to_string (sint (ev_value ev)) @ ''@'' @ devicePath)
      in if ev_type ev = EV_KEY then
           (case name EV_KEY (ev_code ev) of
              Some n \<Rightarrow> if starts_with ''BTN_'' n then render ''btn'' (to_lower (drop 4 n))
                        else render ''key'' (strip_prefix_lower ''KEY_'' n)
            | None \<Rightarrow> render ''key'' number)
         else if ev_type ev = EV_REL then render ''rel'' (code ''REL_'')
         else if ev_type ev = EV_ABS then render ''abs'' (code ''ABS_'')
         else if ev_type ev = EV_MSC then render ''msc'' (code ''MSC_'')
         else [])"

definition shouldLog_event :: "32 word \<Rightarrow> string \<Rightarrow> 32 word \<Rightarrow> mapper \<Rightarrow> bool" where
  "shouldLog_event logMask eventStr category m =
     (if and logMask category = 0 then False
      else if logFilterPatterns m = [] then True
      else list_ex (\<lambda>p. contains_str p eventStr) (logFilterPatterns m))"

definition getActiveContextJson :: "mapper \<Rightarrow> json" where
  "getActiveContextJson m = JObj
     [(''activeApp'', JStr (appTypeToString (activeApp m))), (''activeTitle'', JStr (activeTitle m)),
      (''activeUrl'', JStr (activeUrl m)), (''numLockActive'', JBool (numLockActive m))]"

definition getEventFiltersJson :: "mapper \<Rightarrow> json" where
  "getEventFiltersJson m = JArr (map JStr (logFilterPatterns m))"

definition setEventFiltersInternal :: "json \<Rightarrow> mapper \<Rightarrow> mapper" where
  "setEventFiltersInternal j m =
     m\<lparr>logFilterPatterns := (case j of
         JArr xs \<Rightarrow> List.map_filter (\<lambda>x. case x of JStr s \<Rightarrow> Some s | _ \<Rightarrow> None) xs
       | _ \<Rightarrow> [])\<rparr>"

definition setMacrosFromJsonInternal :: "json \<Rightarrow> mapper \<Rightarrow> mapper \<times> unit result" where
  "setMacrosFromJsonInternal j m =
     (let (am, r) = setMacros_overlay j (appMacros m)
      in (m\<lparr>comboProgress := [], appMacros := am\<rparr>, r))"

text \<open>\<open>dump\<close> and \<open>parse\<close> are the JSON library's printer and parser. An exception of the import
  leaves before the configuration is stored.\<close>

definition setMacrosFromJson ::
  "(json \<Rightarrow> string) \<Rightarrow> json \<Rightarrow> mapper \<Rightarrow> db \<Rightarrow> mapper \<times> db \<times> unit result" where
  "setMacrosFromJson dump j m d =
     (case setMacrosFromJsonInternal j m of
        (m', Inl e) \<Rightarrow> (m', d, Inl e)
      | (m', Inr _) \<Rightarrow> (m', setConfig ''custom_macros'' (dump j) d, Inr ()))"

definition setEventFilters :: "(json \<Rightarrow> string) \<Rightarrow> json \<Rightarrow> mapper \<Rightarrow> db \<Rightarrow> mapper \<times> db" where
  "setEventFilters dump j m d =
     (setEventFiltersInternal j m, setConfig ''custom_event_filters'' (dump j) d)"

definition loadPersistence :: "(string \<Rightarrow> json option) \<Rightarrow> db \<Rightarrow> mapper \<Rightarrow> mapper" where
  "loadPersistence parse d m =
     (let savedMacros = getConfig ''custom_macros'' d;
          m1 = (if savedMacros = [] then m else case parse savedMacros of
                  None \<Rightarrow> m | Some j \<Rightarrow> fst (setMacrosFromJsonInternal j m));
          savedFilters = getConfig ''custom_event_filters'' d
      in if savedFilters = [] then m1 else case parse savedFilters of
           None \<Rightarrow> m1 | Some j \<Rightarrow> setEventFiltersInternal j m1)"

subsection \<open>Starting and stopping\<close>

text \<open>What the operating system answers when the devices are opened: the codes that read as pressed
  are those below \<open>KEY_CNT\<close>, respectively the mouse buttons.\<close>

record dev_env =
  de_kbd_open :: bool
  de_kbd_evdev :: bool
  de_kbd_pressed :: "u16 list"
  de_mouse_open :: bool
  de_mouse_evdev :: bool
  de_mouse_pressed :: "u16 list"
  de_uinput :: bool

definition initial_mapper :: mapper where
  "initial_mapper =
     \<lparr>keyboardPath = [], mousePath = [], keyboardDev = False, mouseDev = False, uinputDev = False,
      kbdGrabbed = False, mouseGrabbed = False, running = False, pressedKeys = [], monitoringMode = False,
      ctrlDown = False, numLockActive = False, withheld = [], gToggleState = 1,
      emergencyScrollCount = 0, emergencyFirstPress = 0, activeApp = OTHER, activeUrl = [],
      activeTitle = [], appMacros = initializeAppMacros [], logFilterPatterns = [], comboProgress = [],
      focusAckReceived = False, focusRequests = 0, pendingPastes = 0, out = []\<rparr>"

definition setupDevices :: "dev_env \<Rightarrow> mapper \<Rightarrow> mapper \<times> bool" where
  "setupDevices de m =
     (if \<not> de_kbd_open de \<or> \<not> de_kbd_evdev de then (m, False)
      else let
          m1 = m\<lparr>keyboardDev := True, pressedKeys := fold set_insert (de_kbd_pressed de) (pressedKeys m)\<rparr>;
          m2 = (if mousePath m1 \<noteq> [] \<and> de_mouse_open de \<and> de_mouse_evdev de
                then m1\<lparr>mouseDev := True,
                        pressedKeys := fold set_insert (de_mouse_pressed de) (pressedKeys m1)\<rparr>
                else m1)
        in (m2\<lparr>monitoringMode := True\<rparr>, True))"

definition setupUinput :: "dev_env \<Rightarrow> mapper \<Rightarrow> mapper \<times> bool" where
  "setupUinput de m = (if de_uinput de then (m\<lparr>uinputDev := True\<rparr>, True) else (m, False))"

definition stop :: "mapper \<Rightarrow> mapper" where
  "stop m =
     (let m1 = m\<lparr>running := False\<rparr>;
          m2 = (if \<not> monitoringMode m1 then ungrabDevices m1 else m1)
      in m2\<lparr>uinputDev := False, kbdGrabbed := False, mouseGrabbed := False, keyboardDev := False,
            mouseDev := False\<rparr>)"

definition start :: "dev_env \<Rightarrow> ev_env \<Rightarrow> string \<Rightarrow> string \<Rightarrow> bool \<Rightarrow> mapper \<Rightarrow> mapper \<times> bool" where
  "start de env kbd mouse grabImmediately m =
     (let m0 = m\<lparr>keyboardPath := kbd, mousePath := mouse\<rparr>; (m1, ok1) = setupDevices de m0 in
      if \<not> ok1 then (stop m1, False)
      else let (m2, ok2) = setupUinput de m1 in
      if \<not> ok2 then (stop m2, False)
      else let m3 = (if grabImmediately then grabDevices env (\<lambda>_. pressedKeys m2 = []) m2 else m2)
           in (m3\<lparr>running := True\<rparr>, True))"

end
