(* ===== verification/Mapper_Invariants.thy ===== *)
theory Mapper_Invariants
  imports Input_Mapper "HOL-Library.Sublist"
begin

text \<open>
  Invariants of the input pipeline. The suppression registry is used through the interface
  \<open>withholding\<close>: which combos own which withheld keys, and how \<open>add\<close> and \<open>claim\<close> change
  that. The invariant \<open>mapper_inv\<close> says that the G-key recogniser is in one of its five states,
  that every combo in progress belongs to the active application and stands strictly inside its
  trigger, and that every withheld key is owned by a combo in progress. Replacing the macros throws
  the combos away but not the registry, so \<open>mapper_reach\<close> carries along what was withheld at the last
  replacement, and \<open>mapper_inv_upto\<close> leaves out those keys.
\<close>

subsection \<open>The interface of the registry\<close>

locale withholding =
  fixes add :: "nat \<Rightarrow> 'k \<Rightarrow> 'w \<Rightarrow> 'w"
    and drop_owner :: "nat \<Rightarrow> 'w \<Rightarrow> 'w"
    and blocked :: "'k \<Rightarrow> 'w \<Rightarrow> bool"
    and owners :: "'w \<Rightarrow> ('k \<times> nat) set"
  assumes owners_add: "owners (add i k w) = insert (k, i) (owners w)"
    and owners_drop: "owners (drop_owner i w) = {x \<in> owners w. snd x \<noteq> i}"
    and blocked_iff: "blocked k w \<longleftrightarrow> (\<exists>i. (k, i) \<in> owners w)"
begin

lemma blocked_add: "blocked k (add i k w)"
  by (auto simp: blocked_iff owners_add)

lemma drop_add: "owners (drop_owner i (add i k w)) = owners (drop_owner i w)"
  by (auto simp: owners_add owners_drop)

lemma owners_fold_drop: "owners (fold drop_owner is w) = {x \<in> owners w. snd x \<notin> set is}"
  by (induction "is" arbitrary: w) (auto simp: owners_drop)

lemma all_dropped_unblocks:
  "snd ` owners w \<subseteq> set is \<Longrightarrow> \<not> blocked k (fold drop_owner is w)"
  by (force simp: blocked_iff owners_fold_drop)

end

definition owns :: "(u16, WithheldKey list) omap \<Rightarrow> (u16 \<times> nat) set" where
  "owns w = {(c, i). i \<in> owningComboIdx ` set (om_index [] c w)}"

lemma owns_reg_add: "owns (reg_add t c v i w) = insert (c, i) (owns w)"
  by (auto simp: owns_def reg_add_def split: if_splits)

lemma om_index_claim:
  "om_index [] c (snd (claim i w)) = filter (\<lambda>wk. owningComboIdx wk \<noteq> i) (om_index [] c w)"
  by (simp add: claim_def om_index_def om_find_map_values claim_vec_def Let_def split: option.splits)

lemma owns_claim: "owns (snd (claim i w)) = {x \<in> owns w. snd x \<noteq> i}"
  by (auto simp: owns_def om_index_claim)

lemma isBlocked_owns: "isBlocked c w \<longleftrightarrow> (\<exists>i. (c, i) \<in> owns w)"
  by (auto simp: isBlocked_def owns_def)

interpretation reg: withholding "\<lambda>i c. reg_add t c v i" "\<lambda>i w. snd (claim i w)" isBlocked owns
  for t v
  by unfold_locales (simp_all add: owns_reg_add owns_claim isBlocked_owns)

subsection \<open>The invariant\<close>

definition combo_at :: "(AppType, (nat, ComboState) omap) omap \<Rightarrow> AppType \<Rightarrow> nat \<Rightarrow> ComboState" where
  "combo_at cp a i = om_index initial_combo i (om_index [] a cp)"

definition trig_len :: "(AppType, KeyAction list) omap \<Rightarrow> AppType \<Rightarrow> nat \<Rightarrow> nat" where
  "trig_len am a i = (case om_find a am of
      None \<Rightarrow> 0
    | Some as \<Rightarrow> if i < length as then length (events (trigger (as ! i))) else 0)"

text \<open>
  The invariant up to a set \<open>S\<close> of stranded pairs: withheld keys whose owning combo is not in progress
  any more. \<open>S\<close> is empty until the macros are replaced while a combo is in progress.
\<close>

definition combos_inv ::
  "(u16 \<times> nat) set \<Rightarrow> (u16, WithheldKey list) omap \<Rightarrow> (AppType, (nat, ComboState) omap) omap
    \<Rightarrow> (AppType, KeyAction list) omap \<Rightarrow> AppType \<Rightarrow> bool" where
  "combos_inv S w cp am app \<longleftrightarrow>
     (\<forall>a i. nextKeyIndex (combo_at cp a i) = 0 \<or>
            a = app \<and> nextKeyIndex (combo_at cp a i) < trig_len am a i) \<and>
     (\<forall>(c, i) \<in> owns w. nextKeyIndex (combo_at cp app i) > 0 \<or> (c, i) \<in> S)"

definition minv :: "(u16 \<times> nat) set \<Rightarrow> mapper \<Rightarrow> bool" where
  "minv S m \<longleftrightarrow> combos_inv S (withheld m) (comboProgress m) (appMacros m) (activeApp m)"

definition mapper_inv_upto :: "(u16 \<times> nat) set \<Rightarrow> mapper \<Rightarrow> bool" where
  "mapper_inv_upto S m \<longleftrightarrow> 1 \<le> gToggleState m \<and> gToggleState m \<le> 5 \<and> minv S m"

definition mapper_inv :: "mapper \<Rightarrow> bool" where
  "mapper_inv m \<longleftrightarrow> mapper_inv_upto {} m"

lemma get_combo_at: "get_combo a i m = combo_at (comboProgress m) a i"
  by (simp add: get_combo_def combo_at_def)

lemma combo_at_put [simp]:
  "combo_at (om_put app (om_put i st (om_index [] app cp)) cp) a j
     = (if a = app \<and> j = i then st else combo_at cp a j)"
  by (auto simp: combo_at_def om_index_def om_find_put split: option.splits)

lemma combo_at_touch [simp]: "combo_at (om_put app (om_index [] app cp) cp) a j = combo_at cp a j"
  by (auto simp: combo_at_def om_index_def om_find_put split: option.splits)

lemma combo_at_Nil [simp]: "combo_at [] a i = initial_combo"
  by (simp add: combo_at_def om_index_def)

lemma combo_at_reset: "nextKeyIndex (combo_at (reset_progress cp) a i) = 0"
proof -
  have "om_find a (reset_progress cp) = map_option (map (\<lambda>(i, st). (i, reset_combo st))) (om_find a cp)"
    by (simp add: reset_progress_def om_find_map_values)
  then show ?thesis
    by (cases "om_find a cp")
       (auto simp: combo_at_def om_index_def om_find_map_values initial_combo_def reset_combo_def
         split: option.splits)
qed

lemma combo_at_indices: "nextKeyIndex (combo_at cp a i) > 0 \<Longrightarrow> i \<in> set (combo_indices cp)"
proof -
  assume n: "nextKeyIndex (combo_at cp a i) > 0"
  then obtain cm where cm: "om_find a cp = Some cm"
    by (cases "om_find a cp") (auto simp: combo_at_def om_index_def initial_combo_def)
  with n obtain st where "om_find i cm = Some st"
    by (cases "om_find i cm") (auto simp: combo_at_def om_index_def initial_combo_def)
  with cm show ?thesis
    unfolding combo_indices_def by (auto dest!: om_find_SomeD) force
qed

text \<open>The fields of the invariant after each helper.\<close>

lemma reset_combo_next [simp]: "nextKeyIndex (reset_combo st) = 0"
  by (simp add: reset_combo_def)

lemma put_combo_fields [simp]:
  "comboProgress (put_combo app i st m)
     = om_put app (om_put i st (om_index [] app (comboProgress m))) (comboProgress m)"
  "withheld (put_combo app i st m) = withheld m" "appMacros (put_combo app i st m) = appMacros m"
  "activeApp (put_combo app i st m) = activeApp m" "gToggleState (put_combo app i st m) = gToggleState m"
  "numLockActive (put_combo app i st m) = numLockActive m" "out (put_combo app i st m) = out m"
  "monitoringMode (put_combo app i st m) = monitoringMode m" "uinputDev (put_combo app i st m) = uinputDev m"
  "pressedKeys (put_combo app i st m) = pressedKeys m"
  by (simp_all add: put_combo_def)

lemma withheld_registry_claim: "withheld (snd (registry_claim i m)) = snd (claim i (withheld m))"
  by (simp add: registry_claim_def case_prod_unfold Let_def)

lemma release_claimed_same:
  "same_but_out (snd (registry_claim i m)) (release_claimed i m)"
proof -
  have "release_claimed i m = sync (fold (\<lambda>wk m. if \<not> isBlocked (wk_code wk) (withheld m)
      then emit (wk_type wk) (wk_code wk) (wk_value wk) m else m) (fst (registry_claim i m))
      (snd (registry_claim i m)))"
    by (simp add: release_claimed_def case_prod_unfold Let_def)
  then show ?thesis
    by (simp add: same_but_out_trans [OF same_but_out_fold same_but_out_emissions(2)])
qed

lemma release_claimed_fields [mapper_frame]:
  "withheld (release_claimed i m) = snd (claim i (withheld m))"
  "comboProgress (release_claimed i m) = comboProgress m" "appMacros (release_claimed i m) = appMacros m"
  "activeApp (release_claimed i m) = activeApp m" "gToggleState (release_claimed i m) = gToggleState m"
  "numLockActive (release_claimed i m) = numLockActive m" "uinputDev (release_claimed i m) = uinputDev m"
  "monitoringMode (release_claimed i m) = monitoringMode m" "pressedKeys (release_claimed i m) = pressedKeys m"
  using same_but_outD [OF release_claimed_same [of i m]]
  by (simp_all add: withheld_registry_claim mapper_frame)

lemma executeKeyAction_fields [mapper_frame]:
  "withheld (executeKeyAction a m) = withheld m" "comboProgress (executeKeyAction a m) = comboProgress m"
  "appMacros (executeKeyAction a m) = appMacros m" "activeApp (executeKeyAction a m) = activeApp m"
  "gToggleState (executeKeyAction a m) = gToggleState m" "uinputDev (executeKeyAction a m) = uinputDev m"
  "numLockActive (executeKeyAction a m) = numLockActive m"
  "monitoringMode (executeKeyAction a m) = monitoringMode m" "pressedKeys (executeKeyAction a m) = pressedKeys m"
  by (cases "handler a"; simp add: executeKeyAction_def triggerChromeChatGPTMacro_def emitSequence_def
      mapper_frame)+

subsection \<open>One macro\<close>

text \<open>
  An iteration of the macro loop works on combo \<open>i\<close> of the active application with a local copy of
  its state, written back at the end. \<open>but_inv S m i n\<close> is the invariant in between, when the local
  copy stands at position \<open>n\<close>: everything about the other combos, and no withheld key of combo
  \<open>i\<close> when it is idle.
\<close>

definition but_inv :: "(u16 \<times> nat) set \<Rightarrow> mapper \<Rightarrow> nat \<Rightarrow> nat \<Rightarrow> bool" where
  "but_inv S m i n \<longleftrightarrow>
     (\<forall>a j. (a, j) \<noteq> (activeApp m, i) \<longrightarrow> nextKeyIndex (combo_at (comboProgress m) a j) = 0 \<or>
        a = activeApp m \<and> nextKeyIndex (combo_at (comboProgress m) a j) < trig_len (appMacros m) a j) \<and>
     (\<forall>(c, j) \<in> owns (withheld m). j \<noteq> i \<longrightarrow>
        nextKeyIndex (combo_at (comboProgress m) (activeApp m) j) > 0 \<or> (c, j) \<in> S) \<and>
     (n = 0 \<longrightarrow> (\<forall>c. (c, i) \<in> owns (withheld m) \<longrightarrow> (c, i) \<in> S))"

lemma but_inv_start: "minv S m \<Longrightarrow> but_inv S m i (nextKeyIndex (get_combo (activeApp m) i m))"
  by (fastforce simp: minv_def combos_inv_def but_inv_def get_combo_at)

lemma but_inv_finish:
  assumes "but_inv S m i (nextKeyIndex st)" "app = activeApp m"
    "nextKeyIndex st = 0 \<or> nextKeyIndex st < trig_len (appMacros m) app i"
  shows "minv S (put_combo app i st m)"
  unfolding minv_def combos_inv_def
proof (intro conjI allI ballI)
  fix a j
  show "nextKeyIndex (combo_at (comboProgress (put_combo app i st m)) a j) = 0 \<or>
      a = activeApp (put_combo app i st m) \<and> nextKeyIndex (combo_at (comboProgress (put_combo app i st m)) a j)
        < trig_len (appMacros (put_combo app i st m)) a j"
    using assms by (cases "(a, j) = (app, i)") (auto simp: but_inv_def)
next
  fix x
  assume x: "x \<in> owns (withheld (put_combo app i st m))"
  obtain c j where cj: "x = (c, j)" by fastforce
  have "j = i \<Longrightarrow> nextKeyIndex st \<noteq> 0 \<or> x \<in> S" using assms(1) x cj by (force simp: but_inv_def)
  then show "case x of (c, j) \<Rightarrow>
      nextKeyIndex (combo_at (comboProgress (put_combo app i st m)) (activeApp (put_combo app i st m)) j) > 0
        \<or> (c, j) \<in> S"
    using assms(1,2) x cj by (auto simp: but_inv_def)
qed

lemma but_inv_cong:
  "but_inv S m i n \<Longrightarrow> withheld m' = withheld m \<Longrightarrow> comboProgress m' = comboProgress m \<Longrightarrow>
   appMacros m' = appMacros m \<Longrightarrow> activeApp m' = activeApp m \<Longrightarrow> but_inv S m' i n"
  by (simp add: but_inv_def)

lemma but_inv_release: "but_inv S m i n \<Longrightarrow> but_inv S (release_claimed i m) i k"
  by (auto simp: but_inv_def mapper_frame owns_claim)

lemma but_inv_claim: "but_inv S m i n \<Longrightarrow> but_inv S (snd (registry_claim i m)) i k"
  by (auto simp: but_inv_def mapper_frame owns_claim withheld_registry_claim)

lemma but_inv_execute: "but_inv S m i n \<Longrightarrow> but_inv S (executeKeyAction a m) i n"
  by (rule but_inv_cong) (simp_all add: mapper_frame)

lemma but_inv_add: "but_inv S m i n \<Longrightarrow> 0 < k \<Longrightarrow> but_inv S (m\<lparr>withheld := reg_add t c v i (withheld m)\<rparr>) i k"
  by (auto simp: but_inv_def owns_reg_add)

lemma but_inv_pos: "but_inv S m i n \<Longrightarrow> 0 < k \<Longrightarrow> but_inv S m i k"
  by (simp add: but_inv_def)

lemma combo_match_inv:
  assumes "but_inv S m i (nextKeyIndex st)" "app = activeApp m"
    and "nextKeyIndex st < trig_len (appMacros m) app i"
    and "trig_len (appMacros m) app i = length (events (trigger a))"
  shows "minv S (fst (combo_match env app i a ev st m))"
proof -
  let ?e = "events (trigger a) ! nextKeyIndex st"
  let ?m2 = "if te_suppress ?e then m\<lparr>withheld := reg_add (ev_type ev) (ev_code ev) (ev_value ev) i (withheld m)\<rparr>
    else m"
  have m2: "but_inv S ?m2 i k" if "0 < k" for k
    using but_inv_add [OF assms(1) that] but_inv_pos [OF assms(1) that] by simp
  have frame: "activeApp ?m2 = app" "appMacros ?m2 = appMacros m" using assms(2) by auto
  have completed: "minv S (put_combo app i st' (executeKeyAction a (snd (registry_claim i ?m2))))"
    if "nextKeyIndex st' = 0" for st'
    using but_inv_execute [OF but_inv_claim [OF m2 [of 1]]] frame that
    by (intro but_inv_finish) (simp_all add: mapper_frame)
  have on: "minv S (put_combo app i st' ?m2)"
    if "nextKeyIndex st' = Suc (nextKeyIndex st)" "Suc (nextKeyIndex st) < length (events (trigger a))" for st'
    using m2 [of "Suc (nextKeyIndex st)"] frame assms(3,4) that by (intro but_inv_finish) auto
  have lt: "Suc (nextKeyIndex st) \<noteq> length (events (trigger a)) \<Longrightarrow>
      Suc (nextKeyIndex st) < length (events (trigger a))"
    using assms(3,4) by simp
  show ?thesis
    using completed on lt unfolding combo_match_def by (cases "te_suppress ?e") (simp_all add: Let_def)
qed

lemma combo_match_frame [mapper_frame]:
  "appMacros (fst (combo_match env app i a ev st m)) = appMacros m"
  "activeApp (fst (combo_match env app i a ev st m)) = activeApp m"
  "gToggleState (fst (combo_match env app i a ev st m)) = gToggleState m"
  "monitoringMode (fst (combo_match env app i a ev st m)) = monitoringMode m"
  "uinputDev (fst (combo_match env app i a ev st m)) = uinputDev m"
  "pressedKeys (fst (combo_match env app i a ev st m)) = pressedKeys m"
  "numLockActive (fst (combo_match env app i a ev st m)) = numLockActive m"
  by (simp_all add: combo_match_def Let_def mapper_frame)

lemma combo_step_frame [mapper_frame]:
  "appMacros (fst (combo_step env app ev i a m)) = appMacros m"
  "activeApp (fst (combo_step env app ev i a m)) = activeApp m"
  "gToggleState (fst (combo_step env app ev i a m)) = gToggleState m"
  "monitoringMode (fst (combo_step env app ev i a m)) = monitoringMode m"
  "uinputDev (fst (combo_step env app ev i a m)) = uinputDev m"
  "pressedKeys (fst (combo_step env app ev i a m)) = pressedKeys m"
  "numLockActive (fst (combo_step env app ev i a m)) = numLockActive m"
  by (simp_all add: combo_step_def Let_def mapper_frame)

lemma combo_step_inv:
  assumes "minv S m" "app = activeApp m" "om_find app (appMacros m) = Some as" "i < length as" "as ! i = a"
  shows "minv S (fst (combo_step env app ev i a m))"
proof -
  let ?st0 = "get_combo app i m"
  let ?late = "nextKeyIndex ?st0 > 0 \<and> clk_macros env - lastMatchTime ?st0 > 2 * sec"
  define st where "st = (if ?late then reset_combo ?st0 else ?st0)"
  define m1 where "m1 = (if ?late then release_claimed i m else m)"
  have len: "trig_len (appMacros m) app i = length (events (trigger a))"
    using assms by (simp add: trig_len_def)
  have b0: "but_inv S m i (nextKeyIndex ?st0)" using but_inv_start [OF assms(1)] assms(2) by simp
  have b1: "but_inv S m1 i (nextKeyIndex st)"
    using b0 but_inv_release [OF b0] by (auto simp: m1_def st_def)
  have frame: "app = activeApp m1" "appMacros m1 = appMacros m"
    using assms(2) by (simp_all add: m1_def mapper_frame)
  have st: "nextKeyIndex st = 0 \<or> nextKeyIndex st < trig_len (appMacros m1) app i"
    using assms(1,2) frame by (auto simp: st_def get_combo_at minv_def combos_inv_def)
  have keep: "minv S (put_combo app i st m1)" using but_inv_finish [OF b1 frame(1) st] .
  have broken: "minv S (put_combo app i (reset_combo st) (release_claimed i m1))"
    using but_inv_release [OF b1] frame by (intro but_inv_finish) (simp_all add: mapper_frame)
  have matched: "minv S (fst (combo_match env app i a ev st m1))"
    if "nextKeyIndex st < length (events (trigger a))"
    using combo_match_inv [OF b1 frame(1)] len frame that by simp
  have "combo_step env app ev i a m = (if events (trigger a) = [] then (m, False)
      else if numLockActive m1 \<and> \<not> isKeyboardOnlyMacro a then
             (if nextKeyIndex st > 0 then (put_combo app i (reset_combo st) (release_claimed i m1), False)
              else (put_combo app i st m1, False))
           else if nextKeyIndex st \<ge> length (events (trigger a)) then (put_combo app i st m1, False)
           else if event_matches (events (trigger a) ! nextKeyIndex st) ev
           then combo_match env app i a ev st m1
           else if nextKeyIndex st > 0 \<and> breaks_combo a (nextKeyIndex st) ev
           then (put_combo app i (reset_combo st) (release_claimed i m1), False)
           else (put_combo app i st m1, False))"
    by (simp add: combo_step_def st_def m1_def Let_def)
  then show ?thesis using keep broken matched assms(1) by simp
qed

lemma combo_loop_frame [mapper_frame]:
  "appMacros (fst (combo_loop env app ev i as m)) = appMacros m"
  "activeApp (fst (combo_loop env app ev i as m)) = activeApp m"
  "gToggleState (fst (combo_loop env app ev i as m)) = gToggleState m"
  "monitoringMode (fst (combo_loop env app ev i as m)) = monitoringMode m"
  "uinputDev (fst (combo_loop env app ev i as m)) = uinputDev m"
  "pressedKeys (fst (combo_loop env app ev i as m)) = pressedKeys m"
  "numLockActive (fst (combo_loop env app ev i as m)) = numLockActive m"
  by (induction as arbitrary: i m) (simp_all add: case_prod_unfold Let_def mapper_frame)

lemma combo_loop_inv:
  assumes "suffix bs as" "minv S m" "app = activeApp m" "om_find app (appMacros m) = Some as"
  shows "minv S (fst (combo_loop env app ev (length as - length bs) bs m))"
  using assms
proof (induction bs arbitrary: m)
  case (Cons b bs)
  let ?i = "length as - length (b # bs)"
  obtain cs where cs: "as = cs @ b # bs" using Cons.prems(1) by (auto simp: suffix_def)
  then have i: "?i < length as" "as ! ?i = b" "Suc ?i = length as - length bs" by simp_all
  let ?m1 = "fst (combo_step env app ev ?i b m)"
  have "minv S ?m1" using combo_step_inv [OF Cons.prems(2-4) i(1,2)] .
  moreover have "suffix bs as" using cs by (auto simp: suffix_def)
  ultimately have "minv S (fst (combo_loop env app ev (length as - length bs) bs ?m1))"
    using Cons.prems by (intro Cons.IH) (simp_all add: mapper_frame)
  then show ?case using i(3) by (simp add: case_prod_unfold Let_def)
qed simp

subsection \<open>The whole pipeline\<close>

lemma stageMacros_frame [mapper_frame]:
  "appMacros (fst (stageMacros env ev skip m)) = appMacros m"
  "activeApp (fst (stageMacros env ev skip m)) = activeApp m"
  "gToggleState (fst (stageMacros env ev skip m)) = gToggleState m"
  "monitoringMode (fst (stageMacros env ev skip m)) = monitoringMode m"
  "uinputDev (fst (stageMacros env ev skip m)) = uinputDev m"
  by (simp_all add: stageMacros_def Let_def case_prod_unfold mapper_frame split: option.splits)

lemma stageMacros_inv: "minv S m \<Longrightarrow> minv S (fst (stageMacros env ev skip m))"
proof (cases "skip \<or> om_find (activeApp m) (appMacros m) = None")
  case True
  then show "minv S m \<Longrightarrow> ?thesis" by (auto simp: stageMacros_def)
next
  case False
  then obtain as where as: "om_find (activeApp m) (appMacros m) = Some as" "\<not> skip" by auto
  let ?m0 = "m\<lparr>comboProgress := om_put (activeApp m) (om_index [] (activeApp m) (comboProgress m)) (comboProgress m)\<rparr>"
  assume "minv S m"
  then have "minv S ?m0" by (simp add: minv_def combos_inv_def)
  then have "minv S (fst (combo_loop env (activeApp m) ev (length as - length as) as ?m0))"
    using as(1) by (intro combo_loop_inv) simp_all
  then show ?thesis using as by (simp add: stageMacros_def Let_def case_prod_unfold)
qed

lemma emitFinal_same: "same_but_out m (emitFinal ev m)"
  by (simp add: emitFinal_def)

lemma minv_same_but_out: "same_but_out m m' \<Longrightarrow> minv S m' = minv S m"
  by (simp add: minv_def same_but_outD)

lemma finish_event_inv: "minv S m \<Longrightarrow> minv S (finish_event env ev skip m)"
  using stageMacros_inv [of S m env ev skip] minv_same_but_out [OF emitFinal_same]
  by (simp add: finish_event_def case_prod_unfold Let_def)

lemma finish_event_frame [mapper_frame]:
  "gToggleState (finish_event env ev skip m) = gToggleState m"
  "monitoringMode (finish_event env ev skip m) = monitoringMode m"
  using same_but_outD [OF emitFinal_same [of "fst (stageMacros env ev skip m)" ev]]
  by (simp_all add: finish_event_def case_prod_unfold Let_def mapper_frame)

text \<open>Resetting: every combo index that can own a key is claimed.\<close>

lemma withheld_fold_claim:
  "withheld (fold (\<lambda>i m. snd (registry_claim i m)) is m) = fold (\<lambda>i w. snd (claim i w)) is (withheld m)"
  by (induction "is" arbitrary: m) (simp_all add: withheld_registry_claim)

lemma withheld_releaseAll:
  "withheld (releaseAllPressedKeys m)
     = fold (\<lambda>i w. snd (claim i w)) (combo_indices (comboProgress m)) (withheld m)"
proof -
  let ?m1 = "fold (\<lambda>i m. snd (registry_claim i m)) (combo_indices (comboProgress m)) m"
  let ?m2 = "?m1\<lparr>comboProgress := reset_progress (comboProgress ?m1)\<rparr>"
  have "same_but_out ?m2 (sync (fold (\<lambda>c m. emit EV_KEY c 0 m) (pressedKeys ?m2) ?m2))"
    by (rule same_but_out_trans [OF _ same_but_out_emissions(2)], rule same_but_out_fold) simp
  from same_but_outD(5) [OF this] show ?thesis
    by (simp add: releaseAllPressedKeys_def Let_def withheld_fold_claim)
qed

lemma owners_in_indices:
  assumes "minv S m"
  shows "owns (withheld m) \<subseteq> S \<union> UNIV \<times> set (combo_indices (comboProgress m))"
  using assms combo_at_indices by (fastforce simp: minv_def combos_inv_def)

lemma releaseAll_unblocks: "minv S m \<Longrightarrow> owns (withheld (releaseAllPressedKeys m)) \<subseteq> S"
  using owners_in_indices [of S m] by (force simp: withheld_releaseAll reg.owners_fold_drop)

lemma idle_minv:
  "owns (withheld m) \<subseteq> S \<Longrightarrow> (\<And>a i. nextKeyIndex (combo_at (comboProgress m) a i) = 0) \<Longrightarrow> minv S m"
  by (auto simp: minv_def combos_inv_def)

lemma releaseAll_inv: "minv S m \<Longrightarrow> minv S (releaseAllPressedKeys m)"
  by (rule idle_minv) (simp_all add: releaseAll_unblocks mapper_frame combo_at_reset)

lemma same_fields_minv:
  "withheld m' = withheld m \<Longrightarrow> comboProgress m' = comboProgress m \<Longrightarrow> appMacros m' = appMacros m \<Longrightarrow>
   activeApp m' = activeApp m \<Longrightarrow> minv S m' = minv S m"
  by (simp add: minv_def)

lemma minv_updates [simp]:
  "minv S (m\<lparr>numLockActive := b\<rparr>) = minv S m" "minv S (m\<lparr>pressedKeys := ks\<rparr>) = minv S m"
  "minv S (m\<lparr>ctrlDown := b\<rparr>) = minv S m" "minv S (m\<lparr>gToggleState := g\<rparr>) = minv S m"
  "minv S (ungrabDevices m) = minv S m" "minv S (grabDevices env c m) = minv S m"
  by (rule same_fields_minv; simp add: mapper_frame grabDevices_def do_grab_def)+

lemma grab_withheld [mapper_frame]: "withheld (grabDevices env c m) = withheld m"
  by (simp add: grabDevices_def do_grab_def)

lemma setNumLockState_inv: "minv S m \<Longrightarrow> minv S (setNumLockState env b m)"
  by (simp add: setNumLockState_def Let_def releaseAll_inv)

lemma emergency_scroll_inv: "minv S (emergency_scroll now m) = minv S m"
  by (rule same_fields_minv) (simp_all add: emergency_scroll_def mapper_frame)

lemma track_key_inv: "minv S m \<Longrightarrow> minv S (track_key env ev m)"
  by (auto simp: track_key_def Let_def intro!: setNumLockState_inv)

lemma stageContext_inv: "minv S m \<Longrightarrow> minv S (stageContext env ev m)"
  unfolding stageContext_def Let_def
  by (simp add: track_key_inv emergency_scroll_inv)

lemma detectGKey_fields [mapper_frame]:
  "withheld (snd (detectGKey ev m)) = withheld m" "comboProgress (snd (detectGKey ev m)) = comboProgress m"
  "appMacros (snd (detectGKey ev m)) = appMacros m" "activeApp (snd (detectGKey ev m)) = activeApp m"
  "monitoringMode (snd (detectGKey ev m)) = monitoringMode m" "uinputDev (snd (detectGKey ev m)) = uinputDev m"
  "out (snd (detectGKey ev m)) = out m"
  by (simp_all add: detectGKey_def)

lemma detectGKey_range:
  "1 \<le> gToggleState m \<Longrightarrow> gToggleState m \<le> 5 \<Longrightarrow>
     1 \<le> gToggleState (snd (detectGKey ev m)) \<and> gToggleState (snd (detectGKey ev m)) \<le> 5"
  by (simp add: detectGKey_def)

lemma processEvent_inv: "mapper_inv_upto S m \<Longrightarrow> mapper_inv_upto S (processEvent env ev skip m)"
proof (induction env ev skip m rule: processEvent.induct)
  case (1 env ev skip m)
  let ?m1 = "stageContext (env 0) ev m"
  have m1: "mapper_inv_upto S ?m1"
    using 1(2) stageContext_inv by (simp add: mapper_inv_upto_def mapper_frame)
  have fin: "mapper_inv_upto S (finish_event (env 0) ev skip m')" if "mapper_inv_upto S m'" for m'
    using that finish_event_inv by (simp add: mapper_inv_upto_def mapper_frame)
  obtain g m2 where g: "detectGKey ev ?m1 = (g, m2)" by fastforce
  have "minv S m2 = minv S ?m1"
    using detectGKey_fields [of ev ?m1] g by (intro same_fields_minv) simp_all
  then have m2: "mapper_inv_upto S m2" using m1 detectGKey_range [of ?m1 ev] g by (simp add: mapper_inv_upto_def)
  show ?case
  proof (cases "monitoringMode ?m1 \<or> skip")
    case True
    then show ?thesis using m1 fin by (cases "monitoringMode ?m1") (auto simp: processEvent_cases)
  next
    case False
    then show ?thesis
      using 1(1) [OF refl _ _ g [symmetric]] m2 fin g
      by (cases g) (auto simp: processEvent_cases)
  qed
qed

lemma flush_fold_fields:
  fixes "is" :: "nat list"
  defines "f \<equiv> \<lambda>i m. let (claimed, m') = registry_claim i m
     in fold (\<lambda>wk m. emit (wk_type wk) (wk_code wk) (wk_value wk) m) claimed m'"
  shows "withheld (fold f is m) = fold (\<lambda>i w. snd (claim i w)) is (withheld m)"
    "comboProgress (fold f is m) = comboProgress m" "appMacros (fold f is m) = appMacros m"
    "activeApp (fold f is m) = activeApp m"
proof -
  have "same_but_out (snd (registry_claim i m)) (f i m)" for i m
    unfolding f_def by (simp add: case_prod_unfold Let_def same_but_out_fold)
  note D = same_but_outD [OF this]
  show "withheld (fold f is m) = fold (\<lambda>i w. snd (claim i w)) is (withheld m)"
    "comboProgress (fold f is m) = comboProgress m" "appMacros (fold f is m) = appMacros m"
    "activeApp (fold f is m) = activeApp m"
    by (induction "is" arbitrary: m) (simp_all add: D mapper_frame withheld_registry_claim)
qed

lemma flushAndResetState_inv: "minv S m \<Longrightarrow> mapper_inv_upto S (flushAndResetState m)"
  "minv S m \<Longrightarrow> owns (withheld (flushAndResetState m)) \<subseteq> S"
proof -
  assume m: "minv S m"
  show none: "owns (withheld (flushAndResetState m)) \<subseteq> S"
    using owners_in_indices [OF m] flush_fold_fields(1)
    by (force simp: flushAndResetState_def Let_def reg.owners_fold_drop)
  show "mapper_inv_upto S (flushAndResetState m)"
    unfolding mapper_inv_upto_def
  proof (intro conjI)
    show "minv S (flushAndResetState m)"
      by (rule idle_minv [OF none]) (simp add: flushAndResetState_def Let_def combo_at_reset)
  qed (simp_all add: flushAndResetState_def Let_def)
qed

text \<open>A context change happens with all combos reset, so the invariant carries over to the macros of
  the new application.\<close>

lemma releaseAll_context:
  assumes "minv S m"
  shows "minv S (releaseAllPressedKeys (m\<lparr>activeApp := a, activeUrl := u, activeTitle := t\<rparr>))"
proof (rule idle_minv)
  let ?m = "m\<lparr>activeApp := a, activeUrl := u, activeTitle := t\<rparr>"
  show "owns (withheld (releaseAllPressedKeys ?m)) \<subseteq> S"
    using owners_in_indices [OF assms] by (force simp: withheld_releaseAll reg.owners_fold_drop)
qed (simp add: mapper_frame combo_at_reset)

lemma setContext_inv: "mapper_inv_upto S m \<Longrightarrow> mapper_inv_upto S (setContext a u t m)"
  by (simp add: mapper_inv_upto_def setContext_def mapper_frame releaseAll_context)

lemma initial_mapper_inv: "mapper_inv_upto S initial_mapper"
  by (simp add: mapper_inv_upto_def minv_def combos_inv_def initial_mapper_def initial_combo_def owns_def
      om_index_def)

subsection \<open>Reachable states\<close>

text \<open>
  The operations that touch the mapper's state, each as a step: an event or a sync notice from a
  device, a context change, an acknowledgement, a paste thread, grabbing and ungrabbing on request or
  from a signal handler, emitted input, new filters, a reset, starting and stopping. Replacing the
  macros is the one step that can strand withheld keys, so the relation carries the set of pairs that
  were withheld when the macros were last replaced.
\<close>

inductive mapper_step :: "mapper \<Rightarrow> mapper \<Rightarrow> bool" where
  read_step: "mapper_step m (handle_read env r m)"
| context_step: "mapper_step m (setContext a u t m)"
| ack_step: "mapper_step m (onFocusAck m)"
| paste_step: "mapper_step m (run_paste_thread m)"
| grab_step: "mapper_step m (grabDevices env clear m)"
| ungrab_step: "mapper_step m (ungrabDevices m)"
| signal_step: "mapper_step m (ungrabDevicesSignalSafe m)"
| numlock_step: "mapper_step m (setNumLockState env b m)"
| emit_step: "mapper_step m (emit t c v m)"
| filters_step: "mapper_step m (setEventFiltersInternal j m)"
| flush_step: "mapper_step m (flushAndResetState m)"
| start_step: "mapper_step m (fst (start de env kbd mouse now m))"
| stop_step: "mapper_step m (stop m)"

inductive_cases mapper_stepE: "mapper_step m m'"

inductive mapper_reach :: "mapper \<Rightarrow> (u16 \<times> nat) set \<Rightarrow> bool" where
  reach_initial: "mapper_reach initial_mapper {}"
| reach_step: "mapper_reach m S \<Longrightarrow> mapper_step m m' \<Longrightarrow> mapper_reach m' S"
| reach_macros:
    "mapper_reach m S \<Longrightarrow> mapper_reach (fst (setMacrosFromJsonInternal j m)) (owns (withheld m))"

lemma mapper_inv_minv: "mapper_inv_upto S m \<Longrightarrow> minv S m"
  by (simp add: mapper_inv_upto_def)

lemma handle_read_inv: "mapper_inv_upto S m \<Longrightarrow> mapper_inv_upto S (handle_read env r m)"
proof (cases r)
  case (ReadEvent ev)
  then show "mapper_inv_upto S m \<Longrightarrow> ?thesis" by (simp add: handle_read_def processEvent_inv)
next
  case (ReadSync evs)
  have "mapper_inv_upto S (snd (fold (\<lambda>ev (k, m). (Suc k, processEvent (env k) ev True m)) evs (k, m)))"
    if "mapper_inv_upto S m" for k m
    using that by (induction evs arbitrary: k m) (simp_all add: processEvent_inv)
  then show "mapper_inv_upto S m \<Longrightarrow> ?thesis"
    using ReadSync flushAndResetState_inv(1) by (simp add: handle_read_def mapper_inv_minv)
qed

lemma mapper_inv_same:
  "mapper_inv_upto S m \<Longrightarrow> withheld m' = withheld m \<Longrightarrow> comboProgress m' = comboProgress m \<Longrightarrow>
   appMacros m' = appMacros m \<Longrightarrow> activeApp m' = activeApp m \<Longrightarrow> gToggleState m' = gToggleState m \<Longrightarrow>
   mapper_inv_upto S m'"
  using same_fields_minv [of m' m] by (simp add: mapper_inv_upto_def)

lemma run_paste_thread_fields [mapper_frame]:
  "withheld (run_paste_thread m) = withheld m" "comboProgress (run_paste_thread m) = comboProgress m"
  "appMacros (run_paste_thread m) = appMacros m" "activeApp (run_paste_thread m) = activeApp m"
  "gToggleState (run_paste_thread m) = gToggleState m"
  by (simp_all add: run_paste_thread_def emission_defs mapper_frame)

definition pipeline :: "mapper \<Rightarrow> (u16, WithheldKey list) omap \<times> (AppType, (nat, ComboState) omap) omap
    \<times> (AppType, KeyAction list) omap \<times> AppType \<times> int" where
  "pipeline m = (withheld m, comboProgress m, appMacros m, activeApp m, gToggleState m)"

lemma mapper_inv_pipeline: "mapper_inv_upto S m \<Longrightarrow> pipeline m' = pipeline m \<Longrightarrow> mapper_inv_upto S m'"
  by (rule mapper_inv_same) (simp_all add: pipeline_def)

lemma pipeline_frame:
  "pipeline (onFocusAck m) = pipeline m" "pipeline (run_paste_thread m) = pipeline m"
  "pipeline (grabDevices env clear m) = pipeline m" "pipeline (ungrabDevices m) = pipeline m"
  "pipeline (ungrabDevicesSignalSafe m) = pipeline m" "pipeline (emit t c v m) = pipeline m"
  "pipeline (setEventFiltersInternal j m) = pipeline m" "pipeline (stop m) = pipeline m"
  by (simp_all add: pipeline_def onFocusAck_def setEventFiltersInternal_def mapper_frame
      ungrabDevicesSignalSafe_def emission_defs stop_def Let_def grabDevices_def do_grab_def)

lemma pipeline_start: "pipeline (fst (start de env kbd mouse now m)) = pipeline m"
proof -
  have "pipeline (fst (setupDevices de m)) = pipeline m" "pipeline (fst (setupUinput de m)) = pipeline m" for m
    by (simp_all add: pipeline_def setupDevices_def setupUinput_def Let_def)
  moreover have "pipeline (m\<lparr>keyboardPath := kbd, mousePath := mouse\<rparr>) = pipeline m"
    "pipeline (m\<lparr>running := True\<rparr>) = pipeline m" for m
    by (simp_all add: pipeline_def)
  ultimately show ?thesis
    by (simp add: start_def Let_def case_prod_unfold pipeline_frame)
qed

lemma setMacros_inv:
  "mapper_inv_upto S m \<Longrightarrow>
     mapper_inv_upto (owns (withheld m)) (fst (setMacrosFromJsonInternal j m))"
  by (auto simp: mapper_inv_upto_def setMacrosFromJsonInternal_def case_prod_unfold Let_def
      initial_combo_def intro!: idle_minv)

lemma mapper_step_inv: "mapper_step m m' \<Longrightarrow> mapper_inv_upto S m \<Longrightarrow> mapper_inv_upto S m'"
proof (erule mapper_stepE)
  fix env b
  assume "mapper_inv_upto S m" "m' = setNumLockState env b m"
  then show ?thesis by (simp add: mapper_inv_upto_def setNumLockState_inv mapper_frame)
qed (auto intro: handle_read_inv setContext_inv mapper_inv_pipeline flushAndResetState_inv(1)
      mapper_inv_minv simp: pipeline_frame pipeline_start)

lemma reach_inv: "mapper_reach m S \<Longrightarrow> mapper_inv_upto S m"
  by (induction rule: mapper_reach.induct) (auto intro: initial_mapper_inv mapper_step_inv setMacros_inv)

lemma mapper_inv_mono: "mapper_inv_upto S m \<Longrightarrow> owns (withheld m) \<inter> S \<subseteq> T \<Longrightarrow> mapper_inv_upto T m"
  by (auto simp: mapper_inv_upto_def minv_def combos_inv_def)

text \<open>
  C2 (invariant). In every state reachable from the constructed mapper by its operations, replacing
  the macros at any time included, the G-key recogniser is in one of its states 1 to 5, every combo in
  progress belongs to the active application and stands strictly inside its trigger, and every
  withheld key is owned by a combo in progress or was already withheld by that combo when the macros
  were last replaced. So as long as none of those remains, in particular when nothing was withheld at
  the last replacement, every withheld key is owned by a combo in progress.
\<close>

theorem mapper_invariant:
  assumes "mapper_reach m S"
  shows "mapper_inv_upto S m \<and> (owns (withheld m) \<inter> S = {} \<longrightarrow> mapper_inv m)"
  using reach_inv [OF assms] mapper_inv_mono [of S m "{}"] by (auto simp: mapper_inv_def)

theorem mapper_invariant_witness:
  "mapper_inv (setContext TERMINAL [] ''sh'' (fst (setMacrosFromJsonInternal JNull initial_mapper)))"
proof -
  have "owns (withheld initial_mapper) = {}" by (simp add: initial_mapper_def owns_def om_index_def)
  then show ?thesis
    using mapper_invariant [OF reach_step [OF reach_macros [OF reach_initial] context_step]] by simp
qed

end
