(* ===== verification/Mapper_Behaviour.thy ===== *)
theory Mapper_Behaviour
  imports Mapper_Invariants
begin

text \<open>
  What the input pipeline does to events: the G-key recogniser, the emergency keys, monitoring mode,
  pass-through, release of withheld events, the registry's \<open>claim\<close>, the grab loop and NumLock.
\<close>

subsection \<open>More frame facts\<close>

lemma pipeline_emergency_frame [mapper_frame]:
  "emergencyScrollCount (release_claimed i m) = emergencyScrollCount m"
  "emergencyFirstPress (release_claimed i m) = emergencyFirstPress m"
  "emergencyScrollCount (executeKeyAction a m) = emergencyScrollCount m"
  "emergencyFirstPress (executeKeyAction a m) = emergencyFirstPress m"
  "emergencyScrollCount (snd (registry_claim i m)) = emergencyScrollCount m"
  "emergencyFirstPress (snd (registry_claim i m)) = emergencyFirstPress m"
  "emergencyScrollCount (put_combo app i st m) = emergencyScrollCount m"
  "emergencyFirstPress (put_combo app i st m) = emergencyFirstPress m"
  "emergencyScrollCount (emitFinal ev m) = emergencyScrollCount m"
  "emergencyFirstPress (emitFinal ev m) = emergencyFirstPress m"
  "emergencyScrollCount (snd (detectGKey ev m)) = emergencyScrollCount m"
  "emergencyFirstPress (snd (detectGKey ev m)) = emergencyFirstPress m"
proof -
  obtain os where "release_claimed i m = (snd (registry_claim i m))\<lparr>out := os\<rparr>"
    using release_claimed_same [of i m] by (auto simp: same_but_out_def)
  then show "emergencyScrollCount (release_claimed i m) = emergencyScrollCount m"
    "emergencyFirstPress (release_claimed i m) = emergencyFirstPress m"
    by (simp_all add: registry_claim_def case_prod_unfold Let_def)
qed (cases "handler a"; simp add: executeKeyAction_def triggerChromeChatGPTMacro_def emission_defs
      write_raw_def put_combo_def emitFinal_def detectGKey_def registry_claim_def case_prod_unfold Let_def)+

lemma combo_emergency_frame [mapper_frame]:
  "emergencyScrollCount (fst (combo_match env app i a ev st m)) = emergencyScrollCount m"
  "emergencyFirstPress (fst (combo_match env app i a ev st m)) = emergencyFirstPress m"
  "emergencyScrollCount (fst (combo_step env app ev i a m)) = emergencyScrollCount m"
  "emergencyFirstPress (fst (combo_step env app ev i a m)) = emergencyFirstPress m"
  by (simp_all add: combo_match_def combo_step_def Let_def mapper_frame)

lemma combo_loop_emergency_frame [mapper_frame]:
  "emergencyScrollCount (fst (combo_loop env app ev i as m)) = emergencyScrollCount m"
  "emergencyFirstPress (fst (combo_loop env app ev i as m)) = emergencyFirstPress m"
  by (induction as arbitrary: i m) (simp_all add: case_prod_unfold Let_def mapper_frame)

lemma finish_emergency_frame [mapper_frame]:
  "emergencyScrollCount (finish_event env ev skip m) = emergencyScrollCount m"
  "emergencyFirstPress (finish_event env ev skip m) = emergencyFirstPress m"
  by (simp_all add: finish_event_def stageMacros_def Let_def case_prod_unfold mapper_frame
      split: option.splits)

lemma finish_pressed_frame [mapper_frame]:
  "pressedKeys (finish_event env ev skip m) = pressedKeys m"
  using same_but_outD(2) [OF emitFinal_same [of "fst (stageMacros env ev skip m)" ev]]
  by (simp add: finish_event_def stageMacros_def Let_def case_prod_unfold mapper_frame split: option.splits)

lemma detect_pressed_frame [mapper_frame]: "pressedKeys (snd (detectGKey ev m)) = pressedKeys m"
  by (simp add: detectGKey_def)

subsection \<open>Sample states\<close>

definition live_mapper :: mapper where
  "live_mapper = initial_mapper\<lparr>uinputDev := True, keyboardDev := True, kbdGrabbed := True\<rparr>"

definition calm_env :: ev_env where
  "calm_env = \<lparr>clk_context = 0, clk_macros = 0, clk_match = (\<lambda>_. 0), hw_pressed = (\<lambda>_. False),
     poll_time = (\<lambda>_. 0), grab_kbd_ok = True, grab_mouse_ok = True\<rparr>"

abbreviation key_event :: "u16 \<Rightarrow> i32 \<Rightarrow> input_event" where
  "key_event c v \<equiv> \<lparr>ev_type = EV_KEY, ev_code = c, ev_value = v\<rparr>"

subsection \<open>The G-key recogniser\<close>

text \<open>The symbol an event contributes to the recogniser's history: C and S for a press of the left
  Ctrl and Shift, nothing for their other events and for non-key events, X for any other key event.\<close>

definition g_symbol :: "input_event \<Rightarrow> string" where
  "g_symbol ev =
     (if ev_type ev \<noteq> EV_KEY then []
      else if ev_code ev = KEY_LEFTCTRL then (if ev_value ev = 1 then ''C'' else [])
      else if ev_code ev = KEY_LEFTSHIFT then (if ev_value ev = 1 then ''S'' else [])
      else ''X'')"

definition g_history :: "input_event list \<Rightarrow> string" where
  "g_history evs = concat (map g_symbol evs)"

definition g_run :: "input_event list \<Rightarrow> mapper \<Rightarrow> mapper" where
  "g_run evs m = fold (\<lambda>ev m. snd (detectGKey ev m)) evs m"

lemma g_run_snoc: "g_run (evs @ [ev]) m = snd (detectGKey ev (g_run evs m))"
  by (simp add: g_run_def)

lemma g_history_snoc: "g_history (evs @ [ev]) = g_history evs @ g_symbol ev"
  by (simp add: g_history_def)

text \<open>The recogniser is a finite automaton over that history.\<close>

definition g_step :: "char \<Rightarrow> int \<Rightarrow> int" where
  "g_step c s =
     (if c = CHR ''C'' then (if s = 1 then 2 else if s = 3 then 4 else 1)
      else if c = CHR ''S'' then (if s = 2 then 3 else if s = 4 then 5 else 1)
      else 1)"

lemma detect_g_step: "gToggleState (snd (detectGKey ev m)) = fold g_step (g_symbol ev) (gToggleState m)"
  by (simp add: detectGKey_def g_symbol_def g_step_def)

lemma g_run_fold: "gToggleState (g_run evs m) = fold g_step (g_history evs) (gToggleState m)"
  by (induction evs rule: rev_induct)
     (simp_all add: g_run_snoc g_history_snoc detect_g_step, simp_all add: g_run_def g_history_def)

text \<open>A press that does not continue the sequence is used up by the reset: the history splits into
  failed attempts, each a start of the sequence with the press that broke it off, and the start
  reached now. The state counts the presses of that start.\<close>

definition attempt :: "string \<Rightarrow> bool" where
  "attempt b \<longleftrightarrow> b \<noteq> [] \<and> prefix (butlast b) ''CSCS'' \<and> \<not> prefix b ''CSCS''"

lemma prefix_CSCS: "prefix u ''CSCS'' \<longleftrightarrow> u \<in> {[], ''C'', ''CS'', ''CSC'', ''CSCS''}"
  by (auto simp: prefix_Cons)

lemma start_state: "prefix u ''CSCS'' \<Longrightarrow> fold g_step u 1 = 1 + int (length u)"
  by (auto simp: prefix_CSCS g_step_def)

lemma attempt_state: "attempt b \<Longrightarrow> fold g_step b 1 = 1"
  by (cases b rule: rev_cases) (auto simp: attempt_def prefix_CSCS g_step_def)

lemma attempts_state: "\<forall>b \<in> set bs. attempt b \<Longrightarrow> fold g_step (concat bs) 1 = 1"
  by (induction bs) (simp_all add: attempt_state)

lemma split_attempts:
  "\<exists>bs u. h = concat bs @ u \<and> (\<forall>b \<in> set bs. attempt b) \<and> prefix u ''CSCS''"
proof (induction h rule: rev_induct)
  case Nil
  show ?case by (intro exI [of _ "[]"]) simp
next
  case (snoc c h)
  then obtain bs u where h: "h = concat bs @ u" "\<forall>b \<in> set bs. attempt b" "prefix u ''CSCS''" by blast
  show ?case
  proof (cases "prefix (u @ [c]) ''CSCS''")
    case True
    with h show ?thesis by (intro exI [of _ bs] exI [of _ "u @ [c]"]) simp
  next
    case False
    then have "attempt (u @ [c])" using h(3) by (simp add: attempt_def)
    with h show ?thesis by (intro exI [of _ "bs @ [u @ [c]]"] exI [of _ "[]"]) simp
  qed
qed

lemma ready_iff:
  "fold g_step h 1 = 5 \<longleftrightarrow> (\<exists>bs. h = concat bs @ ''CSCS'' \<and> (\<forall>b \<in> set bs. attempt b))"
proof
  assume five: "fold g_step h 1 = 5"
  obtain bs u where h: "h = concat bs @ u" "\<forall>b \<in> set bs. attempt b" "prefix u ''CSCS''"
    using split_attempts by blast
  then have "length u = 4" using five by (simp add: attempts_state start_state)
  then have "u = ''CSCS''" using h(3) by (auto simp: prefix_CSCS)
  with h show "\<exists>bs. h = concat bs @ ''CSCS'' \<and> (\<forall>b \<in> set bs. attempt b)" by blast
qed (auto simp: attempts_state g_step_def)

lemma g_complete: "suffix ''XCSCS'' (CHR ''X'' # h) \<Longrightarrow> fold g_step h 1 = 5"
  by (auto simp: suffix_def Cons_eq_append_conv g_step_def)

lemma detect_Some_iff:
  "fst (detectGKey ev m) = Some n \<longleftrightarrow>
     gToggleState m = 5 \<and> ev_type ev = EV_KEY \<and> KEY_1 \<le> ev_code ev \<and> ev_code ev \<le> KEY_6 \<and>
     n = unat (ev_code ev) - 1"
proof -
  have "unat (ev_code ev - KEY_1 + 1) = unat (ev_code ev) - 1" if "KEY_1 \<le> ev_code ev"
  proof -
    have "ev_code ev - KEY_1 + 1 = ev_code ev - 1" by simp
    moreover have "(1::u16) \<le> ev_code ev" using that by (simp add: word_le_nat_alt)
    ultimately show ?thesis by (simp add: unat_sub)
  qed
  then show ?thesis by (auto simp: detectGKey_def word_le_nat_alt)
qed

text \<open>
  C17 (functional). Write C and S for a press of the left Ctrl and of the left Shift and X for any
  event of another key. A key event is recognised as G-key \<open>n\<close> exactly when it is one of the key of
  the digit \<open>n\<close> from 1 to 6 and the history of these symbols is CSCS after a number of failed
  attempts, each a start of CSCS together with the symbol that broke it off (which cannot begin a new
  attempt). In particular it is recognised when C, S, C, S are all the symbols since the start or
  since the last X.
\<close>

theorem gkey_recogniser:
  assumes "gToggleState m = 1"
  shows "(fst (detectGKey ev (g_run evs m)) = Some n \<longleftrightarrow>
      (\<exists>bs. g_history evs = concat bs @ ''CSCS'' \<and> (\<forall>b \<in> set bs. attempt b)) \<and>
      ev_type ev = EV_KEY \<and> 1 \<le> n \<and> n \<le> 6 \<and> ev_code ev = of_nat (n + 1)) \<and>
    (suffix ''XCSCS'' (CHR ''X'' # g_history evs) \<and> ev_type ev = EV_KEY \<and> 1 \<le> n \<and> n \<le> 6 \<and>
      ev_code ev = of_nat (n + 1) \<longrightarrow> fst (detectGKey ev (g_run evs m)) = Some n)"
proof -
  have "(KEY_1 \<le> ev_code ev \<and> ev_code ev \<le> KEY_6 \<and> n = unat (ev_code ev) - 1) \<longleftrightarrow>
      (1 \<le> n \<and> n \<le> 6 \<and> ev_code ev = of_nat (n + 1))" (is "?L \<longleftrightarrow> ?R")
  proof
    assume ?L
    then have "2 \<le> unat (ev_code ev)" "unat (ev_code ev) \<le> 7" "n = unat (ev_code ev) - 1"
      by (simp_all add: word_le_nat_alt)
    then have "1 \<le> n" "n \<le> 6" "n + 1 = unat (ev_code ev)" by arith+
    then show ?R by (simp del: of_nat_add)
  next
    assume r: ?R
    then have "unat (ev_code ev) = n + 1" by (simp add: unat_of_nat del: of_nat_add of_nat_Suc)
    with r show ?L by (simp add: word_le_nat_alt del: of_nat_add of_nat_Suc)
  qed
  then show ?thesis
    using g_complete [of "g_history evs"] assms unfolding detect_Some_iff g_run_fold ready_iff [symmetric]
    by auto
qed

theorem gkey_recogniser_witness:
  "fst (detectGKey (key_event KEY_3 1)
     (g_run [key_event KEY_A 0, key_event KEY_LEFTCTRL 1, key_event KEY_LEFTSHIFT 1, key_event KEY_LEFTCTRL 0,
       key_event KEY_LEFTCTRL 1, key_event KEY_LEFTSHIFT 1] live_mapper)) = Some 3"
  using gkey_recogniser [of live_mapper "key_event KEY_3 1" "[key_event KEY_A 0, key_event KEY_LEFTCTRL 1,
    key_event KEY_LEFTSHIFT 1, key_event KEY_LEFTCTRL 0, key_event KEY_LEFTCTRL 1, key_event KEY_LEFTSHIFT 1]" 3]
  by (simp add: live_mapper_def initial_mapper_def g_history_def g_symbol_def suffix_def)

subsection \<open>Monitoring mode and the emergency keys\<close>

abbreviation numlock_press :: "input_event \<Rightarrow> bool" where
  "numlock_press ev \<equiv> ev_type ev = EV_KEY \<and> ev_code ev = KEY_NUMLOCK \<and> ev_value ev = 1"

abbreviation scroll_press :: "input_event \<Rightarrow> bool" where
  "scroll_press ev \<equiv> ev_type ev = EV_KEY \<and> ev_code ev = KEY_SCROLLLOCK \<and> ev_value ev = 1"

lemma emergency_scroll_monitoring: "monitoringMode m \<Longrightarrow> monitoringMode (emergency_scroll now m)"
  by (simp add: emergency_scroll_def mapper_frame)

lemma stageContext_plain:
  assumes "\<not> numlock_press ev"
  shows "out (stageContext env ev m) = out m"
    "monitoringMode m \<Longrightarrow> monitoringMode (stageContext env ev m)"
  using assms
  by (auto simp: stageContext_def track_key_def Let_def mapper_frame emergency_scroll_monitoring)

text \<open>
  While the devices are only monitored, no event other than a press of NumLock writes
  anything to the virtual device, and none ends monitoring: the physical events reach the desktop by
  themselves, so nothing is typed twice.
\<close>

theorem monitoring_passive:
  assumes "monitoringMode m" "\<not> numlock_press ev"
  shows "out (processEvent env ev skip m) = out m \<and> monitoringMode (processEvent env ev skip m)"
  using stageContext_plain [OF assms(2)] assms(1) by (simp add: processEvent_monitoring)

theorem monitoring_passive_witness:
  "out (processEvent (\<lambda>_. calm_env) (key_event KEY_A 1) False (live_mapper\<lparr>monitoringMode := True\<rparr>)) = []"
  using monitoring_passive [of "live_mapper\<lparr>monitoringMode := True\<rparr>" "key_event KEY_A 1" "\<lambda>_. calm_env" False]
  by (simp add: live_mapper_def initial_mapper_def)

text \<open>
  A press of Pause always lets go of both devices and enters monitoring, in every state;
  the press itself is not written to the virtual device, in contrast to the remark in the source
  that it passes through.
\<close>

theorem pause_ungrabs:
  assumes "ev = key_event KEY_PAUSE 1"
  shows "let m' = processEvent env ev skip m in
    monitoringMode m' \<and> (keyboardDev m \<longrightarrow> \<not> kbdGrabbed m') \<and> (mouseDev m \<longrightarrow> \<not> mouseGrabbed m') \<and>
    out m' = out m"
proof -
  have ctx: "stageContext (env 0) ev m = (ungrabDevices m)\<lparr>pressedKeys := set_insert KEY_PAUSE (pressedKeys m)\<rparr>"
    using assms by (simp add: stageContext_def track_key_def mapper_frame)
  then have "processEvent env ev skip m = stageContext (env 0) ev m"
    by (intro processEvent_monitoring) (simp add: mapper_frame)
  then show ?thesis using ctx by (simp add: Let_def ungrabDevices_def)
qed

theorem pause_ungrabs_witness:
  "\<not> kbdGrabbed (processEvent (\<lambda>_. calm_env) (key_event KEY_PAUSE 1) False live_mapper)"
  using pause_ungrabs [of "key_event KEY_PAUSE 1" "\<lambda>_. calm_env" False live_mapper]
  by (simp add: live_mapper_def Let_def)

text \<open>Events other than presses of ScrollLock leave the emergency counter alone.\<close>

lemma releaseAll_emergency_frame [mapper_frame]:
  "emergencyScrollCount (releaseAllPressedKeys m) = emergencyScrollCount m"
  "emergencyFirstPress (releaseAllPressedKeys m) = emergencyFirstPress m"
proof -
  let ?m1 = "fold (\<lambda>i m. snd (registry_claim i m)) (combo_indices (comboProgress m)) m"
  let ?m2 = "?m1\<lparr>comboProgress := reset_progress (comboProgress ?m1)\<rparr>"
  have claim: "emergencyScrollCount (fold (\<lambda>i m. snd (registry_claim i m)) is n) = emergencyScrollCount n"
    "emergencyFirstPress (fold (\<lambda>i m. snd (registry_claim i m)) is n) = emergencyFirstPress n" for "is" n
    by (induction "is" arbitrary: n) (simp_all add: mapper_frame)
  have "same_but_out ?m2 (sync (fold (\<lambda>c m. emit EV_KEY c 0 m) (pressedKeys ?m2) ?m2))"
    by (rule same_but_out_trans [OF _ same_but_out_emissions(2)], rule same_but_out_fold) simp
  then show "emergencyScrollCount (releaseAllPressedKeys m) = emergencyScrollCount m"
    "emergencyFirstPress (releaseAllPressedKeys m) = emergencyFirstPress m"
    by (auto simp: releaseAllPressedKeys_def Let_def same_but_out_def claim)
qed

lemma stageContext_emergency:
  "\<not> scroll_press ev \<Longrightarrow> emergencyScrollCount (stageContext env ev m) = emergencyScrollCount m \<and>
     emergencyFirstPress (stageContext env ev m) = emergencyFirstPress m"
  by (auto simp: stageContext_def track_key_def Let_def mapper_frame setNumLockState_def ungrabDevices_def
      grabDevices_def do_grab_def)

lemma gkey_code_cases:
  assumes "fst (detectGKey ev m) = Some n"
  shows "n = 1 \<or> n = 2 \<or> n = 3 \<or> n = 4 \<or> n = 5 \<or> n = 6"
proof -
  have "2 \<le> unat (ev_code ev)" "unat (ev_code ev) \<le> 7" "n = unat (ev_code ev) - 1"
    using assms by (simp_all add: detect_Some_iff word_le_nat_alt)
  then show ?thesis by arith
qed

lemma processEvent_emergency:
  "\<not> scroll_press ev \<Longrightarrow> emergencyScrollCount (processEvent env ev skip m) = emergencyScrollCount m \<and>
     emergencyFirstPress (processEvent env ev skip m) = emergencyFirstPress m"
proof (induction env ev skip m rule: processEvent.induct)
  case (1 env ev skip m)
  let ?m1 = "stageContext (env 0) ev m"
  note ctx = stageContext_emergency [OF 1(2), of "env 0" m]
  obtain g m2 where g: "detectGKey ev ?m1 = (g, m2)" by fastforce
  have m2: "emergencyScrollCount m2 = emergencyScrollCount ?m1" "emergencyFirstPress m2 = emergencyFirstPress ?m1"
    using pipeline_emergency_frame(11,12) [of ev ?m1] g by simp_all
  show ?case
  proof (cases "monitoringMode ?m1 \<or> skip")
    case True
    then show ?thesis using ctx
      by (cases "monitoringMode ?m1") (auto simp: processEvent_cases mapper_frame)
  next
    case False
    show ?thesis
    proof (cases g)
      case None
      then show ?thesis using False ctx m2 g by (simp add: processEvent_plain mapper_frame)
    next
      case (Some n)
      have "\<not> scroll_press (ev\<lparr>ev_code := 1000 + of_nat n\<rparr>)"
        using gkey_code_cases [of ev ?m1 n] g Some by (auto simp: word_eq_iff_unsigned)
      with 1(1) [OF refl _ _ g [symmetric] Some] False
      have "emergencyScrollCount (processEvent (\<lambda>k. env (Suc k)) (ev\<lparr>ev_code := 1000 + of_nat n\<rparr>) False m2)
          = emergencyScrollCount m2 \<and>
        emergencyFirstPress (processEvent (\<lambda>k. env (Suc k)) (ev\<lparr>ev_code := 1000 + of_nat n\<rparr>) False m2)
          = emergencyFirstPress m2" by simp
      then show ?thesis using False ctx m2 g Some by (simp add: processEvent_gkey)
    qed
  qed
qed

text \<open>A run of events, each with its environment.\<close>

definition run_events :: "((nat \<Rightarrow> ev_env) \<times> input_event) list \<Rightarrow> mapper \<Rightarrow> mapper" where
  "run_events xs m = fold (\<lambda>(env, ev). processEvent env ev False) xs m"

lemma run_events_simps [simp]:
  "run_events [] m = m" "run_events ((env, ev) # xs) m = run_events xs (processEvent env ev False m)"
  "run_events (xs @ ys) m = run_events ys (run_events xs m)"
  by (simp_all add: run_events_def)

lemma run_events_emergency:
  "\<forall>(env, ev) \<in> set xs. \<not> scroll_press ev \<Longrightarrow>
     emergencyScrollCount (run_events xs m) = emergencyScrollCount m \<and>
     emergencyFirstPress (run_events xs m) = emergencyFirstPress m"
proof (induction xs arbitrary: m)
  case (Cons x xs)
  obtain env ev where x: "x = (env, ev)" by fastforce
  then show ?case using Cons processEvent_emergency [of ev env False m] by simp
qed simp

lemma scroll_context:
  "stageContext env (key_event KEY_SCROLLLOCK 1) m
     = (emergency_scroll (clk_context env) m)\<lparr>pressedKeys := set_insert KEY_SCROLLLOCK (pressedKeys m)\<rparr>"
  by (simp add: stageContext_def track_key_def mapper_frame)

lemma scroll_detect: "fst (detectGKey (key_event KEY_SCROLLLOCK v) m) = None"
  by (simp add: detectGKey_def)

lemma scroll_event:
  fixes env :: "nat \<Rightarrow> ev_env" and m :: mapper
  defines "m1 \<equiv> emergency_scroll (clk_context (env 0)) m"
  shows "emergencyScrollCount (processEvent env (key_event KEY_SCROLLLOCK 1) False m) = emergencyScrollCount m1"
    "emergencyFirstPress (processEvent env (key_event KEY_SCROLLLOCK 1) False m) = emergencyFirstPress m1"
    "monitoringMode m1 \<Longrightarrow> monitoringMode (processEvent env (key_event KEY_SCROLLLOCK 1) False m)"
proof -
  let ?ev = "key_event KEY_SCROLLLOCK 1"
  let ?c = "stageContext (env 0) ?ev m"
  have c: "emergencyScrollCount ?c = emergencyScrollCount m1" "emergencyFirstPress ?c = emergencyFirstPress m1"
    "monitoringMode ?c = monitoringMode m1"
    by (simp_all add: scroll_context m1_def)
  have d: "detectGKey ?ev ?c = (None, snd (detectGKey ?ev ?c))" using scroll_detect by (metis prod.collapse)
  have "processEvent env ?ev False m = (if monitoringMode ?c then ?c
      else finish_event (env 0) ?ev False (snd (detectGKey ?ev ?c)))"
    using processEvent_plain [of env ?ev m, OF _ d] by (simp add: processEvent_monitoring)
  then show "emergencyScrollCount (processEvent env ?ev False m) = emergencyScrollCount m1"
    "emergencyFirstPress (processEvent env ?ev False m) = emergencyFirstPress m1"
    "monitoringMode m1 \<Longrightarrow> monitoringMode (processEvent env ?ev False m)"
    using c by (simp_all add: mapper_frame)
qed

text \<open>
  Three presses of ScrollLock within one second of the first enter monitoring mode,
  whatever other events come in between, in every state and with every set of macros.
\<close>

theorem scroll_lock_escape:
  assumes "emergencyScrollCount m = 0 \<or> clk_context (e1 0) - emergencyFirstPress m > sec"
    and "\<forall>(env, ev) \<in> set (xs @ ys). \<not> scroll_press ev"
    and "clk_context (e2 0) - clk_context (e1 0) \<le> sec" "clk_context (e3 0) - clk_context (e1 0) \<le> sec"
  shows "monitoringMode (run_events ([(e1, key_event KEY_SCROLLLOCK 1)] @ xs @ [(e2, key_event KEY_SCROLLLOCK 1)]
           @ ys @ [(e3, key_event KEY_SCROLLLOCK 1)]) m)"
proof -
  let ?p = "\<lambda>e. [(e, key_event KEY_SCROLLLOCK 1)]"
  let ?m1 = "run_events xs (run_events (?p e1) m)"
  let ?m2 = "run_events ys (run_events (?p e2) ?m1)"
  have x: "\<forall>(env, ev) \<in> set xs. \<not> scroll_press ev" and y: "\<forall>(env, ev) \<in> set ys. \<not> scroll_press ev"
    using assms(2) by auto
  have m1: "emergencyScrollCount ?m1 = 1" "emergencyFirstPress ?m1 = clk_context (e1 0)"
    using run_events_emergency [OF x] assms(1) by (auto simp: scroll_event emergency_scroll_def)
  have m2: "emergencyScrollCount ?m2 = 2" "emergencyFirstPress ?m2 = clk_context (e1 0)"
    using run_events_emergency [OF y] assms(3) m1 by (auto simp: scroll_event emergency_scroll_def)
  have "monitoringMode (emergency_scroll (clk_context (e3 0)) ?m2)"
    using m2 assms(4) by (simp add: emergency_scroll_def mapper_frame)
  then show ?thesis using scroll_event(3) [of e3 ?m2] by simp
qed

theorem scroll_lock_escape_witness:
  "monitoringMode (run_events ([(\<lambda>_. calm_env, key_event KEY_SCROLLLOCK 1)] @ [(\<lambda>_. calm_env, key_event KEY_A 1)] @
     [(\<lambda>_. calm_env, key_event KEY_SCROLLLOCK 1)] @ [] @ [(\<lambda>_. calm_env, key_event KEY_SCROLLLOCK 1)]) live_mapper)"
  by (rule scroll_lock_escape) (simp_all add: live_mapper_def initial_mapper_def calm_env_def)

end
