(* ===== verification/Combo_Behaviour.thy ===== *)
theory Combo_Behaviour
  imports Mapper_Behaviour
begin

text \<open>
  What macros do: pass-through of events no macro wants, the firing of a macro on its last step, the
  release of what a broken combo withheld, the registry's \<open>claim\<close>, replacement of the macros while
  a combo is in progress, context changes, the grab loop and NumLock.
\<close>

subsection \<open>Pass-through\<close>

definition quiet :: "mapper \<Rightarrow> bool" where
  "quiet m \<longleftrightarrow> (\<forall>a i. nextKeyIndex (combo_at (comboProgress m) a i) = 0)"

definition idle :: "mapper \<Rightarrow> bool" where
  "idle m \<longleftrightarrow> owns (withheld m) = {} \<and> quiet m"

definition starts_macro :: "input_event \<Rightarrow> KeyAction \<Rightarrow> bool" where
  "starts_macro ev a \<longleftrightarrow> events (trigger a) \<noteq> [] \<and> event_matches (hd (events (trigger a))) ev"

definition final_events :: "input_event \<Rightarrow> raw_event list" where
  "final_events ev = (ev_type ev, ev_code ev, ev_value ev) #
     (if ev_type ev = EV_REL \<or> ev_type ev = EV_ABS then [] else [SYN])"

lemma out_emitFinal: "uinputDev m \<Longrightarrow> out (emitFinal ev m) = out m @ final_events ev"
  by (simp add: emitFinal_def emission_defs write_raw_def final_events_def)

lemma combo_step_quiet:
  assumes "quiet m" "\<not> starts_macro ev a"
  shows "snd (combo_step env app ev i a m) = False \<and> quiet (fst (combo_step env app ev i a m)) \<and>
    withheld (fst (combo_step env app ev i a m)) = withheld m \<and> out (fst (combo_step env app ev i a m)) = out m"
proof -
  have n: "nextKeyIndex (get_combo app i m) = 0"
    using assms(1) by (simp add: quiet_def get_combo_at)
  have put: "quiet (put_combo app i (get_combo app i m) m)"
    using assms(1) n by (simp add: quiet_def)
  show ?thesis
    using assms n put
    by (cases "events (trigger a)") (auto simp: combo_step_def starts_macro_def Let_def)
qed

lemma combo_loop_quiet:
  assumes "quiet m" "\<forall>a \<in> set as. \<not> starts_macro ev a"
  shows "snd (combo_loop env app ev i as m) = False \<and> quiet (fst (combo_loop env app ev i as m)) \<and>
    withheld (fst (combo_loop env app ev i as m)) = withheld m \<and> out (fst (combo_loop env app ev i as m)) = out m"
  using assms
proof (induction as arbitrary: i m)
  case (Cons a as)
  then show ?case
    using combo_step_quiet [of m ev a env app i] Cons.IH [of "fst (combo_step env app ev i a m)" "Suc i"]
    by (simp add: case_prod_unfold Let_def)
qed simp

lemma stageMacros_quiet:
  assumes "quiet m" "\<forall>a \<in> set (om_index [] (activeApp m) (appMacros m)). \<not> starts_macro ev a"
  shows "quiet (fst (stageMacros env ev False m)) \<and> withheld (fst (stageMacros env ev False m)) = withheld m \<and>
    out (fst (stageMacros env ev False m)) = out m \<and>
    snd (stageMacros env ev False m) =
      (if om_find (activeApp m) (appMacros m) \<noteq> None \<and> ev_type ev = EV_KEY \<and> isBlocked (ev_code ev) (withheld m)
       then DROP else CONTINUE)"
proof (cases "om_find (activeApp m) (appMacros m)")
  case None
  then show ?thesis using assms(1) by (simp add: stageMacros_def)
next
  case (Some as)
  let ?m0 = "m\<lparr>comboProgress := om_put (activeApp m) (om_index [] (activeApp m) (comboProgress m)) (comboProgress m)\<rparr>"
  have "quiet ?m0" using assms(1) by (simp add: quiet_def)
  moreover have "\<forall>a \<in> set as. \<not> starts_macro ev a" using assms(2) Some by (simp add: om_index_def)
  ultimately show ?thesis
    using combo_loop_quiet [of ?m0 as ev env "activeApp m" 0] Some
    by (simp add: stageMacros_def Let_def case_prod_unfold)
qed

lemma idle_same:
  "idle m \<Longrightarrow> withheld m' = withheld m \<Longrightarrow> comboProgress m' = comboProgress m \<Longrightarrow> idle m'"
  by (simp add: idle_def quiet_def)

lemma finish_event_idle:
  assumes "idle m" "\<forall>a \<in> set (om_index [] (activeApp m) (appMacros m)). \<not> starts_macro ev a" "uinputDev m"
  shows "out (finish_event env ev False m) = out m @ final_events ev" "idle (finish_event env ev False m)"
proof -
  let ?m1 = "fst (stageMacros env ev False m)"
  have m1: "snd (stageMacros env ev False m) = CONTINUE" "idle ?m1" "out ?m1 = out m" "uinputDev ?m1"
    using stageMacros_quiet [of m ev env] assms by (simp_all add: mapper_frame idle_def isBlocked_owns)
  then have f: "finish_event env ev False m = emitFinal ev ?m1"
    by (simp add: finish_event_def case_prod_unfold Let_def)
  show "out (finish_event env ev False m) = out m @ final_events ev"
    using f m1 by (simp add: out_emitFinal)
  show "idle (finish_event env ev False m)"
    using idle_same [OF m1(2)] same_but_outD [OF emitFinal_same [of ?m1 ev]] f by simp
qed

text \<open>Tracking an ordinary event keeps everything the macro stage looks at.\<close>

definition ordinary :: "input_event \<Rightarrow> bool" where
  "ordinary ev \<longleftrightarrow> \<not> (ev_type ev = EV_KEY \<and> ev_value ev = 1 \<and>
     ev_code ev \<in> {KEY_PAUSE, KEY_SCROLLLOCK, KEY_NUMLOCK})"

lemma stageContext_ordinary:
  assumes "ordinary ev"
  shows "withheld (stageContext env ev m) = withheld m" "comboProgress (stageContext env ev m) = comboProgress m"
    "uinputDev (stageContext env ev m) = uinputDev m" "monitoringMode (stageContext env ev m) = monitoringMode m"
    "out (stageContext env ev m) = out m"
  using assms by (auto simp: stageContext_def track_key_def Let_def ordinary_def)

text \<open>Runs from stage 2 on for an event of an ordinary kind.\<close>

lemma ordinary_runs:
  assumes "ordinary ev" "\<not> monitoringMode m"
    and "gToggleState m \<noteq> 5 \<or> \<not> (KEY_1 \<le> ev_code ev \<and> ev_code ev \<le> KEY_6)"
  shows "processEvent env ev False m
    = finish_event (env 0) ev False (snd (detectGKey ev (stageContext (env 0) ev m)))"
proof -
  let ?m1 = "stageContext (env 0) ev m"
  have "fst (detectGKey ev ?m1) \<noteq> Some n" for n
    using assms(3) by (simp add: detect_Some_iff stageContext_frame) blast
  then have "fst (detectGKey ev ?m1) = None" by blast
  then have "detectGKey ev ?m1 = (None, snd (detectGKey ev ?m1))" by (simp add: prod_eq_iff)
  then show ?thesis
    using stageContext_ordinary(4) [OF assms(1), of "env 0" m] assms(2) by (intro processEvent_plain) simp_all
qed

text \<open>
  C16 (functional). While the devices are grabbed (no monitoring mode) and the virtual device is open,
  with no combo in progress and no key withheld, an event that comes from a device and is no press of
  Pause, ScrollLock or NumLock, matches the first trigger step of no macro of the active application,
  and is no event of the keys 1 to 6 with the G-key recogniser in its last state, is written to the
  virtual device unchanged, exactly once and followed by one synchronisation event (none after
  relative and absolute motion), and no combo starts.
\<close>

theorem unmatched_event_passes:
  assumes "idle m" "ordinary ev" "\<not> monitoringMode m" "uinputDev m"
    and "\<forall>a \<in> set (om_index [] (activeApp m) (appMacros m)). \<not> starts_macro ev a"
    and "gToggleState m \<noteq> 5 \<or> \<not> (KEY_1 \<le> ev_code ev \<and> ev_code ev \<le> KEY_6)"
  shows "out (processEvent env ev False m) = out m @ final_events ev \<and> idle (processEvent env ev False m)"
proof -
  let ?m1 = "stageContext (env 0) ev m" and ?m2 = "snd (detectGKey ev (stageContext (env 0) ev m))"
  note ctx = stageContext_ordinary [OF assms(2), of "env 0" m]
  have p: "processEvent env ev False m = finish_event (env 0) ev False ?m2"
    using ordinary_runs [OF assms(2,3,6)] .
  have i: "idle ?m2" by (rule idle_same [OF assms(1)]) (simp_all add: ctx detectGKey_fields)
  have u: "uinputDev ?m2" "out ?m2 = out m" using assms(4) by (simp_all add: ctx detectGKey_fields)
  have a: "\<forall>a \<in> set (om_index [] (activeApp ?m2) (appMacros ?m2)). \<not> starts_macro ev a"
    using assms(5) by (simp add: detectGKey_fields stageContext_frame)
  show ?thesis
    using finish_event_idle [OF i a u(1), of "env 0"] u(2) p by simp
qed

lemma idle_live: "idle live_mapper"
  by (simp add: idle_def quiet_def live_mapper_def initial_mapper_def owns_def om_index_def initial_combo_def)

lemma macros_OTHER [simp]: "om_index [] OTHER (initializeAppMacros []) = defaultMacros"
  by (simp add: initializeAppMacros_def)

theorem unmatched_event_passes_witness:
  "out (processEvent (\<lambda>_. calm_env) \<lparr>ev_type = EV_REL, ev_code = 0, ev_value = 5\<rparr> False live_mapper)
     = [(EV_REL, 0, 5)]"
  using unmatched_event_passes [OF idle_live, of "\<lparr>ev_type = EV_REL, ev_code = 0, ev_value = 5\<rparr>" "\<lambda>_. calm_env"]
  by (simp add: live_mapper_def initial_mapper_def ordinary_def final_events_def defaultMacros_def
      starts_macro_def event_matches_def)

subsection \<open>Firing\<close>

text \<open>
  C14 (functional). When a macro that is not timed out and not disabled by NumLock stands before its
  last trigger step and the event matches that step, the macro fires: its key sequence is written to
  the virtual device, each key followed by a synchronisation event, its combo is idle again and
  withholds nothing, and the event itself is dropped exactly if the step asks for it.
\<close>

theorem macro_fires:
  assumes "nextKeyIndex (get_combo app i m) + 1 = length (events (trigger a))"
    and "event_matches (last (events (trigger a))) ev"
    and "clk_macros env - lastMatchTime (get_combo app i m) \<le> 2 * sec \<or> length (events (trigger a)) = 1"
    and "\<not> numLockActive m \<or> isKeyboardOnlyMacro a"
    and "uinputDev m" "handler a = NoHandler"
  shows "let (m', suppressed) = combo_step env app ev i a m in
    out m' = out m @ concat (map (\<lambda>(c, v). [(EV_KEY, c, v), SYN]) (keySequence a)) \<and>
    nextKeyIndex (get_combo app i m') = 0 \<and> i \<notin> snd ` owns (withheld m') \<and>
    suppressed = te_suppress (last (events (trigger a)))"
proof -
  let ?st = "get_combo app i m"
  have ne: "events (trigger a) \<noteq> []" using assms(1) by auto
  have last: "events (trigger a) ! nextKeyIndex ?st = last (events (trigger a))"
    using assms(1) ne by (simp add: last_conv_nth flip: assms(1))
  have step: "combo_step env app ev i a m = combo_match env app i a ev ?st m"
    using assms(1-4) ne last by (auto simp: combo_step_def Let_def)
  show ?thesis
    using assms(1,5,6) last
    by (simp add: step combo_match_def Let_def get_combo_at executeKeyAction_def emitSequence_def
        write_raw_def mapper_frame withheld_registry_claim owns_claim image_iff)
qed

definition terminal_mapper :: mapper where
  "terminal_mapper = live_mapper\<lparr>activeApp := TERMINAL,
     comboProgress := [(TERMINAL, [(2, \<lparr>nextKeyIndex = 1, suppressedEvents = [], lastMatchTime = 0\<rparr>)])]\<rparr>"

theorem macro_fires_witness:
  "out (fst (combo_step calm_env TERMINAL (key_event BTN_LEFT 1) 2 (terminalSpecificMacros ! 2) terminal_mapper))
     = [(EV_KEY, KEY_LEFTCTRL, 0), SYN, (EV_KEY, KEY_7, 1), SYN, (EV_KEY, KEY_7, 0), SYN,
        (EV_KEY, KEY_LEFTCTRL, 1), SYN]"
  using macro_fires [of TERMINAL 2 terminal_mapper "terminalSpecificMacros ! 2" "key_event BTN_LEFT 1" calm_env]
  by (simp add: terminal_mapper_def live_mapper_def initial_mapper_def calm_env_def get_combo_def om_index_def
      terminalSpecificMacros_def event_matches_def Let_def case_prod_unfold)

subsection \<open>Giving up\<close>

text \<open>When combo \<open>i\<close> owns everything that is withheld, \<open>claim\<close> returns all of it.\<close>

abbreviation withheld_events :: "(u16, WithheldKey list) omap \<Rightarrow> WithheldKey list" where
  "withheld_events w \<equiv> concat (map snd w)"

lemma claim_sole:
  assumes "\<forall>wk \<in> set (withheld_events w). owningComboIdx wk = i"
  shows "claim i w = (withheld_events w, map (\<lambda>(c, vec). (c, [])) w)"
proof -
  have vec: "claim_vec i vec = (vec, [])" if "(c, vec) \<in> set w" for c vec
  proof -
    have "filter (\<lambda>wk. owningComboIdx wk \<noteq> i) vec = []"
      using assms that by (force simp: filter_empty_conv)
    then show ?thesis by (simp add: claim_vec_def)
  qed
  have "concat (map (\<lambda>(c, vec). fst (claim_vec i vec)) w) = withheld_events w"
    using vec by (intro arg_cong [of _ _ concat] map_cong) auto
  moreover have "map (\<lambda>(c, vec). (c, snd (claim_vec i vec))) w = map (\<lambda>(c, vec). (c, [])) w"
    using vec by (intro map_cong) auto
  ultimately show ?thesis by (simp add: claim_def)
qed

lemma om_index_emptied [simp]: "om_index [] c (map (\<lambda>(c, vec). (c, [])) w) = []"
  by (simp add: om_index_def om_find_map_values split: option.splits)

lemma fold_emit_out:
  assumes "uinputDev m" "\<And>c. \<not> isBlocked c (withheld m)"
  shows "out (fold (\<lambda>wk m. if \<not> isBlocked (wk_code wk) (withheld m)
      then emit (wk_type wk) (wk_code wk) (wk_value wk) m else m) wks m)
    = out m @ concat (map (\<lambda>wk. [(wk_type wk, wk_code wk, wk_value wk), SYN]) wks)"
  using assms
proof (induction wks arbitrary: m)
  case (Cons wk wks)
  have "uinputDev (emit t c v m)" "withheld (emit t c v m) = withheld m"
    "out (emit t c v m) = out m @ [(t, c, v), SYN]" for t c v
    using Cons.prems(1) by (simp_all add: emit_def mapper_frame) (simp add: write_raw_def)
  then show ?case using Cons by simp
qed simp

text \<open>
  C19 (functional). When a combo is given up (timed out, broken or disabled) and it owns every withheld
  event, all of them are written to the virtual device, ordered by key code and within a key in the
  order they came, nothing is lost and nothing stays withheld.
\<close>

theorem release_replays_withheld:
  assumes "\<forall>wk \<in> set (withheld_events (withheld m)). owningComboIdx wk = i" "uinputDev m"
  shows "out (release_claimed i m) = out m @ concat (map (\<lambda>wk. [(wk_type wk, wk_code wk, wk_value wk), SYN])
           (withheld_events (withheld m))) @ [SYN] \<and>
    (\<forall>c. \<not> isBlocked c (withheld (release_claimed i m)))"
proof -
  let ?m1 = "m\<lparr>withheld := map (\<lambda>(c, vec). (c, [])) (withheld m)\<rparr>"
  let ?f = "\<lambda>wk m. if \<not> isBlocked (wk_code wk) (withheld m)
      then emit (wk_type wk) (wk_code wk) (wk_value wk) m else m"
  have r: "release_claimed i m = sync (fold ?f (withheld_events (withheld m)) ?m1)"
    by (simp add: release_claimed_def registry_claim_def claim_sole [OF assms(1)] Let_def)
  have "same_but_out ?m1 (fold ?f (withheld_events (withheld m)) ?m1)"
    by (rule same_but_out_fold) simp
  note D = same_but_outD [OF this]
  have "out (fold ?f (withheld_events (withheld m)) ?m1) = out m @
      concat (map (\<lambda>wk. [(wk_type wk, wk_code wk, wk_value wk), SYN]) (withheld_events (withheld m)))"
    using fold_emit_out [of ?m1 "withheld_events (withheld m)"] assms(2) by (simp add: isBlocked_def)
  then show ?thesis
    using D(1,5) assms(2) by (simp add: r sync_def mapper_frame isBlocked_def) (simp add: write_raw_def)
qed

definition holding_mapper :: mapper where
  "holding_mapper = live_mapper\<lparr>withheld := reg_add EV_KEY KEY_V 1 0 (reg_add EV_KEY KEY_A 1 0 [])\<rparr>"

theorem release_replays_withheld_witness:
  "out (release_claimed 0 holding_mapper) = [(EV_KEY, KEY_A, 1), SYN, (EV_KEY, KEY_V, 1), SYN, SYN]"
  using release_replays_withheld [of holding_mapper 0]
  by (simp add: holding_mapper_def live_mapper_def initial_mapper_def reg_add_def om_index_def)

text \<open>
  When a key is withheld first by combo \<open>i\<close> and then by another combo,
  \<open>claim i\<close> keeps the other combo's event, as it should, but hands back that same event instead of
  the one of combo \<open>i\<close>, which is lost. \<open>release_claimed\<close> does not write what it gets while the
  key is blocked, so the difference shows only in \<open>flushAndResetState\<close>.
\<close>

theorem claim_hands_back_kept_event:
  assumes "owningComboIdx w1 = i" "owningComboIdx w2 \<noteq> i"
  shows "claim i [(c, [w1, w2])] = ([w2], [(c, [w2])])"
  using assms by (simp add: claim_def claim_vec_def Let_def)

theorem claim_hands_back_kept_event_witness:
  "claim 0 [(KEY_V, [\<lparr>wk_type = EV_KEY, wk_code = KEY_V, wk_value = 1, owningComboIdx = 0\<rparr>,
                     \<lparr>wk_type = EV_KEY, wk_code = KEY_V, wk_value = 2, owningComboIdx = 1\<rparr>])]
    = ([\<lparr>wk_type = EV_KEY, wk_code = KEY_V, wk_value = 2, owningComboIdx = 1\<rparr>],
       [(KEY_V, [\<lparr>wk_type = EV_KEY, wk_code = KEY_V, wk_value = 2, owningComboIdx = 1\<rparr>])])"
  by (rule claim_hands_back_kept_event) simp_all

subsection \<open>Replacing the macros while a combo withholds a key\<close>

lemma setMacros_fields:
  "comboProgress (fst (setMacrosFromJsonInternal j m)) = []"
  "withheld (fst (setMacrosFromJsonInternal j m)) = withheld m"
  "activeApp (fst (setMacrosFromJsonInternal j m)) = activeApp m"
  "monitoringMode (fst (setMacrosFromJsonInternal j m)) = monitoringMode m"
  "gToggleState (fst (setMacrosFromJsonInternal j m)) = gToggleState m"
  "out (fst (setMacrosFromJsonInternal j m)) = out m"
  by (simp_all add: setMacrosFromJsonInternal_def case_prod_unfold Let_def)

text \<open>
  Replacing the macros while a combo withholds a key forgets the combo but not the key:
  the key stays blocked with no combo in progress to own it, the invariant is broken, and the next
  ordinary event of that key that starts no new macro is swallowed.
\<close>

theorem macro_update_strands_key:
  assumes "isBlocked (ev_code ev) (withheld m)" "ev_type ev = EV_KEY" "ordinary ev"
    and "\<not> monitoringMode m"
    and "gToggleState m \<noteq> 5 \<or> \<not> (KEY_1 \<le> ev_code ev \<and> ev_code ev \<le> KEY_6)"
    and "m' = fst (setMacrosFromJsonInternal j m)"
    and "om_find (activeApp m) (appMacros m') = Some as" "\<forall>a \<in> set as. \<not> starts_macro ev a"
  shows "\<not> mapper_inv m' \<and> isBlocked (ev_code ev) (withheld m') \<and> out (processEvent env ev False m') = out m'"
proof (intro conjI)
  have quiet: "quiet m'" using assms(6) by (simp add: quiet_def setMacros_fields initial_combo_def)
  show blocked: "isBlocked (ev_code ev) (withheld m')" using assms(1,6) by (simp add: setMacros_fields)
  then obtain i where "(ev_code ev, i) \<in> owns (withheld m')" by (auto simp: isBlocked_owns)
  then show "\<not> mapper_inv m'"
    using quiet by (auto simp: mapper_inv_def mapper_inv_upto_def minv_def combos_inv_def quiet_def)
  let ?m2 = "snd (detectGKey ev (stageContext (env 0) ev m'))"
  have m': "\<not> monitoringMode m'" "gToggleState m' = gToggleState m" "activeApp m' = activeApp m"
    using assms(4,6) by (simp_all add: setMacros_fields)
  note ctx = stageContext_ordinary [OF assms(3), of "env 0" m']
  have m2: "quiet ?m2" "withheld ?m2 = withheld m'" "out ?m2 = out m'" "activeApp ?m2 = activeApp m"
    "appMacros ?m2 = appMacros m'"
    using quiet m' ctx by (simp_all add: quiet_def detectGKey_fields stageContext_frame)
  have "\<forall>a \<in> set (om_index [] (activeApp ?m2) (appMacros ?m2)). \<not> starts_macro ev a"
    using assms(7,8) by (simp add: m2 om_index_def)
  from stageMacros_quiet [OF m2(1) this, of "env 0"]
  have "snd (stageMacros (env 0) ev False ?m2) = DROP" "out (fst (stageMacros (env 0) ev False ?m2)) = out m'"
    using assms(2,7) blocked by (simp_all add: m2)
  then have "out (finish_event (env 0) ev False ?m2) = out m'"
    by (simp add: finish_event_def case_prod_unfold Let_def)
  then show "out (processEvent env ev False m') = out m'"
    using ordinary_runs [OF assms(3) m'(1), of env] assms(5) m'(2) by simp
qed

lemma holding_update:
  "isBlocked KEY_A (withheld holding_mapper)" "\<not> monitoringMode holding_mapper" "out holding_mapper = []"
  "om_find (activeApp holding_mapper)
     (appMacros (fst (setMacrosFromJsonInternal (JObj []) holding_mapper))) = Some defaultMacros"
  "\<forall>a \<in> set defaultMacros. \<not> starts_macro (key_event KEY_A 0) a"
proof -
  have ne: "initializeAppMacros [] \<noteq> []" "om_find OTHER (initializeAppMacros []) = Some defaultMacros"
    by (auto simp: initializeAppMacros_def om_find_put)
  then show "om_find (activeApp holding_mapper)
     (appMacros (fst (setMacrosFromJsonInternal (JObj []) holding_mapper))) = Some defaultMacros"
    by (simp add: holding_mapper_def live_mapper_def initial_mapper_def setMacrosFromJsonInternal_def
        setMacros_overlay_def case_prod_unfold Let_def)
qed (simp_all add: holding_mapper_def live_mapper_def initial_mapper_def isBlocked_def reg_add_def om_find_put
    om_index_def defaultMacros_def starts_macro_def event_matches_def)

theorem macro_update_strands_key_witness:
  "\<not> mapper_inv (fst (setMacrosFromJsonInternal (JObj []) holding_mapper)) \<and>
   out (processEvent (\<lambda>_. calm_env) (key_event KEY_A 0) False
     (fst (setMacrosFromJsonInternal (JObj []) holding_mapper))) = []"
  using macro_update_strands_key [of "key_event KEY_A 0" holding_mapper
      "fst (setMacrosFromJsonInternal (JObj []) holding_mapper)" "JObj []" defaultMacros "\<lambda>_. calm_env"]
  by (simp add: setMacros_fields holding_update ordinary_def)

end
