(* ===== verification/Grab_Behaviour.thy ===== *)
theory Grab_Behaviour
  imports Combo_Behaviour
begin

text \<open>
  Keys held down and the grab: what a context change releases, what the wait loop of \<open>grabDevices\<close>
  answers and how long it can take, and two ways in which a code stays in \<open>pressedKeys_\<close> and keeps
  the grab from succeeding.
\<close>

subsection \<open>Context changes\<close>

lemma out_releaseAll:
  "uinputDev m \<Longrightarrow> out (releaseAllPressedKeys m)
     = out m @ concat (map (\<lambda>c. [(EV_KEY, c, 0), SYN]) (pressedKeys m)) @ [SYN]"
proof -
  assume u: "uinputDev m"
  let ?m1 = "fold (\<lambda>i m. snd (registry_claim i m)) (combo_indices (comboProgress m)) m"
  let ?m2 = "?m1\<lparr>comboProgress := reset_progress (comboProgress ?m1)\<rparr>"
  have f: "out (fold (\<lambda>c m. emit EV_KEY c 0 m) cs n) = out n @ concat (map (\<lambda>c. [(EV_KEY, c, 0), SYN]) cs) \<and>
      uinputDev (fold (\<lambda>c m. emit EV_KEY c 0 m) cs n)" if "uinputDev n" for cs n
    using that by (induction cs arbitrary: n) (simp_all add: emit_def write_raw_def)
  have "uinputDev ?m2" "out ?m2 = out m" "pressedKeys ?m2 = pressedKeys m"
    using u by (simp_all add: mapper_frame)
  with f [of ?m2 "pressedKeys m"] show ?thesis
    by (simp add: releaseAllPressedKeys_def Let_def sync_def write_raw_def mapper_frame)
qed

text \<open>
  C18 (functional). A change of the active window, page or title releases every key held down on the
  virtual device, in the order of their codes, forgets them, and drops every combo in progress with
  what it withheld; reporting the same context again does nothing.
\<close>

theorem context_change_releases:
  assumes "mapper_inv m" "uinputDev m"
  shows "if activeApp m = app \<and> activeUrl m = url \<and> activeTitle m = title
    then setContext app url title m = m
    else let m' = setContext app url title m in
      out m' = out m @ concat (map (\<lambda>c. [(EV_KEY, c, 0), SYN]) (pressedKeys m)) @ [SYN] \<and>
      pressedKeys m' = [] \<and> idle m' \<and> activeApp m' = app"
proof -
  let ?m1 = "m\<lparr>activeApp := app, activeUrl := url, activeTitle := title\<rparr>"
  have none: "owns (withheld (releaseAllPressedKeys ?m1)) = {}"
    using owners_in_indices [of "{}" m] assms(1)
    by (force simp: withheld_releaseAll reg.owners_fold_drop mapper_inv_def mapper_inv_upto_def)
  then have "idle (releaseAllPressedKeys ?m1)" by (simp add: idle_def quiet_def mapper_frame combo_at_reset)
  then show ?thesis
    using out_releaseAll [of ?m1] assms(2) by (auto simp: setContext_def Let_def mapper_frame)
qed

theorem context_change_releases_witness:
  "out (setContext CODE [] ''main'' (live_mapper\<lparr>pressedKeys := [KEY_LEFTCTRL, KEY_C]\<rparr>))
     = [(EV_KEY, KEY_LEFTCTRL, 0), SYN, (EV_KEY, KEY_C, 0), SYN, SYN]"
proof -
  have "mapper_inv (live_mapper\<lparr>pressedKeys := [KEY_LEFTCTRL, KEY_C]\<rparr>)"
    using initial_mapper_inv by (simp add: live_mapper_def mapper_inv_def mapper_inv_upto_def minv_def)
  then show ?thesis
    using context_change_releases [of "live_mapper\<lparr>pressedKeys := [KEY_LEFTCTRL, KEY_C]\<rparr>" CODE "[]" "''main''"]
    by (simp add: live_mapper_def initial_mapper_def Let_def)
qed

subsection \<open>The grab loop\<close>

definition poll_clock :: "(nat \<Rightarrow> nat) \<Rightarrow> nat \<Rightarrow> nat" where
  "poll_clock time k = k * 10000000 + sum time {..<k}"

definition free_at :: "(nat \<Rightarrow> bool) \<Rightarrow> (nat \<Rightarrow> bool) \<Rightarrow> nat \<Rightarrow> bool" where
  "free_at hw clear n \<longleftrightarrow> \<not> hw n \<and> clear n"

lemma grab_wait_iff:
  "grab_wait hw clear time i e \<longleftrightarrow>
     (\<exists>n. free_at hw clear (i + n) \<and> (\<forall>k<n. e + (k * 10000000 + (\<Sum>j<k. time (i + j))) \<le> 2000000000))"
proof (induction hw clear time i e rule: grab_wait.induct)
  case (1 hw clear time i e)
  let ?ok = "\<lambda>n. free_at hw clear (i + n) \<and> (\<forall>k<n. e + (k * 10000000 + (\<Sum>j<k. time (i + j))) \<le> 2000000000)"
  consider "free_at hw clear i" | "\<not> free_at hw clear i" "e > 2000000000"
    | "\<not> free_at hw clear i" "\<not> e > 2000000000" by blast
  then show ?case
  proof cases
    case 1
    then have "\<exists>n. ?ok n" by (intro exI [of _ 0]) simp
    moreover have "grab_wait hw clear time i e"
      using 1 by (simp add: grab_wait.simps [of hw clear time i e] free_at_def)
    ultimately show ?thesis by blast
  next
    case 2
    then have "\<not> ?ok n" for n by (cases n) auto
    with 2 show ?thesis by (auto simp: grab_wait.simps [of hw clear time i e] free_at_def)
  next
    case 3
    have shift: "(\<Sum>j<Suc k. time (i + j)) = time i + (\<Sum>j<k. time (Suc i + j))" for k
      by (subst sum.lessThan_Suc_shift) simp
    have step: "e + (Suc k * 10000000 + (\<Sum>j<Suc k. time (i + j)))
        = e + 10000000 + time i + (k * 10000000 + (\<Sum>j<k. time (Suc i + j)))" for k
      by (simp only: shift) simp
    have suc: "?ok (Suc n) \<longleftrightarrow> free_at hw clear (Suc i + n) \<and>
        (\<forall>k<n. e + 10000000 + time i + (k * 10000000 + (\<Sum>j<k. time (Suc i + j))) \<le> 2000000000)" for n
      unfolding All_less_Suc2 step using 3 by simp
    have "(\<exists>n. ?ok n) \<longleftrightarrow> (\<exists>n. ?ok (Suc n))"
      using 3 by (metis (no_types, lifting) add.right_neutral not0_implies_Suc)
    moreover have "grab_wait hw clear time i e = grab_wait hw clear time (Suc i) (e + 10000000 + time i)"
      using 3 by (auto simp: grab_wait.simps [of hw clear time i e] free_at_def)
    moreover have "grab_wait hw clear time (Suc i) (e + 10000000 + time i) \<longleftrightarrow> (\<exists>n. ?ok (Suc n))"
      unfolding suc using 3 by (intro "1.IH") (auto simp: free_at_def)
    ultimately show ?thesis by blast
  qed
qed

lemma grab_wait_start:
  "grab_wait hw clear time 0 0 \<longleftrightarrow>
     (\<exists>n\<le>201. free_at hw clear n \<and> (\<forall>k<n. poll_clock time k \<le> 2000000000))"
proof -
  have "n \<le> 201" if "\<forall>k<n. poll_clock time k \<le> 2000000000" for n
  proof (cases n)
    case (Suc k)
    then have "k * 10000000 \<le> 2000000000" using that by (auto simp: poll_clock_def intro: add_leD1)
    then show ?thesis using Suc by simp
  qed simp
  then show ?thesis by (auto simp: grab_wait_iff poll_clock_def)
qed

text \<open>
  C21 (termination). A request to grab answers after at most 202 polls: it grabs and leaves monitoring
  mode exactly when, at some poll reached within two seconds, neither the hardware reports a key down
  nor the program remembers one; otherwise it changes nothing.
\<close>

theorem grab_request:
  "grabDevices env clear m =
     (if \<exists>n\<le>201. free_at (hw_pressed env) clear n \<and> (\<forall>k<n. poll_clock (poll_time env) k \<le> 2000000000)
      then m\<lparr>kbdGrabbed := kbdGrabbed m \<or> keyboardDev m \<and> grab_kbd_ok env,
             mouseGrabbed := mouseGrabbed m \<or> mouseDev m \<and> grab_mouse_ok env, monitoringMode := False\<rparr>
      else m)"
  unfolding grabDevices_def do_grab_def grab_wait_start ..

theorem grab_request_witness:
  "grabDevices calm_env (\<lambda>n. 3 \<le> n) live_mapper = live_mapper\<lparr>kbdGrabbed := True, monitoringMode := False\<rparr>"
proof -
  have "free_at (hw_pressed calm_env) (\<lambda>n. 3 \<le> n) 3 \<and> (\<forall>k<3. poll_clock (poll_time calm_env) k \<le> 2000000000)"
    by (simp add: free_at_def poll_clock_def calm_env_def)
  then have "\<exists>n\<le>201. free_at (hw_pressed calm_env) (\<lambda>n. 3 \<le> n) n \<and>
      (\<forall>k<n. poll_clock (poll_time calm_env) k \<le> 2000000000)"
    by (intro exI [of _ 3]) simp
  then show ?thesis
    using grab_request [of calm_env "\<lambda>n. 3 \<le> n" live_mapper]
    by (simp add: live_mapper_def initial_mapper_def calm_env_def)
qed

text \<open>
  Switching NumLock off never leaves monitoring mode by itself: the press that asks for
  the grab is in \<open>pressedKeys_\<close> during the whole wait, and its release cannot be read before the
  wait gives up. Only another thread that empties the set in between could let the grab happen.
\<close>

theorem numlock_off_never_regrabs:
  assumes "numlock_press ev" "numLockActive m" "monitoringMode m"
  shows "let m' = processEvent env ev skip m in
    monitoringMode m' \<and> \<not> numLockActive m' \<and> kbdGrabbed m' = kbdGrabbed m \<and> pressedKeys m' = []"
proof -
  let ?m1 = "m\<lparr>pressedKeys := set_insert KEY_NUMLOCK (pressedKeys m)\<rparr>"
  let ?m2 = "?m1\<lparr>numLockActive := False\<rparr>"
  have "set (set_insert KEY_NUMLOCK ks) = insert KEY_NUMLOCK (set ks)" for ks
    by (simp add: set_insert_def set_insort_insert)
  then have ne: "set_insert KEY_NUMLOCK (pressedKeys m) \<noteq> []" by (metis empty_set insert_not_empty)
  then have "grabDevices (env 0) (\<lambda>_. pressedKeys ?m2 = []) ?m2 = ?m2"
    by (simp add: grab_request free_at_def)
  then have ctx: "stageContext (env 0) ev m = releaseAllPressedKeys ?m2"
    using assms(1,2) by (simp add: stageContext_def track_key_def setNumLockState_def Let_def)
  have "kbdGrabbed (releaseAllPressedKeys n) = kbdGrabbed n" for n
  proof -
    let ?c = "fold (\<lambda>i m. snd (registry_claim i m)) (combo_indices (comboProgress n)) n"
    let ?d = "?c\<lparr>comboProgress := reset_progress (comboProgress ?c)\<rparr>"
    have "kbdGrabbed (fold (\<lambda>i m. snd (registry_claim i m)) is n) = kbdGrabbed n" for "is"
      by (induction "is" arbitrary: n) (simp_all add: registry_claim_def case_prod_unfold Let_def)
    moreover have "same_but_out ?d (sync (fold (\<lambda>c m. emit EV_KEY c 0 m) (pressedKeys ?d) ?d))"
      by (rule same_but_out_trans [OF _ same_but_out_emissions(2)], rule same_but_out_fold) simp
    ultimately show ?thesis
      using same_but_outD(12) by (fastforce simp: releaseAllPressedKeys_def Let_def)
  qed
  then show ?thesis
    using ctx assms(3) processEvent_monitoring [of env ev m skip] by (simp add: mapper_frame Let_def)
qed

theorem numlock_off_never_regrabs_witness:
  "monitoringMode (processEvent (\<lambda>_. calm_env) (key_event KEY_NUMLOCK 1) False
     (live_mapper\<lparr>numLockActive := True, monitoringMode := True, kbdGrabbed := False\<rparr>))"
  using numlock_off_never_regrabs [of "key_event KEY_NUMLOCK 1"
    "live_mapper\<lparr>numLockActive := True, monitoringMode := True, kbdGrabbed := False\<rparr>" "\<lambda>_. calm_env" False]
  by (simp add: Let_def)

subsection \<open>Virtual G-key codes\<close>

lemma set_insert_set [simp]: "set (set_insert c ks) = insert c (set ks)"
  by (simp add: set_insert_def set_insort_insert)

lemma set_erase_set [simp]: "set (set_erase c ks) = set ks - {c}"
  by (auto simp: set_erase_def)

lemma gkey_press_codes:
  assumes "fst (detectGKey ev m) = Some n"
  shows "1000 + of_nat n \<noteq> ev_code ev" "1000 + of_nat n \<notin> {KEY_PAUSE, KEY_SCROLLLOCK, KEY_NUMLOCK,
      KEY_LEFTCTRL, KEY_RIGHTCTRL, KEY_LEFTSHIFT}"
    "ev_code ev \<notin> {KEY_PAUSE, KEY_SCROLLLOCK, KEY_NUMLOCK, KEY_LEFTCTRL, KEY_LEFTSHIFT}"
    "ordinary ev" "ev_type ev = EV_KEY" "gToggleState m = 5"
proof -
  have d: "2 \<le> unat (ev_code ev)" "unat (ev_code ev) \<le> 7" "ev_type ev = EV_KEY" "gToggleState m = 5"
    using assms by (simp_all add: detect_Some_iff word_le_nat_alt)
  have small: "ev_code ev \<noteq> c" if "7 < unat c" for c using d that by auto
  show codes: "ev_code ev \<notin> {KEY_PAUSE, KEY_SCROLLLOCK, KEY_NUMLOCK, KEY_LEFTCTRL, KEY_LEFTSHIFT}"
    using small [of KEY_PAUSE] small [of KEY_SCROLLLOCK] small [of KEY_NUMLOCK] small [of KEY_LEFTCTRL]
      small [of KEY_LEFTSHIFT] by simp
  then show "ordinary ev" by (simp add: ordinary_def)
  show "ev_type ev = EV_KEY" "gToggleState m = 5" using d by simp_all
  show "1000 + of_nat n \<noteq> ev_code ev" "1000 + of_nat n \<notin> {KEY_PAUSE, KEY_SCROLLLOCK, KEY_NUMLOCK,
      KEY_LEFTCTRL, KEY_RIGHTCTRL, KEY_LEFTSHIFT}"
    using gkey_code_cases [OF assms] small [of "1000 + of_nat n"] by auto
qed

lemma tracked_press:
  assumes "ordinary ev" "ev_type ev = EV_KEY"
  shows "pressedKeys (stageContext env ev m) = (if ev_value ev = 1 then set_insert (ev_code ev) (pressedKeys m)
    else if ev_value ev = 0 then set_erase (ev_code ev) (pressedKeys m) else pressedKeys m)"
  using assms by (simp add: stageContext_def track_key_def Let_def ordinary_def)

lemma gkey_detected_press:
  assumes "fst (detectGKey ev (stageContext (env 0) ev m)) = Some n" "ev_value ev = 1" "\<not> monitoringMode m"
  shows "set (pressedKeys (processEvent env ev False m))
      = insert (1000 + of_nat n) (insert (ev_code ev) (set (pressedKeys m)))"
    "gToggleState (processEvent env ev False m) = 1" "\<not> monitoringMode (processEvent env ev False m)"
proof -
  let ?m1 = "stageContext (env 0) ev m" and ?g = "ev\<lparr>ev_code := 1000 + of_nat n\<rparr>"
  let ?m2 = "snd (detectGKey ev ?m1)"
  note codes = gkey_press_codes [OF assms(1)]
  note ctx = stageContext_ordinary [OF codes(4), of "env 0" m]
  have d: "detectGKey ev ?m1 = (Some n, ?m2)" using assms(1) by (simp add: prod_eq_iff)
  have m2: "gToggleState ?m2 = 1" "\<not> monitoringMode ?m2"
    "set (pressedKeys ?m2) = insert (ev_code ev) (set (pressedKeys m))"
    using detectGKey_SomeD [OF d] assms(2,3) ctx codes tracked_press [OF codes(4,5), of "env 0" m]
    by (simp_all add: detect_pressed_frame mapper_frame)
  have g: "ordinary ?g" "ev_type ?g = EV_KEY" using codes by (simp_all add: ordinary_def)
  have p: "processEvent env ev False m = finish_event (env (Suc 0)) ?g False
      (snd (detectGKey ?g (stageContext (env (Suc 0)) ?g ?m2)))"
    using processEvent_gkey [of env ev m, OF _ d] assms(3) ctx(4)
      ordinary_runs [OF g(1) m2(2), of "\<lambda>k. env (Suc k)"] m2(1) by simp
  show "set (pressedKeys (processEvent env ev False m))
      = insert (1000 + of_nat n) (insert (ev_code ev) (set (pressedKeys m)))"
    using tracked_press [OF g, of "env (Suc 0)" ?m2] assms(2) m2(3)
    by (simp add: p finish_pressed_frame detect_pressed_frame)
  have "gToggleState (snd (detectGKey ?g m')) = 1" for m'
    using codes(2) g(2) by (simp add: detectGKey_def)
  then show "gToggleState (processEvent env ev False m) = 1" by (simp add: p mapper_frame)
  show "\<not> monitoringMode (processEvent env ev False m)"
    using m2(2) stageContext_ordinary(4) [OF g(1), of "env (Suc 0)" ?m2] by (simp add: p mapper_frame)
qed

text \<open>
  A G-key leaves its virtual code in \<open>pressedKeys_\<close>: it is entered when the digit
  goes down, and the release of the digit removes the digit only, because the recogniser is back in
  its first state by then.
\<close>

theorem gkey_code_stays_pressed:
  assumes "fst (detectGKey ev (stageContext (e1 0) ev m)) = Some n" "ev_value ev = 1" "\<not> monitoringMode m"
  shows "let m' = processEvent e2 (ev\<lparr>ev_value := 0\<rparr>) False (processEvent e1 ev False m) in
    1000 + of_nat n \<in> set (pressedKeys m') \<and> ev_code ev \<notin> set (pressedKeys m')"
proof -
  let ?m1 = "processEvent e1 ev False m" and ?r = "ev\<lparr>ev_value := 0\<rparr>"
  note codes = gkey_press_codes [OF assms(1)] and m1 = gkey_detected_press [of ev e1 m n, OF assms]
  have r: "ordinary ?r" "ev_type ?r = EV_KEY" using codes by (simp_all add: ordinary_def)
  have "processEvent e2 ?r False ?m1
      = finish_event (e2 0) ?r False (snd (detectGKey ?r (stageContext (e2 0) ?r ?m1)))"
    using ordinary_runs [OF r(1) m1(3), of e2] m1(2) by simp
  then have "set (pressedKeys (processEvent e2 ?r False ?m1)) = set (pressedKeys ?m1) - {ev_code ev}"
    using tracked_press [OF r, of "e2 0" ?m1] by (simp add: finish_pressed_frame detect_pressed_frame)
  then show ?thesis using m1(1) codes(1) by (simp add: Let_def)
qed

theorem gkey_code_stays_pressed_witness:
  "1002 \<in> set (pressedKeys (processEvent (\<lambda>_. calm_env) (key_event KEY_2 0) False
     (processEvent (\<lambda>_. calm_env) (key_event KEY_2 1) False (live_mapper\<lparr>gToggleState := 5\<rparr>))))"
  using gkey_code_stays_pressed [of "key_event KEY_2 1" "\<lambda>_. calm_env" "live_mapper\<lparr>gToggleState := 5\<rparr>" 2
    "\<lambda>_. calm_env"]
  by (simp add: detect_Some_iff stageContext_frame Let_def word_le_nat_alt live_mapper_def initial_mapper_def)

end
