(* ===== verification/Macro_Json.thy ===== *)
theory Macro_Json
  imports Macro_Config
begin

text \<open>
  What the macro configuration promises: overriding built-in macros by trigger, and what survives the
  JSON export and import of macros.
\<close>

subsection \<open>Overrides\<close>

abbreviation by_trigger :: "KeyTrigger \<Rightarrow> KeyAction list \<Rightarrow> KeyAction option" where
  "by_trigger t \<equiv> find (\<lambda>a. trigger a = t)"

lemma override_lookup: "by_trigger t (override_macro a fs) = (if trigger a = t then Some a else by_trigger t fs)"
  by (induction fs) auto

lemma override_triggers: "set (map trigger (override_macro a fs)) = insert (trigger a) (set (map trigger fs))"
  by (induction fs) auto

lemma override_distinct: "distinct (map trigger fs) \<Longrightarrow> distinct (map trigger (override_macro a fs))"
proof (induction fs)
  case (Cons f fs)
  then show ?case using override_triggers [of a fs] by auto
qed simp

lemma find_append: "find P (xs @ ys) = (case find P xs of Some x \<Rightarrow> Some x | None \<Rightarrow> find P ys)"
  by (induction xs) auto

text \<open>
  The macros of an application are its own ones laid over the default ones: looking a
  trigger up gives the last macro of the application with that trigger if there is one and the default
  one otherwise, and no trigger occurs twice.
\<close>

theorem overrides_lookup:
  "by_trigger t (applyOverrides xs) = (case by_trigger t (rev xs) of
       Some a \<Rightarrow> Some a | None \<Rightarrow> by_trigger t defaultMacros) \<and>
   distinct (map trigger (applyOverrides xs))"
proof (induction xs rule: rev_induct)
  case Nil
  show ?case by (simp add: applyOverrides_def defaultMacros_def)
next
  case (snoc x xs)
  have "applyOverrides (xs @ [x]) = override_macro x (applyOverrides xs)" by (simp add: applyOverrides_def)
  then show ?case using snoc override_distinct by (simp add: override_lookup)
qed

subsection \<open>Export and import\<close>

lemma jget_u16_uint [simp]: "jget_u16 (JInt (uint c)) = Inr c"
  by (simp add: jget_u16_def jget_arith_def)

lemma jget_i32_sint [simp]: "jget_i32 (JInt (sint v)) = Inr v"
  by (simp add: jget_i32_def jget_arith_def)

lemma trigger_key_reimport [simp]: "trigger_key_of_json (trigger_event_json e) = Inr (Some e)"
  by (cases e) (simp add: trigger_key_of_json_def trigger_event_json_def jvalue_def jget_bool_def)

lemma collect_results_map:
  "(\<And>x. x \<in> set xs \<Longrightarrow> f (g x) = Inr (Some (h x))) \<Longrightarrow> collect_results f (map g xs) = Inr (map h xs)"
  by (induction xs) simp_all

text \<open>What an exported macro becomes when it is imported again.\<close>

definition reimported :: "KeyAction \<Rightarrow> KeyAction" where
  "reimported a = \<lparr>trigger = \<lparr>events = events (trigger a),
       hasSuppressedKeys = list_ex te_suppress (events (trigger a)), noiseBreaks = True\<rparr>,
     keySequence = keySequence a, logMessage = [], handler = NoHandler\<rparr>"

lemma action_reimport: "action_of_json (action_json a) = Inr (Some (reimported a))"
proof -
  let ?keys = "JArr (map trigger_event_json (events (trigger a)))"
  let ?seq = "JArr (map (\<lambda>(c, v). JArr [JInt (uint c), JInt (sint v)]) (keySequence a))"
  have keys: "collect_results trigger_key_of_json (jiter ?keys) = Inr (events (trigger a))"
    using collect_results_map [of "events (trigger a)" trigger_key_of_json trigger_event_json id]
    by (simp add: jiter_def)
  have trig: "trigger_of_json (JObj [(''keys'', ?keys)]) = Inr \<lparr>events = events (trigger a),
      hasSuppressedKeys = list_ex te_suppress (events (trigger a)), noiseBreaks = True\<rparr>"
    using keys by (simp add: trigger_of_json_def jvalue_def jcontains_def jat_def)
  have seq: "collect_results sequence_key_of_json (jiter ?seq) = Inr (keySequence a)"
    using collect_results_map [of "keySequence a" sequence_key_of_json
        "\<lambda>(c, v). JArr [JInt (uint c), JInt (sint v)]" id]
    by (auto simp: jiter_def sequence_key_of_json_def)
  show ?thesis
    using trig seq
    by (simp add: action_of_json_def action_json_def jvalue_def jcontains_def jat_def reimported_def jget_bool_def)
qed

text \<open>
  A macro exported with \<open>getMacros\<close> and imported again keeps its trigger steps and
  its key sequence, and nothing else: its message is empty, because the export writes
  \<open>logMessage\<close> and the import reads \<open>message\<close>, it has lost its handler, which the import
  recognises by that message, and it is broken by noise even if it was not before.
\<close>

theorem macro_export_import:
  "\<exists>b. action_of_json (action_json a) = Inr (Some b) \<and>
     events (trigger b) = events (trigger a) \<and> keySequence b = keySequence a \<and>
     logMessage b = [] \<and> handler b = NoHandler \<and> noiseBreaks (trigger b)"
  by (simp add: action_reimport reimported_def)

lemma exported_names: "stringToAppType ''TERMINAL'' = OTHER" "stringToAppType ''CHROME'' = OTHER"
  "stringToAppType ''CODE'' = OTHER" "stringToAppType ''OTHER'' = OTHER"
  by code_simp+

lemma import_app_exported:
  "as \<noteq> [] \<Longrightarrow> \<exists>m'. import_app_macros app acc (map action_json as) m = (m', Inr ()) \<and>
     (\<forall>b. om_find b m' = (if b = app then Some (acc @ map reimported as) else om_find b m))"
proof (induction as arbitrary: acc m)
  case (Cons a as)
  let ?m1 = "om_put app (acc @ [reimported a]) m"
  show ?case
  proof (cases "as = []")
    case True
    then show ?thesis by (simp add: action_reimport om_find_put)
  next
    case False
    from Cons.IH [OF this, of "acc @ [reimported a]" ?m1] show ?thesis
      by (auto simp: action_reimport om_find_put)
  qed
qed simp

lemma import_exported:
  assumes "\<forall>(k, as) \<in> set kas. stringToAppType k = OTHER \<and> as \<noteq> []"
  shows "\<exists>m'. import_macros (map (\<lambda>(k, as). (k, JArr (map action_json as))) kas) m = (m', Inr ()) \<and>
     (\<forall>b. om_find b m' = (if b = OTHER \<and> kas \<noteq> [] then Some (map reimported (snd (last kas))) else om_find b m))"
  using assms
proof (induction kas arbitrary: m)
  case (Cons x kas)
  obtain k as where x: "x = (k, as)" by fastforce
  with Cons.prems have k: "stringToAppType k = OTHER" "as \<noteq> []" by auto
  from import_app_exported [OF k(2), of OTHER "[]" m] obtain m1 where
    m1: "import_app_macros OTHER [] (map action_json as) m = (m1, Inr ())"
      "\<And>b. om_find b m1 = (if b = OTHER then Some (map reimported as) else om_find b m)" by auto
  from Cons.IH [of m1] Cons.prems obtain m2 where
    "import_macros (map (\<lambda>(k, as). (k, JArr (map action_json as))) kas) m1 = (m2, Inr ())"
    "\<And>b. om_find b m2 = (if b = OTHER \<and> kas \<noteq> [] then Some (map reimported (snd (last kas))) else om_find b m1)"
    by auto
  then show ?case using m1 k x by (auto simp: jiter_def)
qed simp

text \<open>
  Importing what was just exported does not restore the macros: the export names the
  applications \<open>TERMINAL\<close>, \<open>CHROME\<close>, \<open>CODE\<close> and \<open>OTHER\<close>, the import knows window classes and
  takes every one of these names for \<open>OTHER\<close>, so the macros of the terminal end up as the default
  ones and those of the three applications are what they were before.
\<close>

theorem exported_macros_land_in_OTHER:
  assumes "am = [(OTHER, as1), (TERMINAL, as2), (CHROME, as3), (CODE, as4)]"
    and "as1 \<noteq> []" "as2 \<noteq> []" "as3 \<noteq> []" "as4 \<noteq> []" "m \<noteq> []"
  shows "\<exists>m'. setMacros_overlay (getMacrosJson am) m = (m', Inr ()) \<and>
    om_find OTHER m' = Some (map reimported as2) \<and>
    (\<forall>app. app \<noteq> OTHER \<longrightarrow> om_find app m' = om_find app m)"
proof -
  let ?kas = "[(''CHROME'', as3), (''CODE'', as4), (''OTHER'', as1), (''TERMINAL'', as2)]"
  have "getMacrosJson am = JObj (map (\<lambda>(k, as). (k, JArr (map action_json as))) ?kas)"
    using assms(1) by (simp add: getMacrosJson_def)
  moreover have "\<forall>(k, as) \<in> set ?kas. stringToAppType k = OTHER \<and> as \<noteq> []"
    using exported_names assms(2-5) by simp
  ultimately show ?thesis
    using import_exported [of ?kas m] assms(6) by (auto simp: setMacros_overlay_def)
qed

theorem exported_macros_land_in_OTHER_witness:
  "\<exists>m'. setMacros_overlay (getMacrosJson [(OTHER, defaultMacros), (TERMINAL, terminalSpecificMacros),
      (CHROME, chromeSpecificMacros), (CODE, codeSpecificMacros)]) [(CODE, codeSpecificMacros)] = (m', Inr ()) \<and>
     om_find CODE m' = Some codeSpecificMacros"
proof -
  have "defaultMacros \<noteq> []" "terminalSpecificMacros \<noteq> []" "chromeSpecificMacros \<noteq> []" "codeSpecificMacros \<noteq> []"
    by (simp_all add: defaultMacros_def terminalSpecificMacros_def chromeSpecificMacros_def codeSpecificMacros_def)
  from exported_macros_land_in_OTHER [OF refl this, of "[(CODE, codeSpecificMacros)]"]
  show ?thesis by fastforce
qed

end
