(* ===== verification/Key_Typing.thy ===== *)
theory Key_Typing
  imports Input_Mapper "HOL-Library.Sublist"
begin

text \<open>
  Simulated input: typing characters (\<open>typeChar\<close>) and the command \<open>simulateInput\<close> of
  \<open>daemon/src/cmdInput.cpp\<close> with the key names of \<open>daemon/include/KeyNames.h\<close>. Both write
  to the virtual device of the input mapper.
\<close>

subsection \<open>Characters\<close>

text \<open>The cases of the switch in \<open>typeChar\<close>, grouped as in the source; the second list of each kind
  sets \<open>shift\<close>.\<close>

definition letter_keys :: "(char \<times> u16) list" where
  "letter_keys =
    [(CHR ''a'', KEY_A), (CHR ''b'', KEY_B), (CHR ''c'', KEY_C), (CHR ''d'', KEY_D),
     (CHR ''e'', KEY_E), (CHR ''f'', KEY_F), (CHR ''g'', KEY_G), (CHR ''h'', KEY_H),
     (CHR ''i'', KEY_I), (CHR ''j'', KEY_J), (CHR ''k'', KEY_K), (CHR ''l'', KEY_L),
     (CHR ''m'', KEY_M), (CHR ''n'', KEY_N), (CHR ''o'', KEY_O), (CHR ''p'', KEY_P),
     (CHR ''q'', KEY_Q), (CHR ''r'', KEY_R), (CHR ''s'', KEY_S), (CHR ''t'', KEY_T),
     (CHR ''u'', KEY_U), (CHR ''v'', KEY_V), (CHR ''w'', KEY_W), (CHR ''x'', KEY_X),
     (CHR ''y'', KEY_Y), (CHR ''z'', KEY_Z)]"

definition capital_keys :: "(char \<times> u16) list" where
  "capital_keys =
    [(CHR ''A'', KEY_A), (CHR ''B'', KEY_B), (CHR ''C'', KEY_C), (CHR ''D'', KEY_D),
     (CHR ''E'', KEY_E), (CHR ''F'', KEY_F), (CHR ''G'', KEY_G), (CHR ''H'', KEY_H),
     (CHR ''I'', KEY_I), (CHR ''J'', KEY_J), (CHR ''K'', KEY_K), (CHR ''L'', KEY_L),
     (CHR ''M'', KEY_M), (CHR ''N'', KEY_N), (CHR ''O'', KEY_O), (CHR ''P'', KEY_P),
     (CHR ''Q'', KEY_Q), (CHR ''R'', KEY_R), (CHR ''S'', KEY_S), (CHR ''T'', KEY_T),
     (CHR ''U'', KEY_U), (CHR ''V'', KEY_V), (CHR ''W'', KEY_W), (CHR ''X'', KEY_X),
     (CHR ''Y'', KEY_Y), (CHR ''Z'', KEY_Z)]"

definition digit_keys :: "(char \<times> u16) list" where
  "digit_keys =
    [(CHR ''1'', KEY_1), (CHR ''2'', KEY_2), (CHR ''3'', KEY_3), (CHR ''4'', KEY_4),
     (CHR ''5'', KEY_5), (CHR ''6'', KEY_6), (CHR ''7'', KEY_7), (CHR ''8'', KEY_8),
     (CHR ''9'', KEY_9), (CHR ''0'', KEY_0)]"

definition shifted_digit_keys :: "(char \<times> u16) list" where
  "shifted_digit_keys =
    [(CHR ''!'', KEY_1), (CHR ''@'', KEY_2), (CHR ''#'', KEY_3), (CHR ''$'', KEY_4),
     (CHR ''%'', KEY_5), (CHR ''^'', KEY_6), (CHR ''&'', KEY_7), (CHR ''*'', KEY_8),
     (CHR ''('', KEY_9), (CHR '')'', KEY_0)]"

definition punctuation_keys :: "(char \<times> u16) list" where
  "punctuation_keys =
    [(CHR ''-'', KEY_MINUS), (CHR ''='', KEY_EQUAL), (CHR ''['', KEY_LEFTBRACE),
     (CHR '']'', KEY_RIGHTBRACE), (CHR 0x5C, KEY_BACKSLASH), (CHR '';'', KEY_SEMICOLON),
     (CHR 0x27, KEY_APOSTROPHE), (CHR '','', KEY_COMMA), (CHR ''.'', KEY_DOT),
     (CHR ''/'', KEY_SLASH), (CHR 0x60, KEY_GRAVE), (CHR '' '', KEY_SPACE), (CHR 0x0A, KEY_ENTER),
     (CHR 0x09, KEY_TAB)]"

definition shifted_punctuation_keys :: "(char \<times> u16) list" where
  "shifted_punctuation_keys =
    [(CHR ''_'', KEY_MINUS), (CHR ''+'', KEY_EQUAL), (CHR ''{'', KEY_LEFTBRACE),
     (CHR ''}'', KEY_RIGHTBRACE), (CHR ''|'', KEY_BACKSLASH), (CHR '':'', KEY_SEMICOLON),
     (CHR 0x22, KEY_APOSTROPHE), (CHR ''<'', KEY_COMMA), (CHR ''>'', KEY_DOT),
     (CHR ''?'', KEY_SLASH), (CHR ''~'', KEY_GRAVE)]"

definition key_of_char :: "char \<Rightarrow> (u16 \<times> bool) option" where
  "key_of_char c =
     (case map_of (letter_keys @ digit_keys @ punctuation_keys) c of
        Some k \<Rightarrow> Some (k, False)
      | None \<Rightarrow> (case map_of (capital_keys @ shifted_digit_keys @ shifted_punctuation_keys) c of
                 Some k \<Rightarrow> Some (k, True)
               | None \<Rightarrow> None))"

definition emit_sync :: "u16 \<Rightarrow> u16 \<Rightarrow> i32 \<Rightarrow> mapper \<Rightarrow> mapper" where
  "emit_sync t c v m = sync (emit t c v m)"

definition typeChar :: "char \<Rightarrow> mapper \<Rightarrow> mapper" where
  "typeChar c m = (case key_of_char c of
      None \<Rightarrow> m
    | Some (code, shift) \<Rightarrow>
        if code = 0 then m
        else let
            m1 = (if shift then emit_sync EV_KEY KEY_LEFTSHIFT 1 m else m);
            m2 = emit_sync EV_KEY code 0 (emit_sync EV_KEY code 1 m1)
          in if shift then emit_sync EV_KEY KEY_LEFTSHIFT 0 m2 else m2)"

definition typeString :: "string \<Rightarrow> mapper \<Rightarrow> mapper" where
  "typeString s m = fold typeChar s m"

subsection \<open>Key names\<close>

text \<open>\<open>enter\<close> is listed twice, with the same code.\<close>

definition KEY_NAME_TO_CODE :: "(string \<times> u16) list" where
  "KEY_NAME_TO_CODE =
    [(''keyA'', KEY_A), (''keyB'', KEY_B), (''keyC'', KEY_C), (''keyD'', KEY_D), (''keyE'', KEY_E),
     (''keyF'', KEY_F), (''keyG'', KEY_G), (''keyH'', KEY_H), (''keyI'', KEY_I), (''keyJ'', KEY_J),
     (''keyK'', KEY_K), (''keyL'', KEY_L), (''keyM'', KEY_M), (''keyN'', KEY_N), (''keyO'', KEY_O),
     (''keyP'', KEY_P), (''keyQ'', KEY_Q), (''keyR'', KEY_R), (''keyS'', KEY_S), (''keyT'', KEY_T),
     (''keyU'', KEY_U), (''keyV'', KEY_V), (''keyW'', KEY_W), (''keyX'', KEY_X), (''keyY'', KEY_Y),
     (''keyZ'', KEY_Z), (''period'', KEY_DOT), (''dot'', KEY_DOT), (''slash'', KEY_SLASH),
     (''minus'', KEY_MINUS), (''dash'', KEY_MINUS), (''space'', KEY_SPACE), (''comma'', KEY_COMMA),
     (''equals'', KEY_EQUAL), (''equal'', KEY_EQUAL), (''backspace'', KEY_BACKSPACE),
     (''semicolon'', KEY_SEMICOLON), (''apostrophe'', KEY_APOSTROPHE), (''quote'', KEY_APOSTROPHE),
     (''backslash'', KEY_BACKSLASH), (''bracket_left'', KEY_LEFTBRACE),
     (''leftbracket'', KEY_LEFTBRACE), (''bracket_right'', KEY_RIGHTBRACE),
     (''rightbracket'', KEY_RIGHTBRACE), (''backtick'', KEY_GRAVE), (''grave'', KEY_GRAVE),
     (''enter'', KEY_ENTER), (''keyShift'', KEY_LEFTSHIFT), (''keyCtrl'', KEY_LEFTCTRL),
     (''keyAlt'', KEY_LEFTALT), (''keyMeta'', KEY_LEFTMETA), (''keyTab'', KEY_TAB),
     (''keyCaps'', KEY_CAPSLOCK), (''keyEsc'', KEY_ESC), (''keyF1'', KEY_F1), (''keyF2'', KEY_F2),
     (''keyF3'', KEY_F3), (''keyF4'', KEY_F4), (''keyF5'', KEY_F5), (''keyF6'', KEY_F6),
     (''keyF7'', KEY_F7), (''keyF8'', KEY_F8), (''keyF9'', KEY_F9), (''keyF10'', KEY_F10),
     (''keyF11'', KEY_F11), (''keyF12'', KEY_F12), (''keyUp'', KEY_UP), (''keyDown'', KEY_DOWN),
     (''keyLeft'', KEY_LEFT), (''keyRight'', KEY_RIGHT), (''keyPageUp'', KEY_PAGEUP),
     (''keyPageDown'', KEY_PAGEDOWN), (''keyHome'', KEY_HOME), (''keyEnd'', KEY_END),
     (''keyInsert'', KEY_INSERT), (''keyDelete'', KEY_DELETE), (''numlock'', KEY_NUMLOCK),
     (''enter'', KEY_ENTER), (''syn'', 0)]"

definition APP_NAME_TO_CODE :: "(string \<times> int) list" where
  "APP_NAME_TO_CODE =
    [(''code'', 102), (''gnome-terminal-server'', 103), (''google-chrome'', 104), (''DefaultKeyboard'', 101)]"

definition KEY_CODE_FOR_APP_SWITCH :: int where
  "KEY_CODE_FOR_APP_SWITCH = 100"

definition ends_with :: "string \<Rightarrow> string \<Rightarrow> bool" where
  "ends_with suf s \<longleftrightarrow> length s > length suf \<and> drop (length s - length suf) s = suf"

text \<open>The suffixes \<open>Down\<close> and \<open>Up\<close> ask for a press or a release only.\<close>

definition split_key_name :: "string \<Rightarrow> string \<times> i32 option" where
  "split_key_name keyName =
     (if ends_with ''Down'' keyName then (take (length keyName - 4) keyName, Some 1)
      else if ends_with ''Up'' keyName then (take (length keyName - 2) keyName, Some 0)
      else (keyName, None))"

definition numlock_event :: "i32 \<Rightarrow> mapper \<Rightarrow> mapper" where
  "numlock_event v m = sync (emit EV_KEY KEY_NUMLOCK v (emit EV_MSC MSC_SCAN 0x45 m))"

definition app_switch :: "int \<Rightarrow> mapper \<Rightarrow> mapper" where
  "app_switch appCode m =
     sync (emit EV_MSC MSC_SCAN (word_of_int appCode)
       (fold (\<lambda>i m. sync (emit EV_MSC MSC_SCAN (word_of_int (KEY_CODE_FOR_APP_SWITCH + 100 + int i))
                       (emit EV_MSC MSC_SCAN (word_of_int KEY_CODE_FOR_APP_SWITCH) m)))
         [0, 1, 2] m))"

definition simulate_key :: "string \<Rightarrow> mapper \<Rightarrow> mapper \<times> cmd_result" where
  "simulate_key keyName m =
     (let (baseName, v) = split_key_name keyName in
      if keyName = ''syn'' then (sync m, CmdResult 0 [])
      else if keyName = ''numlock'' then (numlock_event 0 (numlock_event 1 m), CmdResult 0 [])
      else if keyName = ''numlockDown'' then (numlock_event 1 m, CmdResult 0 [])
      else if keyName = ''numlockUp'' then (numlock_event 0 m, CmdResult 0 [])
      else case map_of APP_NAME_TO_CODE keyName of
        Some appCode \<Rightarrow> (app_switch appCode m, CmdResult 0 [])
      | None \<Rightarrow> (case map_of KEY_NAME_TO_CODE baseName of
          None \<Rightarrow> (m, CmdResult 1 (''Unknown key name: '' @ keyName @ NL))
        | Some code \<Rightarrow> (case v of
            None \<Rightarrow> (emit_sync EV_KEY code 0 (emit_sync EV_KEY code 1 m), CmdResult 0 [])
          | Some value \<Rightarrow> (emit_sync EV_KEY code value m, CmdResult 0 []))))"

subsection \<open>The command\<close>

text \<open>The static variables of the rate limiter: time of the first event of the current window, in
  nanoseconds, and the number of events seen in it.\<close>

record limiter =
  lastEventTime :: int
  eventCount :: int

definition limiter_step :: "int \<Rightarrow> limiter \<Rightarrow> limiter" where
  "limiter_step now l =
     (if (now - lastEventTime l) div 1000000 < 10 then l\<lparr>eventCount := eventCount l + 1\<rparr>
      else l\<lparr>eventCount := 1, lastEventTime := now\<rparr>)"

definition rate_limited :: "int \<Rightarrow> u16 \<Rightarrow> limiter \<Rightarrow> bool" where
  "rate_limited now t l \<longleftrightarrow>
     (now - lastEventTime l) div 1000000 < 10 \<and> eventCount (limiter_step now l) > 50 \<and>
     (t = EV_ABS \<or> t = EV_REL)"

definition simulate_raw :: "int \<Rightarrow> u16 \<Rightarrow> u16 \<Rightarrow> i32 \<Rightarrow> limiter \<times> mapper \<Rightarrow> limiter \<times> mapper" where
  "simulate_raw now t c v = (\<lambda>(l, m).
     (limiter_step now l,
      if rate_limited now t l then m
      else if t = EV_SYN then sync m
      else if t = EV_ABS then emitNoSync t c v m
      else emit t c v m))"

definition handleSimulateInput ::
  "int \<Rightarrow> json \<Rightarrow> limiter \<times> mapper \<Rightarrow> (limiter \<times> mapper) \<times> cmd_result result" where
  "handleSimulateInput now command = (\<lambda>(l, m).
     if jcontains command ''string'' then
       (case command_string command ''string'' of
          Inl e \<Rightarrow> ((l, m), Inl e)
        | Inr str \<Rightarrow> ((l, typeString str m), Inr (CmdResult 0 [])))
     else if jcontains command ''key'' then
       (case command_string command ''key'' of
          Inl e \<Rightarrow> ((l, m), Inl e)
        | Inr keyName \<Rightarrow> (let (m', r) = simulate_key keyName m in ((l, m'), Inr r)))
     else if \<not> jcontains command ''type'' \<or> \<not> jcontains command ''code'' \<or> \<not> jcontains command ''value'' then
       ((l, m), Inr (CmdResult 1 (''Missing arguments: type, code, value, string, or key'' @ NL)))
     else case try_result (jat command ''type'') jget_u16 of
        Inl e \<Rightarrow> ((l, m), Inl e)
      | Inr t \<Rightarrow> (case try_result (jat command ''code'') jget_u16 of
          Inl e \<Rightarrow> ((l, m), Inl e)
        | Inr c \<Rightarrow> (case try_result (jat command ''value'') jget_i32 of
            Inl e \<Rightarrow> ((l, m), Inl e)
          | Inr v \<Rightarrow> (simulate_raw now t c v (l, m), Inr (CmdResult 0 [])))))"

subsection \<open>What arrives\<close>

text \<open>An independent description of the receiving side: the US keyboard layout, row by row, with the
  character of a key without and with Shift, and a reader that follows the state of the left Shift.\<close>

definition us_layout :: "(u16 \<times> char \<times> char) list" where
  "us_layout =
    [(KEY_GRAVE, CHR 0x60, CHR ''~''), (KEY_1, CHR ''1'', CHR ''!''), (KEY_2, CHR ''2'', CHR ''@''),
     (KEY_3, CHR ''3'', CHR ''#''), (KEY_4, CHR ''4'', CHR ''$''), (KEY_5, CHR ''5'', CHR ''%''),
     (KEY_6, CHR ''6'', CHR ''^''), (KEY_7, CHR ''7'', CHR ''&''), (KEY_8, CHR ''8'', CHR ''*''),
     (KEY_9, CHR ''9'', CHR ''(''), (KEY_0, CHR ''0'', CHR '')''), (KEY_MINUS, CHR ''-'', CHR ''_''),
     (KEY_EQUAL, CHR ''='', CHR ''+''), (KEY_Q, CHR ''q'', CHR ''Q''), (KEY_W, CHR ''w'', CHR ''W''),
     (KEY_E, CHR ''e'', CHR ''E''), (KEY_R, CHR ''r'', CHR ''R''), (KEY_T, CHR ''t'', CHR ''T''),
     (KEY_Y, CHR ''y'', CHR ''Y''), (KEY_U, CHR ''u'', CHR ''U''), (KEY_I, CHR ''i'', CHR ''I''),
     (KEY_O, CHR ''o'', CHR ''O''), (KEY_P, CHR ''p'', CHR ''P''),
     (KEY_LEFTBRACE, CHR ''['', CHR ''{''), (KEY_RIGHTBRACE, CHR '']'', CHR ''}''),
     (KEY_BACKSLASH, CHR 0x5C, CHR ''|''), (KEY_A, CHR ''a'', CHR ''A''),
     (KEY_S, CHR ''s'', CHR ''S''), (KEY_D, CHR ''d'', CHR ''D''), (KEY_F, CHR ''f'', CHR ''F''),
     (KEY_G, CHR ''g'', CHR ''G''), (KEY_H, CHR ''h'', CHR ''H''), (KEY_J, CHR ''j'', CHR ''J''),
     (KEY_K, CHR ''k'', CHR ''K''), (KEY_L, CHR ''l'', CHR ''L''),
     (KEY_SEMICOLON, CHR '';'', CHR '':''), (KEY_APOSTROPHE, CHR 0x27, CHR 0x22),
     (KEY_Z, CHR ''z'', CHR ''Z''), (KEY_X, CHR ''x'', CHR ''X''), (KEY_C, CHR ''c'', CHR ''C''),
     (KEY_V, CHR ''v'', CHR ''V''), (KEY_B, CHR ''b'', CHR ''B''), (KEY_N, CHR ''n'', CHR ''N''),
     (KEY_M, CHR ''m'', CHR ''M''), (KEY_COMMA, CHR '','', CHR ''<''),
     (KEY_DOT, CHR ''.'', CHR ''>''), (KEY_SLASH, CHR ''/'', CHR ''?''),
     (KEY_SPACE, CHR '' '', CHR '' ''), (KEY_ENTER, CHR 0x0A, CHR 0x0A),
     (KEY_TAB, CHR 0x09, CHR 0x09)]"

fun read_back :: "bool \<Rightarrow> raw_event list \<Rightarrow> string" where
  "read_back sh [] = []"
| "read_back sh ((t, c, v) # es) =
     (if t = EV_KEY \<and> c = KEY_LEFTSHIFT then read_back (v \<noteq> 0) es
      else if t = EV_KEY \<and> v = 1 then
        (case map_of us_layout c of
           None \<Rightarrow> read_back sh es
         | Some (plain, shifted) \<Rightarrow> (if sh then shifted else plain) # read_back sh es)
      else read_back sh es)"

definition typeable :: "char \<Rightarrow> bool" where
  "typeable c \<longleftrightarrow> (of_char c :: nat) \<in> {9, 10} \<union> {32..126}"

definition plain_table :: "(char \<times> u16) list" where
  "plain_table = letter_keys @ digit_keys @ punctuation_keys"

definition shift_table :: "(char \<times> u16) list" where
  "shift_table = capital_keys @ shifted_digit_keys @ shifted_punctuation_keys"

lemma letters_ok:
  "list_all (\<lambda>(c, k). k \<noteq> 0 \<and> k \<noteq> KEY_LEFTSHIFT \<and> map_option fst (map_of us_layout k) = Some c) letter_keys"
  by (simp add: letter_keys_def us_layout_def)

lemma capitals_ok:
  "list_all (\<lambda>(c, k). k \<noteq> 0 \<and> k \<noteq> KEY_LEFTSHIFT \<and> map_option snd (map_of us_layout k) = Some c) capital_keys"
  by (simp add: capital_keys_def us_layout_def)

lemma plain_table_ok:
  "list_all (\<lambda>(c, k). k \<noteq> 0 \<and> k \<noteq> KEY_LEFTSHIFT \<and> map_option fst (map_of us_layout k) = Some c) plain_table"
  unfolding plain_table_def list_all_append
  by (intro conjI letters_ok; simp add: digit_keys_def punctuation_keys_def us_layout_def)

lemma shift_table_ok:
  "list_all (\<lambda>(c, k). k \<noteq> 0 \<and> k \<noteq> KEY_LEFTSHIFT \<and> map_option snd (map_of us_layout k) = Some c) shift_table"
  unfolding shift_table_def list_all_append
  by (intro conjI capitals_ok; simp add: shifted_digit_keys_def shifted_punctuation_keys_def us_layout_def)

lemma plain_codes:
  "map (\<lambda>(c, k). of_char c :: nat) plain_table = [97..<123] @ [49..<58] @ [48, 45, 61, 91, 93, 92, 59, 39, 44, 46,
     47, 96, 32, 10, 9]"
  by (simp add: plain_table_def letter_keys_def digit_keys_def punctuation_keys_def)

lemma shift_codes:
  "map (\<lambda>(c, k). of_char c :: nat) shift_table = [65..<91] @ [33, 64, 35, 36, 37, 94, 38, 42, 40, 41, 95, 43,
     123, 125, 124, 58, 34, 60, 62, 63, 126]"
  by (simp add: shift_table_def capital_keys_def shifted_digit_keys_def shifted_punctuation_keys_def)

lemma symbol_codes:
  "set [48, 45, 61, 91, 93, 92, 59, 39, 44, 46, 47, 96, 32, 33, 64, 35, 36, 37, 94, 38, 42, 40, 41, 95, 43,
     123, 125, 124, 58, 34, 60, 62, 63, 126] = set ([32..<49] @ [58..<65] @ [91..<97] @ [123..<127 :: nat])"
  by (simp add: upt_rec_numeral set_eq_subset)

lemma table_codes:
  "set (map (\<lambda>(c, k). of_char c :: nat) (plain_table @ shift_table)) = {9, 10} \<union> {32..126}"
proof -
  have "set (map (\<lambda>(c, k). of_char c :: nat) (plain_table @ shift_table)) =
      {97..<123} \<union> {49..<58} \<union> {65..<91} \<union> {9, 10} \<union> set [48, 45, 61, 91, 93, 92, 59, 39, 44, 46, 47, 96, 32, 33,
        64, 35, 36, 37, 94, 38, 42, 40, 41, 95, 43, 123, 125, 124, 58, 34, 60, 62, 63, 126]"
    unfolding map_append plain_codes shift_codes set_append set_upt list.set by blast
  also have "\<dots> = {9, 10} \<union> {32..126}"
    unfolding symbol_codes set_append set_upt by auto
  finally show ?thesis .
qed

lemma key_of_char_layout:
  assumes "key_of_char c = Some (k, sh)"
  shows "k \<noteq> 0 \<and> k \<noteq> KEY_LEFTSHIFT \<and>
    (\<exists>plain shifted. map_of us_layout k = Some (plain, shifted) \<and> c = (if sh then shifted else plain))"
proof -
  have "map_of plain_table c = Some k \<and> \<not> sh \<or> map_of shift_table c = Some k \<and> sh"
    using assms by (auto simp: key_of_char_def plain_table_def shift_table_def split: option.splits)
  then have "(c, k) \<in> set plain_table \<and> \<not> sh \<or> (c, k) \<in> set shift_table \<and> sh"
    by (blast dest: map_of_SomeD)
  then show ?thesis
    using plain_table_ok shift_table_ok by (fastforce simp: list_all_iff)
qed

lemma key_of_char_None: "key_of_char c = None \<longleftrightarrow> \<not> typeable c"
proof -
  let ?f = "\<lambda>(c, k). of_char c :: nat"
  have "key_of_char c = None \<longleftrightarrow> map_of (plain_table @ shift_table) c = None"
    by (auto simp: key_of_char_def plain_table_def shift_table_def map_add_def split: option.splits)
  also have "\<dots> \<longleftrightarrow> c \<notin> fst ` set (plain_table @ shift_table)" by (rule map_of_eq_None_iff)
  also have "\<dots> \<longleftrightarrow> (of_char c :: nat) \<notin> set (map ?f (plain_table @ shift_table))" by force
  also have "set (map ?f (plain_table @ shift_table)) = {9, 10} \<union> {32..126}" by (rule table_codes)
  finally show ?thesis by (simp add: typeable_def)
qed

definition char_trace :: "char \<Rightarrow> raw_event list" where
  "char_trace c = (case key_of_char c of None \<Rightarrow> []
    | Some (code, shift) \<Rightarrow> concat (map (\<lambda>(k, v). [(EV_KEY, k, v), SYN, SYN])
        ((if shift then [(KEY_LEFTSHIFT, 1)] else []) @ [(code, 1), (code, 0)] @
         (if shift then [(KEY_LEFTSHIFT, 0)] else []))))"

lemma out_typeChar: "uinputDev m \<Longrightarrow> out (typeChar c m) = out m @ char_trace c \<and> uinputDev (typeChar c m)"
  using key_of_char_layout [of c]
  by (auto simp: typeChar_def char_trace_def Let_def emit_sync_def emission_defs write_raw_def split: option.splits)

lemma out_typeString:
  "uinputDev m \<Longrightarrow> out (typeString s m) = out m @ concat (map char_trace s) \<and> uinputDev (typeString s m)"
proof (induction s arbitrary: m)
  case (Cons c s)
  then show ?case using out_typeChar [OF Cons.prems, of c] by (simp add: typeString_def)
qed (simp add: typeString_def)

lemma read_char_trace:
  "read_back False (char_trace c @ es) = (if typeable c then [c] else []) @ read_back False es"
proof (cases "key_of_char c")
  case None
  then show ?thesis using key_of_char_None [of c] by (simp add: char_trace_def)
next
  case (Some ks)
  obtain k sh where ks: "ks = (k, sh)" by fastforce
  then have "typeable c" using Some key_of_char_None [of c] by auto
  then show ?thesis using key_of_char_layout [of c k sh] Some ks by (auto simp: char_trace_def)
qed

text \<open>
  C22 (roundtrip). Typing a text writes events that a US keyboard layout reads back as that text: every
  printable ASCII character, newline and tab arrives once, in order and with the right case, all
  other characters are left out, and Shift is up again at the end.
\<close>

theorem typed_text_arrives:
  assumes "uinputDev m"
  shows "\<exists>es. out (typeString s m) = out m @ es \<and> (\<forall>more. read_back False (es @ more) =
    filter (\<lambda>c. (of_char c :: nat) \<in> {9, 10} \<union> {32..126}) s @ read_back False more)"
proof -
  have "read_back False (concat (map char_trace s) @ more) = filter typeable s @ read_back False more" for more
    by (induction s) (simp_all add: read_char_trace)
  then show ?thesis
    using out_typeString [OF assms, of s] by (auto simp: typeable_def [abs_def])
qed

theorem typed_text_arrives_witness:
  "\<exists>es. out (typeString ''Hi!'' (initial_mapper\<lparr>uinputDev := True\<rparr>)) = es \<and> read_back False es = ''Hi!''"
  using typed_text_arrives [of "initial_mapper\<lparr>uinputDev := True\<rparr>" "''Hi!''"]
  by (auto simp: initial_mapper_def dest: spec [of _ "[]"])

subsection \<open>The command\<close>

lemma ends_with_iff: "ends_with suf s \<longleftrightarrow> prefix (rev suf) (rev s) \<and> s \<noteq> suf"
proof -
  have "suffix suf s \<longleftrightarrow> length suf \<le> length s \<and> drop (length s - length suf) s = suf"
    by (metis append_take_drop_id diff_diff_cancel length_drop suffixI suffix_drop suffix_length_le
        suffix_take append_eq_conv_conj suffix_def)
  then show ?thesis
    by (cases "length suf = length s") (auto simp: ends_with_def suffix_to_prefix)
qed

lemma key_names_plain:
  "list_all (\<lambda>(n, c). n \<in> {''keyUp'', ''keyDown'', ''keyPageUp'', ''keyPageDown''} \<or> split_key_name n = (n, None))
     KEY_NAME_TO_CODE"
  by (simp add: KEY_NAME_TO_CODE_def split_key_name_def ends_with_iff)

lemma half_names:
  "split_key_name ''keyUp'' = (''key'', Some 0)" "split_key_name ''keyDown'' = (''key'', Some 1)"
  "split_key_name ''keyPageUp'' = (''keyPage'', Some 0)" "split_key_name ''keyPageDown'' = (''keyPage'', Some 1)"
  "split_key_name ''numlockUp'' = (''numlock'', Some 0)" "split_key_name ''numlockDown'' = (''numlock'', Some 1)"
  by (simp_all add: split_key_name_def ends_with_iff)

lemma unknown_bases: "map_of KEY_NAME_TO_CODE ''key'' = None" "map_of KEY_NAME_TO_CODE ''keyPage'' = None"
  by (simp_all add: KEY_NAME_TO_CODE_def)

lemma app_names: "map_of APP_NAME_TO_CODE n = None \<or> map_of KEY_NAME_TO_CODE n = None"
  by (simp add: APP_NAME_TO_CODE_def) (simp add: KEY_NAME_TO_CODE_def)

lemma simulate_key_simple:
  assumes "split_key_name n = (b, v)" "n \<notin> {''syn'', ''numlock'', ''numlockUp'', ''numlockDown''}"
    "map_of APP_NAME_TO_CODE n = None"
  shows "map_of KEY_NAME_TO_CODE b = None \<Longrightarrow>
      simulate_key n m = (m, CmdResult 1 (''Unknown key name: '' @ n @ NL))"
    "map_of KEY_NAME_TO_CODE b = Some c \<Longrightarrow> v = None \<Longrightarrow>
      simulate_key n m = (emit_sync EV_KEY c 0 (emit_sync EV_KEY c 1 m), CmdResult 0 [])"
  using assms unfolding simulate_key_def by simp_all

text \<open>
  Every key name of the table is pressed and released when it is given to
  \<open>simulateInput\<close>, except the four names that end in \<open>Up\<close> or \<open>Down\<close> themselves: the arrow and
  page keys are taken for half of an unknown key \<open>key\<close> or \<open>keyPage\<close> and refused.
\<close>

theorem key_names_simulated:
  assumes "map_of KEY_NAME_TO_CODE n = Some c" "n \<noteq> ''syn''" "n \<noteq> ''numlock''" "uinputDev m"
  shows "if n \<in> {''keyUp'', ''keyDown'', ''keyPageUp'', ''keyPageDown''}
    then simulate_key n m = (m, CmdResult 1 (''Unknown key name: '' @ n @ NL))
    else snd (simulate_key n m) = CmdResult 0 [] \<and>
      out (fst (simulate_key n m)) = out m @ [(EV_KEY, c, 1), SYN, SYN, (EV_KEY, c, 0), SYN, SYN]"
proof (cases "n \<in> {''keyUp'', ''keyDown'', ''keyPageUp'', ''keyPageDown''}")
  case True
  have app: "map_of APP_NAME_TO_CODE n = None" using app_names [of n] assms(1) by simp
  from True have special: "n \<notin> {''syn'', ''numlock'', ''numlockUp'', ''numlockDown''}" by auto
  from True obtain b v where "split_key_name n = (b, v)" "map_of KEY_NAME_TO_CODE b = None"
    using half_names(1-4) unknown_bases by fastforce
  from simulate_key_simple(1) [OF this(1) special app this(2)] show ?thesis
    unfolding if_P [OF True] .
next
  case False
  have app: "map_of APP_NAME_TO_CODE n = None" using app_names [of n] assms(1) by simp
  note ok = bspec [OF key_names_plain [unfolded list_all_iff] map_of_SomeD [OF assms(1)], unfolded prod.case]
  then have plain: "split_key_name n = (n, None)" using False by blast
  then have "n \<notin> {''syn'', ''numlock'', ''numlockUp'', ''numlockDown''}"
    using half_names assms(2,3) by auto
  from simulate_key_simple(2) [OF plain this app assms(1) refl] show ?thesis
    unfolding if_not_P [OF False] using assms(4) by (simp add: emit_sync_def emission_defs write_raw_def)
qed

theorem key_names_simulated_witness:
  "snd (simulate_key ''keyUp'' (initial_mapper\<lparr>uinputDev := True\<rparr>)) = CmdResult 1 (''Unknown key name: keyUp'' @ NL)"
  using key_names_simulated [of "''keyUp''" KEY_UP "initial_mapper\<lparr>uinputDev := True\<rparr>"]
  by (simp add: KEY_NAME_TO_CODE_def)

text \<open>A run of raw events, each with its arrival time.\<close>

definition simulate_run :: "(int \<times> input_event) list \<Rightarrow> limiter \<times> mapper \<Rightarrow> limiter \<times> mapper" where
  "simulate_run evs s = fold (\<lambda>(now, ev). simulate_raw now (ev_type ev) (ev_code ev) (ev_value ev)) evs s"

definition motion :: "input_event \<Rightarrow> bool" where
  "motion ev \<longleftrightarrow> ev_type ev = EV_ABS \<or> ev_type ev = EV_REL"

definition raw_trace :: "input_event \<Rightarrow> raw_event list" where
  "raw_trace ev =
     (if ev_type ev = EV_SYN then [SYN]
      else if ev_type ev = EV_ABS then [(ev_type ev, ev_code ev, ev_value ev)]
      else [(ev_type ev, ev_code ev, ev_value ev), SYN])"

lemma simulate_raw_out:
  "uinputDev m \<Longrightarrow> \<exists>m'. simulate_raw now (ev_type ev) (ev_code ev) (ev_value ev) (l, m) = (limiter_step now l, m') \<and>
     uinputDev m' \<and> out m' = out m @ (if rate_limited now (ev_type ev) l then [] else raw_trace ev)"
  by (auto simp: simulate_raw_def raw_trace_def emission_defs write_raw_def)

text \<open>The events of a run that get past the limiter.\<close>

fun passed :: "(int \<times> input_event) list \<Rightarrow> limiter \<Rightarrow> input_event list" where
  "passed [] l = []"
| "passed ((now, ev) # evs) l =
     (if rate_limited now (ev_type ev) l then [] else [ev]) @ passed evs (limiter_step now l)"

lemma simulate_run_out:
  "uinputDev m \<Longrightarrow> out (snd (simulate_run evs (l, m))) = out m @ concat (map raw_trace (passed evs l))"
proof (induction evs arbitrary: l m)
  case (Cons x evs)
  obtain now ev where x: "x = (now, ev)" by fastforce
  from simulate_raw_out [OF Cons.prems, of now ev l] obtain m' where
    "simulate_raw now (ev_type ev) (ev_code ev) (ev_value ev) (l, m) = (limiter_step now l, m')"
    "uinputDev m'" "out m' = out m @ (if rate_limited now (ev_type ev) l then [] else raw_trace ev)" by blast
  then show ?case using Cons.IH [of m' "limiter_step now l"] x by (simp add: simulate_run_def)
qed (simp add: simulate_run_def)

lemma passed_others: "filter (\<lambda>ev. \<not> motion ev) (passed evs l) = filter (\<lambda>ev. \<not> motion ev) (map snd evs)"
  by (induction evs l rule: passed.induct) (auto simp: rate_limited_def motion_def)

text \<open>
  What the limiter is for: the run falls into windows, each opened by an event and holding the events
  up to 10 ms after it; of a window the first 50 events pass, and of the others all but the motion.
\<close>

definition in_window :: "int \<Rightarrow> int \<times> input_event \<Rightarrow> bool" where
  "in_window opened x \<longleftrightarrow> (fst x - opened) div 1000000 < 10"

function windows :: "(int \<times> input_event) list \<Rightarrow> (int \<times> input_event) list list" where
  "windows [] = []"
| "windows ((now, ev) # evs) =
     ((now, ev) # takeWhile (in_window now) evs) # windows (dropWhile (in_window now) evs)"
  by pat_completeness auto
termination by (relation "measure length") (simp_all add: le_imp_less_Suc length_dropWhile_le)

definition thin :: "nat \<Rightarrow> (int \<times> input_event) list \<Rightarrow> input_event list" where
  "thin n w = map snd (take n w) @ filter (\<lambda>ev. \<not> motion ev) (map snd (drop n w))"

lemma passed_inside:
  assumes "\<forall>x \<in> set w. in_window (lastEventTime l) x" "eventCount l = int k"
  shows "passed (w @ rest) l = thin (50 - k) w @ passed rest (l\<lparr>eventCount := int (k + length w)\<rparr>)"
  using assms
proof (induction w arbitrary: l k)
  case Nil
  have "l\<lparr>eventCount := int k\<rparr> = l" using Nil(2) by (cases l) simp
  then show ?case by (simp add: thin_def)
next
  case (Cons x w)
  obtain now ev where x: "x = (now, ev)" by fastforce
  have inside: "(now - lastEventTime l) div 1000000 < 10" using Cons.prems(1) x by (simp add: in_window_def)
  then have step: "limiter_step now l = l\<lparr>eventCount := int (Suc k)\<rparr>"
    using Cons.prems(2) by (simp add: limiter_step_def)
  have "rate_limited now (ev_type ev) l \<longleftrightarrow> 50 \<le> k \<and> motion ev"
    using inside step by (auto simp: rate_limited_def motion_def)
  moreover have "passed (w @ rest) (limiter_step now l)
      = thin (50 - Suc k) w @ passed rest (l\<lparr>eventCount := int (k + length (x # w))\<rparr>)"
    using Cons.IH [of "limiter_step now l" "Suc k"] Cons.prems(1) by (simp add: step)
  moreover have "thin (50 - k) (x # w) = (if 50 \<le> k \<and> motion ev then [] else [ev]) @ thin (50 - Suc k) w"
  proof (cases "k < 50")
    case True
    then have "50 - k = Suc (50 - Suc k)" by simp
    then show ?thesis using True x by (simp add: thin_def)
  qed (simp add: thin_def x)
  ultimately show ?case by (simp add: x)
qed

lemma passed_windows:
  assumes "\<not> in_window (lastEventTime l) (hd evs) \<or> evs = []"
  shows "passed evs l = concat (map (thin 50) (windows evs))"
  using assms
proof (induction evs arbitrary: l rule: windows.induct)
  case (2 now ev evs)
  let ?w = "takeWhile (in_window now) evs" and ?rest = "dropWhile (in_window now) evs"
  let ?l = "\<lparr>lastEventTime = now, eventCount = 1\<rparr>"
  have "\<not> (now - lastEventTime l) div 1000000 < 10" using 2(2) by (simp add: in_window_def)
  then have open_: "limiter_step now l = ?l" "\<not> rate_limited now (ev_type ev) l"
    by (cases l; simp add: limiter_step_def rate_limited_def)+
  have "passed evs ?l = thin 49 ?w @ passed ?rest (?l\<lparr>eventCount := int (1 + length ?w)\<rparr>)"
    using passed_inside [of ?w ?l 1 ?rest] set_takeWhileD [of _ "in_window now" evs] by force
  also have "passed ?rest (?l\<lparr>eventCount := int (1 + length ?w)\<rparr>) = concat (map (thin 50) (windows ?rest))"
    using hd_dropWhile [of "in_window now" evs] by (intro 2(1)) auto
  finally have "passed ((now, ev) # evs) l = (ev # thin 49 ?w) @ concat (map (thin 50) (windows ?rest))"
    using open_ by simp
  moreover have "ev # thin 49 ?w = thin 50 ((now, ev) # ?w)" by (simp add: thin_def)
  ultimately show ?case by simp
qed simp

lemma thin_motion: "length (filter motion (thin n w)) \<le> n"
proof -
  have "length (filter motion (map snd (take n w))) \<le> length (take n w)"
    using length_filter_le [of motion "map snd (take n w)"] by simp
  then show ?thesis by (simp add: thin_def)
qed

text \<open>
  C23 (bounds). A run of raw \<open>simulateInput\<close> commands whose first event comes at least 10 ms after
  the last window was opened is thinned window by window: each window is opened by an event and holds
  the events that follow it within 10 ms; its first 50 events, the opening one included, are written
  to the device, and after those only events that are no motion. So a window lets at most 50 motion
  events through, no key, button or synchronisation event is ever dropped, and the order is kept.
\<close>

theorem rate_limiter_windows:
  assumes "uinputDev m" "evs = [] \<or> 10 \<le> (fst (hd evs) - lastEventTime l) div 1000000"
  shows "out (snd (simulate_run evs (l, m)))
      = out m @ concat (map raw_trace (concat (map (thin 50) (windows evs)))) \<and>
    (\<forall>w \<in> set (windows evs). length (filter motion (thin 50 w)) \<le> 50) \<and>
    filter (\<lambda>ev. \<not> motion ev) (concat (map (thin 50) (windows evs))) = filter (\<lambda>ev. \<not> motion ev) (map snd evs)"
proof -
  have p: "passed evs l = concat (map (thin 50) (windows evs))"
    using assms(2) by (intro passed_windows) (auto simp: in_window_def)
  show ?thesis
    using simulate_run_out [OF assms(1), of evs l] passed_others [of evs l] thin_motion unfolding p by blast
qed

definition motion_burst :: "(int \<times> input_event) list" where
  "motion_burst = replicate 60 (20000000, \<lparr>ev_type = EV_REL, ev_code = 0, ev_value = 1\<rparr>)"

lemma windows_single:
  assumes "\<forall>x \<in> set w. in_window now x" shows "windows ((now, ev) # w) = [(now, ev) # w]"
proof -
  have w: "takeWhile (in_window now) w = w" "dropWhile (in_window now) w = []"
    using assms by (simp_all add: takeWhile_eq_all_conv)
  show ?thesis unfolding windows.simps w ..
qed

lemma motion_burst_windows: "windows motion_burst = [motion_burst]"
  using windows_single [of "replicate 59 (20000000, \<lparr>ev_type = EV_REL, ev_code = 0, ev_value = 1\<rparr>)" 20000000
      "\<lparr>ev_type = EV_REL, ev_code = 0, ev_value = 1\<rparr>"]
  by (simp add: motion_burst_def in_window_def numeral_eq_Suc)

theorem rate_limiter_windows_witness:
  "out (snd (simulate_run motion_burst (\<lparr>lastEventTime = 0, eventCount = 0\<rparr>, initial_mapper\<lparr>uinputDev := True\<rparr>)))
     = concat (replicate 50 [(EV_REL, 0, 1), SYN])"
proof -
  have "thin 50 motion_burst = replicate 50 \<lparr>ev_type = EV_REL, ev_code = 0, ev_value = 1\<rparr>"
    by (simp add: thin_def motion_burst_def motion_def filter_empty_conv)
  moreover have "fst (hd motion_burst) = 20000000" by (simp add: motion_burst_def)
  ultimately show ?thesis
    using rate_limiter_windows [of "initial_mapper\<lparr>uinputDev := True\<rparr>" motion_burst
        "\<lparr>lastEventTime = 0, eventCount = 0\<rparr>"]
    by (simp add: motion_burst_windows initial_mapper_def raw_trace_def)
qed

end
