(* ===== verification/Command_Dispatch.thy ===== *)
theory Command_Dispatch
  imports Json_Values
begin

text \<open>
  The command dispatcher of \<open>daemon/src/mainCommand.cpp\<close>: the registry of signatures, the table of
  handlers, the argument check, the dispatch of one command with its reply, and the second run of slow
  commands in a thread of their own.

  The state the handlers work on is a type parameter \<open>'d\<close>. \<open>run\<close> gives the behaviour of a handler
  by the name of its C++ function; \<open>dump\<close> is the JSON printer, \<open>what\<close> the text of an exception.
  A failed assertion of the JSON library aborts the process and is not caught by \<open>catch\<close>.
\<close>

record CommandSignature =
  name :: string
  requiredArgs :: "string list"
  description :: string
  optionalArgs :: string

abbreviation Sig :: "string \<Rightarrow> string list \<Rightarrow> string \<Rightarrow> string \<Rightarrow> CommandSignature" where
  "Sig n as d opt \<equiv> \<lparr>name = n, requiredArgs = as, description = d, optionalArgs = opt\<rparr>"

subsection \<open>The tables\<close>

definition COMMAND_REGISTRY :: "CommandSignature list" where
  "COMMAND_REGISTRY =
    [Sig [] []
       (''Show help message'') [],
     Sig ''help'' []
       (''Show help message'') [],
     Sig ''--help'' []
       (''Show help message'') [],
     Sig ''openedTty'' [''tty'']
       (''Notify daemon that a terminal was opened'') [],
     Sig ''closedTty'' [''tty'']
       (''Notify daemon that a terminal was closed'') [],
     Sig ''updateDirHistory'' [''tty'', ''pwd'']
       (''Update directory history for a terminal'') [],
     Sig ''cdForward'' [''tty'']
       (''Navigate forward in directory history (Ctrl+Down)'') [],
     Sig ''cdBackward'' [''tty'']
       (''Navigate backward in directory history (Ctrl+Up)'') [],
     Sig ''shellSignal'' [''signal'']
       (''Handle shell signal events'') [],
     Sig ''showTerminalInstance'' [''tty'']
       (''Show terminal instance info for a TTY'') [],
     Sig ''showAllTerminalInstances'' []
       (''Show all active terminal instances'') [],
     Sig ''printDirHistory'' []
       (''Print all directory history entries'') [],
     Sig ''emptyDirHistoryTable'' []
       (''Clear all directory history entries'') [],
     Sig ''deleteEntry'' [''key'']
       (''Delete a setting entry by key'') [],
     Sig ''showEntriesByPrefix'' [''prefix'']
       (''(Deprecated) Show entries by prefix'') [],
     Sig ''deleteEntriesByPrefix'' [''prefix'']
       (''(Deprecated) Delete entries by prefix'') [],
     Sig ''showDB'' []
       (''Show database summary (terminal history, devices, settings)'') [],
     Sig ''upsertEntry'' [''key'', ''value'']
       (''Insert or update a setting entry'') [],
     Sig ''getEntry'' [''key'']
       (''Get a setting entry by key'') [],
     Sig ''ping'' []
       (''Ping the daemon (returns '' @ [CHR 0x27] @ ''pong'' @ [CHR 0x27] @ '')'') [],
     Sig ''version'' []
       (''Show daemon version (git commit count)'') [],
     Sig ''quit'' []
       (''Stop the daemon'') [],
     Sig ''getDir'' [''dirName'']
       (''Get daemon directory path (base, data, mappings)'') [],
     Sig ''getFile'' [''fileName'']
       (''Get file path from data or mappings directory'') [],
     Sig ''listCommands'' []
       (''List all available command names'') [],
     Sig ''getKeyboardPath'' []
       (''Get path to the grabbed keyboard device'') [],
     Sig ''getMousePath'' []
       (''Get path to the grabbed mouse device'') [],
     Sig ''getSocketPath'' []
       (''Get the daemon'' @ [CHR 0x27] @ ''s UNIX socket path'') [],
     Sig ''setKeyboard'' [''windowTitle'', ''wmClass'', ''wmInstance'', ''windowId'']
       (''Simulate active window change (for debugging)'') [],
     Sig ''getKeyboard'' []
       (''Get current keyboard mapping state'') [],
     Sig ''getKeyboardEnabled'' []
       (''Check if keyboard input is enabled'') [],
     Sig ''toggleKeyboard'' [''enable'']
       (''Toggle auto-keyboard switching on window change'') [],
     Sig ''disableKeyboard'' []
       (''Disable keyboard input grabbing'') [],
     Sig ''enableKeyboard'' []
       (''Enable keyboard input grabbing'') [],
     Sig ''simulateInput'' []
       (''Simulate input event or type text'') (''--type --code --value (raw event) OR --string (text)''),
     Sig ''shouldLog'' [''enable'']
       (''Enable or disable logging'') [],
     Sig ''getShouldLog'' []
       (''Get current logging state'') [],
     Sig ''registerLogListener'' []
       (''Register as a live log listener (streaming)'') [],
     Sig ''addLogFilter'' [''action'']
       (''Add granular input event log filter'') (''--type --code --value --devicePathRegex --isKeyboard''),
     Sig ''removeLogFilter'' []
       (''Remove a log filter'') (''--type --code --value --devicePathRegex --isKeyboard''),
     Sig ''listLogFilters'' []
       (''List all active log filters'') [],
     Sig ''clearLogFilters'' []
       (''Clear all log filters'') [],
     Sig ''activeWindowChanged'' [''windowTitle'', ''wmClass'', ''wmInstance'', ''windowId'']
       (''Notify daemon of active window change (from GNOME ext)'') [],
     Sig ''setActiveTabUrl'' [''url'']
       (''Set active browser tab URL (from Chrome ext)'') [],
     Sig ''registerNativeHost'' []
       (''Register Chrome native messaging host'') [],
     Sig ''focusChatGPT'' []
       (''Request focus on ChatGPT browser tab'') [],
     Sig ''focusAck'' []
       (''Acknowledge focus request'') [],
     Sig ''getActiveContext'' []
       (''Get current active window context (JSON)'') [],
     Sig ''registerWindowExtension'' []
       (''Register GNOME window tracking extension'') [],
     Sig ''listWindows'' []
       (''List all tracked windows'') [],
     Sig ''activateWindow'' [''windowId'']
       (''Activate a window by ID'') [],
     Sig ''getMacros'' []
       (''Get all configured macros (JSON)'') [],
     Sig ''updateMacros'' [''value'']
       (''Update macro configuration'') [],
     Sig ''getEventFilters'' []
       (''Get event filters for macro system'') [],
     Sig ''setEventFilters'' [''value'']
       (''Set event filters for macro system'') [],
     Sig ''getPort'' [''key'']
       (''Get assigned port for an app/service'') [],
     Sig ''setPort'' [''key'', ''value'']
       (''Assign a port to an app/service'') [],
     Sig ''listPorts'' []
       (''List all port assignments'') [],
     Sig ''deletePort'' [''key'']
       (''Delete a port assignment'') [],
     Sig ''publicTransportationStartProxy'' []
       (''Start public transportation proxy server'') [],
     Sig ''publicTransportationOpenApp'' []
       (''Open public transportation app'') [],
     Sig ''startApp'' [''app'']
       (''Start an app'') (''--mode <prod|dev>''),
     Sig ''stopApp'' [''app'']
       (''Stop an app'') (''--mode <prod|dev|all>''),
     Sig ''restartApp'' [''app'']
       (''Restart an app'') (''--mode <prod|dev>''),
     Sig ''appStatus'' []
       (''Show app status'') (''--app <name>''),
     Sig ''listApps'' []
       (''List all registered apps'') [],
     Sig ''buildApp'' [''app'']
       (''Build an app'' @ [CHR 0x27] @ ''s server component'') (''--mode <prod|dev>''),
     Sig ''installAppDeps'' [''app'']
       (''Install npm dependencies for an app'') (''--mode <prod|dev> --component <client|server|all>''),
     Sig ''enableApp'' [''app'']
       (''Enable app services for boot'') (''--mode <prod|dev>''),
     Sig ''disableApp'' [''app'']
       (''Disable app services from boot'') (''--mode <prod|dev|all>''),
     Sig ''addExtraApp'' [''repoUrl'']
       (''Add an extra app from git repository'') (''--displayName <name> --hasServer --serverSubdir <dir> --clientSubdir <dir>''),
     Sig ''removeExtraApp'' [''app'']
       (''Remove an extra app from registry (keeps files)'') [],
     Sig ''listExtraApps'' []
       (''List all extra apps registered in database'') [],
     Sig ''deployToProd'' [''app'']
       (''Deploy dev changes to prod worktree'') (''--commit <hash>''),
     Sig ''prodStatus'' [''app'']
       (''Check prod worktree status (clean/dirty)'') [],
     Sig ''cleanProd'' [''app'']
       (''Discard uncommitted changes in prod worktree'') [],
     Sig ''getAppPeers'' [''app'']
       (''Show which peers have an app installed and running'') [],
     Sig ''installAppOnPeer'' [''app'', ''peer'']
       (''Install an app on a remote peer'') (''--mode <dev|prod|all>''),
     Sig ''uninstallAppOnPeer'' [''app'', ''peer'']
       (''Uninstall an app from a remote peer'') [],
     Sig ''startAppOnPeer'' [''app'', ''peer'', ''mode'']
       (''Start an app on a remote peer'') [],
     Sig ''stopAppOnPeer'' [''app'', ''peer'']
       (''Stop an app on a remote peer'') (''--mode <dev|prod|all>''),
     Sig ''installAppServices'' [''app'']
       (''Install systemd service files for an app locally'') [],
     Sig ''testIntegrity'' []
       (''Run internal integrity tests'') [],
     Sig ''testLsof'' [''port'']
       (''Test lsof on a port'') [],
     Sig ''testEcho'' [''message'']
       (''Echo a test message'') [],
     Sig ''testLsofScript'' [''port'']
       (''Test lsof script on a port'') [],
     Sig ''setPeerConfig'' []
       (''Configure peer networking role and identity'') (''--role (leader|worker) --id <peer_id> [--leader <ip>]''),
     Sig ''getPeerStatus'' []
       (''Show current peer configuration and connection status'') [],
     Sig ''registerPeer'' []
       (''(Internal) Register a peer connection'') [],
     Sig ''listPeers'' []
       (''List all registered peers in the network'') [],
     Sig ''deletePeer'' [''peer'']
       (''Delete a peer from the registry'') [],
     Sig ''getPeerInfo'' [''peer'']
       (''Get detailed info about a specific peer'') [],
     Sig ''execOnPeer'' [''peer'', ''directory'', ''shellCmd'']
       (''Execute a command on a remote peer in specified directory'') [],
     Sig ''execRequest'' [''directory'', ''shellCmd'']
       (''(Internal) Handle exec request from another peer'') [],
     Sig ''remotePull'' [''peer'']
       (''Git pull automateLinux on a remote peer'') [],
     Sig ''remoteBd'' [''peer'']
       (''Build daemon on a remote peer'') [],
     Sig ''remoteDeployDaemon'' [''peer'']
       (''Pull and build daemon on a remote peer'') [],
     Sig ''dbSanityCheck'' []
       (''Check and fix worker database (delete leader-only data)'') [],
     Sig ''registerWorker'' []
       (''Register this machine as a worker (uses hostname, connects to VPS)'') [],
     Sig ''updatePeerMac'' []
       (''Update this peer'' @ [CHR 0x27] @ ''s MAC address in the leader'' @ [CHR 0x27] @ ''s database'') [],
     Sig ''updatePeerMacInternal'' []
       (''(internal) Receives MAC update from worker'') [],
     Sig ''setupWireGuardPeer'' [''name'']
       (''Set up WireGuard on a peer and register with daemon'') (''--host <ip> --vpnIp <ip> --mac <addr> --dualBoot --privateKey <key>''),
     Sig ''listWireGuardPeers'' []
       (''List peers configured in WireGuard on the VPS'') [],
     Sig ''getWireGuardIp'' []
       (''Get the local WireGuard (wg0) interface IP address'') [],
     Sig ''setupRdp'' []
       (''Configure GNOME Remote Desktop for RDP access'') (''--rdpUsername <user> --rdpPassword <pass>'')]"

text \<open>Command names with the names of their handler functions.\<close>

definition COMMAND_HANDLERS :: "(string \<times> string) list" where
  "COMMAND_HANDLERS =
    [([], ''handleHelp''), (''help'', ''handleHelp''), (''--help'', ''handleHelp''),
     (''ping'', ''handlePing''), (''version'', ''handleVersion''), (''quit'', ''handleQuit''),
     (''getDir'', ''handleGetDir''), (''getFile'', ''handleGetFile''),
     (''getSocketPath'', ''handleGetSocketPath''), (''listCommands'', ''handleListCommands''),
     (''testLsof'', ''handleTestLsof''), (''testEcho'', ''handleTestEcho''),
     (''testLsofScript'', ''handleTestLsofScript''), (''openedTty'', ''handleOpenedTty''),
     (''closedTty'', ''handleClosedTty''), (''updateDirHistory'', ''handleUpdateDirHistory''),
     (''cdForward'', ''handleCdForward''), (''cdBackward'', ''handleCdBackward''),
     (''shellSignal'', ''handleShellSignal''),
     (''showTerminalInstance'', ''handleShowTerminalInstance''),
     (''showAllTerminalInstances'', ''handleShowAllTerminalInstances''),
     (''printDirHistory'', ''handlePrintDirHistory''),
     (''emptyDirHistoryTable'', ''handleEmptyDirHistoryTable''),
     (''showEntriesByPrefix'', ''handleShowEntriesByPrefix''),
     (''deleteEntriesByPrefix'', ''handleDeleteEntriesByPrefix''), (''showDB'', ''handleShowDb''),
     (''deleteEntry'', ''handleDeleteEntry''), (''upsertEntry'', ''handleUpsertEntry''),
     (''getEntry'', ''handleGetEntry''), (''getKeyboardPath'', ''handleGetKeyboardPath''),
     (''getMousePath'', ''handleGetMousePath''), (''setKeyboard'', ''handleSetKeyboard''),
     (''getKeyboard'', ''handleGetKeyboard''), (''getKeyboardEnabled'', ''handleGetKeyboard''),
     (''toggleKeyboard'', ''handleToggleKeyboard''), (''disableKeyboard'', ''handleDisableKeyboard''),
     (''enableKeyboard'', ''handleEnableKeyboard''), (''simulateInput'', ''handleSimulateInput''),
     (''testIntegrity'', ''handleTestIntegrity''), (''getMacros'', ''handleGetMacros''),
     (''updateMacros'', ''handleUpdateMacros''), (''shouldLog'', ''handleShouldLog''),
     (''getShouldLog'', ''handleGetShouldLog''),
     (''registerLogListener'', ''handleRegisterLogListener''),
     (''getEventFilters'', ''handleGetEventFilters''), (''setEventFilters'', ''handleSetEventFilters''),
     (''registerWindowExtension'', ''handleRegisterWindowExtension''),
     (''listWindows'', ''handleListWindows''), (''activateWindow'', ''handleActivateWindow''),
     (''activeWindowChanged'', ''handleActiveWindowChanged''),
     (''getActiveContext'', ''handleGetActiveContext''),
     (''setActiveTabUrl'', ''handleSetActiveTabUrl''),
     (''registerNativeHost'', ''handleRegisterNativeHost''), (''focusChatGPT'', ''handleFocusChatGPT''),
     (''focusAck'', ''handleFocusAck''), (''getPort'', ''handleGetPort''),
     (''setPort'', ''handleSetPort''), (''listPorts'', ''handleListPorts''),
     (''deletePort'', ''handleDeletePort''),
     (''publicTransportationStartProxy'', ''handlePublicTransportationStartProxy''),
     (''publicTransportationOpenApp'', ''handlePublicTransportationOpenApp''),
     (''startApp'', ''handleStartApp''), (''stopApp'', ''handleStopApp''),
     (''restartApp'', ''handleRestartApp''), (''appStatus'', ''handleAppStatus''),
     (''listApps'', ''handleListApps''), (''buildApp'', ''handleBuildApp''),
     (''installAppDeps'', ''handleInstallAppDeps''), (''enableApp'', ''handleEnableApp''),
     (''disableApp'', ''handleDisableApp''), (''addExtraApp'', ''handleAddExtraApp''),
     (''removeExtraApp'', ''handleRemoveExtraApp''), (''listExtraApps'', ''handleListExtraApps''),
     (''deployToProd'', ''handleDeployToProd''), (''prodStatus'', ''handleProdStatus''),
     (''cleanProd'', ''handleCleanProd''), (''getAppPeers'', ''handleGetAppPeers''),
     (''installAppOnPeer'', ''handleInstallAppOnPeer''),
     (''uninstallAppOnPeer'', ''handleUninstallAppOnPeer''),
     (''startAppOnPeer'', ''handleStartAppOnPeer''), (''stopAppOnPeer'', ''handleStopAppOnPeer''),
     (''installAppServices'', ''handleInstallAppServices''),
     (''setPeerConfig'', ''handleSetPeerConfig''), (''getPeerStatus'', ''handleGetPeerStatus''),
     (''registerPeer'', ''handleRegisterPeer''), (''listPeers'', ''handleListPeers''),
     (''deletePeer'', ''handleDeletePeer''), (''getPeerInfo'', ''handleGetPeerInfo''),
     (''execOnPeer'', ''handleExecOnPeer''), (''execRequest'', ''handleExecRequest''),
     (''remotePull'', ''handleRemotePull''), (''remoteBd'', ''handleRemoteBd''),
     (''remoteDeployDaemon'', ''handleRemoteDeployDaemon''),
     (''dbSanityCheck'', ''handleDbSanityCheck''), (''registerWorker'', ''handleRegisterWorker''),
     (''updatePeerMac'', ''handleUpdatePeerMac''),
     (''updatePeerMacInternal'', ''handleUpdatePeerMacInternal''),
     (''setupWireGuardPeer'', ''handleSetupWireGuardPeer''),
     (''listWireGuardPeers'', ''handleListWireGuardPeers''),
     (''getWireGuardIp'', ''handleGetWireGuardIp''), (''setupRdp'', ''handleSetupRdp'')]"

subsection \<open>Dispatch\<close>

definition LOG_WINDOW :: "32 word" where "LOG_WINDOW = 2"
definition LOG_NETWORK :: "32 word" where "LOG_NETWORK = 32"
definition LOG_CHROME :: "32 word" where "LOG_CHROME = 64"
definition LOG_TERMINAL :: "32 word" where "LOG_TERMINAL = 128"

definition getCommandLogContext :: "string \<Rightarrow> 32 word \<times> string" where
  "getCommandLogContext commandName =
     (if commandName \<in> {''focusChatGPT'', ''setActiveTabUrl'', ''focusAck'', ''registerNativeHost''}
      then (LOG_CHROME, ''[Chrome]'')
      else if commandName \<in> {''updateDirHistory'', ''openedTty'', ''closedTty'', ''cdForward'', ''cdBackward'',
        ''showTerminalInstance'', ''showAllTerminalInstances''} then (LOG_TERMINAL, ''[Terminal]'')
      else if commandName = ''activeWindowChanged'' then (LOG_WINDOW, ''[Window]'')
      else (LOG_NETWORK, ''[Network]''))"

definition find_signature :: "string \<Rightarrow> CommandSignature option" where
  "find_signature commandName = find (\<lambda>c. name c = commandName) COMMAND_REGISTRY"

definition validateCommand :: "json \<Rightarrow> cmd_result result" where
  "validateCommand command =
     (if \<not> jcontains command ''command'' then Inr (CmdResult 1 ''Missing command key'')
      else try_result (command_string command ''command'') (\<lambda>commandName.
        Inr (case find_signature commandName of
            None \<Rightarrow> CmdResult 1 (''Unknown command: '' @ commandName @ NL)
          | Some sig \<Rightarrow> (case find (\<lambda>arg. \<not> jcontains command arg) (requiredArgs sig) of
              Some arg \<Rightarrow> CmdResult 1 (''Missing required arg: '' @ arg @ NL)
            | None \<Rightarrow> CmdResult 0 []))))"

definition end_with_newline :: "string \<Rightarrow> string" where
  "end_with_newline s = (if s \<noteq> [] \<and> last s \<noteq> CHR 0x0A then s @ NL else s)"

definition caught :: "(exn \<Rightarrow> string) \<Rightarrow> cmd_result result \<Rightarrow> cmd_result result" where
  "caught what r = (case r of
      Inl e \<Rightarrow> if e = AssertFail then Inl e else Inr (CmdResult 1 (''error: '' @ what e @ NL))
    | Inr x \<Rightarrow> Inr x)"

definition slow_commands :: "string list" where
  "slow_commands = [''remoteDeployDaemon'', ''execOnPeer'', ''remotePull'', ''remoteBd'', ''execRequest'',
     ''installAppOnPeer'', ''uninstallAppOnPeer'', ''startAppOnPeer'', ''stopAppOnPeer'']"

definition keep_open_commands :: "string list" where
  "keep_open_commands = [''registerLogListener'', ''registerWindowExtension'', ''registerNativeHost'']"

text \<open>The returned code: 1 closes the connection, 0 keeps it, 2 hands it to a thread.\<close>

definition return_code :: "string \<Rightarrow> int" where
  "return_code commandName =
     (if commandName = ''closedTty'' then 1
      else if commandName \<in> set keep_open_commands then 0
      else if commandName \<in> set slow_commands then 2 else 1)"

type_synonym 'd runner = "string \<Rightarrow> json \<Rightarrow> 'd \<Rightarrow> 'd \<times> cmd_result result"

text \<open>The body of the \<open>try\<close> block.\<close>

definition dispatch :: "(json \<Rightarrow> string) \<Rightarrow> 'd runner \<Rightarrow> json \<Rightarrow> 'd \<Rightarrow> 'd \<times> cmd_result result" where
  "dispatch dump run command d = (case validateCommand command of
      Inl e \<Rightarrow> (d, Inl e)
    | Inr integrityCheck \<Rightarrow>
        if status integrityCheck \<noteq> 0 then (d, Inr integrityCheck)
        else case command_string command ''command'' of
          Inl e \<Rightarrow> (d, Inl e)
        | Inr commandName \<Rightarrow> (case map_of COMMAND_HANDLERS commandName of
            Some handler \<Rightarrow> run handler command d
          | None \<Rightarrow> (d, Inr (CmdResult 1 (''Unhandled command: '' @ dump command @ NL)))))"

text \<open>One command: the new state, and the reply with the returned code, or the exception that leaves
  the function. The command name is read before the \<open>try\<close> block.\<close>

definition mainCommand ::
  "(json \<Rightarrow> string) \<Rightarrow> (exn \<Rightarrow> string) \<Rightarrow> 'd runner \<Rightarrow> json \<Rightarrow> 'd \<Rightarrow> 'd \<times> (string \<times> int) result" where
  "mainCommand dump what run command d =
     (case (if jcontains command ''command'' then command_string command ''command'' else Inr []) of
        Inl e \<Rightarrow> (d, Inl e)
      | Inr commandName \<Rightarrow>
          let (d', r) = dispatch dump run command d in
          (d', try_result (caught what r) (\<lambda>res.
                 Inr (end_with_newline (message res), return_code commandName))))"

text \<open>The thread of a slow command: it runs the handler again and writes a reply of its own.\<close>

definition slow_thread ::
  "(exn \<Rightarrow> string) \<Rightarrow> 'd runner \<Rightarrow> json \<Rightarrow> 'd \<Rightarrow> 'd \<times> string result" where
  "slow_thread what run command d = (case command_string command ''command'' of
      Inl e \<Rightarrow> (d, Inl e)
    | Inr commandName \<Rightarrow> (case map_of COMMAND_HANDLERS commandName of
        None \<Rightarrow> (d, Inr (''Async handler not found'' @ NL))
      | Some handler \<Rightarrow>
          let (d', r) = run handler command d in
          (d', try_result (caught what r) (\<lambda>res. Inr (end_with_newline (message res))))))"

end
