(* ===== verification/Dispatch_Facts.thy ===== *)
theory Dispatch_Facts
  imports Command_Dispatch
begin

text \<open>
  What the dispatcher promises: the two tables fit together, every command is answered as its
  signature and handler say, and which commands leave it in other ways.
\<close>

subsection \<open>The tables\<close>

text \<open>Names are compared through an injective encoding as numbers.\<close>

definition name_code :: "string \<Rightarrow> nat" where
  "name_code s = fold (\<lambda>c a. a * 256 + of_char c) s 1"

lemma name_code_snoc: "name_code (s @ [c]) = name_code s * 256 + of_char c"
  by (simp add: name_code_def)

lemma name_code_pos: "0 < name_code s"
  by (induction s rule: rev_induct) (simp_all add: name_code_snoc, simp add: name_code_def)

lemma name_code_inject: "name_code s = name_code t \<Longrightarrow> s = t"
proof (induction s arbitrary: t rule: rev_induct)
  case Nil
  then show ?case
  proof (cases t rule: rev_cases)
    case (snoc t' c)
    then have "name_code t' * 256 + of_char c = 1" using Nil by (simp add: name_code_snoc) (simp add: name_code_def)
    then show ?thesis using name_code_pos [of t'] by arith
  qed simp
next
  case (snoc c s)
  show ?case
  proof (cases t rule: rev_cases)
    case Nil
    then have "name_code s * 256 + of_char c = 1" using snoc.prems by (simp add: name_code_snoc) (simp add: name_code_def)
    then show ?thesis using name_code_pos [of s] by arith
  next
    case t: (snoc t' d)
    have lt: "(of_char c :: nat) < 256" "(of_char d :: nat) < 256" by simp_all
    have eq: "name_code s * 256 + of_char c = name_code t' * 256 + of_char d"
      using snoc.prems t by (simp add: name_code_snoc)
    have "name_code s = name_code t'" using lt arg_cong [OF eq, of "\<lambda>n. n div 256"] by simp
    moreover have "(of_char c :: nat) = of_char d" using lt arg_cong [OF eq, of "\<lambda>n. n mod 256"] by simp
    ultimately show ?thesis using snoc.IH t by simp
  qed
qed

lemma name_code_inj: "inj_on name_code A"
  by (auto simp: inj_on_def dest: name_code_inject)

lemma registry_codes:
  "map name_code (map name COMMAND_REGISTRY) =
    [0x1, 0x168656C70, 0x12D2D68656C70, 0x16F70656E6564547479, 0x1636C6F736564547479,
     0x1757064617465446972486973746F7279, 0x16364466F7277617264, 0x163644261636B77617264,
     0x17368656C6C5369676E616C, 0x173686F775465726D696E616C496E7374616E6365,
     0x173686F77416C6C5465726D696E616C496E7374616E636573, 0x17072696E74446972486973746F7279,
     0x1656D707479446972486973746F72795461626C65, 0x164656C657465456E747279,
     0x173686F77456E74726965734279507265666978, 0x164656C657465456E74726965734279507265666978,
     0x173686F774442, 0x1757073657274456E747279, 0x1676574456E747279, 0x170696E67, 0x176657273696F6E,
     0x171756974, 0x1676574446972, 0x167657446696C65, 0x16C697374436F6D6D616E6473,
     0x16765744B6579626F61726450617468, 0x16765744D6F75736550617468, 0x1676574536F636B657450617468,
     0x17365744B6579626F617264, 0x16765744B6579626F617264, 0x16765744B6579626F617264456E61626C6564,
     0x1746F67676C654B6579626F617264, 0x164697361626C654B6579626F617264,
     0x1656E61626C654B6579626F617264, 0x173696D756C617465496E707574, 0x173686F756C644C6F67,
     0x167657453686F756C644C6F67, 0x172656769737465724C6F674C697374656E6572,
     0x16164644C6F6746696C746572, 0x172656D6F76654C6F6746696C746572, 0x16C6973744C6F6746696C74657273,
     0x1636C6561724C6F6746696C74657273, 0x161637469766557696E646F774368616E676564,
     0x173657441637469766554616255726C, 0x172656769737465724E6174697665486F7374,
     0x1666F63757343686174475054, 0x1666F63757341636B, 0x1676574416374697665436F6E74657874,
     0x1726567697374657257696E646F77457874656E73696F6E, 0x16C69737457696E646F7773,
     0x1616374697661746557696E646F77, 0x16765744D6163726F73, 0x17570646174654D6163726F73,
     0x16765744576656E7446696C74657273, 0x17365744576656E7446696C74657273, 0x1676574506F7274,
     0x1736574506F7274, 0x16C697374506F727473, 0x164656C657465506F7274,
     0x17075626C69635472616E73706F72746174696F6E537461727450726F7879,
     0x17075626C69635472616E73706F72746174696F6E4F70656E417070, 0x17374617274417070, 0x173746F70417070,
     0x172657374617274417070, 0x1617070537461747573, 0x16C69737441707073, 0x16275696C64417070,
     0x1696E7374616C6C41707044657073, 0x1656E61626C65417070, 0x164697361626C65417070,
     0x16164644578747261417070, 0x172656D6F76654578747261417070, 0x16C697374457874726141707073,
     0x16465706C6F79546F50726F64, 0x170726F64537461747573, 0x1636C65616E50726F64,
     0x16765744170705065657273, 0x1696E7374616C6C4170704F6E50656572,
     0x1756E696E7374616C6C4170704F6E50656572, 0x173746172744170704F6E50656572,
     0x173746F704170704F6E50656572, 0x1696E7374616C6C4170705365727669636573,
     0x174657374496E74656772697479, 0x1746573744C736F66, 0x1746573744563686F,
     0x1746573744C736F66536372697074, 0x173657450656572436F6E666967, 0x167657450656572537461747573,
     0x1726567697374657250656572, 0x16C6973745065657273, 0x164656C65746550656572,
     0x167657450656572496E666F, 0x1657865634F6E50656572, 0x16578656352657175657374,
     0x172656D6F746550756C6C, 0x172656D6F74654264, 0x172656D6F74654465706C6F794461656D6F6E,
     0x1646253616E697479436865636B, 0x17265676973746572576F726B6572, 0x1757064617465506565724D6163,
     0x1757064617465506565724D6163496E7465726E616C, 0x1736574757057697265477561726450656572,
     0x16C6973745769726547756172645065657273, 0x16765745769726547756172644970, 0x17365747570526470]"
  by (simp add: COMMAND_REGISTRY_def name_code_def)

lemma handler_codes:
  "map name_code (map fst COMMAND_HANDLERS) =
    [0x1, 0x168656C70, 0x12D2D68656C70, 0x170696E67, 0x176657273696F6E, 0x171756974, 0x1676574446972,
     0x167657446696C65, 0x1676574536F636B657450617468, 0x16C697374436F6D6D616E6473, 0x1746573744C736F66,
     0x1746573744563686F, 0x1746573744C736F66536372697074, 0x16F70656E6564547479, 0x1636C6F736564547479,
     0x1757064617465446972486973746F7279, 0x16364466F7277617264, 0x163644261636B77617264,
     0x17368656C6C5369676E616C, 0x173686F775465726D696E616C496E7374616E6365,
     0x173686F77416C6C5465726D696E616C496E7374616E636573, 0x17072696E74446972486973746F7279,
     0x1656D707479446972486973746F72795461626C65, 0x173686F77456E74726965734279507265666978,
     0x164656C657465456E74726965734279507265666978, 0x173686F774442, 0x164656C657465456E747279,
     0x1757073657274456E747279, 0x1676574456E747279, 0x16765744B6579626F61726450617468,
     0x16765744D6F75736550617468, 0x17365744B6579626F617264, 0x16765744B6579626F617264,
     0x16765744B6579626F617264456E61626C6564, 0x1746F67676C654B6579626F617264,
     0x164697361626C654B6579626F617264, 0x1656E61626C654B6579626F617264, 0x173696D756C617465496E707574,
     0x174657374496E74656772697479, 0x16765744D6163726F73, 0x17570646174654D6163726F73,
     0x173686F756C644C6F67, 0x167657453686F756C644C6F67, 0x172656769737465724C6F674C697374656E6572,
     0x16765744576656E7446696C74657273, 0x17365744576656E7446696C74657273,
     0x1726567697374657257696E646F77457874656E73696F6E, 0x16C69737457696E646F7773,
     0x1616374697661746557696E646F77, 0x161637469766557696E646F774368616E676564,
     0x1676574416374697665436F6E74657874, 0x173657441637469766554616255726C,
     0x172656769737465724E6174697665486F7374, 0x1666F63757343686174475054, 0x1666F63757341636B,
     0x1676574506F7274, 0x1736574506F7274, 0x16C697374506F727473, 0x164656C657465506F7274,
     0x17075626C69635472616E73706F72746174696F6E537461727450726F7879,
     0x17075626C69635472616E73706F72746174696F6E4F70656E417070, 0x17374617274417070, 0x173746F70417070,
     0x172657374617274417070, 0x1617070537461747573, 0x16C69737441707073, 0x16275696C64417070,
     0x1696E7374616C6C41707044657073, 0x1656E61626C65417070, 0x164697361626C65417070,
     0x16164644578747261417070, 0x172656D6F76654578747261417070, 0x16C697374457874726141707073,
     0x16465706C6F79546F50726F64, 0x170726F64537461747573, 0x1636C65616E50726F64,
     0x16765744170705065657273, 0x1696E7374616C6C4170704F6E50656572,
     0x1756E696E7374616C6C4170704F6E50656572, 0x173746172744170704F6E50656572,
     0x173746F704170704F6E50656572, 0x1696E7374616C6C4170705365727669636573,
     0x173657450656572436F6E666967, 0x167657450656572537461747573, 0x1726567697374657250656572,
     0x16C6973745065657273, 0x164656C65746550656572, 0x167657450656572496E666F, 0x1657865634F6E50656572,
     0x16578656352657175657374, 0x172656D6F746550756C6C, 0x172656D6F74654264,
     0x172656D6F74654465706C6F794461656D6F6E, 0x1646253616E697479436865636B,
     0x17265676973746572576F726B6572, 0x1757064617465506565724D6163,
     0x1757064617465506565724D6163496E7465726E616C, 0x1736574757057697265477561726450656572,
     0x16C6973745769726547756172645065657273, 0x16765745769726547756172644970, 0x17365747570526470]"
  by (simp add: COMMAND_HANDLERS_def name_code_def)

lemma registry_distinct: "distinct (map name COMMAND_REGISTRY)"
proof -
  have "distinct (map name_code (map name COMMAND_REGISTRY))" unfolding registry_codes by simp
  then show ?thesis by (simp only: distinct_map)
qed

lemma handlers_distinct: "distinct (map fst COMMAND_HANDLERS)"
proof -
  have "distinct (map name_code (map fst COMMAND_HANDLERS))" unfolding handler_codes by simp
  then show ?thesis by (simp only: distinct_map)
qed

lemma code_subset:
  "set (map name_code xs) \<subseteq> set (map name_code ys) \<Longrightarrow> set xs \<subseteq> set ys"
  by (auto dest: name_code_inject)

lemma handlers_registered: "set (map fst COMMAND_HANDLERS) \<subseteq> set (map name COMMAND_REGISTRY)"
  by (rule code_subset) (unfold registry_codes handler_codes, simp)

abbreviation log_filter_commands :: "string list" where
  "log_filter_commands \<equiv> [''addLogFilter'', ''removeLogFilter'', ''listLogFilters'', ''clearLogFilters'']"

lemma log_filters_registered: "set log_filter_commands \<subseteq> set (map name COMMAND_REGISTRY)"
  by (simp add: COMMAND_REGISTRY_def)

lemma log_filters_unhandled: "set log_filter_commands \<inter> set (map fst COMMAND_HANDLERS) = {}"
  by (simp add: COMMAND_HANDLERS_def)

lemma table_sizes: "length COMMAND_REGISTRY = 105" "length COMMAND_HANDLERS = 101"
  by (simp_all add: COMMAND_REGISTRY_def COMMAND_HANDLERS_def)

lemma registry_split: "set (map name COMMAND_REGISTRY) = set (map fst COMMAND_HANDLERS) \<union> set log_filter_commands"
proof (rule card_subset_eq [symmetric])
  show "set (map fst COMMAND_HANDLERS) \<union> set log_filter_commands \<subseteq> set (map name COMMAND_REGISTRY)"
    using handlers_registered log_filters_registered by blast
  have "card (set (map fst COMMAND_HANDLERS)) = 101"
    using distinct_card [OF handlers_distinct] table_sizes(2) by simp
  moreover have "card (set (map name COMMAND_REGISTRY)) = 105"
    using distinct_card [OF registry_distinct] table_sizes(1) by simp
  moreover have "card (set log_filter_commands) = 4" by simp
  ultimately show "card (set (map fst COMMAND_HANDLERS) \<union> set log_filter_commands)
      = card (set (map name COMMAND_REGISTRY))"
    using log_filters_unhandled by (subst card_Un_disjoint) auto
qed simp

lemma find_signature_None: "find_signature n = None \<longleftrightarrow> n \<notin> set (map name COMMAND_REGISTRY)"
  by (auto simp: find_signature_def find_None_iff)

lemma handler_None: "map_of COMMAND_HANDLERS n = None \<longleftrightarrow> n \<notin> set (map fst COMMAND_HANDLERS)"
  by (simp add: map_of_eq_None_iff)

text \<open>
  The two command tables fit together: no command is listed twice in either, every
  command with a handler has a signature, and exactly four commands are announced without having a
  handler, the ones about log filters.
\<close>

theorem command_tables_agree:
  "distinct (map name COMMAND_REGISTRY) \<and> distinct (map fst COMMAND_HANDLERS) \<and>
   {n. find_signature n \<noteq> None} = {n. map_of COMMAND_HANDLERS n \<noteq> None} \<union>
     {''addLogFilter'', ''removeLogFilter'', ''listLogFilters'', ''clearLogFilters''} \<and>
   {n. map_of COMMAND_HANDLERS n \<noteq> None} \<inter>
     {''addLogFilter'', ''removeLogFilter'', ''listLogFilters'', ''clearLogFilters''} = {}"
  using registry_distinct handlers_distinct registry_split log_filters_unhandled
  unfolding find_signature_None handler_None by auto

subsection \<open>One command\<close>

text \<open>A command as it arrives: its name is a string, and its first missing argument, if any.\<close>

definition missing_arg :: "json \<Rightarrow> string \<Rightarrow> string option" where
  "missing_arg command n = (case find_signature n of
      None \<Rightarrow> None | Some sig \<Rightarrow> find (\<lambda>arg. \<not> jcontains command arg) (requiredArgs sig))"

lemma named_command:
  "jat command ''command'' = Inr (JStr n) \<Longrightarrow>
     jcontains command ''command'' \<and> command_string command ''command'' = Inr n"
  by (auto dest: jat_contains simp: command_string_def jget_string_def)

lemma dispatch_named:
  assumes "jat command ''command'' = Inr (JStr n)"
  shows "dispatch dump run command d =
    (if find_signature n = None then (d, Inr (CmdResult 1 (''Unknown command: '' @ n @ NL)))
     else case missing_arg command n of
       Some arg \<Rightarrow> (d, Inr (CmdResult 1 (''Missing required arg: '' @ arg @ NL)))
     | None \<Rightarrow> (case map_of COMMAND_HANDLERS n of
         Some h \<Rightarrow> run h command d
       | None \<Rightarrow> (d, Inr (CmdResult 1 (''Unhandled command: '' @ dump command @ NL)))))"
  using named_command [OF assms]
  by (auto simp: dispatch_def validateCommand_def missing_arg_def split: option.splits)

lemma end_with_newline_cases: "end_with_newline s = [] \<or> last (end_with_newline s) = CHR 0x0A"
  by (auto simp: end_with_newline_def)

lemma end_with_newline_id: "last s = CHR 0x0A \<Longrightarrow> end_with_newline s = s"
  by (simp add: end_with_newline_def)

text \<open>
  C24 (functional). A command whose name is a string is answered as the tables say, in this order: an
  unknown name, the first missing argument, a missing handler, and otherwise what its handler
  answers, an exception of which becomes an error text. In all but the last case the state stays as
  it was. Every answer that is not empty ends in a newline.
\<close>

theorem command_answered:
  assumes "jat command ''command'' = Inr (JStr n)"
  shows "let (d', r) = mainCommand dump what run command d in
    (find_signature n = None \<longrightarrow> d' = d \<and> r = Inr (''Unknown command: '' @ n @ NL, return_code n)) \<and>
    (find_signature n \<noteq> None \<longrightarrow> (case missing_arg command n of
       Some arg \<Rightarrow> d' = d \<and> r = Inr (''Missing required arg: '' @ arg @ NL, return_code n)
     | None \<Rightarrow> (case map_of COMMAND_HANDLERS n of
         None \<Rightarrow> d' = d \<and> r = Inr (''Unhandled command: '' @ dump command @ NL, return_code n)
       | Some h \<Rightarrow> d' = fst (run h command d) \<and> (case snd (run h command d) of
           Inr res \<Rightarrow> r = Inr (end_with_newline (message res), return_code n)
         | Inl e \<Rightarrow> if e = AssertFail then r = Inl e
                    else r = Inr (''error: '' @ what e @ NL, return_code n))))) \<and>
    (\<forall>reply code. r = Inr (reply, code) \<longrightarrow> reply = [] \<or> last reply = CHR 0x0A)"
proof -
  have m: "mainCommand dump what run command d = (fst (dispatch dump run command d),
      try_result (caught what (snd (dispatch dump run command d))) (\<lambda>res.
        Inr (end_with_newline (message res), return_code n)))"
    using named_command [OF assms] by (simp add: mainCommand_def case_prod_unfold Let_def)
  have nl: "\<And>reply code. try_result r (\<lambda>res. Inr (end_with_newline (message res), return_code n)) = Inr (reply, code)
      \<Longrightarrow> reply = [] \<or> last reply = CHR 0x0A" for r :: "cmd_result result"
    using end_with_newline_cases by (auto simp: try_result_Inr_iff)
  note simps = m dispatch_named [OF assms] caught_def end_with_newline_id Let_def
  show ?thesis
  proof (cases "find_signature n")
    case None
    then show ?thesis by (simp add: simps)
  next
    case sig: (Some sig)
    show ?thesis
    proof (cases "missing_arg command n")
      case None
      show ?thesis
      proof (cases "map_of COMMAND_HANDLERS n")
        case None
        then show ?thesis using sig \<open>missing_arg command n = None\<close> by (simp add: simps)
      next
        case (Some h)
        then show ?thesis using sig \<open>missing_arg command n = None\<close> nl [of "caught what (snd (run h command d))"]
          by (cases "snd (run h command d)") (simp_all add: simps)
      qed
    next
      case (Some arg)
      then show ?thesis using sig by (simp add: simps)
    qed
  qed
qed

theorem command_answered_witness:
  "snd (mainCommand (\<lambda>_. []) (\<lambda>_. []) (\<lambda>h c d. (d, Inr (CmdResult 0 ''pong'')))
     (JObj [(''command'', JStr ''noSuchCommand'')]) ()) = Inr (''Unknown command: noSuchCommand'' @ NL, 1)"
proof -
  let ?c = "JObj [(''command'', JStr ''noSuchCommand'')]"
  have c: "jat ?c ''command'' = Inr (JStr ''noSuchCommand'')" by (simp add: jat_def)
  have "name_code ''noSuchCommand'' \<notin> set (map name_code (map name COMMAND_REGISTRY))"
    unfolding registry_codes by (simp add: name_code_def)
  then have "find_signature ''noSuchCommand'' = None" by (force simp: find_signature_None)
  then show ?thesis
    using command_answered [OF c, of "\<lambda>_. []" "\<lambda>_. []" "\<lambda>h c d. (d, Inr (CmdResult 0 ''pong''))" "()"]
    by (simp add: Let_def case_prod_unfold return_code_def keep_open_commands_def slow_commands_def)
qed

text \<open>
  A command whose \<open>command\<close> member is not a string is not answered at all: the name is
  read before the \<open>try\<close> block, so the type error leaves \<open>mainCommand\<close>, whatever the handlers are;
  these and failed assertions are the only exceptions that do.
\<close>

theorem only_misnamed_commands_escape:
  "(snd (mainCommand dump what run command d) = Inl e \<and> e \<noteq> AssertFail) \<longleftrightarrow>
     e = TypeError 302 \<and> (\<exists>v. jat command ''command'' = Inr v \<and> \<not> is_string v)"
proof (cases "jat command ''command''")
  case (Inl err)
  then have "\<not> jcontains command ''command''"
    by (auto simp: jat_def jcontains_def split: json.splits option.splits)
  then have "mainCommand dump what run command d = (d, Inr (''Missing command key'' @ NL, return_code []))"
    by (simp add: mainCommand_def dispatch_def validateCommand_def caught_def end_with_newline_def)
  then show ?thesis using Inl by simp
next
  case (Inr v)
  then have c: "jcontains command ''command''" by (rule jat_contains)
  show ?thesis
  proof (cases "is_string v")
    case False
    then have "command_string command ''command'' = Inl (TypeError 302)"
      using Inr by (cases v) (simp_all add: command_string_def jget_string_def is_string_def)
    then show ?thesis using c Inr False by (auto simp: mainCommand_def)
  next
    case True
    then obtain n where v: "v = JStr n" by (cases v) (simp_all add: is_string_def)
    then have "snd (mainCommand dump what run command d) = try_result (caught what (snd (dispatch dump run command d)))
        (\<lambda>res. Inr (end_with_newline (message res), return_code n))"
      using named_command Inr by (simp add: mainCommand_def case_prod_unfold Let_def)
    then show ?thesis using Inr v
      by (auto simp: caught_def is_string_def try_result_def split: sum.splits if_splits)
  qed
qed

end
