(* ===== verification/Std_Sort.thy ===== *)
theory Std_Sort
  imports Prelude "HOL-Library.Multiset"
begin

text \<open>
  \<open>std::sort\<close> with a comparison that can throw. The standard does not say in which order an
  implementation compares, so the algorithm is a parameter: for each length a tree of comparisons of
  positions, which ends with the positions in their new order. \<open>valid_sort\<close> is what the standard
  promises. \<open>insertion\<close> is one valid algorithm, an insertion sort.

  The theorems say what follows for every valid algorithm and the comparison of integer keys that
  may fail to compute: it raises exactly if there are two elements and some key fails.
\<close>

datatype cmp_run = Sorted "nat list" | Less nat nat "bool \<Rightarrow> cmp_run"

primrec run_sort :: "(nat \<Rightarrow> nat \<Rightarrow> bool result) \<Rightarrow> cmp_run \<Rightarrow> nat list result" where
  "run_sort lt (Sorted js) = Inr js"
| "run_sort lt (Less i j k) = (case lt i j of Inl e \<Rightarrow> Inl e | Inr b \<Rightarrow> run_sort lt (k b))"

definition std_sort :: "(nat \<Rightarrow> cmp_run) \<Rightarrow> ('a \<Rightarrow> 'a \<Rightarrow> bool result) \<Rightarrow> 'a list \<Rightarrow> 'a list result" where
  "std_sort algo lt xs =
     try_result (run_sort (\<lambda>i j. lt (xs ! i) (xs ! j)) (algo (length xs))) (\<lambda>js. Inr (map ((!) xs) js))"

text \<open>Comparing two elements by keys whose computation may raise.\<close>

definition by_key :: "('a \<Rightarrow> int result) \<Rightarrow> 'a \<Rightarrow> 'a \<Rightarrow> bool result" where
  "by_key f a b = try_result (f a) (\<lambda>x. try_result (f b) (\<lambda>y. Inr (x < y)))"

primrec within :: "nat \<Rightarrow> cmp_run \<Rightarrow> bool" where
  "within n (Sorted js) \<longleftrightarrow> True"
| "within n (Less i j k) \<longleftrightarrow> i < n \<and> j < n \<and> (\<forall>b. within n (k b))"

definition valid_sort :: "(nat \<Rightarrow> cmp_run) \<Rightarrow> bool" where
  "valid_sort algo \<longleftrightarrow>
     (\<forall>n. within n (algo n)) \<and> (\<forall>n<2. \<exists>js. algo n = Sorted js) \<and>
     (\<forall>n (key :: nat \<Rightarrow> int). \<exists>js. run_sort (\<lambda>i j. Inr (key i < key j)) (algo n) = Inr js \<and>
        mset js = mset [0..<n] \<and> sorted (map key js))"

lemma valid_sortD:
  assumes "valid_sort algo"
  obtains js where "run_sort (\<lambda>i j. Inr ((key i :: int) < key j)) (algo n) = Inr js"
    "mset js = mset [0..<n]" "sorted (map key js)"
  using assms unfolding valid_sort_def by blast

subsection \<open>When a sort raises\<close>

lemma by_key_Inr_iff: "by_key f a b = Inr r \<longleftrightarrow> (\<exists>x y. f a = Inr x \<and> f b = Inr y \<and> r = (x < y))"
  by (auto simp: by_key_def try_result_def split: sum.splits)

text \<open>A run that returns has only compared keys that compute, so it takes the same way under every
  completion of the keys.\<close>

lemma run_completed:
  assumes "run_sort (by_key f) t = Inr js" "\<And>i x. f i = Inr x \<Longrightarrow> g i = x"
  shows "run_sort (\<lambda>i j. Inr (g i < g j)) t = Inr js"
  using assms(1)
proof (induction t)
  case (Less i j k)
  from Less.prems obtain b where b: "by_key f i j = Inr b" "run_sort (by_key f) (k b) = Inr js"
    by (cases "by_key f i j") auto
  then have "b = (g i < g j)" using assms(2) by (auto simp: by_key_Inr_iff)
  with b Less.IH [OF rangeI b(2)] show ?case by auto
qed simp

lemma run_total:
  assumes "within n t" "\<And>i. i < n \<Longrightarrow> f i = Inr (g i)"
  shows "run_sort (by_key f) t = run_sort (\<lambda>i j. Inr (g i < g j)) t"
  using assms(1)
proof (induction t)
  case (Less i j k)
  then have "by_key f i j = Inr (g i < g j)" using assms(2) by (simp add: by_key_def)
  with Less show ?case by (auto split: sum.split)
qed simp

text \<open>An element that is never compared could belong at either end.\<close>

lemma uncompared_raises:
  assumes "valid_sort algo" "2 \<le> n" "p < n" "isl (f p)"
  shows "isl (run_sort (by_key f) (algo n))"
proof (rule ccontr)
  assume "\<not> isl (run_sort (by_key f) (algo n))"
  then obtain js where js: "run_sort (by_key f) (algo n) = Inr js"
    by (cases "run_sort (by_key f) (algo n)") auto
  define q where "q = (if p = 0 then 1 else 0 :: nat)"
  have q: "q < n" "q \<noteq> p" using assms(2) by (auto simp: q_def)
  define g where "g v i = (if i = p then v else projr (f i))" for v i
  have run: "run_sort (\<lambda>i j. Inr (g v i < g v j)) (algo n) = Inr js" for v
    using assms(4) by (intro run_completed [OF js]) (auto simp: g_def)
  have perm: "mset js = mset [0..<n]" and sorted: "sorted (map (g v) js)" for v
    using valid_sortD [OF assms(1), of "g v" n] run [of v] by (metis Inr_inject)+
  have "set js = {..<n}" using perm by (metis atLeast_upt set_mset_mset)
  then obtain a b where ab: "a < length js" "js ! a = p" "b < length js" "js ! b = q"
    using q assms(3) by (metis in_set_conv_nth lessThan_iff)
  have order: "i < j \<Longrightarrow> j < length js \<Longrightarrow> g v (js ! i) \<le> g v (js ! j)" for i j v
    using sorted_nth_mono [OF sorted [of v], of i j] by simp
  have "a \<noteq> b" using ab q by auto
  then consider "a < b" | "b < a" by linarith
  then show False
  proof cases
    case 1
    from order [OF this ab(3), of "projr (f q) + 1"] ab q show False by (simp add: g_def)
  next
    case 2
    from order [OF this ab(1), of "projr (f q) - 1"] ab q show False by (simp add: g_def)
  qed
qed

lemma std_sort_by_key:
  "std_sort algo (by_key f) xs
     = try_result (run_sort (by_key (\<lambda>i. f (xs ! i))) (algo (length xs))) (\<lambda>js. Inr (map ((!) xs) js))"
proof -
  have "(\<lambda>i j. by_key f (xs ! i) (xs ! j)) = by_key (\<lambda>i. f (xs ! i))" by (simp add: fun_eq_iff by_key_def)
  then show ?thesis by (simp add: std_sort_def)
qed

lemma std_sort_fails_iff:
  assumes "valid_sort algo"
  shows "isl (std_sort algo (by_key f) xs) \<longleftrightarrow> 2 \<le> length xs \<and> (\<exists>x \<in> set xs. isl (f x))"
proof
  assume fails: "isl (std_sort algo (by_key f) xs)"
  have two: "2 \<le> length xs"
  proof (rule ccontr)
    assume "\<not> 2 \<le> length xs"
    then have "length xs < 2" by simp
    then obtain js where "algo (length xs) = Sorted js" using assms unfolding valid_sort_def by blast
    with fails show False by (simp add: std_sort_by_key)
  qed
  moreover have "\<exists>x \<in> set xs. isl (f x)"
  proof (rule ccontr)
    assume none: "\<not> (\<exists>x \<in> set xs. isl (f x))"
    have ok: "f (xs ! i) = Inr (projr (f (xs ! i)))" if "i < length xs" for i
      using none that by (cases "f (xs ! i)") (force dest: nth_mem)+
    obtain js where "run_sort (\<lambda>i j. Inr (projr (f (xs ! i)) < projr (f (xs ! j)))) (algo (length xs)) = Inr js"
      using valid_sortD [OF assms] .
    then have "run_sort (by_key (\<lambda>i. f (xs ! i))) (algo (length xs)) = Inr js"
      using run_total [of "length xs" "algo (length xs)" "\<lambda>i. f (xs ! i)", OF _ ok] assms
      by (simp add: valid_sort_def)
    with fails show False by (simp add: std_sort_by_key)
  qed
  ultimately show "2 \<le> length xs \<and> (\<exists>x \<in> set xs. isl (f x))" ..
next
  assume "2 \<le> length xs \<and> (\<exists>x \<in> set xs. isl (f x))"
  then obtain p where "2 \<le> length xs" "p < length xs" "isl (f (xs ! p))" by (auto simp: in_set_conv_nth)
  from uncompared_raises [OF assms this(1,2), of "\<lambda>i. f (xs ! i)", OF this(3)]
  show "isl (std_sort algo (by_key f) xs)"
    by (cases "run_sort (by_key (\<lambda>i. f (xs ! i))) (algo (length xs))") (simp_all add: std_sort_by_key)
qed

lemma std_sort_sorts:
  assumes "valid_sort algo" "std_sort algo (by_key f) xs = Inr ys"
  shows "mset ys = mset xs \<and> sorted (map (\<lambda>x. projr (f x)) ys)"
proof -
  let ?g = "\<lambda>i. projr (f (xs ! i))"
  obtain js where js: "run_sort (by_key (\<lambda>i. f (xs ! i))) (algo (length xs)) = Inr js" "ys = map ((!) xs) js"
    using assms(2) by (auto simp: std_sort_by_key try_result_Inr_iff)
  have "run_sort (\<lambda>i j. Inr (?g i < ?g j)) (algo (length xs)) = Inr js"
    by (rule run_completed [OF js(1)]) simp
  then have perm: "mset js = mset [0..<length xs]" and sorted: "sorted (map ?g js)"
    using valid_sortD [OF assms(1), of ?g "length xs"] by (metis Inr_inject)+
  have "mset ys = image_mset ((!) xs) (mset [0..<length xs])" using js(2) perm by simp
  also have "\<dots> = mset (map ((!) xs) [0..<length xs])" by (rule mset_map [symmetric])
  finally have "mset ys = mset xs" by (simp only: map_nth)
  moreover have "map (\<lambda>x. projr (f x)) ys = map ?g js" using js(2) by simp
  ultimately show ?thesis using sorted by simp
qed

subsection \<open>Insertion sort\<close>

text \<open>\<open>insert_back x ys zs k\<close> moves \<open>x\<close> from the end of the sorted prefix towards its place: \<open>ys\<close> is
  the part not yet compared, last element first, and \<open>zs\<close> the part known to be greater.\<close>

primrec insert_back :: "nat \<Rightarrow> nat list \<Rightarrow> nat list \<Rightarrow> (nat list \<Rightarrow> cmp_run) \<Rightarrow> cmp_run" where
  "insert_back x [] zs k = k (x # zs)"
| "insert_back x (y # ys) zs k =
     Less x y (\<lambda>b. if b then insert_back x ys (y # zs) k else k (rev (y # ys) @ x # zs))"

primrec insert_all :: "nat list \<Rightarrow> nat list \<Rightarrow> cmp_run" where
  "insert_all [] sorted_part = Sorted sorted_part"
| "insert_all (x # xs) sorted_part = insert_back x (rev sorted_part) [] (insert_all xs)"

definition insertion :: "nat \<Rightarrow> cmp_run" where
  "insertion n = insert_all [0..<n] []"

lemma run_insert_back:
  assumes "sorted (map key (rev ys @ zs))" "\<forall>z \<in> set zs. (key x :: int) \<le> key z"
  shows "\<exists>js. run_sort (\<lambda>i j. Inr (key i < key j)) (insert_back x ys zs k)
      = run_sort (\<lambda>i j. Inr (key i < key j)) (k js) \<and>
    mset js = mset (x # ys @ zs) \<and> sorted (map key js)"
  using assms
proof (induction ys arbitrary: zs)
  case Nil
  then show ?case by (intro exI [of _ "x # zs"]) simp
next
  case (Cons y ys)
  show ?case
  proof (cases "key x < key y")
    case True
    with Cons.IH [of "y # zs"] Cons.prems show ?thesis by auto
  next
    case False
    with Cons.prems have "sorted (map key (rev (y # ys) @ x # zs))" by (auto simp: sorted_append)
    with False show ?thesis by (intro exI [of _ "rev (y # ys) @ x # zs"]) simp
  qed
qed

lemma run_insert_all:
  assumes "sorted (map key js)"
  shows "\<exists>r. run_sort (\<lambda>i j. Inr ((key i :: int) < key j)) (insert_all xs js) = Inr r \<and>
    mset r = mset (js @ xs) \<and> sorted (map key r)"
  using assms
proof (induction xs arbitrary: js)
  case (Cons x xs)
  from run_insert_back [of key "rev js" "[]" x "insert_all xs"] Cons.prems obtain r where
    r: "run_sort (\<lambda>i j. Inr (key i < key j)) (insert_all (x # xs) js)
        = run_sort (\<lambda>i j. Inr (key i < key j)) (insert_all xs r)"
      "mset r = mset (x # js)" "sorted (map key r)" by auto
  from Cons.IH [OF r(3)] show ?case unfolding r(1) using r(2) by auto
qed simp

lemma within_insert_back:
  assumes "x < n" "set ys \<subseteq> {..<n}" "set zs \<subseteq> {..<n}" "\<And>js. set js \<subseteq> {..<n} \<Longrightarrow> within n (k js)"
  shows "within n (insert_back x ys zs k)"
  using assms(2,3)
proof (induction ys arbitrary: zs)
  case Nil
  then show ?case using assms(1) by (simp add: assms(4))
next
  case (Cons y ys)
  then show ?case using assms(1) by (simp add: assms(4))
qed

lemma within_insert_all:
  "set xs \<subseteq> {..<n} \<Longrightarrow> set js \<subseteq> {..<n} \<Longrightarrow> within n (insert_all xs js)"
  by (induction xs arbitrary: js) (simp_all add: within_insert_back)

lemma insertion_valid: "valid_sort insertion"
  unfolding valid_sort_def
proof (intro conjI allI impI)
  show "within n (insertion n)" for n
  proof -
    have "set [0..<n] \<subseteq> {..<n}" by auto
    from within_insert_all [OF this, of "[]"] show ?thesis by (simp add: insertion_def)
  qed
  show "\<exists>js. insertion n = Sorted js" if "n < 2" for n
    using that by (auto simp: insertion_def less_2_cases_iff upt_rec)
  show "\<exists>js. run_sort (\<lambda>i j. Inr (key i < key j)) (insertion n) = Inr js \<and>
      mset js = mset [0..<n] \<and> sorted (map key js)" for n and key :: "nat \<Rightarrow> int"
    using run_insert_all [of key "[]" "[0..<n]"] by (simp add: insertion_def)
qed

end
