(* ===== verification/Daemon_State.thy ===== *)
theory Daemon_State
  imports Settings_Commands Std_Sort
begin

text \<open>
  The state of the daemon process that the application, peer and socket components share, and the
  operating system as they see it.

  A call that leaves the process (a shell command, a socket operation, the clock) appends itself to
  \<open>dm_calls\<close>; what it answers is a function of the calls made before it, given by the record
  \<open>os\<close>. Every behaviour of a deterministic environment is such a function, and the order of the calls
  a handler makes can be stated. Messages for the log file are not calls.
\<close>

subsection \<open>The environment\<close>

datatype os_call =
    System string
  | Popen string
  | SleepMs int
  | Access string
  | PutFile string string
  | Now
  | Hostname
  | Connect string int
  | WriteFd int string
  | ReadFd int int
  | PollFd int int
  | Opened int
  | CloseFd int

text \<open>\<open>socket\<close>, \<open>inet_pton\<close> and \<open>connect\<close> in a row, with the \<open>close\<close> of a socket that did not connect;
  one \<open>read\<close> or \<open>recv\<close>. The argument of the last two replies is \<open>errno\<close> as the code then finds it:
  \<open>None\<close> for \<open>EAGAIN\<close>, else the text of \<open>strerror\<close>.\<close>

datatype connect_reply = NoSocket | BadAddress | Refused | Connected int

datatype read_reply = ReadData string | ReadEof "string option" | ReadFailed "string option"

record os =
  on_system :: "os_call list \<Rightarrow> string \<Rightarrow> int"
  on_popen :: "os_call list \<Rightarrow> string \<Rightarrow> string"
  on_access :: "os_call list \<Rightarrow> string \<Rightarrow> bool"
  on_put :: "os_call list \<Rightarrow> string \<Rightarrow> bool"
  on_now :: "os_call list \<Rightarrow> int"
  on_hostname :: "os_call list \<Rightarrow> string option"
  on_connect :: "os_call list \<Rightarrow> string \<Rightarrow> connect_reply"
  on_write :: "os_call list \<Rightarrow> int \<Rightarrow> bool"
  on_read :: "os_call list \<Rightarrow> int \<Rightarrow> read_reply"
  on_poll :: "os_call list \<Rightarrow> int \<Rightarrow> int"
  on_age :: "os_call list \<Rightarrow> string \<Rightarrow> int option"
  on_wg_ip :: string
  on_mac :: string
  on_parse :: "string \<Rightarrow> json option"
  on_dump :: "json \<Rightarrow> string"
  on_dump2 :: "json \<Rightarrow> string"
  on_what :: "exn \<Rightarrow> string"
  on_version :: int
  on_sort :: "nat \<Rightarrow> cmp_run"

subsection \<open>The state\<close>

record PeerInfo =
  pi_peer_id :: string
  pi_ip_address :: string
  pi_mac_address :: string
  pi_hostname :: string
  pi_is_online :: bool
  pi_socket_fd :: int

record PeerManager =
  m_role :: string
  m_peerId :: string
  m_leaderAddress :: string
  m_leaderSocket :: int
  m_connectedToLeader :: bool
  m_peers :: "(string, PeerInfo) omap"
  m_reconnectRunning :: bool

record daemon =
  dm_db :: db
  dm_terminals :: "int list"
  dm_dangling :: bool
  dm_peers :: PeerManager
  dm_appStatus :: "(string, json) omap"
  dm_clientSocket :: int
  dm_shouldLog :: "32 word"
  dm_logSubscribers :: "int list"
  dm_running :: bool
  dm_calls :: "os_call list"

definition initial_peers :: PeerManager where
  "initial_peers = \<lparr>m_role = [], m_peerId = [], m_leaderAddress = [], m_leaderSocket = - 1,
     m_connectedToLeader = False, m_peers = [], m_reconnectRunning = False\<rparr>"

subsection \<open>Calls\<close>

definition os_do :: "os_call \<Rightarrow> (os_call list \<Rightarrow> 'a) \<Rightarrow> daemon \<Rightarrow> daemon \<times> 'a" where
  "os_do c answer s = (s\<lparr>dm_calls := dm_calls s @ [c]\<rparr>, answer (dm_calls s))"

definition std_system :: "os \<Rightarrow> string \<Rightarrow> daemon \<Rightarrow> daemon \<times> int" where
  "std_system env cmd = os_do (System cmd) (\<lambda>h. on_system env h cmd)"

text \<open>\<open>executeCommand\<close> drops one trailing newline of what the command printed.\<close>

definition executeCommand :: "os \<Rightarrow> string \<Rightarrow> daemon \<Rightarrow> daemon \<times> string" where
  "executeCommand env cmd = os_do (Popen cmd) (\<lambda>h. chomp (on_popen env h cmd))"

definition file_access :: "os \<Rightarrow> string \<Rightarrow> daemon \<Rightarrow> daemon \<times> bool" where
  "file_access env path = os_do (Access path) (\<lambda>h. on_access env h path)"

definition sleep_ms :: "int \<Rightarrow> daemon \<Rightarrow> daemon" where
  "sleep_ms n s = fst (os_do (SleepMs n) (\<lambda>h. ()) s)"

definition close_fd :: "int \<Rightarrow> daemon \<Rightarrow> daemon" where
  "close_fd fd s = fst (os_do (CloseFd fd) (\<lambda>h. ()) s)"

definition sql_now :: "os \<Rightarrow> daemon \<Rightarrow> daemon \<times> int" where
  "sql_now env = os_do Now (on_now env)"

definition gethostname :: "os \<Rightarrow> daemon \<Rightarrow> daemon \<times> string option" where
  "gethostname env = os_do Hostname (on_hostname env)"

text \<open>A note that a descriptor is in use from here on.\<close>

definition opened :: "int \<Rightarrow> daemon \<Rightarrow> daemon" where
  "opened fd s = fst (os_do (Opened fd) (\<lambda>h. ()) s)"

definition tcp_connect :: "os \<Rightarrow> string \<Rightarrow> int \<Rightarrow> daemon \<Rightarrow> daemon \<times> connect_reply" where
  "tcp_connect env ip port s =
     (let (s1, r) = os_do (Connect ip port) (\<lambda>h. on_connect env h ip) s in
      case r of Connected fd \<Rightarrow> (opened fd s1, r) | _ \<Rightarrow> (s1, r))"

definition write_fd :: "os \<Rightarrow> int \<Rightarrow> string \<Rightarrow> daemon \<Rightarrow> daemon \<times> bool" where
  "write_fd env fd text = os_do (WriteFd fd text) (\<lambda>h. on_write env h fd)"

definition read_fd :: "os \<Rightarrow> int \<Rightarrow> int \<Rightarrow> daemon \<Rightarrow> daemon \<times> read_reply" where
  "read_fd env fd n = os_do (ReadFd fd n) (\<lambda>h. on_read env h fd)"

definition poll_fd :: "os \<Rightarrow> int \<Rightarrow> int \<Rightarrow> daemon \<Rightarrow> daemon \<times> int" where
  "poll_fd env fd timeoutMs = os_do (PollFd fd timeoutMs) (\<lambda>h. on_poll env h fd)"

definition put_file :: "os \<Rightarrow> string \<Rightarrow> string \<Rightarrow> daemon \<Rightarrow> daemon \<times> bool" where
  "put_file env path text = os_do (PutFile path text) (\<lambda>h. on_put env h path)"

lemmas os_call_defs =
  os_do_def std_system_def executeCommand_def file_access_def sleep_ms_def close_fd_def sql_now_def
  gethostname_def opened_def tcp_connect_def write_fd_def read_fd_def poll_fd_def put_file_def

text \<open>The calls leave everything else as it is: \<open>grows s s'\<close> says that only calls were added.\<close>

definition grows :: "daemon \<Rightarrow> daemon \<Rightarrow> bool" where
  "grows s s' \<longleftrightarrow> (\<exists>cs. s' = s\<lparr>dm_calls := dm_calls s @ cs\<rparr>)"

lemma os_do_simp: "os_do c answer s = (s\<lparr>dm_calls := dm_calls s @ [c]\<rparr>, answer (dm_calls s))"
  by (simp add: os_do_def)

lemma grows_refl [simp, intro]: "grows s s"
  by (auto simp: grows_def intro: exI [of _ "[]"])

lemma grows_calls [simp, intro]: "grows s (s\<lparr>dm_calls := dm_calls s @ cs\<rparr>)"
  by (auto simp: grows_def)

lemma grows_trans: "grows s s1 \<Longrightarrow> grows s1 s2 \<Longrightarrow> grows s s2"
  by (auto simp: grows_def)

lemma growsD:
  assumes "grows s s'"
  shows "dm_db s' = dm_db s" "dm_peers s' = dm_peers s" "dm_appStatus s' = dm_appStatus s"
    "dm_terminals s' = dm_terminals s" "dm_dangling s' = dm_dangling s" "dm_clientSocket s' = dm_clientSocket s"
    "dm_running s' = dm_running s" "dm_shouldLog s' = dm_shouldLog s"
  using assms by (auto simp: grows_def)

lemma grows_os [simp]:
  "grows s (fst (os_do c answer s))"
  "grows s (fst (std_system env cmd s))"
  "grows s (fst (executeCommand env cmd s))"
  "grows s (fst (file_access env path s))"
  "grows s (sleep_ms n s)" "grows s (close_fd fd s)"
  "grows s (fst (sql_now env s))"
  "grows s (fst (gethostname env s))"
  "grows s (fst (tcp_connect env ip port s))"
  "grows s (fst (write_fd env fd text s))"
  "grows s (fst (read_fd env fd k s))"
  "grows s (fst (poll_fd env fd i s))"
  "grows s (fst (put_file env path text s))"
  by (auto simp: os_call_defs grows_def split: connect_reply.split)

lemma grows_bind:
  assumes "grows s (fst p)" "\<And>s1 x. grows s1 (fst (g s1 x))"
  shows "grows s (fst (case p of (s1, x) \<Rightarrow> g s1 x))"
  using grows_trans [OF assms(1)] assms(2) by (cases p) simp

lemma grows_if: "grows s (fst a) \<Longrightarrow> grows s (fst b) \<Longrightarrow> grows s (fst (if c then a else b))"
  by simp

lemma grows_sum:
  "(\<And>x. grows s (fst (f x))) \<Longrightarrow> (\<And>y. grows s (fst (g y))) \<Longrightarrow>
     grows s (fst (case r of Inl x \<Rightarrow> f x | Inr y \<Rightarrow> g y))"
  by (cases r) simp_all

lemma grows_option:
  "grows s (fst a) \<Longrightarrow> (\<And>y. grows s (fst (g y))) \<Longrightarrow> grows s (fst (case r of None \<Rightarrow> a | Some y \<Rightarrow> g y))"
  by (cases r) simp_all

lemmas grows_rules = grows_bind grows_if grows_sum grows_option

text \<open>A descriptor whose last note is that it was closed.\<close>

definition closed_fd :: "int \<Rightarrow> os_call list \<Rightarrow> bool" where
  "closed_fd fd h \<longleftrightarrow> find (\<lambda>c. c = CloseFd fd \<or> c = Opened fd) (rev h) = Some (CloseFd fd)"

text \<open>A C string read from a buffer ends at its first NUL byte.\<close>

definition c_string :: "string \<Rightarrow> string" where
  "c_string = takeWhile (\<lambda>c. c \<noteq> CHR 0x00)"

subsection \<open>Handlers on the shared state\<close>

type_synonym handler = "json \<Rightarrow> daemon \<Rightarrow> daemon \<times> cmd_result result"

definition reply :: "int \<Rightarrow> string \<Rightarrow> daemon \<Rightarrow> daemon \<times> cmd_result result" where
  "reply st msg s = (s, Inr (CmdResult st msg))"

text \<open>Bind the value of an expression that may raise.\<close>

definition with_result ::
  "daemon \<Rightarrow> 'a result \<Rightarrow> ('a \<Rightarrow> daemon \<times> 'b result) \<Rightarrow> daemon \<times> 'b result" where
  "with_result s r f = (case r of Inl e \<Rightarrow> (s, Inl e) | Inr x \<Rightarrow> f x)"

lemma with_result_simps [simp]:
  "with_result s (Inl e) f = (s, Inl e)"
  "with_result s (Inr x) f = f x"
  by (simp_all add: with_result_def)

text \<open>\<open>command.contains(key) ? command[key].get<string>() : dflt\<close>.\<close>

definition opt_string :: "json \<Rightarrow> string \<Rightarrow> string \<Rightarrow> string result" where
  "opt_string command key dflt =
     (if jcontains command key then command_string command key else Inr dflt)"

text \<open>Text helpers of the handlers: \<open>find(p) != npos\<close> is \<open>contains_str\<close>;
  \<open>s.erase(s.find_last_not_of(" \n\r\t") + 1)\<close>; the lines \<open>getline\<close> returns.\<close>

definition rtrim :: "string \<Rightarrow> string" where
  "rtrim s = rev (dropWhile (\<lambda>c. c \<in> {CHR '' '', CHR 0x0A, CHR 0x0D, CHR 0x09}) (rev s))"

fun replace_first :: "string \<Rightarrow> string \<Rightarrow> string \<Rightarrow> string" where
  "replace_first p r [] = (if p = [] then r else [])"
| "replace_first p r (c # cs) =
     (if starts_with p (c # cs) then r @ drop (length p) (c # cs) else c # replace_first p r cs)"

fun getlines :: "string \<Rightarrow> string list" where
  "getlines [] = []"
| "getlines (c # cs) =
     (if c = CHR 0x0A then [] # getlines cs
      else case getlines cs of
        [] \<Rightarrow> [[c]]
      | l # ls \<Rightarrow> (c # l) # ls)"

end
