(* ===== verification/App_Manager.thy ===== *)
theory App_Manager
  imports Daemon_State
begin

text \<open>
  The namespace \<open>AppManager\<close> of \<open>daemon/src/cmdApp.cpp\<close>: the built-in applications and those of the
  table \<open>extra_apps\<close>, service names, \<open>systemctl\<close> calls, ports, builds and dependency installation, and
  the status cache the leader keeps for its workers.
\<close>

record AppConfig =
  appId :: string
  displayName :: string
  hasServerComponent :: bool
  serverServiceTemplate :: string
  clientServiceTemplate :: string
  portKeyClient :: string
  portKeyServer :: string
  devPath :: string
  prodPath :: string
  serverBuildSubdir :: string
  clientSubdir :: string

definition APP_CONFIGS :: "AppConfig list" where
  "APP_CONFIGS =
    [\<lparr>appId = ''cad'', displayName = ''CAD Application'', hasServerComponent = True,
      serverServiceTemplate = [], clientServiceTemplate = ''cad-{mode}'', portKeyClient = ''cad'',
      portKeyServer = [], devPath = ''/opt/dev/cad'', prodPath = ''/opt/prod/cad'',
      serverBuildSubdir = ''.'', clientSubdir = ''web''\<rparr>,
     \<lparr>appId = ''pt'', displayName = ''Public Transportation'', hasServerComponent = False,
      serverServiceTemplate = [], clientServiceTemplate = ''pt-{mode}'', portKeyClient = ''pt'',
      portKeyServer = [], devPath = ''/opt/dev/publicTransportation'',
      prodPath = ''/opt/prod/publicTransportation'', serverBuildSubdir = [],
      clientSubdir = ''frontend/public-transportation''\<rparr>,
     \<lparr>appId = ''dashboard'', displayName = ''Dashboard'', hasServerComponent = True,
      serverServiceTemplate = ''dashboard-bridge'', clientServiceTemplate = ''dashboard-{mode}'',
      portKeyClient = ''dashboard'', portKeyServer = ''dashboard-bridge'',
      devPath = ''/opt/dev/dashboard'', prodPath = ''/opt/prod/dashboard'',
      serverBuildSubdir = [], clientSubdir = []\<rparr>]"

subsection \<open>Services and ports\<close>

definition systemctl :: "string \<Rightarrow> string \<Rightarrow> string" where
  "systemctl verb svc = ''/usr/bin/systemctl '' @ verb @ '' '' @ svc @ '' 2>/dev/null''"

definition startService :: "os \<Rightarrow> string \<Rightarrow> daemon \<Rightarrow> daemon \<times> bool" where
  "startService env svc s = (let (s1, rc) = std_system env (systemctl ''start'' svc) s in (s1, rc = 0))"

definition stopService :: "os \<Rightarrow> string \<Rightarrow> daemon \<Rightarrow> daemon \<times> bool" where
  "stopService env svc s =
     (let (s1, _) = std_system env (systemctl ''stop'' svc) s;
          (s2, _) = std_system env (systemctl ''reset-failed'' svc) s1
      in (s2, True))"

definition restartService :: "os \<Rightarrow> string \<Rightarrow> daemon \<Rightarrow> daemon \<times> bool" where
  "restartService env svc s = (let (s1, rc) = std_system env (systemctl ''restart'' svc) s in (s1, rc = 0))"

definition enableService :: "os \<Rightarrow> string \<Rightarrow> daemon \<Rightarrow> daemon \<times> bool" where
  "enableService env svc s = (let (s1, rc) = std_system env (systemctl ''enable'' svc) s in (s1, rc = 0))"

definition disableService :: "os \<Rightarrow> string \<Rightarrow> daemon \<Rightarrow> daemon \<times> bool" where
  "disableService env svc s = (let (s1, rc) = std_system env (systemctl ''disable'' svc) s in (s1, rc = 0))"

definition isServiceActive :: "os \<Rightarrow> string \<Rightarrow> daemon \<Rightarrow> daemon \<times> bool" where
  "isServiceActive env svc s =
     (let (s1, rc) = std_system env (systemctl ''is-active --quiet'' svc) s in (s1, rc = 0))"

definition isServiceEnabled :: "os \<Rightarrow> string \<Rightarrow> daemon \<Rightarrow> daemon \<times> bool" where
  "isServiceEnabled env svc s =
     (let (s1, rc) = std_system env (systemctl ''is-enabled --quiet'' svc) s in (s1, rc = 0))"

definition getServiceStatus :: "os \<Rightarrow> string \<Rightarrow> daemon \<Rightarrow> daemon \<times> string" where
  "getServiceStatus env svc =
     executeCommand env (''/usr/bin/systemctl status '' @ svc @ '' --no-pager -l 2>/dev/null | head -10'')"

definition isPortListening :: "os \<Rightarrow> int \<Rightarrow> daemon \<Rightarrow> daemon \<times> bool" where
  "isPortListening env port s =
     (let (s1, t) = executeCommand env (''/usr/bin/ss -tlnH sport = :'' @ to_string port) s in (s1, t \<noteq> []))"

definition killProcessOnPort :: "os \<Rightarrow> int \<Rightarrow> daemon \<Rightarrow> daemon" where
  "killProcessOnPort env port s =
     fst (std_system env (''/usr/bin/fuser -k -9 '' @ to_string port @ ''/tcp 2>/dev/null'') s)"

text \<open>The loop of \<open>waitForPortRelease\<close>; its second component is the final \<open>elapsedMs\<close>.\<close>

function wait_port_loop :: "os \<Rightarrow> int \<Rightarrow> int \<Rightarrow> int \<Rightarrow> daemon \<Rightarrow> daemon \<times> int" where
  "wait_port_loop env port timeoutMs elapsedMs s =
     (let (s1, listening) = isPortListening env port s in
      if listening \<and> elapsedMs < timeoutMs then
        let s2 = (if elapsedMs > 2500 then killProcessOnPort env port s1 else s1)
        in wait_port_loop env port timeoutMs (elapsedMs + 200) (sleep_ms 200 s2)
      else (s1, elapsedMs))"
  by pat_completeness auto
termination by (relation "measure (\<lambda>(env, port, t, e, s). nat (t - e))") auto

declare wait_port_loop.simps [simp del]

definition waitForPortRelease :: "os \<Rightarrow> int \<Rightarrow> int \<Rightarrow> daemon \<Rightarrow> daemon \<times> bool" where
  "waitForPortRelease env port timeoutMs s =
     (let (s1, _) = wait_port_loop env port timeoutMs 0 s;
          (s2, listening) = isPortListening env port s1
      in (s2, \<not> listening))"

subsection \<open>Application registry\<close>

definition recordToConfig :: "ExtraAppRecord \<Rightarrow> AppConfig" where
  "recordToConfig r =
     \<lparr>appId = app_id r, displayName = display_name r, hasServerComponent = has_server_component r,
      serverServiceTemplate = server_service_template r,
      clientServiceTemplate = client_service_template r, portKeyClient = port_key_client r,
      portKeyServer = port_key_server r, devPath = dev_path r, prodPath = prod_path r,
      serverBuildSubdir = server_build_subdir r, clientSubdir = client_subdir r\<rparr>"

definition empty_config :: AppConfig where
  "empty_config =
     \<lparr>appId = [], displayName = [], hasServerComponent = False, serverServiceTemplate = [],
      clientServiceTemplate = [], portKeyClient = [], portKeyServer = [], devPath = [],
      prodPath = [], serverBuildSubdir = [], clientSubdir = []\<rparr>"

definition getAppConfig :: "string \<Rightarrow> db \<Rightarrow> AppConfig" where
  "getAppConfig aid d = (case find (\<lambda>cfg. appId cfg = aid) APP_CONFIGS of
      Some cfg \<Rightarrow> cfg
    | None \<Rightarrow> let record = getApp aid d in
        if app_id record \<noteq> [] then recordToConfig record else empty_config)"

fun add_configs :: "AppConfig list \<Rightarrow> ExtraAppRecord list \<Rightarrow> AppConfig list" where
  "add_configs allApps [] = allApps"
| "add_configs allApps (record # records) =
     add_configs
       (if \<exists>cfg \<in> set allApps. appId cfg = app_id record then allApps
        else allApps @ [recordToConfig record]) records"

definition AppManager_getAllApps :: "db \<Rightarrow> AppConfig list" where
  "AppManager_getAllApps d = add_configs APP_CONFIGS (getAllApps d)"

definition resolveServiceName :: "string \<Rightarrow> string \<Rightarrow> string \<Rightarrow> string" where
  "resolveServiceName templateStr aid mode =
     replace_first ''{mode}'' mode (replace_first ''{app}'' aid templateStr)"

definition getAppPath :: "string \<Rightarrow> string \<Rightarrow> db \<Rightarrow> string" where
  "getAppPath aid mode d =
     (let cfg = getAppConfig aid d in
      if appId cfg = [] then [] else if mode = ''prod'' then prodPath cfg else devPath cfg)"

subsection \<open>Builds and dependencies\<close>

definition buildCppComponent :: "os \<Rightarrow> string \<Rightarrow> daemon \<Rightarrow> daemon \<times> string" where
  "buildCppComponent env path s =
     (let buildDir = path @ ''/build'';
          (s1, rm) = std_system env (''/usr/bin/rm -rf '' @ buildDir) s;
          out1 = ''  Path: '' @ path @ NL @
            (if rm \<noteq> 0 then ''  Warning: Failed to remove old build directory'' @ NL else []) @
            ''  Clean: OK'' @ NL;
          (s2, mk) = std_system env (''/usr/bin/mkdir -p '' @ buildDir) s1
      in if mk \<noteq> 0 then (s2, out1 @ ''Error: Failed to create build directory'' @ NL)
      else let (s3, cmakeOutput) = executeCommand env (''cd '' @ buildDir @ '' && /usr/bin/cmake .. 2>&1'') s2
      in if contains_str ''Error'' cmakeOutput \<or> contains_str ''error'' cmakeOutput
         then (s3, out1 @ ''CMake output:'' @ NL @ cmakeOutput @ NL)
      else let (s4, makeOutput) =
             executeCommand env (''cd '' @ buildDir @ '' && /usr/bin/make -j$(nproc) 2>&1'') s3
      in if contains_str ''Error'' makeOutput \<or> contains_str ''error:'' makeOutput
         then (s4, out1 @ ''  CMake: OK'' @ NL @ ''Make output:'' @ NL @ makeOutput @ NL)
      else (s4, out1 @ ''  CMake: OK'' @ NL @ ''  Make: OK'' @ NL @ ''Build complete.'' @ NL))"

definition buildServerComponent :: "os \<Rightarrow> string \<Rightarrow> string \<Rightarrow> daemon \<Rightarrow> daemon \<times> string" where
  "buildServerComponent env aid mode s =
     (let cfg = getAppConfig aid (dm_db s) in
      if appId cfg = [] then (s, ''Error: Unknown app: '' @ aid @ NL)
      else if \<not> hasServerComponent cfg \<or> serverBuildSubdir cfg = []
      then (s, ''Error: App '' @ aid @ '' has no server component to build'' @ NL)
      else let serverPath = getAppPath aid mode (dm_db s) @ ''/'' @ serverBuildSubdir cfg;
               (s1, out) = buildCppComponent env serverPath s
           in (s1, ''Building '' @ aid @ '' server ('' @ mode @ '')...'' @ NL @ out))"

text \<open>\<open>npm install\<close> in one directory: the part after the choice of the component.\<close>

definition install_in_dir ::
  "os \<Rightarrow> string \<Rightarrow> string \<Rightarrow> string \<Rightarrow> string \<Rightarrow> daemon \<Rightarrow> daemon \<times> string" where
  "install_in_dir env aid mode component targetDir s =
     (let out = ''Installing dependencies for '' @ aid @ '' '' @ component @ '' ('' @ mode @ '')...'' @ NL @
            ''  Path: '' @ targetDir @ NL;
          (s1, check) = std_system env (''/usr/bin/test -f '' @ targetDir @ ''/package.json'') s
      in if check \<noteq> 0 then (s1, out @ ''  No package.json found, skipping.'' @ NL)
      else let (s2, npmOutput) =
             executeCommand env (''cd '' @ targetDir @ '' && /usr/bin/npm install 2>&1'') s1
      in if contains_str ''ERR!'' npmOutput \<or> contains_str ''error'' npmOutput
         then (s2, out @ ''npm output:'' @ NL @ npmOutput @ NL)
         else (s2, out @ ''  npm install: OK'' @ NL))"

definition install_client :: "os \<Rightarrow> string \<Rightarrow> string \<Rightarrow> AppConfig \<Rightarrow> daemon \<Rightarrow> daemon \<times> string" where
  "install_client env aid mode cfg s =
     (if clientSubdir cfg = [] then (s, ''Error: App '' @ aid @ '' has no client component'' @ NL)
      else install_in_dir env aid mode ''client''
        (getAppPath aid mode (dm_db s) @ ''/'' @ clientSubdir cfg) s)"

definition install_server :: "os \<Rightarrow> string \<Rightarrow> string \<Rightarrow> AppConfig \<Rightarrow> daemon \<Rightarrow> daemon \<times> string" where
  "install_server env aid mode cfg s =
     (if serverBuildSubdir cfg = [] then (s, ''Error: App '' @ aid @ '' has no server component'' @ NL)
      else install_in_dir env aid mode ''server''
        (getAppPath aid mode (dm_db s) @ ''/'' @ serverBuildSubdir cfg) s)"

definition installDependencies ::
  "os \<Rightarrow> string \<Rightarrow> string \<Rightarrow> string \<Rightarrow> daemon \<Rightarrow> daemon \<times> string" where
  "installDependencies env aid mode component s =
     (let cfg = getAppConfig aid (dm_db s) in
      if appId cfg = [] then (s, ''Error: Unknown app: '' @ aid @ NL)
      else if component = ''client'' then install_client env aid mode cfg s
      else if component = ''server'' then install_server env aid mode cfg s
      else if component = ''all'' \<or> component = [] then
        let (s1, t1) = (if clientSubdir cfg \<noteq> [] then install_client env aid mode cfg s else (s, []));
            (s2, t2) = (if serverBuildSubdir cfg \<noteq> [] then install_server env aid mode cfg s1 else (s1, []))
        in (s2, t1 @ t2)
      else (s, ''Error: Unknown component: '' @ component @ '' (use '' @ [CHR 0x27] @ ''client'' @ [CHR 0x27] @
        '', '' @ [CHR 0x27] @ ''server'' @ [CHR 0x27] @ '', or '' @ [CHR 0x27] @ ''all'' @ [CHR 0x27] @ '')'' @ NL))"

subsection \<open>Status of the local applications and the cache of the peers' statuses\<close>

definition local_app_status :: "os \<Rightarrow> AppConfig \<Rightarrow> daemon \<Rightarrow> daemon \<times> json" where
  "local_app_status env app s =
     (let (s1, devInst) = file_access env (devPath app) s;
          (s2, prodInst) = (if prodPath app \<noteq> [] then file_access env (prodPath app) s1 else (s1, False));
          (s3, devRun) = (if clientServiceTemplate app \<noteq> []
             then isServiceActive env (resolveServiceName (clientServiceTemplate app) (appId app) ''dev'') s2
             else (s2, False));
          (s4, prodRun) = (if clientServiceTemplate app \<noteq> [] \<and> prodPath app \<noteq> []
             then isServiceActive env (resolveServiceName (clientServiceTemplate app) (appId app) ''prod'') s3
             else (s3, False))
      in (s4, JObj (om_put ''prod_running'' (JBool prodRun) (om_put ''dev_running'' (JBool devRun)
           (om_put ''prod_installed'' (JBool prodInst) (om_put ''dev_installed'' (JBool devInst) []))))))"

fun local_status_loop ::
  "os \<Rightarrow> AppConfig list \<Rightarrow> (string, json) omap \<Rightarrow> daemon \<Rightarrow> daemon \<times> (string, json) omap" where
  "local_status_loop env [] result s = (s, result)"
| "local_status_loop env (app # apps) result s =
     (let (s1, j) = local_app_status env app s in
      local_status_loop env apps (om_put (appId app) j result) s1)"

definition getLocalAppStatusAll :: "os \<Rightarrow> daemon \<Rightarrow> daemon \<times> json" where
  "getLocalAppStatusAll env s =
     (let (s1, m) = local_status_loop env (AppManager_getAllApps (dm_db s)) [] s in (s1, JObj m))"

definition updatePeerAppStatus :: "string \<Rightarrow> json \<Rightarrow> daemon \<Rightarrow> daemon" where
  "updatePeerAppStatus peerId appStatus s =
     s\<lparr>dm_appStatus := om_put peerId appStatus (dm_appStatus s)\<rparr>"

definition clearPeerAppStatus :: "string \<Rightarrow> daemon \<Rightarrow> daemon" where
  "clearPeerAppStatus peerId s = s\<lparr>dm_appStatus := om_erase peerId (dm_appStatus s)\<rparr>"

end
