(* ===== verification/Peer_Manager.thy ===== *)
theory Peer_Manager
  imports App_Manager
begin

text \<open>
  The class \<open>PeerManager\<close> (\<open>daemon/src/PeerManager.cpp\<close>): the role of this daemon, the connection of a
  worker to its leader, the connections to other peers, and the loop that reconnects and sends heartbeats.
\<close>

definition upd_pm :: "(PeerManager \<Rightarrow> PeerManager) \<Rightarrow> daemon \<Rightarrow> daemon" where
  "upd_pm f s = s\<lparr>dm_peers := f (dm_peers s)\<rparr>"

subsection \<open>Configuration\<close>

definition saveConfig :: "daemon \<Rightarrow> daemon" where
  "saveConfig s =
     (let pm = dm_peers s;
          d1 = (if m_role pm \<noteq> [] then setSetting ''peer_role'' (m_role pm) (dm_db s) else dm_db s);
          d2 = (if m_peerId pm \<noteq> [] then setSetting ''peer_id'' (m_peerId pm) d1 else d1);
          d3 = (if m_leaderAddress pm \<noteq> [] then setSetting ''peer_leader_address'' (m_leaderAddress pm) d2 else d2)
      in s\<lparr>dm_db := d3\<rparr>)"

definition loadConfig :: "daemon \<Rightarrow> daemon" where
  "loadConfig s = upd_pm (\<lambda>pm. pm\<lparr>m_role := getSetting ''peer_role'' (dm_db s),
     m_peerId := getSetting ''peer_id'' (dm_db s),
     m_leaderAddress := getSetting ''peer_leader_address'' (dm_db s)\<rparr>) s"

definition setRole :: "string \<Rightarrow> daemon \<Rightarrow> daemon" where
  "setRole role s = saveConfig (upd_pm (\<lambda>pm. pm\<lparr>m_role := role\<rparr>) s)"

definition setPeerId :: "string \<Rightarrow> daemon \<Rightarrow> daemon" where
  "setPeerId i s = saveConfig (upd_pm (\<lambda>pm. pm\<lparr>m_peerId := i\<rparr>) s)"

definition setLeaderAddress :: "string \<Rightarrow> daemon \<Rightarrow> daemon" where
  "setLeaderAddress addr s = saveConfig (upd_pm (\<lambda>pm. pm\<lparr>m_leaderAddress := addr\<rparr>) s)"

definition isLeader :: "daemon \<Rightarrow> bool" where
  "isLeader s = (m_role (dm_peers s) = ''leader'')"

definition isConnectedToLeader :: "daemon \<Rightarrow> bool" where
  "isConnectedToLeader s = m_connectedToLeader (dm_peers s)"

subsection \<open>The connection to the leader\<close>

definition drop_socket :: "daemon \<Rightarrow> daemon" where
  "drop_socket s =
     (if m_leaderSocket (dm_peers s) \<ge> 0
      then upd_pm (\<lambda>pm. pm\<lparr>m_leaderSocket := - 1\<rparr>) (close_fd (m_leaderSocket (dm_peers s)) s) else s)"

definition disconnectFromLeader :: "daemon \<Rightarrow> daemon" where
  "disconnectFromLeader s = upd_pm (\<lambda>pm. pm\<lparr>m_connectedToLeader := False\<rparr>) (drop_socket s)"

definition sendToLeader :: "os \<Rightarrow> json \<Rightarrow> daemon \<Rightarrow> daemon \<times> bool" where
  "sendToLeader env msg s =
     (if \<not> isConnectedToLeader s \<or> m_leaderSocket (dm_peers s) < 0 then (s, False)
      else let (s1, ok) = write_fd env (m_leaderSocket (dm_peers s)) (on_dump env msg @ NL) s
           in if \<not> ok then (disconnectFromLeader s1, False) else (s1, True))"

definition pm_forwardToLeader :: "os \<Rightarrow> json \<Rightarrow> int \<Rightarrow> daemon \<Rightarrow> daemon \<times> string" where
  "pm_forwardToLeader env cmd timeoutMs s =
     (let fd = m_leaderSocket (dm_peers s) in
      if \<not> isConnectedToLeader s \<or> fd < 0 then (s, [])
      else let (s1, ok) = write_fd env fd (on_dump env cmd @ NL) s
      in if \<not> ok then (disconnectFromLeader s1, [])
      else let (s2, ready) = poll_fd env fd timeoutMs s1
      in if ready \<le> 0 then (s2, [])
      else let (s3, r) = read_fd env fd 16383 s2
      in (s3, case r of ReadData t \<Rightarrow> t | _ \<Rightarrow> []))"

definition registration :: "os \<Rightarrow> json \<Rightarrow> string option \<Rightarrow> daemon \<Rightarrow> json" where
  "registration env appStatus hostname s = JObj
     ((case hostname of Some h \<Rightarrow> om_put ''hostname'' (JStr h) | None \<Rightarrow> id)
       (om_put ''appStatus'' appStatus (om_put ''daemon_version'' (JInt (on_version env))
       (om_put ''mac'' (JStr (on_mac env)) (om_put ''ip'' (JStr (on_wg_ip env))
       (om_put ''peer_id'' (JStr (m_peerId (dm_peers s))) [(''command'', JStr ''registerPeer'')]))))))"

text \<open>The part of \<open>connectToLeader\<close> after a successful \<open>connect\<close>.\<close>

definition register_with_leader :: "os \<Rightarrow> daemon \<Rightarrow> daemon" where
  "register_with_leader env s =
     (let (s1, appStatus) = getLocalAppStatusAll env s;
          (s2, hostname) = gethostname env s1;
          (s3, _) = sendToLeader env (registration env appStatus hostname s2) s2;
          (s4, _) = read_fd env (m_leaderSocket (dm_peers s3)) 1023 s3
      in s4)"

definition connectToLeader :: "os \<Rightarrow> daemon \<Rightarrow> daemon \<times> bool" where
  "connectToLeader env s =
     (if isLeader s then (s, False)
      else if m_leaderAddress (dm_peers s) = [] then (s, False)
      else let (s1, r) = tcp_connect env (m_leaderAddress (dm_peers s)) 3502 (drop_socket s)
      in case r of
           Connected fd \<Rightarrow>
             (register_with_leader env
                (upd_pm (\<lambda>pm. pm\<lparr>m_leaderSocket := fd, m_connectedToLeader := True\<rparr>) s1), True)
         | _ \<Rightarrow> (upd_pm (\<lambda>pm. pm\<lparr>m_leaderSocket := - 1\<rparr>) s1, False))"

subsection \<open>Peers\<close>

definition no_peer :: PeerInfo where
  "no_peer = \<lparr>pi_peer_id = [], pi_ip_address = [], pi_mac_address = [], pi_hostname = [],
     pi_is_online = False, pi_socket_fd = - 1\<rparr>"

definition upd_peers :: "((string, PeerInfo) omap \<Rightarrow> (string, PeerInfo) omap) \<Rightarrow> daemon \<Rightarrow> daemon" where
  "upd_peers f = upd_pm (\<lambda>pm. pm\<lparr>m_peers := f (m_peers pm)\<rparr>)"

definition pm_find :: "string \<Rightarrow> daemon \<Rightarrow> PeerInfo option" where
  "pm_find pid s = om_find pid (m_peers (dm_peers s))"

definition registerPeer :: "string \<Rightarrow> string \<Rightarrow> string \<Rightarrow> string \<Rightarrow> int \<Rightarrow> daemon \<Rightarrow> daemon" where
  "registerPeer pid ip mac hostname fd = upd_peers (om_put pid
     \<lparr>pi_peer_id = pid, pi_ip_address = ip, pi_mac_address = mac, pi_hostname = hostname,
      pi_is_online = True, pi_socket_fd = fd\<rparr>)"

definition unregisterPeer :: "string \<Rightarrow> daemon \<Rightarrow> daemon" where
  "unregisterPeer pid s = (case pm_find pid s of
      None \<Rightarrow> s
    | Some p \<Rightarrow> upd_peers (om_erase pid)
        (if pi_socket_fd p \<ge> 0 then close_fd (pi_socket_fd p) s else s))"

definition updatePeerStatus :: "string \<Rightarrow> bool \<Rightarrow> daemon \<Rightarrow> daemon" where
  "updatePeerStatus pid online s = (case pm_find pid s of
      None \<Rightarrow> s
    | Some p \<Rightarrow> upd_peers (om_put pid (p\<lparr>pi_is_online := online\<rparr>)) s)"

definition listPeers :: "daemon \<Rightarrow> PeerInfo list" where
  "listPeers s = map snd (m_peers (dm_peers s))"

definition getPeerInfo :: "string \<Rightarrow> daemon \<Rightarrow> PeerInfo" where
  "getPeerInfo pid s = (case pm_find pid s of Some p \<Rightarrow> p | None \<Rightarrow> no_peer)"

definition connectToPeer :: "os \<Rightarrow> string \<Rightarrow> string \<Rightarrow> daemon \<Rightarrow> daemon \<times> bool" where
  "connectToPeer env pid ip s =
     (if (case pm_find pid s of Some p \<Rightarrow> pi_socket_fd p \<ge> 0 | None \<Rightarrow> False) then (s, True)
      else let (s1, r) = tcp_connect env ip 3502 s
      in case r of
           Connected fd \<Rightarrow> (upd_peers (om_put pid
             \<lparr>pi_peer_id = pid, pi_ip_address = ip, pi_mac_address = [], pi_hostname = [],
              pi_is_online = True, pi_socket_fd = fd\<rparr>) s1, True)
         | _ \<Rightarrow> (s1, False))"

definition sendToPeer :: "os \<Rightarrow> string \<Rightarrow> json \<Rightarrow> daemon \<Rightarrow> daemon \<times> bool" where
  "sendToPeer env pid msg s = (case pm_find pid s of
      None \<Rightarrow> (s, False)
    | Some p \<Rightarrow>
        if pi_socket_fd p < 0 then (s, False)
        else let (s1, ok) = write_fd env (pi_socket_fd p) (on_dump env msg @ NL) s
        in if \<not> ok then (upd_peers (om_erase pid) (close_fd (pi_socket_fd p) s1), False) else (s1, True))"

definition broadcastToWorkers :: "os \<Rightarrow> json \<Rightarrow> daemon \<Rightarrow> daemon" where
  "broadcastToWorkers env msg s = fold
     (\<lambda>(pid, p) s. if pi_socket_fd p \<ge> 0 \<and> pi_is_online p
        then fst (write_fd env (pi_socket_fd p) (on_dump env msg @ NL) s) else s)
     (m_peers (dm_peers s)) s"

subsection \<open>The reconnect loop\<close>

definition startReconnectLoop :: "daemon \<Rightarrow> daemon" where
  "startReconnectLoop s =
     (if \<not> isLeader s \<and> m_leaderAddress (dm_peers s) = [] then s
      else upd_pm (\<lambda>pm. pm\<lparr>m_reconnectRunning := True\<rparr>) s)"

definition stopReconnectLoop :: "daemon \<Rightarrow> daemon" where
  "stopReconnectLoop = upd_pm (\<lambda>pm. pm\<lparr>m_reconnectRunning := False\<rparr>)"

text \<open>The sleep of ten seconds, which another thread may cut by stopping the loop in second \<open>n\<close>.\<close>

definition reconnect_sleep :: "nat \<Rightarrow> daemon \<Rightarrow> daemon" where
  "reconnect_sleep n s =
     (let s1 = (sleep_ms 1000 ^^ min n 10) s in if n < 10 then stopReconnectLoop s1 else s1)"

definition heartbeat :: "os \<Rightarrow> json option \<Rightarrow> daemon \<Rightarrow> json" where
  "heartbeat env appStatus s = JObj
     ((case appStatus of Some a \<Rightarrow> om_put ''appStatus'' a | None \<Rightarrow> id)
       (om_put ''daemon_version'' (JInt (on_version env))
       (om_put ''peer_id'' (JStr (m_peerId (dm_peers s))) [(''command'', JStr ''heartbeat'')])))"

definition send_heartbeat :: "os \<Rightarrow> int \<Rightarrow> daemon \<Rightarrow> daemon \<times> int" where
  "send_heartbeat env counter s =
     (if counter \<ge> 60
      then let (s1, a) = getLocalAppStatusAll env s in
        (fst (sendToLeader env (heartbeat env (Some a) s1) s1), 0)
      else (fst (sendToLeader env (heartbeat env None s) s), counter))"

text \<open>One round of \<open>reconnectLoop\<close>, with the value of \<open>appStatusCounter\<close>.\<close>

definition reconnect_round :: "os \<Rightarrow> nat \<Rightarrow> daemon \<times> int \<Rightarrow> daemon \<times> int" where
  "reconnect_round env n = (\<lambda>(s, counter).
     if \<not> m_reconnectRunning (dm_peers s) then (s, counter)
     else if isLeader s then
       let s1 = reconnect_sleep n s in
       if m_reconnectRunning (dm_peers s1) \<and> m_peerId (dm_peers s1) \<noteq> [] then
         let (s2, now) = sql_now env s1 in
         (s2\<lparr>dm_db := touchLastSeenVersion now (m_peerId (dm_peers s2)) (on_version env) (dm_db s2)\<rparr>, counter)
       else (s1, counter)
     else
       let (s1, c1) = (if \<not> isConnectedToLeader s then
              let (s', ok) = connectToLeader env s in (s', if ok then 0 else counter)
            else (s, counter));
           s2 = reconnect_sleep n s1;
           c2 = c1 + int (min n 10)
       in if isConnectedToLeader s2 then send_heartbeat env c2 s2 else (s2, c2))"

text \<open>The peer part of \<open>main\<close>: the saved configuration is restored at start.\<close>

definition register_self :: "os \<Rightarrow> daemon \<Rightarrow> daemon" where
  "register_self env s =
     (let (s1, hostname) = gethostname env s;
          (s2, now) = sql_now env s1
      in s2\<lparr>dm_db := upsertPeer now (m_peerId (dm_peers s2)) (on_wg_ip env) (on_mac env)
             (case hostname of Some h \<Rightarrow> h | None \<Rightarrow> []) True (on_version env) (dm_db s2)\<rparr>)"

definition restore_peers :: "os \<Rightarrow> daemon \<Rightarrow> daemon" where
  "restore_peers env s0 =
     (let s = loadConfig s0 in
      if isLeader s \<and> m_peerId (dm_peers s) \<noteq> [] then startReconnectLoop (register_self env s)
      else if m_leaderAddress (dm_peers s) \<noteq> [] then startReconnectLoop (fst (connectToLeader env s))
      else s)"

end
