(* ===== verification/Peer_Commands.thy ===== *)
theory Peer_Commands
  imports Peer_Manager
begin

text \<open>
  The command handlers of \<open>daemon/src/cmdPeer.cpp\<close>: peer configuration and registry, and the execution of
  shell commands on other machines. \<open>cmdPeer.cpp\<close> builds its replies with \<open>ordered_json\<close>, so the members
  of the objects here are in the order they are inserted.
\<close>

definition with_key :: "json \<Rightarrow> string \<Rightarrow> daemon \<Rightarrow> (string \<Rightarrow> daemon \<times> cmd_result result) \<Rightarrow> daemon \<times> cmd_result result" where
  "with_key command key s = with_result s (command_string command key)"

text \<open>The exceptions of a \<open>try\<close> block whose handler ends the function.\<close>

definition try_catch :: "'a result \<Rightarrow> (exn \<Rightarrow> 'a) \<Rightarrow> 'a" where
  "try_catch r h = (case r of Inl e \<Rightarrow> h e | Inr x \<Rightarrow> x)"

subsection \<open>The manager of another machine\<close>

definition manager_reply :: "os \<Rightarrow> string \<Rightarrow> cmd_result" where
  "manager_reply env buffer = (case on_parse env buffer of
      None \<Rightarrow> CmdResult 0 buffer
    | Some response \<Rightarrow> try_catch
        (try_result (if jcontains response ''status'' then try_result (jat response ''status'') jget_int else Inr 1) (\<lambda>st.
         try_result (if jcontains response ''output'' then command_string response ''output'' else Inr buffer) (\<lambda>output.
           Inr (CmdResult st output))))
        (\<lambda>_. CmdResult 0 buffer))"

definition sendToManager :: "os \<Rightarrow> string \<Rightarrow> json \<Rightarrow> daemon \<Rightarrow> daemon \<times> cmd_result" where
  "sendToManager env ip command s =
     (let (s1, r) = tcp_connect env ip 3505 s in
      case r of
        NoSocket \<Rightarrow> (s1, CmdResult 1 (''Failed to create socket for manager'' @ NL))
      | BadAddress \<Rightarrow> (s1, CmdResult 1 (''Invalid IP address for manager: '' @ ip @ NL))
      | Refused \<Rightarrow> (s1, CmdResult 1 (''Failed to connect to manager at '' @ ip @ '':3505'' @ NL))
      | Connected sock \<Rightarrow>
          let (s2, ok) = write_fd env sock (on_dump env command @ NL) s1 in
          if \<not> ok then (close_fd sock s2, CmdResult 1 (''Failed to send command to manager at '' @ ip @ NL))
          else let (s3, reply) = read_fd env sock 65535 s2; s4 = close_fd sock s3 in
            (s4, case reply of
               ReadData t \<Rightarrow> manager_reply env (c_string t)
             | _ \<Rightarrow> CmdResult 1 (''No response from manager at '' @ ip @ NL)))"

subsection \<open>Finding a peer\<close>

definition leader_ip_answer :: "os \<Rightarrow> string \<Rightarrow> string" where
  "leader_ip_answer env response = (case on_parse env response of
      None \<Rightarrow> []
    | Some parsed \<Rightarrow> try_catch
        (if jcontains parsed ''ip_address'' then command_string parsed ''ip_address'' else Inr []) (\<lambda>_. []))"

definition queryLeaderForPeerIP :: "os \<Rightarrow> string \<Rightarrow> daemon \<Rightarrow> daemon \<times> string" where
  "queryLeaderForPeerIP env pid s =
     (if \<not> isConnectedToLeader s then (s, [])
      else let (s1, response) = pm_forwardToLeader env
             (JObj [(''command'', JStr ''getPeerInfo''), (''peer'', JStr pid)]) 2000 s
      in (s1, if response = [] then [] else leader_ip_answer env response))"

definition resolvePeerIP :: "os \<Rightarrow> string \<Rightarrow> daemon \<Rightarrow> daemon \<times> string" where
  "resolvePeerIP env pid s =
     (if isLeader s then
        let dbPeer = getPeer False pid (dm_db s) in
        (s, if ip_address dbPeer \<noteq> [] then ip_address dbPeer
            else if pid = m_peerId (dm_peers s) then ''127.0.0.1'' else [])
      else if pid = m_peerId (dm_peers s) then (s, ''127.0.0.1'')
      else queryLeaderForPeerIP env pid s)"

subsection \<open>Configuration commands\<close>

definition handleSetPeerConfig :: "os \<Rightarrow> handler" where
  "handleSetPeerConfig env command s0 =
     (let set_id = (\<lambda>s. if jcontains command ''id'' then
              with_key command ''id'' s (\<lambda>i. (setPeerId i s, Inr (CmdResult 0 []))) else reply 0 [] s);
          set_leader = (\<lambda>s. if jcontains command ''leader'' then
              with_key command ''leader'' s (\<lambda>a. (setLeaderAddress a s, Inr (CmdResult 0 []))) else reply 0 [] s);
          after = (\<lambda>(s, r) k. case r of Inl e \<Rightarrow> (s, Inl e) | Inr (x :: cmd_result) \<Rightarrow> k s);
          finish = (\<lambda>s.
            let s1 = (if isLeader s \<and> m_peerId (dm_peers s) \<noteq> []
                      then startReconnectLoop (register_self env s) else s);
                addr = m_leaderAddress (dm_peers s1)
            in if m_role (dm_peers s1) = ''worker'' \<and> addr \<noteq> [] then
                 let (s2, ok) = connectToLeader env s1 in
                 if ok then reply 0 (''Peer config saved. Connected to leader at '' @ addr @ NL) s2
                 else reply 0 (''Peer config saved. Failed to connect to leader at '' @ addr @
                        '' (will retry on next command)'' @ NL) s2
               else reply 0 (''Peer config saved. Role: '' @ m_role (dm_peers s1) @
                      '', ID: '' @ m_peerId (dm_peers s1) @ NL) s1);
          rest = (\<lambda>s. after (set_id s) (\<lambda>s1. after (set_leader s1) finish))
      in if jcontains command ''role'' then
           with_key command ''role'' s0 (\<lambda>role.
             if role \<noteq> ''leader'' \<and> role \<noteq> ''worker''
             then reply 1 (''Invalid role. Use '' @ [CHR 0x27] @ ''leader'' @ [CHR 0x27] @ '' or '' @
                    [CHR 0x27] @ ''worker'' @ [CHR 0x27] @ ''.'' @ NL) s0
             else rest (setRole role s0))
         else rest s0)"

definition handleGetPeerStatus :: "os \<Rightarrow> handler" where
  "handleGetPeerStatus env command s =
     (let pm = dm_peers s in
      reply 0 (on_dump2 env (JObj
        ([(''role'', JStr (m_role pm)), (''peer_id'', JStr (m_peerId pm)),
          (''leader_address'', JStr (m_leaderAddress pm)), (''is_leader'', JBool (isLeader s)),
          (''connected_to_leader'', JBool (isConnectedToLeader s))] @
         (if isLeader s then [(''connected_workers'', JInt (int (length (listPeers s))))] else []))) @ NL) s)"

definition handleRegisterWorker :: "os \<Rightarrow> handler" where
  "handleRegisterWorker env command s =
     (let (s1, hostname) = gethostname env s in
      case hostname of
        None \<Rightarrow> reply 1 (''Failed to get hostname'' @ NL) s1
      | Some pid \<Rightarrow>
          let s2 = setLeaderAddress ''10.0.0.1'' (setPeerId pid (setRole ''worker'' s1));
              (s3, ok) = connectToLeader env s2
          in if ok then reply 0 (''Registered as worker '' @ [CHR 0x27] @ pid @ [CHR 0x27] @
                 '', connected to leader at 10.0.0.1'' @ NL) s3
             else reply 0 (''Registered as worker '' @ [CHR 0x27] @ pid @ [CHR 0x27] @
                 '', failed to connect to leader at 10.0.0.1 (will retry on next command)'' @ NL) s3)"

subsection \<open>The registry of the leader\<close>

definition opt_int :: "json \<Rightarrow> string \<Rightarrow> int \<Rightarrow> int result" where
  "opt_int command key dflt =
     (if jcontains command key then try_result (jat command key) jget_int else Inr dflt)"

definition handleRegisterPeer :: "os \<Rightarrow> handler" where
  "handleRegisterPeer env command s =
     (if \<not> isLeader s then reply 1 (''This daemon is not the leader.'' @ NL) s
      else with_result s (opt_string command ''peer_id'' ''unknown'') (\<lambda>pid.
           with_result s (opt_string command ''ip'' []) (\<lambda>ip.
           with_result s (opt_string command ''mac'' []) (\<lambda>mac.
           with_result s (opt_string command ''hostname'' []) (\<lambda>hostname.
           with_result s (opt_int command ''daemon_version'' 0) (\<lambda>version.
             let (s1, now) = sql_now env s;
                 s2 = s1\<lparr>dm_db := upsertPeer now pid ip mac hostname True version (dm_db s1)\<rparr>
             in reply 0 (''Peer registered: '' @ pid @ NL)
                  (registerPeer pid ip mac hostname (dm_clientSocket s2) s2)))))))"

text \<open>A worker with a connection asks its leader instead.\<close>

definition ask_leader ::
  "os \<Rightarrow> json \<Rightarrow> (daemon \<Rightarrow> daemon \<times> cmd_result result) \<Rightarrow> daemon \<Rightarrow> daemon \<times> cmd_result result" where
  "ask_leader env fwdCmd local_body s =
     (if \<not> isLeader s \<and> isConnectedToLeader s then
        let (s1, response) = pm_forwardToLeader env fwdCmd 2000 s in
        if response \<noteq> [] then reply 0 response s1 else reply 1 (''No response from leader'' @ NL) s1
      else local_body s)"

definition getLastOctet :: "string \<Rightarrow> int result" where
  "getLastOctet ip =
     (if CHR ''.'' \<in> set ip then stoi (rev (takeWhile (\<lambda>c. c \<noteq> CHR ''.'') (rev ip))) else Inr 0)"

text \<open>The comparison raises on an address whose last part is no number. Which comparisons are made is up to
  the \<open>std::sort\<close> of the library, \<open>on_sort\<close>; the first operand of \<open><\<close> is computed first here, which decides
  only whose exception it is.\<close>

definition octet_less :: "PeerRecord \<Rightarrow> PeerRecord \<Rightarrow> bool result" where
  "octet_less = by_key (\<lambda>p. getLastOctet (ip_address p))"

definition sort_by_octet :: "(nat \<Rightarrow> cmp_run) \<Rightarrow> PeerRecord list \<Rightarrow> PeerRecord list result" where
  "sort_by_octet algo peers = std_sort algo octet_less peers"

definition peer_json :: "PeerRecord \<Rightarrow> bool \<Rightarrow> json" where
  "peer_json p online = JObj
     [(''peer_id'', JStr (peer_id p)), (''ip_address'', JStr (ip_address p)),
      (''mac_address'', JStr (mac_address p)), (''hostname'', JStr (peer_hostname p)),
      (''last_seen'', JStr (last_seen p)), (''is_online'', JBool online),
      (''daemon_version'', JInt (daemon_version p))]"

text \<open>\<open>on_age\<close> is what \<open>strptime\<close>, \<open>mktime\<close> and \<open>difftime\<close> make of a time stamp: its age in seconds.\<close>

definition listed_online :: "os \<Rightarrow> os_call list \<Rightarrow> PeerRecord \<Rightarrow> bool" where
  "listed_online env h p =
     (is_online p \<and> (last_seen p = [] \<or>
       (case on_age env h (last_seen p) of None \<Rightarrow> True | Some age \<Rightarrow> \<not> age > 120)))"

definition handleListPeers :: "os \<Rightarrow> handler" where
  "handleListPeers env command = ask_leader env (JObj [(''command'', JStr ''listPeers'')]) (\<lambda>s.
     let (s1, now) = sql_now env s in
     with_result s1 (sort_by_octet (on_sort env) (getAllPeers now (dm_db s1))) (\<lambda>peers.
       reply 0 (on_dump2 env (JArr (map (\<lambda>p. peer_json p (listed_online env (dm_calls s1) p)) peers)) @ NL) s1))"

definition handleDeletePeer :: "os \<Rightarrow> handler" where
  "handleDeletePeer env command s = with_key command ''peer'' s (\<lambda>pid.
     ask_leader env (JObj [(''command'', JStr ''deletePeer''), (''peer'', JStr pid)]) (\<lambda>s.
       if peer_id (getPeer False pid (dm_db s)) = [] then reply 1 (''Peer not found: '' @ pid @ NL) s
       else reply 0 (''Deleted peer: '' @ pid @ NL) (s\<lparr>dm_db := deletePeer pid (dm_db s)\<rparr>)) s)"

definition handleGetPeerInfo :: "os \<Rightarrow> handler" where
  "handleGetPeerInfo env command s = with_key command ''peer'' s (\<lambda>pid.
     ask_leader env (JObj [(''command'', JStr ''getPeerInfo''), (''peer'', JStr pid)]) (\<lambda>s.
       let p = getPeer False pid (dm_db s) in
       if peer_id p = [] then reply 1 (''Peer not found: '' @ pid @ NL) s
       else reply 0 (on_dump2 env (peer_json p (is_online p)) @ NL) s) s)"

definition handleDbSanityCheck :: "os \<Rightarrow> handler" where
  "handleDbSanityCheck env command s =
     (let role = m_role (dm_peers s);
          result = (\<lambda>issues actions msg. on_dump2 env (JObj
            [(''role'', JStr role), (''issues_found'', JBool issues), (''actions'', JArr actions),
             (''message'', JStr msg)]) @ NL)
      in if role \<noteq> ''worker'' then reply 0 (result False [] (''No sanity check needed for role: '' @ role)) s
      else let (s1, now) = sql_now env s; peers = getAllPeers now (dm_db s1) in
        if peers = [] then reply 0 (result False [] ''Sanity check passed: no issues found'') s1
        else let (d, deleted) = clearAllPeers (dm_db s1);
                 action = JObj
                   [(''issue'', JStr ''Worker has peer_registry data (leader-only table)''),
                    (''peer_count'', JInt (int (length peers))),
                    (''peer_ids'', JArr (map (\<lambda>p. JStr (peer_id p)) peers)),
                    (''action_taken'', JStr (''Deleted '' @ to_string deleted @ '' peer records''))]
          in reply 0 (result True [action] ''Sanity check completed: issues found and fixed'') (s1\<lparr>dm_db := d\<rparr>))"

definition update_mac :: "os \<Rightarrow> string \<Rightarrow> string \<Rightarrow> PeerRecord \<Rightarrow> daemon \<Rightarrow> daemon" where
  "update_mac env pid mac p s =
     (let (s1, now) = sql_now env s in
      s1\<lparr>dm_db := upsertPeer now pid (ip_address p) mac (peer_hostname p) (is_online p) (daemon_version p) (dm_db s1)\<rparr>)"

definition handleUpdatePeerMac :: "os \<Rightarrow> handler" where
  "handleUpdatePeerMac env command s =
     (let pid = m_peerId (dm_peers s); mac = on_mac env in
      if pid = [] then reply 1 (''Peer not configured. Run registerWorker first.'' @ NL) s
      else if mac = [] then reply 1 (''Failed to detect MAC address'' @ NL) s
      else if isLeader s then
        let p = getPeer False pid (dm_db s) in
        if peer_id p = [] then reply 1 (''Peer not found in database: '' @ pid @ NL) s
        else reply 0 (''Updated MAC for '' @ pid @ '': '' @ mac @ NL) (update_mac env pid mac p s)
      else
        let (s1, ok) = (if isConnectedToLeader s then (s, True) else connectToLeader env s) in
        if \<not> ok then reply 1 (''Not connected to leader'' @ NL) s1
        else let (s2, response) = pm_forwardToLeader env (JObj
               [(''command'', JStr ''updatePeerMacInternal''), (''mac'', JStr mac), (''peer_id'', JStr pid)]) 2000 s1
        in if response \<noteq> [] then reply 0 response s2
           else reply 0 (''Sent MAC update to leader: '' @ mac @ NL) s2)"

definition handleUpdatePeerMacInternal :: "os \<Rightarrow> handler" where
  "handleUpdatePeerMacInternal env command s =
     (if \<not> isLeader s then reply 1 (''This command should only be received by the leader'' @ NL) s
      else with_key command ''peer_id'' s (\<lambda>pid. with_key command ''mac'' s (\<lambda>mac.
        let p = getPeer False pid (dm_db s) in
        if peer_id p = [] then reply 1 (''Peer not found: '' @ pid @ NL) s
        else reply 0 (''Updated MAC for '' @ pid @ '': '' @ mac @ NL) (update_mac env pid mac p s))))"

subsection \<open>Execution on another machine\<close>

datatype attempt = Retry | Answer cmd_result

text \<open>The address of a peer that is not connected: the leader reads its registry, a worker asks.\<close>

definition exec_address :: "os \<Rightarrow> string \<Rightarrow> daemon \<Rightarrow> daemon \<times> (cmd_result + string)" where
  "exec_address env pid s =
     (if isLeader s then
        let p = getPeer False pid (dm_db s) in
        if peer_id p = [] then (s, Inl (CmdResult 1 (''Peer not found: '' @ pid @ NL)))
        else if ip_address p = [] then (s, Inl (CmdResult 1 (''Peer has no IP address: '' @ pid @ NL)))
        else (s, Inr (ip_address p))
      else if \<not> isConnectedToLeader s then (s, Inl (CmdResult 1 (''Not connected to leader'' @ NL)))
      else let (s1, ip) = queryLeaderForPeerIP env pid s in
        if ip = [] then (s1, Inl (CmdResult 1 (''Peer not found or leader unavailable: '' @ pid @ NL)))
        else (s1, Inr ip))"

text \<open>The send and the read of one attempt; \<open>peer\<close> was read before the send.\<close>

definition exec_exchange :: "os \<Rightarrow> bool \<Rightarrow> string \<Rightarrow> json \<Rightarrow> PeerInfo \<Rightarrow> daemon \<Rightarrow> daemon \<times> attempt" where
  "exec_exchange env first pid request peer s =
     (let (s1, sent) = sendToPeer env pid request s in
      if \<not> sent then
        (s1, if first then Retry else Answer (CmdResult 1 (''Failed to send command to peer: '' @ pid @ NL)))
      else let (s2, r) = read_fd env (pi_socket_fd peer) 65535 s1;
               failure = (\<lambda>errno. Answer (case errno of
                   None \<Rightarrow> CmdResult 1 (''Timeout waiting for response from '' @ pid @ NL)
                 | Some e \<Rightarrow> CmdResult 1 (''Failed to read response from '' @ pid @ '': '' @ e @ NL)))
      in case r of
           ReadData t \<Rightarrow> (s2, Answer (CmdResult 0 (c_string t)))
         | ReadEof errno \<Rightarrow> (unregisterPeer pid s2, if first then Retry else failure errno)
         | ReadFailed None \<Rightarrow> (s2, failure None)
         | ReadFailed (Some e) \<Rightarrow> (unregisterPeer pid s2, if first then Retry else failure (Some e)))"

definition exec_attempt :: "os \<Rightarrow> bool \<Rightarrow> string \<Rightarrow> json \<Rightarrow> daemon \<Rightarrow> daemon \<times> attempt" where
  "exec_attempt env first pid request s =
     (let peer = getPeerInfo pid s in
      if pi_peer_id peer = [] \<or> pi_socket_fd peer < 0 then
        let (s1, a) = exec_address env pid s in
        case a of
          Inl r \<Rightarrow> (s1, Answer r)
        | Inr ip \<Rightarrow>
            let (s2, ok) = connectToPeer env pid ip s1 in
            if \<not> ok then (s2, if first then Retry
              else Answer (CmdResult 1 (''Failed to connect to peer: '' @ pid @ '' ('' @ ip @ '')'' @ NL)))
            else exec_exchange env first pid request (getPeerInfo pid s2) s2
      else exec_exchange env first pid request peer s)"

definition exec_request :: "string \<Rightarrow> string \<Rightarrow> json" where
  "exec_request directory cmd = JObj
     [(''command'', JStr ''execRequest''), (''directory'', JStr directory), (''shellCmd'', JStr cmd)]"

definition handleExecOnPeer :: "os \<Rightarrow> handler" where
  "handleExecOnPeer env command s =
     with_key command ''peer'' s (\<lambda>pid. with_key command ''directory'' s (\<lambda>directory.
     with_key command ''shellCmd'' s (\<lambda>cmd.
       let request = exec_request directory cmd;
           (s1, a) = exec_attempt env True pid request s
       in case a of
            Answer r \<Rightarrow> (s1, Inr r)
          | Retry \<Rightarrow>
              let (s2, a2) = exec_attempt env False pid request s1 in
              case a2 of
                Answer r \<Rightarrow> (s2, Inr r)
              | Retry \<Rightarrow> reply 1 (''Unknown error in handleExecOnPeer'' @ NL) s2)))"

text \<open>The parent's loop of \<open>executeCommandWithTimeout\<close>: before each \<open>select\<close> the seconds since the
  start are read; then the pipe gives data, ends, stays silent for the remaining time, or \<open>select\<close> fails.\<close>

datatype pipe_event = PipeData string | PipeEnd | PipeSilent | PipeInterrupted | PipeError

record child =
  ch_pipe_error :: "string option"
  ch_fork_error :: "string option"
  ch_events :: "(int \<times> pipe_event) list"
  ch_exit :: "int option"

fun read_child :: "int \<Rightarrow> string \<Rightarrow> (int \<times> pipe_event) list \<Rightarrow> string \<times> bool" where
  "read_child timeout output [] = (output, False)"
| "read_child timeout output ((elapsed, e) # es) =
     (if timeout - elapsed \<le> 0 then (output, True)
      else case e of
        PipeData t \<Rightarrow> read_child timeout (output @ c_string t) es
      | PipeInterrupted \<Rightarrow> read_child timeout output es
      | PipeSilent \<Rightarrow> (output, True)
      | _ \<Rightarrow> (output, False))"

text \<open>The output and the exit code.\<close>

definition executeCommandWithTimeout :: "child \<Rightarrow> int \<Rightarrow> string \<times> int" where
  "executeCommandWithTimeout ch timeout =
     (case ch_pipe_error ch of
        Some e \<Rightarrow> (''Failed to create pipe: '' @ e, 1)
      | None \<Rightarrow> (case ch_fork_error ch of
          Some e \<Rightarrow> (''Failed to fork: '' @ e, 1)
        | None \<Rightarrow>
            let (output, timed_out) = read_child timeout [] (ch_events ch) in
            if timed_out then (output @ NL @ ''[TIMEOUT after '' @ to_string timeout @ ''s]'', 124)
            else (output, case ch_exit ch of Some c \<Rightarrow> c | None \<Rightarrow> 1)))"

definition deadlock_prone :: "string \<Rightarrow> bool" where
  "deadlock_prone cmd \<longleftrightarrow>
     contains_str ''daemon send'' cmd \<or> contains_str ''daemon daemon'' cmd \<or>
     contains_str ''/daemon send'' cmd \<or> contains_str '' d '' cmd \<or>
     length cmd \<ge> 2 \<and> cmd ! 0 = CHR ''d'' \<and> cmd ! 1 = CHR '' ''"

text \<open>\<open>run\<close> gives the child process of a command line.\<close>

definition handleExecRequest :: "(string \<Rightarrow> child) \<Rightarrow> handler" where
  "handleExecRequest run command s =
     with_key command ''directory'' s (\<lambda>directory. with_key command ''shellCmd'' s (\<lambda>cmd.
       if deadlock_prone cmd then
         reply 1 (''Error: Cannot run daemon commands via execOnPeer (would cause deadlock). '' @
           ''Use direct daemon commands instead (e.g., '' @ [CHR 0x27] @ ''d listPorts'' @ [CHR 0x27] @
           '' locally forwards to leader).'' @ NL) s
       else
         let (output, exit_code) =
               executeCommandWithTimeout (run (''cd '' @ directory @ '' && '' @ cmd @ '' 2>&1'')) 60
         in reply exit_code output s))"

definition remote_exec :: "os \<Rightarrow> string \<Rightarrow> string \<Rightarrow> handler" where
  "remote_exec env directory cmd command s = with_key command ''peer'' s (\<lambda>pid.
     handleExecOnPeer env (JObj [(''command'', JStr ''execOnPeer''), (''directory'', JStr directory),
       (''peer'', JStr pid), (''shellCmd'', JStr cmd)]) s)"

definition handleRemotePull :: "os \<Rightarrow> handler" where
  "handleRemotePull env = remote_exec env ''/opt/automateLinux'' ''git pull''"

definition handleRemoteBd :: "os \<Rightarrow> handler" where
  "handleRemoteBd env = remote_exec env ''/opt/automateLinux/daemon''
     (''bash -c '' @ [CHR 0x27] @ ''source ./build.sh'' @ [CHR 0x27])"

definition handleRemoteDeployDaemon :: "os \<Rightarrow> handler" where
  "handleRemoteDeployDaemon env command s = with_key command ''peer'' s (\<lambda>pid.
     let (s1, ip) = resolvePeerIP env pid s in
     if ip = [] then reply 1 (''Could not find IP for peer: '' @ pid @ NL) s1
     else let (s2, r) = sendToManager env ip (JObj [(''command'', JStr ''deploy'')]) s1 in (s2, Inr r))"

end
