(* ===== verification/App_Commands.thy ===== *)
theory App_Commands
  imports Peer_Commands
begin

text \<open>
  The command handlers of \<open>daemon/src/cmdApp.cpp\<close>: starting, stopping, building, deploying and
  registering applications on this machine, and the commands for applications on other machines.
\<close>

subsection \<open>The checks the handlers begin with\<close>

definition with_app :: "json \<Rightarrow> daemon \<Rightarrow> (string \<Rightarrow> daemon \<times> cmd_result result) \<Rightarrow> daemon \<times> cmd_result result" where
  "with_app command s f =
     (if \<not> jcontains command ''app'' then reply 1 (''Missing required argument: --app'' @ NL) s
      else with_key command ''app'' s f)"

definition known_app :: "string \<Rightarrow> daemon \<Rightarrow> (AppConfig \<Rightarrow> daemon \<times> cmd_result result) \<Rightarrow> daemon \<times> cmd_result result" where
  "known_app aid s f =
     (let cfg = getAppConfig aid (dm_db s) in
      if appId cfg = [] then reply 1 (''Unknown app: '' @ aid @ NL) s else f cfg)"

definition dev_only :: "string \<Rightarrow> AppConfig \<Rightarrow> bool" where
  "dev_only mode cfg \<longleftrightarrow> mode = ''prod'' \<and> prodPath cfg = []"

definition dev_only_reply :: "string \<Rightarrow> daemon \<Rightarrow> daemon \<times> cmd_result result" where
  "dev_only_reply aid = reply 1 (aid @ '' is dev-only (no prod mode available)'' @ NL)"

definition app_in_mode ::
  "json \<Rightarrow> daemon \<Rightarrow> (string \<Rightarrow> string \<Rightarrow> AppConfig \<Rightarrow> daemon \<times> cmd_result result) \<Rightarrow> daemon \<times> cmd_result result" where
  "app_in_mode command s f = with_app command s (\<lambda>aid.
     with_result s (opt_string command ''mode'' ''dev'') (\<lambda>mode.
     known_app aid s (\<lambda>cfg. if dev_only mode cfg then dev_only_reply aid s else f aid mode cfg)))"

definition server_service :: "string \<Rightarrow> string \<Rightarrow> AppConfig \<Rightarrow> string option" where
  "server_service aid mode cfg =
     (if hasServerComponent cfg \<and> serverServiceTemplate cfg \<noteq> []
      then Some (resolveServiceName (serverServiceTemplate cfg) aid mode) else None)"

definition client_service :: "string \<Rightarrow> string \<Rightarrow> AppConfig \<Rightarrow> string option" where
  "client_service aid mode cfg =
     (if clientServiceTemplate cfg \<noteq> [] then Some (resolveServiceName (clientServiceTemplate cfg) aid mode)
      else None)"

text \<open>Run an operation on a service, if there is one, and report which of the two lines applies.\<close>

definition on_service ::
  "(string \<Rightarrow> daemon \<Rightarrow> daemon \<times> bool) \<Rightarrow> string \<Rightarrow> string \<Rightarrow> string option \<Rightarrow> daemon \<Rightarrow> daemon \<times> string \<times> bool" where
  "on_service f ok failed svc s = (case svc of
      None \<Rightarrow> (s, [], True)
    | Some n \<Rightarrow> let (s1, b) = f n s in (s1, (if b then ok else failed) @ '' '' @ n @ NL, b))"

definition port_key_client_mode :: "AppConfig \<Rightarrow> string \<Rightarrow> string" where
  "port_key_client_mode cfg mode = ''port_'' @ portKeyClient cfg @ ''-'' @ mode"

definition port_key_server_mode :: "AppConfig \<Rightarrow> string \<Rightarrow> string" where
  "port_key_server_mode cfg mode = ''port_'' @ portKeyServer cfg @ (if mode = ''dev'' then ''-dev'' else [])"

text \<open>Act on the port stored under a key, if there is one; \<open>stoi\<close> may raise.\<close>

definition on_stored_port ::
  "string \<Rightarrow> (int \<Rightarrow> daemon \<Rightarrow> daemon \<times> 'b result) \<Rightarrow> 'b \<Rightarrow> daemon \<Rightarrow> daemon \<times> 'b result" where
  "on_stored_port key act dflt s =
     (let portStr = getSetting key (dm_db s) in
      if portStr = [] then (s, Inr dflt) else with_result s (stoi portStr) (\<lambda>port. act port s))"

text \<open>The part of a loop body after a step that may raise.\<close>

definition and_then :: "daemon \<times> 'a result \<Rightarrow> ('a \<Rightarrow> daemon \<Rightarrow> daemon \<times> 'b result) \<Rightarrow> daemon \<times> 'b result" where
  "and_then r k = (case r of (s, Inl e) \<Rightarrow> (s, Inl e) | (s, Inr x) \<Rightarrow> k x s)"

definition both_ports :: "AppConfig \<Rightarrow> string \<Rightarrow> (int \<Rightarrow> daemon \<Rightarrow> daemon) \<Rightarrow> daemon \<Rightarrow> daemon \<times> unit result" where
  "both_ports cfg mode act s = and_then
     (on_stored_port (port_key_client_mode cfg mode) (\<lambda>p s. (act p s, Inr ())) () s)
     (\<lambda>_ s1. if hasServerComponent cfg \<and> portKeyServer cfg \<noteq> []
        then on_stored_port (port_key_server_mode cfg mode) (\<lambda>p s. (act p s, Inr ())) () s1
        else (s1, Inr ()))"

subsection \<open>Starting and stopping\<close>

definition handleStartApp :: "os \<Rightarrow> handler" where
  "handleStartApp env command s = app_in_mode command s (\<lambda>aid mode cfg.
     let (s1, t1, _) = on_service (startService env) ''Started'' ''Failed to start'' (server_service aid mode cfg) s;
         (s2, t2, _) = on_service (startService env) ''Started'' ''Failed to start'' (client_service aid mode cfg) s1
     in reply 0 (t1 @ t2) s2)"

definition app_modes :: "string \<Rightarrow> AppConfig \<Rightarrow> string list" where
  "app_modes mode cfg =
     (if mode = ''all'' then (if prodPath cfg = [] then [''dev''] else [''prod'', ''dev'']) else [mode])"

definition stop_mode :: "os \<Rightarrow> string \<Rightarrow> AppConfig \<Rightarrow> string \<Rightarrow> daemon \<Rightarrow> daemon \<times> string result" where
  "stop_mode env aid cfg m s =
     (let (s1, t1, _) = on_service (stopService env) ''Stopped'' [] (client_service aid m cfg) s;
          (s2, t2, _) = on_service (stopService env) ''Stopped'' [] (server_service aid m cfg) s1
      in and_then (both_ports cfg m (killProcessOnPort env) s2) (\<lambda>_ s3. (s3, Inr (t1 @ t2))))"

fun over_modes ::
  "(string \<Rightarrow> daemon \<Rightarrow> daemon \<times> string result) \<Rightarrow> string list \<Rightarrow> string \<Rightarrow> daemon \<Rightarrow> daemon \<times> cmd_result result" where
  "over_modes f [] out s = reply 0 out s"
| "over_modes f (m # ms) out s = and_then (f m s) (\<lambda>t s1. over_modes f ms (out @ t) s1)"

definition app_all_modes ::
  "json \<Rightarrow> daemon \<Rightarrow> (string \<Rightarrow> AppConfig \<Rightarrow> string \<Rightarrow> daemon \<Rightarrow> daemon \<times> string result) \<Rightarrow> daemon \<times> cmd_result result" where
  "app_all_modes command s f = with_app command s (\<lambda>aid.
     with_result s (opt_string command ''mode'' ''all'') (\<lambda>mode.
     known_app aid s (\<lambda>cfg.
       if dev_only mode cfg then dev_only_reply aid s
       else over_modes (f aid cfg) (app_modes mode cfg) [] s)))"

definition handleStopApp :: "os \<Rightarrow> handler" where
  "handleStopApp env command s = app_all_modes command s (stop_mode env)"

definition handleRestartApp :: "os \<Rightarrow> handler" where
  "handleRestartApp env command s = app_in_mode command s (\<lambda>aid mode cfg.
     let (s1, _, _) = on_service (stopService env) [] [] (client_service aid mode cfg) s;
         (s2, _, _) = on_service (stopService env) [] [] (server_service aid mode cfg) s1
     in and_then (both_ports cfg mode (\<lambda>port s. fst (waitForPortRelease env port 10000 s)) s2) (\<lambda>_ s3.
          let (s4, t1, _) = on_service (restartService env) ''Restarted'' ''Failed to restart'' (server_service aid mode cfg) s3;
              (s5, t2, _) = on_service (restartService env) ''Restarted'' ''Failed to restart'' (client_service aid mode cfg) s4
          in reply 0 (t1 @ t2) s5))"

definition handleEnableApp :: "os \<Rightarrow> handler" where
  "handleEnableApp env command s = app_in_mode command s (\<lambda>aid mode cfg.
     let (s1, t1, b1) = on_service (enableService env) ''Enabled'' ''Failed to enable'' (server_service aid mode cfg) s;
         (s2, t2, b2) = on_service (enableService env) ''Enabled'' ''Failed to enable'' (client_service aid mode cfg) s1
     in reply (if b1 \<and> b2 then 0 else 1) (t1 @ t2) s2)"

definition disable_mode :: "os \<Rightarrow> string \<Rightarrow> AppConfig \<Rightarrow> string \<Rightarrow> daemon \<Rightarrow> daemon \<times> string result" where
  "disable_mode env aid cfg m s =
     (let (s1, t1, _) = on_service (disableService env) ''Disabled'' ''Disabled'' (client_service aid m cfg) s;
          (s2, t2, _) = on_service (disableService env) ''Disabled'' ''Disabled'' (server_service aid m cfg) s1
      in (s2, Inr (t1 @ t2)))"

definition handleDisableApp :: "os \<Rightarrow> handler" where
  "handleDisableApp env command s = app_all_modes command s (disable_mode env)"

subsection \<open>Reports\<close>

definition running_text :: "bool \<Rightarrow> string" where
  "running_text b = (if b then ''RUNNING'' else ''STOPPED'')"

definition service_line :: "os \<Rightarrow> string \<Rightarrow> string option \<Rightarrow> daemon \<Rightarrow> daemon \<times> string" where
  "service_line env label svc s = (case svc of
      None \<Rightarrow> (s, [])
    | Some n \<Rightarrow> let (s1, active) = isServiceActive env n s in
        (s1, ''    '' @ label @ '' ('' @ n @ ''): '' @ running_text active @ NL))"

definition app_mode_status :: "os \<Rightarrow> AppConfig \<Rightarrow> string \<Rightarrow> daemon \<Rightarrow> daemon \<times> string result" where
  "app_mode_status env app mode s =
     (if dev_only mode app then (s, Inr [])
      else let (s1, t1) = service_line env ''Server'' (server_service (appId app) mode app) s;
               (s2, t2) = service_line env ''Client'' (client_service (appId app) mode app) s1
      in and_then
        (on_stored_port (port_key_client_mode app mode) (\<lambda>port s.
           let (s', listening) = isPortListening env port s in
           (s', Inr (''    Port '' @ to_string port @ '': '' @
              (if listening then ''LISTENING'' else ''NOT LISTENING'') @ NL))) [] s2)
        (\<lambda>t3 s3. (s3, Inr (''  ['' @ mode @ '']'' @ NL @ t1 @ t2 @ t3))))"

fun app_statuses :: "os \<Rightarrow> AppConfig list \<Rightarrow> string \<Rightarrow> daemon \<Rightarrow> daemon \<times> cmd_result result" where
  "app_statuses env [] out s = reply 0 out s"
| "app_statuses env (app # apps) out s =
     and_then (app_mode_status env app ''prod'' s) (\<lambda>t1 s1.
     and_then (app_mode_status env app ''dev'' s1) (\<lambda>t2 s2.
       app_statuses env apps
         (out @ ''=== '' @ displayName app @ '' ('' @ appId app @ '') ==='' @ NL @ t1 @ t2) s2))"

definition handleAppStatus :: "os \<Rightarrow> handler" where
  "handleAppStatus env command s = with_result s (opt_string command ''app'' []) (\<lambda>aid.
     if aid = [] then app_statuses env (AppManager_getAllApps (dm_db s)) [] s
     else known_app aid s (\<lambda>cfg. app_statuses env [cfg] [] s))"

definition handleListApps :: handler where
  "handleListApps command s = reply 0 (''Registered Apps:'' @ NL @
     concat (map (\<lambda>app. ''  - '' @ appId app @ '': '' @ displayName app @
       (if hasServerComponent app then '' (has server)'' else []) @ NL) (AppManager_getAllApps (dm_db s)))) s"

definition handleListExtraApps :: handler where
  "handleListExtraApps command s =
     (let d = dm_db s; apps = getAllApps d; port = (\<lambda>a k. getSetting (''port_'' @ app_id a @ k) d) in
      if apps = [] then reply 0 (''No extra apps registered in database.'' @ NL) s
      else reply 0 (''Extra Apps (from database):'' @ NL @ ''=========================='' @ NL @
        concat (map (\<lambda>a. NL @ app_id a @ '':'' @ NL @
          ''  Display Name: '' @ display_name a @ NL @ ''  Repo URL: '' @ repo_url a @ NL @
          ''  Dev Path: '' @ dev_path a @ NL @ ''  Prod Path: '' @ prod_path a @ NL @
          ''  Has Server: '' @ (if has_server_component a then ''yes'' else ''no'') @ NL @
          (if has_server_component a then ''  Server Subdir: '' @ server_build_subdir a @ NL else []) @
          ''  Client Subdir: '' @ (if client_subdir a = [] then ''(root)'' else client_subdir a) @ NL @
          ''  Ports: prod='' @ port a ''-prod'' @ '', dev='' @ port a ''-dev'' @
          (if has_server_component a then '', server='' @ port a ''-server'' else []) @ NL) apps)) s)"

subsection \<open>Builds\<close>

definition build_component :: "os \<Rightarrow> string \<Rightarrow> string \<Rightarrow> string \<Rightarrow> string \<Rightarrow> daemon \<Rightarrow> daemon \<times> cmd_result" where
  "build_component env aid mode component path s =
     (let (s1, rc) = std_system env (''/usr/bin/test -d '' @ path) s in
      if rc \<noteq> 0 then (s1, CmdResult 1 (''No '' @ component @ '' directory found at: '' @ path @ NL))
      else let (s2, out) = buildCppComponent env path s1;
               result = ''Building '' @ aid @ '' '' @ component @ '' ('' @ mode @ '')...'' @ NL @ out
           in (s2, CmdResult (if contains_str ''Build complete'' result then 0 else 1) result))"

definition handleBuildApp :: "os \<Rightarrow> handler" where
  "handleBuildApp env command s = with_app command s (\<lambda>aid.
     with_result s (opt_string command ''mode'' ''dev'') (\<lambda>mode.
     with_result s (opt_string command ''component'' ''server'') (\<lambda>component.
     known_app aid s (\<lambda>cfg.
       if dev_only mode cfg then dev_only_reply aid s
       else if component = ''server'' then
         (if \<not> hasServerComponent cfg
          then reply 1 (''App '' @ aid @ '' has no server component to build'' @ NL) s
          else let (s1, out) = buildServerComponent env aid mode s in
            reply (if contains_str ''Build complete'' out then 0 else 1) out s1)
       else let (s1, r) = build_component env aid mode component
                  (getAppPath aid mode (dm_db s) @ ''/'' @ component) s
            in (s1, Inr r)))))"

definition handleInstallAppDeps :: "os \<Rightarrow> handler" where
  "handleInstallAppDeps env command s = with_app command s (\<lambda>aid.
     with_result s (opt_string command ''mode'' ''dev'') (\<lambda>mode.
     with_result s (opt_string command ''component'' ''all'') (\<lambda>component.
     known_app aid s (\<lambda>cfg.
       if dev_only mode cfg then dev_only_reply aid s
       else let (s1, out) = installDependencies env aid mode component s in
         reply (if \<not> contains_str ''Error'' out \<and> \<not> contains_str ''ERR!'' out then 0 else 1) out s1))))"

subsection \<open>Extra applications\<close>

fun first_dir_with :: "os \<Rightarrow> string \<Rightarrow> string \<Rightarrow> string list \<Rightarrow> daemon \<Rightarrow> daemon \<times> string option" where
  "first_dir_with env appPath file [] s = (s, None)"
| "first_dir_with env appPath file (dir # dirs) s =
     (let checkPath = appPath @ ''/'' @ dir;
          (s1, rc) = std_system env (''/usr/bin/test -d '' @ checkPath) s
      in if rc \<noteq> 0 then first_dir_with env appPath file dirs s1
      else let (s2, rc2) = std_system env (''/usr/bin/test -f '' @ checkPath @ ''/'' @ file) s1 in
        if rc2 = 0 then (s2, Some dir) else first_dir_with env appPath file dirs s2)"

definition detectAppStructure :: "os \<Rightarrow> string \<Rightarrow> daemon \<Rightarrow> daemon \<times> bool \<times> string \<times> string" where
  "detectAppStructure env appPath s =
     (let (s1, server) = first_dir_with env appPath ''CMakeLists.txt'' [''server'', ''backend'', ''api''] s;
          (s2, client) = first_dir_with env appPath ''package.json'' [''client'', ''web'', ''frontend'', ''app''] s1;
          s3 = (if client = None then fst (std_system env (''/usr/bin/test -f '' @ appPath @ ''/package.json'') s2)
                else s2)
      in (s3, server \<noteq> None, case server of Some d \<Rightarrow> d | None \<Rightarrow> [], case client of Some d \<Rightarrow> d | None \<Rightarrow> []))"

definition DEV_APPS_DIR :: string where "DEV_APPS_DIR = ''/opt/dev/''"
definition PROD_APPS_DIR :: string where "PROD_APPS_DIR = ''/opt/prod/''"

text \<open>Steps 1 and 2: the clone and the worktree; \<open>Inl\<close> is the reply when the clone fails.\<close>

definition prepare_checkout ::
  "os \<Rightarrow> string \<Rightarrow> string \<Rightarrow> string \<Rightarrow> daemon \<Rightarrow> daemon \<times> (cmd_result + string)" where
  "prepare_checkout env repoUrl dev worktree s =
     (let (s1, rc) = std_system env (''/usr/bin/test -d '' @ dev) s;
          clone = (if rc \<noteq> 0 then
              let (s', out) = executeCommand env (''/usr/bin/git clone '' @ repoUrl @ '' '' @ dev @ '' 2>&1'') s1 in
              if contains_str ''fatal'' out \<or> contains_str ''error'' out
              then (s', Inl (CmdResult 1 (''Failed to clone repository:'' @ NL @ out @ NL)))
              else (s', Inr (''  Cloning repository to '' @ dev @ ''...'' @ NL @ ''  Clone: OK'' @ NL))
            else (s1, Inr (''  Directory already exists: '' @ dev @ NL)))
      in case clone of
        (s2, Inl r) \<Rightarrow> (s2, Inl r)
      | (s2, Inr t1) \<Rightarrow>
          let (s3, rc2) = std_system env (''/usr/bin/test -d '' @ worktree) s2 in
          if rc2 = 0 then (s3, Inr (t1 @ ''  Prod worktree already exists: '' @ worktree @ NL))
          else
            let (s4, _) = std_system env ''/usr/bin/mkdir -p /opt/prod'' s3;
                (s5, hash) = executeCommand env (''cd '' @ dev @ '' && /usr/bin/git rev-parse HEAD'') s4;
                (s6, out) = executeCommand env (''cd '' @ dev @ '' && /usr/bin/git worktree add --detach '' @
                  worktree @ '' '' @ rtrim hash @ '' 2>&1'') s5
            in (s6, Inr (t1 @ ''  Creating prod worktree at '' @ worktree @ ''...'' @ NL @
                 (if contains_str ''fatal'' out then ''  Warning: Could not create worktree: '' @ out @ NL
                  else ''  Worktree: OK'' @ NL))))"

text \<open>Step 3 after the detection: the overrides given in the command.\<close>

definition structure_overrides :: "json \<Rightarrow> bool \<times> string \<times> string \<Rightarrow> (bool \<times> string \<times> string) result" where
  "structure_overrides command = (\<lambda>(hasServer, serverSubdir, clientDir).
     try_result (if jcontains command ''hasServer'' then try_result (jat command ''hasServer'') jget_bool
                 else Inr hasServer) (\<lambda>hs.
     try_result (opt_string command ''serverSubdir'' serverSubdir) (\<lambda>ss.
     try_result (opt_string command ''clientSubdir'' clientDir) (\<lambda>cs.
       Inr (hs \<or> (jcontains command ''serverSubdir'' \<and> ss \<noteq> []), ss, cs)))))"

definition extra_app_record ::
  "string \<Rightarrow> string \<Rightarrow> string \<Rightarrow> bool \<Rightarrow> string \<Rightarrow> string \<Rightarrow> ExtraAppRecord" where
  "extra_app_record aid title repoUrl hasServer serverDir clientDir =
     \<lparr>app_id = aid, display_name = title, repo_url = repoUrl, has_server_component = hasServer,
      server_service_template = (if hasServer then aid @ ''-server-{mode}'' else []),
      client_service_template = aid @ ''-{mode}'', port_key_client = aid,
      port_key_server = (if hasServer then aid @ ''-server'' else []),
      dev_path = DEV_APPS_DIR @ aid, prod_path = PROD_APPS_DIR @ aid,
      server_build_subdir = serverDir, client_subdir = clientDir\<rparr>"

definition save_ports :: "string \<Rightarrow> int \<Rightarrow> int \<Rightarrow> int option \<Rightarrow> db \<Rightarrow> db" where
  "save_ports aid prodPort devPort serverPort d =
     (let d1 = setSetting (''port_'' @ aid @ ''-prod'') (to_string prodPort) d;
          d2 = setSetting (''port_'' @ aid @ ''-dev'') (to_string devPort) d1
      in case serverPort of Some p \<Rightarrow> setSetting (''port_'' @ aid @ ''-server'') (to_string p) d2 | None \<Rightarrow> d2)"

text \<open>Steps 4 to 6, after the structure is known.\<close>

definition register_extra_app ::
  "os \<Rightarrow> json \<Rightarrow> string \<Rightarrow> string \<Rightarrow> string \<Rightarrow> bool \<times> string \<times> string \<Rightarrow> daemon \<Rightarrow> daemon \<times> cmd_result result" where
  "register_extra_app env command repoUrl aid text = (\<lambda>(hasServer, serverDir, clientDir) s.
     let (prodPort, devPort) = findNextAvailablePortPair (dm_db s);
         serverPort = (if hasServer then findNextAvailableServerPort (dm_db s) else - 1);
         port_line = (\<lambda>k p. ''    '' @ aid @ k @ '': '' @ to_string p @ NL)
     in if prodPort < 0 then reply 1 (''No available ports in 3000-3499 range'' @ NL) s
     else if hasServer \<and> serverPort < 0 then reply 1 (''No available server ports in 3500+ range'' @ NL) s
     else
       let s1 = s\<lparr>dm_db := save_ports aid prodPort devPort (if hasServer then Some serverPort else None) (dm_db s)\<rparr> in
       with_result s1 (opt_string command ''displayName'' aid) (\<lambda>title.
         let s2 = s1\<lparr>dm_db := upsertApp
                    (extra_app_record aid title repoUrl hasServer serverDir clientDir) (dm_db s1)\<rparr>;
             (s3, _) = std_system env (''fixAutoLinuxPerms '' @ DEV_APPS_DIR @ aid @ '' 2>/dev/null'') s2;
             (s4, _) = std_system env (''fixAutoLinuxPerms '' @ PROD_APPS_DIR @ aid @ '' 2>/dev/null'') s3
         in reply 0 (text @ ''  Structure detected:'' @ NL @
              ''    Has server: '' @ (if hasServer then ''yes'' else ''no'') @ NL @
              (if hasServer then ''    Server subdir: '' @ serverDir @ NL else []) @
              ''    Client subdir: '' @ (if clientDir = [] then ''(root)'' else clientDir) @ NL @
              ''  Ports allocated:'' @ NL @ port_line ''-prod'' prodPort @ port_line ''-dev'' devPort @
              (if hasServer then port_line ''-server'' serverPort else []) @
              ''  Database entry: OK'' @ NL @ NL @ ''App added successfully!'' @ NL @ ''Next steps:'' @ NL @
              ''  1. Install dependencies: d installAppDeps --app '' @ aid @ NL @
              (if hasServer then ''  2. Build server: d buildApp --app '' @ aid @ '' --mode dev'' @ NL else []) @
              ''  3. Create systemd services for '' @ aid @ ''-dev and '' @ aid @ ''-prod'' @ NL @
              ''  4. Start app: d startApp --app '' @ aid @ '' --mode dev'' @ NL) s4))"

definition handleAddExtraApp :: "os \<Rightarrow> handler" where
  "handleAddExtraApp env command s =
     (if \<not> jcontains command ''repoUrl'' then reply 1 (''Missing required argument: --repoUrl'' @ NL) s
      else with_key command ''repoUrl'' s (\<lambda>repoUrl.
        let aid = extractAppNameFromUrl repoUrl in
        if aid = [] then reply 1 (''Could not extract app name from URL: '' @ repoUrl @ NL) s
        else if \<exists>cfg \<in> set APP_CONFIGS. appId cfg = aid
        then reply 1 (''App already exists in hardcoded config: '' @ aid @ NL) s
        else if appExists aid (dm_db s) then reply 1 (''App already registered in database: '' @ aid @ NL) s
        else case prepare_checkout env repoUrl (DEV_APPS_DIR @ aid) (PROD_APPS_DIR @ aid) s of
          (s1, Inl r) \<Rightarrow> (s1, Inr r)
        | (s1, Inr text) \<Rightarrow>
            let (s2, detected) = detectAppStructure env (DEV_APPS_DIR @ aid) s1 in
            with_result s2 (structure_overrides command detected) (\<lambda>structure.
              register_extra_app env command repoUrl aid (''Adding extra app: '' @ aid @ NL @ text) structure s2)))"

definition handleRemoveExtraApp :: handler where
  "handleRemoveExtraApp command s = with_app command s (\<lambda>aid.
     if \<not> appExists aid (dm_db s) then reply 1 (''App not found in database: '' @ aid @ NL) s
     else let app = getApp aid (dm_db s);
              d1 = fst (deleteSetting (''port_'' @ aid @ ''-prod'') (dm_db s));
              d2 = fst (deleteSetting (''port_'' @ aid @ ''-dev'') d1);
              d3 = (if has_server_component app then fst (deleteSetting (''port_'' @ aid @ ''-server'') d2) else d2)
     in reply 0 (''Removing extra app: '' @ aid @ NL @ ''  Removed port assignments'' @ NL @
          ''  Removed database entry'' @ NL @ NL @ ''App removed from registry.'' @ NL @
          ''Note: Files at '' @ dev_path app @ '' and '' @ prod_path app @ '' were NOT deleted.'' @ NL @
          ''To fully remove, manually delete these directories and any systemd services.'' @ NL)
        (s\<lparr>dm_db := deleteApp aid d3\<rparr>))"

subsection \<open>The production worktree\<close>

definition prod_app ::
  "json \<Rightarrow> daemon \<Rightarrow> (string \<Rightarrow> AppConfig \<Rightarrow> daemon \<times> cmd_result result) \<Rightarrow> daemon \<times> cmd_result result" where
  "prod_app command s f = with_app command s (\<lambda>aid. known_app aid s (\<lambda>cfg.
     if prodPath cfg = [] then reply 1 (''App '' @ aid @ '' has no prod path configured'' @ NL) s
     else f aid cfg))"

definition handleProdStatus :: "os \<Rightarrow> handler" where
  "handleProdStatus env command s = prod_app command s (\<lambda>aid cfg.
     let (s1, commit) = executeCommand env (''cd '' @ prodPath cfg @ '' && /usr/bin/git rev-parse --short HEAD 2>&1'') s;
         (s2, st) = executeCommand env (''cd '' @ prodPath cfg @ '' && /usr/bin/git status --porcelain 2>&1'') s1
     in reply 0 (''Prod status for '' @ aid @ '':'' @ NL @ ''  Path: '' @ prodPath cfg @ NL @
          ''  Commit: '' @ rtrim commit @ NL @
          (if st = [] then ''  Status: CLEAN'' @ NL
           else ''  Status: DIRTY (has uncommitted changes)'' @ NL @ ''  Changes:'' @ NL @
             concat (map (\<lambda>l. ''    '' @ l @ NL) (getlines st)))) s2)"

definition handleCleanProd :: "os \<Rightarrow> handler" where
  "handleCleanProd env command s = prod_app command s (\<lambda>aid cfg.
     let (s1, out) = executeCommand env (''cd '' @ prodPath cfg @
           '' && /usr/bin/git checkout -- . && /usr/bin/git clean -fd 2>&1'') s
     in if contains_str ''fatal'' out \<or> contains_str ''error'' out
        then reply 1 (''Failed to clean prod:'' @ NL @ out @ NL) s1
        else reply 0 (''Cleaning prod for '' @ aid @ ''...'' @ NL @ ''  Discarded uncommitted changes'' @ NL @
               ''Prod is now clean.'' @ NL) s1)"

text \<open>Step 1 of the deployment: the commit; \<open>Inl\<close> is the reply when there is none.\<close>

definition deploy_commit :: "os \<Rightarrow> AppConfig \<Rightarrow> string \<Rightarrow> daemon \<Rightarrow> daemon \<times> (cmd_result + string \<times> string)" where
  "deploy_commit env cfg given s =
     (if given \<noteq> [] then (s, Inr (given, ''  Using specified commit: '' @ take 7 given @ NL))
      else let (s1, out) = executeCommand env (''cd '' @ devPath cfg @ '' && /usr/bin/git rev-parse HEAD 2>&1'') s;
               commit = rtrim out
      in if commit = [] \<or> contains_str ''fatal'' commit
         then (s1, Inl (CmdResult 1 (''Failed to get commit from dev: '' @ commit @ NL)))
         else (s1, Inr (commit, ''  Using latest dev commit: '' @ take 7 commit @ NL)))"

text \<open>Step 5: the services of the new version.\<close>

definition deploy_restart :: "os \<Rightarrow> string \<Rightarrow> AppConfig \<Rightarrow> daemon \<Rightarrow> daemon \<times> string result" where
  "deploy_restart env aid cfg s =
     (let (s1, _, _) = on_service (stopService env) [] [] (client_service aid ''prod'' cfg) s;
          (s2, _, _) = on_service (stopService env) [] [] (server_service aid ''prod'' cfg) s1
      in and_then
           (on_stored_port (''port_'' @ portKeyClient cfg @ ''-prod'')
              (\<lambda>port s. (fst (waitForPortRelease env port 10000 s), Inr ())) () s2)
           (\<lambda>_ s3.
             let (s4, t1, _) = on_service (startService env) ''  Started'' ''  Started'' (server_service aid ''prod'' cfg) s3;
                 (s5, t2, _) = on_service (startService env) ''  Started'' ''  Started'' (client_service aid ''prod'' cfg) s4
             in (s5, Inr (t1 @ t2))))"

text \<open>Steps 2 to 5 for a given commit.\<close>

definition deploy_at ::
  "os \<Rightarrow> string \<Rightarrow> AppConfig \<Rightarrow> string \<Rightarrow> string \<Rightarrow> daemon \<Rightarrow> daemon \<times> cmd_result result" where
  "deploy_at env aid cfg commit text s =
     (let (s1, st) = executeCommand env (''cd '' @ prodPath cfg @ '' && /usr/bin/git status --porcelain 2>&1'') s in
      if st \<noteq> [] \<and> \<not> contains_str ''fatal'' st
      then reply 1 (''Prod worktree has uncommitted changes. Aborting.'' @ NL @ ''Run: git -C '' @ prodPath cfg @
             '' status'' @ NL) s1
      else let (s2, out) = executeCommand env (''cd '' @ prodPath cfg @ '' && /usr/bin/git checkout '' @ commit @ '' 2>&1'') s1
      in if contains_str ''fatal'' out \<or> contains_str ''error'' out
         then reply 1 (''Failed to checkout commit:'' @ NL @ out @ NL) s2
      else let builds = hasServerComponent cfg \<and> serverBuildSubdir cfg \<noteq> [];
               (s3, built) = (if builds then buildServerComponent env aid ''prod'' s2 else (s2, []))
      in if builds \<and> \<not> contains_str ''Build complete'' built
         then reply 1 (''Build failed:'' @ NL @ built) s3
      else and_then (deploy_restart env aid cfg s3) (\<lambda>t s4.
        reply 0 (''Deploying '' @ aid @ '' to prod...'' @ NL @ text @ ''  Checkout: OK'' @ NL @
          (if builds then ''  Rebuilding server...'' @ NL @ ''  Build: OK'' @ NL else []) @
          ''  Restarting services...'' @ NL @ t @ NL @ ''Deploy complete!'' @ NL) s4))"

definition handleDeployToProd :: "os \<Rightarrow> handler" where
  "handleDeployToProd env command s = with_app command s (\<lambda>aid.
     with_result s (opt_string command ''commit'' []) (\<lambda>given.
     known_app aid s (\<lambda>cfg.
       if prodPath cfg = [] then reply 1 (''App '' @ aid @ '' has no prod path configured'' @ NL) s
       else case deploy_commit env cfg given s of
         (s1, Inl r) \<Rightarrow> (s1, Inr r)
       | (s1, Inr (commit, text)) \<Rightarrow> deploy_at env aid cfg commit text s1)))"

end
