(* ===== verification/App_Peers.thy ===== *)
theory App_Peers
  imports App_Commands
begin

text \<open>
  The rest of \<open>daemon/src/cmdApp.cpp\<close>: which peers have an application (answered from the status
  cache of the leader), the commands that ask the manager of another machine, and the generation of
  service files.
\<close>

subsection \<open>getAppPeers\<close>

text \<open>A worker relays the command and reads until a piece ends in a newline. The loop has no bound, so
  its result is \<open>None\<close> when the leader sends pieces for ever.\<close>

partial_function (option) read_reply_loop :: "os \<Rightarrow> int \<Rightarrow> string \<Rightarrow> daemon \<Rightarrow> (daemon \<times> string) option" where
  "read_reply_loop env fd response s =
     (case read_fd env fd 8191 s of (s1, r) \<Rightarrow>
        (case r of
           ReadData t \<Rightarrow>
             (if ends_with_nl (response @ c_string t) then Some (s1, response @ c_string t)
              else read_reply_loop env fd (response @ c_string t) s1)
         | ReadEof e \<Rightarrow> Some (s1, response)
         | ReadFailed e \<Rightarrow> Some (s1, response)))"

definition relay_getAppPeers :: "os \<Rightarrow> json \<Rightarrow> daemon \<Rightarrow> (daemon \<times> cmd_result result) option" where
  "relay_getAppPeers env command s =
     (let fd = m_leaderSocket (dm_peers s);
          (s1, ok) = write_fd env fd (on_dump env command @ NL) s
      in if \<not> ok then Some (reply 1 (''Failed to forward getAppPeers to leader'' @ NL) s1)
      else map_option (\<lambda>(s2, response).
             if response = [] then reply 1 (''No response from leader'' @ NL) s2 else reply 0 response s2)
           (read_reply_loop env fd [] s1))"

definition jvalue_bool :: "json \<Rightarrow> string \<Rightarrow> bool result" where
  "jvalue_bool j k = jvalue jget_bool j k False"

definition status_obj :: "PeerRecord \<Rightarrow> json \<Rightarrow> json \<Rightarrow> json \<Rightarrow> json \<Rightarrow> json \<Rightarrow> json" where
  "status_obj p di pri dr prr err = JObj
     (om_put ''error'' err (om_put ''prod_running'' prr (om_put ''dev_running'' dr
     (om_put ''prod_installed'' pri (om_put ''dev_installed'' di
     (om_put ''is_online'' (JBool (is_online p)) (om_put ''peer_id'' (JStr (peer_id p)) [])))))))"

text \<open>The entry of the machine itself.\<close>

definition own_status :: "os \<Rightarrow> string \<Rightarrow> AppConfig \<Rightarrow> PeerRecord \<Rightarrow> daemon \<Rightarrow> daemon \<times> json" where
  "own_status env aid cfg p s =
     (let (s1, di) = file_access env (devPath cfg) s;
          (s2, pri) = (if prodPath cfg \<noteq> [] then file_access env (prodPath cfg) s1 else (s1, False));
          active = (\<lambda>mode s. case client_service aid mode cfg of
              Some svc \<Rightarrow> if svc \<noteq> [] then isServiceActive env svc s else (s, False)
            | None \<Rightarrow> (s, False));
          (s3, dr) = active ''dev'' s2;
          (s4, prr) = active ''prod'' s3
      in (s4, status_obj p (JBool di) (JBool pri) (JBool dr) (JBool prr) JNull))"

text \<open>The entry of another machine, from the cache.\<close>

definition cached_status :: "(string, json) omap \<Rightarrow> string \<Rightarrow> PeerRecord \<Rightarrow> json result" where
  "cached_status cache aid p =
     (if \<not> is_online p then Inr (status_obj p JNull JNull JNull JNull (JStr ''peer offline''))
      else case om_find (peer_id p) cache of
        Some j \<Rightarrow>
          if jcontains j aid then
            try_result (jat j aid) (\<lambda>appData.
            try_result (jvalue_bool appData ''dev_installed'') (\<lambda>di.
            try_result (jvalue_bool appData ''prod_installed'') (\<lambda>pri.
            try_result (jvalue_bool appData ''dev_running'') (\<lambda>dr.
            try_result (jvalue_bool appData ''prod_running'') (\<lambda>prr.
              Inr (status_obj p (JBool di) (JBool pri) (JBool dr) (JBool prr) JNull))))))
          else Inr (status_obj p JNull JNull JNull JNull (JStr ''awaiting heartbeat''))
      | None \<Rightarrow> Inr (status_obj p JNull JNull JNull JNull (JStr ''awaiting heartbeat'')))"

fun peer_statuses ::
  "os \<Rightarrow> (string, json) omap \<Rightarrow> string \<Rightarrow> AppConfig \<Rightarrow> PeerRecord list \<Rightarrow> daemon \<Rightarrow> daemon \<times> json list result" where
  "peer_statuses env cache aid cfg [] s = (s, Inr [])"
| "peer_statuses env cache aid cfg (p # ps) s =
     (if peer_id p = m_peerId (dm_peers s) then
        let (s1, j) = own_status env aid cfg p s in
        and_then (peer_statuses env cache aid cfg ps s1) (\<lambda>js s2. (s2, Inr (j # js)))
      else with_result s (cached_status cache aid p) (\<lambda>j.
        and_then (peer_statuses env cache aid cfg ps s) (\<lambda>js s2. (s2, Inr (j # js)))))"

definition leader_getAppPeers :: "os \<Rightarrow> string \<Rightarrow> AppConfig \<Rightarrow> daemon \<Rightarrow> daemon \<times> cmd_result result" where
  "leader_getAppPeers env aid cfg s =
     (let (s1, now) = sql_now env s in
      and_then (peer_statuses env (dm_appStatus s1) aid cfg (getAllPeers now (dm_db s1)) s1) (\<lambda>js s2.
        reply 0 (on_dump2 env (JObj [(''app'', JStr aid), (''peers'', JArr js)]) @ NL) s2))"

definition handleGetAppPeers :: "os \<Rightarrow> json \<Rightarrow> daemon \<Rightarrow> (daemon \<times> cmd_result result) option" where
  "handleGetAppPeers env command s = (case command_string command ''app'' of
      Inl e \<Rightarrow> Some (s, Inl e)
    | Inr aid \<Rightarrow>
        let cfg = getAppConfig aid (dm_db s) in
        if appId cfg = [] then Some (reply 1 (''Unknown app: '' @ aid @ NL) s)
        else if \<not> isLeader s \<and> isConnectedToLeader s then relay_getAppPeers env command s
        else Some (leader_getAppPeers env aid cfg s))"

subsection \<open>Applications on other machines\<close>

definition getRepoUrl :: "os \<Rightarrow> AppConfig \<Rightarrow> daemon \<Rightarrow> daemon \<times> string" where
  "getRepoUrl env cfg s =
     (let (s1, url) = executeCommand env (''/usr/bin/git -C '' @ devPath cfg @ '' remote get-url origin 2>/dev/null'') s
      in (s1, rtrim url))"

definition put_port :: "string \<Rightarrow> string \<Rightarrow> (string, json) omap \<Rightarrow> (string, json) omap result" where
  "put_port key portStr ports =
     (if portStr = [] then Inr ports
      else try_result (stoi portStr) (\<lambda>p. Inr (om_put key (JInt p) ports)))"

definition getAppPorts :: "AppConfig \<Rightarrow> db \<Rightarrow> json result" where
  "getAppPorts cfg d =
     (let key = portKeyClient cfg in
      try_result (put_port (key @ ''-prod'') (getSetting (''port_'' @ key @ ''-prod'') d) []) (\<lambda>m1.
      try_result (put_port (key @ ''-dev'') (getSetting (''port_'' @ key @ ''-dev'') d) m1) (\<lambda>m2.
      try_result
        (if hasServerComponent cfg \<and> portKeyServer cfg \<noteq> []
         then put_port (portKeyServer cfg) (getSetting (''port_'' @ portKeyServer cfg) d) m2 else Inr m2) (\<lambda>m3.
        Inr (JObj m3)))))"

text \<open>Send a command to the manager of a peer, whose address is looked up first.\<close>

definition to_manager_of :: "os \<Rightarrow> string \<Rightarrow> json \<Rightarrow> daemon \<Rightarrow> daemon \<times> cmd_result result" where
  "to_manager_of env peerId mgrCmd s =
     (let (s1, ip) = resolvePeerIP env peerId s in
      if ip = [] then reply 1 (''Could not find IP for peer: '' @ peerId @ NL) s1
      else let (s2, r) = sendToManager env ip mgrCmd s1 in (s2, Inr r))"

definition json_object :: "(string \<times> json) list \<Rightarrow> json" where
  "json_object kvs = JObj (fold (\<lambda>(k, v). om_put k v) kvs [])"

definition with_app_peer ::
  "json \<Rightarrow> daemon \<Rightarrow> (string \<Rightarrow> string \<Rightarrow> daemon \<times> cmd_result result) \<Rightarrow> daemon \<times> cmd_result result" where
  "with_app_peer command s f =
     (if \<not> jcontains command ''app'' \<or> \<not> jcontains command ''peer''
      then reply 1 (''Missing required arguments: --app --peer'' @ NL) s
      else with_key command ''app'' s (\<lambda>aid. with_key command ''peer'' s (\<lambda>peerId. f aid peerId)))"

definition install_message :: "string \<Rightarrow> AppConfig \<Rightarrow> string \<Rightarrow> json \<Rightarrow> string \<Rightarrow> json" where
  "install_message aid cfg repoUrl ports mode = json_object
     [(''command'', JStr ''install-app''), (''app_id'', JStr aid), (''display_name'', JStr (displayName cfg)),
      (''repo_url'', JStr repoUrl), (''has_server'', JBool (hasServerComponent cfg)),
      (''server_build_subdir'', JStr (serverBuildSubdir cfg)), (''client_subdir'', JStr (clientSubdir cfg)),
      (''client_service_template'', JStr (clientServiceTemplate cfg)),
      (''server_service_template'', JStr (serverServiceTemplate cfg)), (''dev_path'', JStr (devPath cfg)),
      (''prod_path'', JStr (prodPath cfg)), (''ports'', ports), (''mode'', JStr mode)]"

definition handleInstallAppOnPeer :: "os \<Rightarrow> handler" where
  "handleInstallAppOnPeer env command s = with_app_peer command s (\<lambda>aid peerId.
     with_result s (opt_string command ''mode'' ''all'') (\<lambda>mode.
     known_app aid s (\<lambda>cfg.
       let (s1, repoUrl) = getRepoUrl env cfg s in
       if repoUrl = [] then reply 1 (''Could not get repo URL for '' @ aid @ NL) s1
       else with_result s1 (getAppPorts cfg (dm_db s1)) (\<lambda>ports.
         to_manager_of env peerId (install_message aid cfg repoUrl ports mode) s1))))"

definition uninstall_message :: "string \<Rightarrow> AppConfig \<Rightarrow> json" where
  "uninstall_message aid cfg = json_object
     [(''command'', JStr ''uninstall-app''), (''app_id'', JStr aid), (''dev_path'', JStr (devPath cfg)),
      (''prod_path'', JStr (prodPath cfg)), (''client_service_template'', JStr (clientServiceTemplate cfg)),
      (''server_service_template'', JStr (serverServiceTemplate cfg)),
      (''has_server'', JBool (hasServerComponent cfg)), (''port_key_client'', JStr (portKeyClient cfg)),
      (''port_key_server'', JStr (portKeyServer cfg))]"

definition handleUninstallAppOnPeer :: "os \<Rightarrow> handler" where
  "handleUninstallAppOnPeer env command s = with_app_peer command s (\<lambda>aid peerId.
     known_app aid s (\<lambda>cfg. to_manager_of env peerId (uninstall_message aid cfg) s))"

definition control_message :: "string \<Rightarrow> string \<Rightarrow> string \<Rightarrow> json" where
  "control_message action aid mode = json_object
     [(''command'', JStr ''app-control''), (''action'', JStr action), (''app_id'', JStr aid), (''mode'', JStr mode)]"

definition handleStartAppOnPeer :: "os \<Rightarrow> handler" where
  "handleStartAppOnPeer env command s =
     (if \<not> jcontains command ''app'' \<or> \<not> jcontains command ''peer'' \<or> \<not> jcontains command ''mode''
      then reply 1 (''Missing required arguments: --app --peer --mode'' @ NL) s
      else with_key command ''app'' s (\<lambda>aid. with_key command ''peer'' s (\<lambda>peerId.
        with_key command ''mode'' s (\<lambda>mode. to_manager_of env peerId (control_message ''start'' aid mode) s))))"

definition handleStopAppOnPeer :: "os \<Rightarrow> handler" where
  "handleStopAppOnPeer env command s = with_app_peer command s (\<lambda>aid peerId.
     with_result s (opt_string command ''mode'' ''all'') (\<lambda>mode.
       to_manager_of env peerId (control_message ''stop'' aid mode) s))"

subsection \<open>Service files\<close>

definition service_names :: "string \<Rightarrow> AppConfig \<Rightarrow> string list" where
  "service_names aid cfg =
     (let both = (\<lambda>t. resolveServiceName t aid ''dev'' #
            (if prodPath cfg \<noteq> [] then [resolveServiceName t aid ''prod''] else []))
      in (if clientServiceTemplate cfg \<noteq> [] then both (clientServiceTemplate cfg) else []) @
         (if hasServerComponent cfg \<and> serverServiceTemplate cfg \<noteq> [] then both (serverServiceTemplate cfg) else []))"

definition service_file_text :: "AppConfig \<Rightarrow> string \<Rightarrow> db \<Rightarrow> string" where
  "service_file_text cfg svcName d =
     (let isDev = contains_str ''-dev'' svcName;
          mode = (if isDev then ''dev'' else ''prod'');
          workDir = (if isDev then devPath cfg else prodPath cfg) @
            (if clientSubdir cfg \<noteq> [] then ''/'' @ clientSubdir cfg else []);
          portStr = getSetting (port_key_client_mode cfg mode) d
      in ''[Unit]'' @ NL @ ''Description='' @ displayName cfg @ '' ('' @ mode @ '')'' @ NL @
         ''After=network.target daemon.service'' @ NL @ ''Wants=daemon.service'' @ NL @ NL @
         ''[Service]'' @ NL @ ''Type=simple'' @ NL @ ''WorkingDirectory='' @ workDir @ NL @
         ''ExecStart=/usr/bin/npm run '' @ (if isDev then ''dev'' else ''start'') @
         (if portStr = [] then [] else '' -- -p '' @ portStr) @ NL @
         ''Restart=on-failure'' @ NL @ ''RestartSec=5s'' @ NL @ ''User=root'' @ NL @ ''Group=root'' @ NL @
         ''Environment=NODE_ENV='' @ (if isDev then ''development'' else ''production'') @ NL @
         ''StandardOutput=journal'' @ NL @ ''StandardError=journal'' @ NL @ NL @
         ''[Install]'' @ NL @ ''WantedBy=multi-user.target'' @ NL)"

definition servicesDir :: string where "servicesDir = ''/opt/automateLinux/services/system/''"

definition install_service :: "os \<Rightarrow> AppConfig \<Rightarrow> string \<Rightarrow> daemon \<Rightarrow> daemon \<times> string" where
  "install_service env cfg svcName s =
     (let svcFile = svcName @ ''.service'';
          handWritten = servicesDir @ svcFile;
          generated = servicesDir @ ''generated/'' @ svcFile;
          link = (\<lambda>file. ''/usr/bin/ln -sf '' @ file @ '' /etc/systemd/system/'' @ svcFile);
          (s1, rc) = std_system env (''/usr/bin/test -f '' @ handWritten) s
      in if rc = 0 then
           (fst (std_system env (link handWritten) s1), ''  '' @ svcFile @ '' -> linked (hand-written)'' @ NL)
         else let (s2, ok) = put_file env generated (service_file_text cfg svcName (dm_db s1)) s1 in
           if ok then (fst (std_system env (link generated) s2), ''  '' @ svcFile @ '' -> linked (generated)'' @ NL)
           else (s2, ''  '' @ svcFile @ '' -> FAILED to write generated file'' @ NL))"

fun install_services :: "os \<Rightarrow> AppConfig \<Rightarrow> string list \<Rightarrow> daemon \<Rightarrow> daemon \<times> string" where
  "install_services env cfg [] s = (s, [])"
| "install_services env cfg (n # ns) s =
     (let (s1, t) = install_service env cfg n s; (s2, ts) = install_services env cfg ns s1 in (s2, t @ ts))"

definition handleInstallAppServices :: "os \<Rightarrow> handler" where
  "handleInstallAppServices env command s = with_app command s (\<lambda>aid. known_app aid s (\<lambda>cfg.
     let (s1, t) = install_services env cfg (service_names aid cfg) s;
         (s2, _) = std_system env ''/usr/bin/systemctl daemon-reload'' s1
     in reply 0 (''Installing service files for '' @ aid @ ''...'' @ NL @ t @
          ''  systemctl daemon-reload: OK'' @ NL) s2))"

end
