(* ===== verification/App_Facts.thy ===== *)
theory App_Facts
  imports App_Peers
begin

text \<open>
  Facts about the application manager: the wait for a port, the registry of applications, adding and
  removing an extra application, and what stopping one calls.
\<close>

subsection \<open>Waiting for a port\<close>

definition ss_command :: "int \<Rightarrow> string" where
  "ss_command port = ''/usr/bin/ss -tlnH sport = :'' @ to_string port"

definition kill_command :: "int \<Rightarrow> string" where
  "kill_command port = ''/usr/bin/fuser -k -9 '' @ to_string port @ ''/tcp 2>/dev/null''"

text \<open>\<open>port_listens env port h\<close>: the port has a listener after the calls \<open>h\<close>.\<close>

definition port_listens :: "os \<Rightarrow> int \<Rightarrow> os_call list \<Rightarrow> bool" where
  "port_listens env port h \<longleftrightarrow> chomp (on_popen env h (ss_command port)) \<noteq> []"

definition wait_round :: "int \<Rightarrow> nat \<Rightarrow> os_call list" where
  "wait_round port i = [Popen (ss_command port)] @
     (if i \<ge> 13 then [System (kill_command port)] else []) @ [SleepMs 200]"

definition wait_rounds :: "int \<Rightarrow> nat \<Rightarrow> os_call list" where
  "wait_rounds port n = concat (map (wait_round port) [0..<n])"

lemma isPortListening_simp:
  "isPortListening env port s =
     (s\<lparr>dm_calls := dm_calls s @ [Popen (ss_command port)]\<rparr>, port_listens env port (dm_calls s))"
  by (simp add: isPortListening_def executeCommand_def os_do_def port_listens_def ss_command_def)

lemma killProcessOnPort_simp:
  "killProcessOnPort env port s = s\<lparr>dm_calls := dm_calls s @ [System (kill_command port)]\<rparr>"
  by (simp add: killProcessOnPort_def std_system_def os_do_def kill_command_def)

lemma sleep_ms_simp: "sleep_ms n s = s\<lparr>dm_calls := dm_calls s @ [SleepMs n]\<rparr>"
  by (simp add: sleep_ms_def os_do_def)

lemma wait_rounds_Suc: "wait_rounds port (Suc n) = wait_rounds port n @ wait_round port n"
  by (simp add: wait_rounds_def)

text \<open>The first round in which the port is free, or the round in which the time is over.\<close>

definition wait_length :: "os \<Rightarrow> int \<Rightarrow> os_call list \<Rightarrow> nat \<Rightarrow> nat \<Rightarrow> nat" where
  "wait_length env port h i n =
     (case find (\<lambda>j. \<not> port_listens env port (h @ wait_rounds port j)) [i..<n] of Some j \<Rightarrow> j | None \<Rightarrow> n)"

lemma wait_loop_rounds:
  assumes "i \<le> n"
  shows "wait_port_loop env port (200 * int n) (200 * int i) (s\<lparr>dm_calls := h @ wait_rounds port i\<rparr>) =
     (let k = wait_length env port h i n in
      (s\<lparr>dm_calls := h @ wait_rounds port k @ [Popen (ss_command port)]\<rparr>, 200 * int k))"
  using assms
proof (induction "n - i" arbitrary: i)
  case 0
  then have "i = n" by simp
  then show ?case
    by (subst wait_port_loop.simps) (simp add: isPortListening_simp wait_length_def Let_def)
next
  case (Suc m)
  let ?s = "s\<lparr>dm_calls := h @ wait_rounds port i\<rparr>"
  have i: "i < n" "m = n - Suc i" using Suc.hyps(2) by auto
  show ?case
  proof (cases "port_listens env port (h @ wait_rounds port i)")
    case False
    then have "wait_length env port h i n = i"
      using i by (simp add: wait_length_def upt_conv_Cons)
    with False show ?thesis
      by (subst wait_port_loop.simps) (simp add: isPortListening_simp)
  next
    case True
    then have len: "wait_length env port h i n = wait_length env port h (Suc i) n"
      using i by (simp add: wait_length_def upt_conv_Cons)
    have "wait_port_loop env port (200 * int n) (200 * int i) ?s =
        wait_port_loop env port (200 * int n) (200 * int (Suc i)) (s\<lparr>dm_calls := h @ wait_rounds port (Suc i)\<rparr>)"
      using True i
      by (subst wait_port_loop.simps)
         (auto simp: isPortListening_simp killProcessOnPort_simp sleep_ms_simp wait_rounds_Suc wait_round_def
           Let_def add.commute)
    also have "\<dots> = (let k = wait_length env port h i n in
      (s\<lparr>dm_calls := h @ wait_rounds port k @ [Popen (ss_command port)]\<rparr>, 200 * int k))"
      unfolding len using Suc.hyps(1) [of "Suc i"] i by simp
    finally show ?thesis .
  qed
qed

lemma wait_length_le: "i \<le> n \<Longrightarrow> wait_length env port h i n \<le> n"
  using find_Some_iff [of "\<lambda>j. \<not> port_listens env port (h @ wait_rounds port j)" "[i..<n]"]
  by (auto simp: wait_length_def split: option.split)

lemma kill_in_wait_rounds:
  "System (kill_command port) \<in> set (wait_rounds port n) \<longleftrightarrow> n > 13"
  by (induction n) (auto simp: wait_rounds_def wait_round_def)

lemma sleeps_in_wait_rounds: "length (filter ((=) (SleepMs 200)) (wait_rounds port n)) = n"
  by (induction n) (auto simp: wait_rounds_def wait_round_def)

subsection \<open>The registry\<close>

text \<open>The table's key: no two rows agree under the collation, and no row has the empty name.\<close>

definition apps_ok :: "db \<Rightarrow> bool" where
  "apps_ok d \<longleftrightarrow> distinct (map (\<lambda>r. db_collate d (app_id r)) (extra_apps d)) \<and>
     [] \<notin> app_id ` set (extra_apps d)"

lemma appId_record [simp]: "appId (recordToConfig r) = app_id r"
  by (simp add: recordToConfig_def)

lemma add_configs_members:
  "cfg \<in> set (add_configs cfgs rs) \<Longrightarrow> cfg \<in> set cfgs \<or> (\<exists>r \<in> set rs. cfg = recordToConfig r \<and>
     app_id r \<notin> appId ` set cfgs)"
proof (induction cfgs rs rule: add_configs.induct)
  case (2 allApps r rs)
  then show ?case by (auto split: if_splits)
qed simp

lemma add_configs_distinct:
  "distinct (map appId cfgs) \<Longrightarrow> distinct (map appId (add_configs cfgs rs))"
proof (induction cfgs rs rule: add_configs.induct)
  case (2 allApps r rs)
  have "distinct (map appId (if \<exists>cfg \<in> set allApps. appId cfg = app_id r then allApps
      else allApps @ [recordToConfig r]))"
    using 2(2) by auto
  from 2(1) [OF this] show ?case by simp
qed simp

lemma built_in_ids: "map appId APP_CONFIGS = [''cad'', ''pt'', ''dashboard'']"
  by (simp add: APP_CONFIGS_def)

lemma find_built_in:
  "find (\<lambda>cfg. appId cfg = aid) APP_CONFIGS = None \<longleftrightarrow> aid \<notin> appId ` set APP_CONFIGS"
  by (auto simp: find_None_iff)

lemma find_distinct_key:
  assumes "distinct (map f xs)" "x \<in> set xs"
  shows "find (\<lambda>y. f y = f x) xs = Some x"
  using assms by (induction xs) auto

lemma built_in_found: "cfg \<in> set APP_CONFIGS \<Longrightarrow> find (\<lambda>c. appId c = appId cfg) APP_CONFIGS = Some cfg"
  by (rule find_distinct_key) (simp_all add: built_in_ids)

text \<open>Every application \<open>listApps\<close> shows is found under its own name, with the same
  configuration; no name is listed twice; and the built-in applications come first.\<close>

theorem listed_apps_resolve:
  assumes "apps_ok d"
  shows "distinct (map appId (AppManager_getAllApps d)) \<and>
    take 3 (AppManager_getAllApps d) = APP_CONFIGS \<and>
    (cfg \<in> set (AppManager_getAllApps d) \<longrightarrow> getAppConfig (appId cfg) d = cfg)"
proof (intro conjI impI)
  show "distinct (map appId (AppManager_getAllApps d))"
    unfolding AppManager_getAllApps_def by (rule add_configs_distinct) (simp add: built_in_ids)
next
  have "take (length cfgs) (add_configs cfgs rs) = cfgs" for cfgs rs
  proof (induction cfgs rs rule: add_configs.induct)
    case (2 allApps r rs)
    show ?case
    proof (cases "\<exists>cfg \<in> set allApps. appId cfg = app_id r")
      case False
      with 2 have "take (length allApps + 1) (add_configs allApps (r # rs)) = allApps @ [recordToConfig r]" by simp
      from arg_cong [OF this, of "take (length allApps)"] show ?thesis by simp
    qed (use 2 in simp)
  qed simp
  moreover have "length APP_CONFIGS = 3" by (simp add: APP_CONFIGS_def)
  ultimately show "take 3 (AppManager_getAllApps d) = APP_CONFIGS"
    unfolding AppManager_getAllApps_def by metis
next
  assume cfg: "cfg \<in> set (AppManager_getAllApps d)"
  from add_configs_members [OF this [unfolded AppManager_getAllApps_def]]
  show "getAppConfig (appId cfg) d = cfg"
  proof
    assume "cfg \<in> set APP_CONFIGS"
    then show ?thesis by (simp add: getAppConfig_def built_in_found)
  next
    assume "\<exists>r \<in> set (getAllApps d). cfg = recordToConfig r \<and> app_id r \<notin> appId ` set APP_CONFIGS"
    then obtain r where r: "r \<in> set (getAllApps d)" "cfg = recordToConfig r"
      and new: "app_id r \<notin> appId ` set APP_CONFIGS" by blast
    from r have conn: "db_conn d" and row: "r \<in> set (extra_apps d)"
      by (auto simp: getAllApps_def split: if_splits)
    have "getApp (app_id r) d = r"
      using find_distinct_key [of "\<lambda>r. db_collate d (app_id r)" "extra_apps d" r] assms conn row
      by (simp add: getApp_def apps_ok_def)
    moreover have "app_id r \<noteq> []" using assms row by (force simp: apps_ok_def)
    ultimately show ?thesis using new r by (simp add: getAppConfig_def find_built_in [THEN iffD2])
  qed
qed


text \<open>The wait for a port with the default limit of ten seconds always ends: after at most 50 rounds
  of 200 ms, and as soon as a round finds the port free. The process on the port is killed exactly
  when it holds on for more than 13 rounds, and the answer is whether the port is free at the end.\<close>

theorem wait_for_port_ends:
  "let k = wait_length env port (dm_calls s) 0 50;
       polls = [Popen (ss_command port), Popen (ss_command port)]
   in k \<le> 50 \<and>
      waitForPortRelease env port 10000 s =
        (s\<lparr>dm_calls := dm_calls s @ wait_rounds port k @ polls\<rparr>,
         \<not> port_listens env port (dm_calls s @ wait_rounds port k @ [Popen (ss_command port)])) \<and>
      length (filter ((=) (SleepMs 200)) (wait_rounds port k)) = k \<and>
      (System (kill_command port) \<in> set (wait_rounds port k) \<longleftrightarrow> k > 13)"
proof -
  let ?k = "wait_length env port (dm_calls s) 0 50"
  have "wait_port_loop env port 10000 0 s =
      (s\<lparr>dm_calls := dm_calls s @ wait_rounds port ?k @ [Popen (ss_command port)]\<rparr>, 200 * int ?k)"
    using wait_loop_rounds [where i = 0 and n = 50 and h = "dm_calls s" and s = s] by (simp add: wait_rounds_def Let_def)
  then show ?thesis
    using wait_length_le [of 0 50 env port "dm_calls s"]
    by (simp add: Let_def waitForPortRelease_def isPortListening_simp kill_in_wait_rounds sleeps_in_wait_rounds)
qed

subsection \<open>Adding and removing an extra application\<close>

lemma grows_detect: "grows s (fst (first_dir_with env path file dirs s))"
proof (induction dirs arbitrary: s)
  case (Cons dir dirs)
  show ?case unfolding first_dir_with.simps Let_def by (intro grows_rules Cons.IH) simp_all
qed simp

lemma grows_detectAppStructure: "grows s (fst (detectAppStructure env path s))"
proof -
  have "grows s (if c then fst (std_system env cmd s) else s)" for c cmd s by simp
  then show ?thesis
    unfolding detectAppStructure_def Let_def by (intro grows_bind grows_detect) simp_all
qed

lemma grows_prepare: "grows s (fst (prepare_checkout env url dev worktree s))"
  unfolding prepare_checkout_def Let_def by (intro grows_rules) (simp_all add: grows_rules)

lemma row_upsert_absent:
  "row_get c k rs = None \<Longrightarrow> row_upsert c k v (rs @ ex) = rs @ row_upsert c k v ex"
  by (induction rs) (auto split: if_splits)

lemma row_upsert_keys: "(k', v') \<in> set (row_upsert c k v rs) \<Longrightarrow> c k' = c k \<or> (\<exists>v. (k', v) \<in> set rs)"
  by (induction c k v rs rule: row_upsert.induct) (auto split: if_splits)

lemma row_delete_absent: "row_get c k rs = None \<Longrightarrow> row_delete c k rs = rs"
  by (induction rs) (auto simp: row_delete_def split: if_splits)

text \<open>Rows appended after \<open>rs\<close> whose keys agree with one of \<open>ks\<close>, where no row of \<open>rs\<close> does.\<close>

definition only_added :: "(string \<Rightarrow> string) \<Rightarrow> string list \<Rightarrow> (string \<times> string) list \<Rightarrow> (string \<times> string) list \<Rightarrow> bool" where
  "only_added c ks rs rs' \<longleftrightarrow> (\<exists>ex. rs' = rs @ ex \<and> (\<forall>(k, v) \<in> set ex. c k \<in> c ` set ks))"

lemma only_added_refl [simp]: "only_added c ks rs rs"
  by (simp add: only_added_def)

lemma only_added_upsert:
  assumes "only_added c ks rs rs'" "k \<in> set ks" "row_get c k rs = None"
  shows "only_added c ks rs (row_upsert c k v rs')"
proof -
  obtain ex where ex: "rs' = rs @ ex" "\<forall>(k, v) \<in> set ex. c k \<in> c ` set ks"
    using assms(1) by (auto simp: only_added_def)
  have "\<forall>(k', v') \<in> set (row_upsert c k v ex). c k' \<in> c ` set ks"
    using ex(2) assms(2) by (force dest: row_upsert_keys)
  then show ?thesis using ex(1) assms(3) by (auto simp: only_added_def row_upsert_absent)
qed

lemma only_added_deleted:
  assumes "only_added c ks rs rs'" "\<forall>k \<in> set ks. row_get c k rs = None"
  shows "fold (row_delete c) ks rs' = rs"
proof -
  obtain ex where ex: "rs' = rs @ ex" "\<forall>(k, v) \<in> set ex. c k \<in> c ` set ks"
    using assms(1) by (auto simp: only_added_def)
  have "fold (row_delete c) ks xs = filter (\<lambda>(k, v). c k \<notin> c ` set ks) xs" for xs ks
    by (induction ks arbitrary: xs) (auto simp: row_delete_def intro: filter_cong)
  then have "fold (row_delete c) ks rs' = filter (\<lambda>(k, v). c k \<notin> c ` set ks) rs @
      filter (\<lambda>(k, v). c k \<notin> c ` set ks) ex" by (simp add: ex(1))
  also have "filter (\<lambda>(k, v). c k \<notin> c ` set ks) ex = []" using ex(2) by (auto simp: filter_empty_conv)
  also have "filter (\<lambda>(k, v). c k \<notin> c ` set ks) rs = rs"
    using assms(2) by (force simp: filter_id_conv row_get_None_iff)
  finally show ?thesis by simp
qed

definition app_port_keys :: "string \<Rightarrow> bool \<Rightarrow> string list" where
  "app_port_keys aid hasServer =
     [''port_'' @ aid @ ''-prod'', ''port_'' @ aid @ ''-dev''] @ (if hasServer then [''port_'' @ aid @ ''-server''] else [])"

lemma setSetting_settings:
  "setSetting k v d = (if db_conn d \<and> fits 255 k \<and> fits text_max v
     then d\<lparr>system_settings := row_upsert (db_collate d) k v (system_settings d)\<rparr> else d)"
  by (auto simp: setSetting_def)

lemma save_ports_only_adds:
  assumes "\<forall>k \<in> set (app_port_keys aid (sp \<noteq> None)). row_get (db_collate d) k (system_settings d) = None"
  shows "\<exists>rs'. save_ports aid p q sp d = d\<lparr>system_settings := rs'\<rparr> \<and>
    only_added (db_collate d) (app_port_keys aid (sp \<noteq> None)) (system_settings d) rs'"
proof -
  let ?ks = "app_port_keys aid (sp \<noteq> None)"
  have step: "\<exists>rs'. setSetting k v e = d\<lparr>system_settings := rs'\<rparr> \<and> only_added (db_collate d) ?ks (system_settings d) rs'"
    if "\<exists>rs'. e = d\<lparr>system_settings := rs'\<rparr> \<and> only_added (db_collate d) ?ks (system_settings d) rs'"
      "k \<in> set ?ks" for k v e
    using that only_added_upsert assms by (force simp: setSetting_settings)
  have "\<exists>rs'. d = d\<lparr>system_settings := rs'\<rparr> \<and> only_added (db_collate d) ?ks (system_settings d) rs'"
    by (intro exI [of _ "system_settings d"]) simp
  from step [OF this, of "''port_'' @ aid @ ''-prod''" "to_string p"]
  have "\<exists>rs'. setSetting (''port_'' @ aid @ ''-prod'') (to_string p) d = d\<lparr>system_settings := rs'\<rparr> \<and>
      only_added (db_collate d) ?ks (system_settings d) rs'" by (simp add: app_port_keys_def)
  from step [OF this, of "''port_'' @ aid @ ''-dev''" "to_string q"]
  have two: "\<exists>rs'. setSetting (''port_'' @ aid @ ''-dev'') (to_string q)
        (setSetting (''port_'' @ aid @ ''-prod'') (to_string p) d) = d\<lparr>system_settings := rs'\<rparr> \<and>
      only_added (db_collate d) ?ks (system_settings d) rs'" by (simp add: app_port_keys_def)
  show ?thesis
  proof (cases sp)
    case None
    with two show ?thesis by (simp add: save_ports_def)
  next
    case (Some x)
    from step [OF two, of "''port_'' @ aid @ ''-server''" "to_string x"] Some show ?thesis
      by (simp add: save_ports_def app_port_keys_def)
  qed
qed

lemma prepare_status: "snd (prepare_checkout env url dev worktree s) = Inl r \<Longrightarrow> status r = 1"
  by (auto simp: prepare_checkout_def Let_def split: prod.splits sum.splits if_splits)

lemma register_effect:
  assumes "register_extra_app env command url aid text (hs, sd, cd) s = (s1, Inr r)" "status r = 0"
  shows "\<exists>title p q. opt_string command ''displayName'' aid = Inr title \<and>
    findNextAvailablePortPair (dm_db s) = (p, q) \<and> 0 \<le> p \<and>
    (hs \<longrightarrow> 0 \<le> findNextAvailableServerPort (dm_db s)) \<and>
    dm_db s1 = upsertApp (extra_app_record aid title url hs sd cd)
      (save_ports aid p q (if hs then Some (findNextAvailableServerPort (dm_db s)) else None) (dm_db s))"
proof -
  obtain p q where pq: "findNextAvailablePortPair (dm_db s) = (p, q)" by fastforce
  let ?sp = "if hs then Some (findNextAvailableServerPort (dm_db s)) else None"
  have p: "0 \<le> p" and sp: "hs \<longrightarrow> 0 \<le> findNextAvailableServerPort (dm_db s)"
    using assms by (auto simp: register_extra_app_def pq Let_def reply_def split: if_splits)
  show ?thesis
  proof (cases "opt_string command ''displayName'' aid")
    case (Inl e)
    then have False
      using assms p sp by (cases hs) (simp_all add: register_extra_app_def pq Let_def)
    then show ?thesis ..
  next
    case (Inr title)
    have "dm_db s1 = upsertApp (extra_app_record aid title url hs sd cd) (save_ports aid p q ?sp (dm_db s))"
      using assms p sp by (cases hs) (auto simp: register_extra_app_def pq Let_def Inr std_system_def os_do_def reply_def)
    with pq p sp Inr show ?thesis by blast
  qed
qed

lemma register_succeeds:
  assumes "findNextAvailablePortPair (dm_db s) = (p, q)" "0 \<le> p"
    "hs \<longrightarrow> 0 \<le> findNextAvailableServerPort (dm_db s)" "opt_string command ''displayName'' aid = Inr title"
  shows "\<exists>s1 r. register_extra_app env command url aid text0 (hs, sd, cd) s = (s1, Inr r) \<and> status r = 0"
  using assms by (cases hs) (simp_all add: register_extra_app_def std_system_def os_do_def reply_def Let_def)

lemma add_effect:
  assumes "handleAddExtraApp env command s = (s1, Inr r)" "status r = 0"
  shows "\<exists>url title hs sd cd p q. command_string command ''repoUrl'' = Inr url \<and>
    (let aid = extractAppNameFromUrl url in
     aid \<noteq> [] \<and> aid \<notin> appId ` set APP_CONFIGS \<and> \<not> appExists aid (dm_db s) \<and>
     findNextAvailablePortPair (dm_db s) = (p, q) \<and> 0 \<le> p \<and>
     (hs \<longrightarrow> 0 \<le> findNextAvailableServerPort (dm_db s)) \<and>
     dm_db s1 = upsertApp (extra_app_record aid title url hs sd cd)
       (save_ports aid p q (if hs then Some (findNextAvailableServerPort (dm_db s)) else None) (dm_db s)))"
proof -
  obtain url where url: "command_string command ''repoUrl'' = Inr url"
    using assms by (cases "command_string command ''repoUrl''")
      (auto simp: handleAddExtraApp_def with_key_def reply_def split: if_splits)
  let ?aid = "extractAppNameFromUrl url"
  have aid: "?aid \<noteq> []" "?aid \<notin> appId ` set APP_CONFIGS" "\<not> appExists ?aid (dm_db s)"
    using assms by (auto simp: handleAddExtraApp_def with_key_def reply_def url Let_def split: if_splits)
  have pass: "jcontains command ''repoUrl''"
    using assms by (auto simp: handleAddExtraApp_def reply_def split: if_splits)
  obtain s2 x where prep: "prepare_checkout env url (DEV_APPS_DIR @ ?aid) (PROD_APPS_DIR @ ?aid) s = (s2, x)"
    by fastforce
  from aid(2) have new: "\<not> (\<exists>cfg \<in> set APP_CONFIGS. appId cfg = ?aid)" by (metis image_eqI)
  obtain tx where tx: "x = Inr tx"
    using assms aid new pass prep prepare_status [of env url "DEV_APPS_DIR @ ?aid" "PROD_APPS_DIR @ ?aid" s]
    by (cases x) (auto simp: handleAddExtraApp_def with_key_def url Let_def)
  obtain s3 det where det: "detectAppStructure env (DEV_APPS_DIR @ ?aid) s2 = (s3, det)" by (rule prod.exhaust)
  have db: "dm_db s3 = dm_db s"
    using growsD(1) [OF grows_prepare [of s env url "DEV_APPS_DIR @ ?aid" "PROD_APPS_DIR @ ?aid"]]
      growsD(1) [OF grows_detectAppStructure [of s2 env "DEV_APPS_DIR @ ?aid"]]
    unfolding prep det fst_conv by simp
  obtain str where str: "structure_overrides command det = Inr str"
    using assms aid new pass prep tx det
    by (cases "structure_overrides command det") (auto simp: handleAddExtraApp_def with_key_def url Let_def)
  obtain hs sd cd where hs: "str = (hs, sd, cd)" by (cases str)
  have "register_extra_app env command url ?aid (''Adding extra app: '' @ ?aid @ NL @ tx) (hs, sd, cd) s3 = (s1, Inr r)"
    using assms(1) aid new pass prep tx det str hs by (simp add: handleAddExtraApp_def with_key_def url Let_def)
  from register_effect [OF this assms(2)] obtain title p q where "findNextAvailablePortPair (dm_db s) = (p, q)"
    "0 \<le> p" "hs \<longrightarrow> 0 \<le> findNextAvailableServerPort (dm_db s)"
    "dm_db s1 = upsertApp (extra_app_record ?aid title url hs sd cd)
      (save_ports ?aid p q (if hs then Some (findNextAvailableServerPort (dm_db s)) else None) (dm_db s))"
    unfolding db by blast
  with url aid show ?thesis unfolding Let_def by blast
qed

lemma remove_effect:
  assumes "appExists aid (dm_db s)"
  shows "dm_db (fst (handleRemoveExtraApp (JObj [(''app'', JStr aid)]) s)) =
    deleteApp aid (fold (\<lambda>k d. fst (deleteSetting k d))
      (app_port_keys aid (has_server_component (getApp aid (dm_db s)))) (dm_db s))"
proof -
  have "jcontains (JObj [(''app'', JStr aid)]) ''app''"
    "command_string (JObj [(''app'', JStr aid)]) ''app'' = Inr aid"
    by (simp_all add: json_access_defs)
  with assms show ?thesis
    by (simp add: handleRemoveExtraApp_def with_app_def with_key_def reply_def Let_def app_port_keys_def)
qed

lemma delete_settings:
  "db_conn d \<Longrightarrow> fold (\<lambda>k d. fst (deleteSetting k d)) ks d =
     d\<lparr>system_settings := fold (row_delete (db_collate d)) ks (system_settings d)\<rparr>"
  by (induction ks arbitrary: d) (simp_all add: deleteSetting_def Let_def)

lemma find_append_None: "find P xs = None \<Longrightarrow> find P (xs @ ys) = find P ys"
  by (induction xs) (auto split: if_splits)

text \<open>C5 (roundtrip). Removing an extra application takes back everything its registration wrote to the database:
  the table of applications and the settings are row for row what they were before, provided none
  of the three port settings existed and the new row fits the table.\<close>

theorem extra_app_add_remove:
  assumes add: "handleAddExtraApp env command s = (s1, Inr r)" "status r = 0"
    and url: "command_string command ''repoUrl'' = Inr url" "aid = extractAppNameFromUrl url"
    and stored: "appExists aid (dm_db s1)"
    and unset: "\<forall>k \<in> set (app_port_keys aid True).
      row_get (db_collate (dm_db s)) k (system_settings (dm_db s)) = None"
  shows "dm_db (fst (handleRemoveExtraApp (JObj [(''app'', JStr aid)]) s1)) = dm_db s"
proof -
  let ?d = "dm_db s"
  obtain url' title hs sd cd p q where "command_string command ''repoUrl'' = Inr url'"
    and "\<not> appExists (extractAppNameFromUrl url') ?d"
    and "dm_db s1 = upsertApp (extra_app_record (extractAppNameFromUrl url') title url' hs sd cd)
       (save_ports (extractAppNameFromUrl url') p q (if hs then Some (findNextAvailableServerPort ?d) else None) ?d)"
    using add_effect [OF add] unfolding Let_def by blast
  with url have new: "\<not> appExists aid ?d"
    and d1: "dm_db s1 = upsertApp (extra_app_record aid title url hs sd cd)
       (save_ports aid p q (if hs then Some (findNextAvailableServerPort ?d) else None) ?d)" by simp_all
  let ?sp = "if hs then Some (findNextAvailableServerPort ?d) else None"
  let ?rec = "extra_app_record aid title url hs sd cd"
  have sp: "(?sp \<noteq> None) = hs" by simp
  have unset': "\<forall>k \<in> set (app_port_keys aid (?sp \<noteq> None)). row_get (db_collate ?d) k (system_settings ?d) = None"
    unfolding sp using unset by (auto simp: app_port_keys_def split: if_splits)
  obtain rs' where rs': "save_ports aid p q ?sp ?d = ?d\<lparr>system_settings := rs'\<rparr>"
    and added: "only_added (db_collate ?d) (app_port_keys aid hs) (system_settings ?d) rs'"
    using save_ports_only_adds [OF unset', of p q] unfolding sp by blast
  have conn: "db_conn ?d" using stored by (auto simp: appExists_def d1 rs' upsertApp_def split: if_splits)
  have none: "find (app_key_eq ?d aid) (extra_apps ?d) = None"
    using new conn by (simp add: appExists_def)
  have d1': "dm_db s1 = ?d\<lparr>system_settings := rs', extra_apps := extra_apps ?d @ [?rec]\<rparr>"
    using stored conn none
    by (auto simp: appExists_def d1 rs' upsertApp_def extra_app_record_def split: if_splits)
  have app: "getApp aid (dm_db s1) = ?rec"
    using conn none by (simp add: getApp_def d1' find_append_None extra_app_record_def)
  have gone: "fold (row_delete (db_collate ?d)) (app_port_keys aid hs) rs' = system_settings ?d"
    using only_added_deleted [OF added] unset by (auto simp: app_port_keys_def split: if_splits)
  have kept: "filter (\<lambda>r. \<not> app_key_eq ?d aid r) (extra_apps ?d) = extra_apps ?d"
    using none by (auto simp: find_None_iff filter_id_conv)
  have has: "has_server_component ?rec = hs" "app_id ?rec = aid" by (simp_all add: extra_app_record_def)
  have "dm_db (fst (handleRemoveExtraApp (JObj [(''app'', JStr aid)]) s1)) =
      deleteApp aid (fold (\<lambda>k d. fst (deleteSetting k d)) (app_port_keys aid hs) (dm_db s1))"
    using remove_effect [OF stored] app has by simp
  also have "\<dots> = ?d\<lparr>system_settings := fold (row_delete (db_collate ?d)) (app_port_keys aid hs) rs',
         extra_apps := filter (\<lambda>r. \<not> app_key_eq ?d aid r) (extra_apps ?d)\<rparr>"
    using conn by (simp add: delete_settings d1' deleteApp_def has)
  also have "\<dots> = ?d" by (simp add: gone kept)
  finally show ?thesis .
qed

text \<open>An environment in which every command succeeds and prints nothing, and a leader with an empty registry.\<close>

definition quiet_os :: os where
  "quiet_os = \<lparr>on_system = (\<lambda>h c. 0), on_popen = (\<lambda>h c. []), on_access = (\<lambda>h p. False), on_put = (\<lambda>h p. True),
     on_now = (\<lambda>h. 100), on_hostname = (\<lambda>h. Some ''host''), on_connect = (\<lambda>h ip. Refused),
     on_write = (\<lambda>h fd. True), on_read = (\<lambda>h fd. ReadEof None), on_poll = (\<lambda>h fd. 0), on_age = (\<lambda>h t. None),
     on_wg_ip = ''10.0.0.1'', on_mac = ''aa'', on_parse = (\<lambda>t. None), on_dump = (\<lambda>j. []), on_dump2 = (\<lambda>j. []),
     on_what = (\<lambda>e. ''what''), on_version = 1,
     on_sort = insertion\<rparr>"

definition sample_daemon :: daemon where
  "sample_daemon = \<lparr>dm_db = sample_db, dm_terminals = [], dm_dangling = False, dm_peers = initial_peers\<lparr>m_role := ''leader'', m_peerId := ''vps''\<rparr>,
     dm_appStatus = [], dm_clientSocket = 7, dm_shouldLog = 8, dm_logSubscribers = [], dm_running = True, dm_calls = []\<rparr>"

lemma quiet_os_simps [simp]:
  "on_system quiet_os h c = 0" "on_popen quiet_os h c = []" "on_now quiet_os h = 100"
  "on_write quiet_os h fd = True" "on_access quiet_os h p = False" "on_connect quiet_os h ip = Refused"
  by (simp_all add: quiet_os_def)

lemma sample_daemon_db [simp]: "dm_db sample_daemon = sample_db"
  by (simp add: sample_daemon_def)

lemma no_used_ports:
  assumes "getAllSettings d = []"
  shows "findNextAvailablePortPair d = (3000, 3001)" "findNextAvailableServerPort d = 3500"
proof -
  have "usedPorts d = []" using assms by (simp add: usedPorts_def port_rows_def)
  moreover have "(250 :: nat) = Suc 249" by simp
  ultimately show "findNextAvailablePortPair d = (3000, 3001)"
    unfolding findNextAvailablePortPair_def by (simp only: first_free_pair.simps) simp
  show "findNextAvailableServerPort d = 3500"
    using \<open>usedPorts d = []\<close> by (simp add: findNextAvailableServerPort_def scan_up.simps)
qed

definition add_notes :: json where "add_notes = JObj [(''repoUrl'', JStr ''u/notes'')]"

lemma add_notes_keys:
  "jcontains add_notes ''repoUrl''" "command_string add_notes ''repoUrl'' = Inr ''u/notes''"
  "\<not> jcontains add_notes ''hasServer''" "\<not> jcontains add_notes ''serverSubdir''"
  "\<not> jcontains add_notes ''clientSubdir''" "\<not> jcontains add_notes ''displayName''"
  by (simp_all add: add_notes_def json_access_defs)

lemma quiet_prepare:
  "snd (prepare_checkout quiet_os url dev worktree s) = Inr (''  Directory already exists: '' @ dev @ NL @
     ''  Prod worktree already exists: '' @ worktree @ NL)"
  by (simp add: prepare_checkout_def std_system_def os_do_def Let_def)

lemma quiet_detect: "snd (detectAppStructure quiet_os path s) = (True, ''server'', ''client'')"
  by (simp add: detectAppStructure_def std_system_def os_do_def Let_def)

lemma add_notes_runs:
  "\<exists>s1 r. handleAddExtraApp quiet_os add_notes sample_daemon = (s1, Inr r) \<and> status r = 0 \<and>
     appExists ''notes'' (dm_db s1)"
proof -
  have aid: "extractAppNameFromUrl ''u/notes'' = ''notes''" by (simp add: extractAppNameFromUrl_def)
  have new: "\<not> (\<exists>cfg \<in> set APP_CONFIGS. appId cfg = ''notes'')" "\<not> appExists ''notes'' sample_db"
    by (simp_all add: APP_CONFIGS_def appExists_def sample_db_def)
  obtain s2 where prep: "prepare_checkout quiet_os ''u/notes'' (DEV_APPS_DIR @ ''notes'') (PROD_APPS_DIR @ ''notes'') sample_daemon =
      (s2, Inr (''  Directory already exists: '' @ (DEV_APPS_DIR @ ''notes'') @ NL @
     ''  Prod worktree already exists: '' @ (PROD_APPS_DIR @ ''notes'') @ NL))"
    using quiet_prepare by (metis prod.collapse)
  obtain s3 where det: "detectAppStructure quiet_os (DEV_APPS_DIR @ ''notes'') s2 = (s3, True, ''server'', ''client'')"
    using quiet_detect by (metis prod.collapse)
  have db: "dm_db s3 = sample_db"
    using growsD(1) [OF grows_prepare [of sample_daemon quiet_os "''u/notes''" "DEV_APPS_DIR @ ''notes''" "PROD_APPS_DIR @ ''notes''"]]
      growsD(1) [OF grows_detectAppStructure [of s2 quiet_os "DEV_APPS_DIR @ ''notes''"]]
    unfolding prep det fst_conv by simp
  have over: "structure_overrides add_notes (True, ''server'', ''client'') = Inr (True, ''server'', ''client'')"
    by (simp add: structure_overrides_def add_notes_keys opt_string_def)
  define text0 where "text0 = ''Adding extra app: '' @ ''notes'' @ NL @ ''  Directory already exists: '' @ (DEV_APPS_DIR @ ''notes'') @ NL @
     ''  Prod worktree already exists: '' @ (PROD_APPS_DIR @ ''notes'') @ NL"
  have "handleAddExtraApp quiet_os add_notes sample_daemon =
      register_extra_app quiet_os add_notes ''u/notes'' ''notes'' text0 (True, ''server'', ''client'') s3"
    unfolding handleAddExtraApp_def with_key_def add_notes_keys(2) with_result_simps Let_def aid sample_daemon_db
    by (simp only: add_notes_keys(1) new prep det over split_conv sum.case with_result_simps text0_def) simp
  moreover obtain s4 r where reg: "register_extra_app quiet_os add_notes ''u/notes'' ''notes'' text0
      (True, ''server'', ''client'') s3 = (s4, Inr r)" "status r = 0"
    using register_succeeds [of s3 3000 3001 True add_notes "''notes''" "''notes''" quiet_os "''u/notes''" text0
        "''server''" "''client''"] no_used_ports [of sample_db]
    by (auto simp: db opt_string_def add_notes_keys getAllSettings_def sample_db_def)
  moreover have "appExists ''notes'' (dm_db s4)"
  proof -
    obtain p q sp where d4: "dm_db s4 = upsertApp (extra_app_record ''notes'' ''notes'' ''u/notes'' True ''server'' ''client'')
        (save_ports ''notes'' p q (Some sp) sample_db)"
      using register_effect [OF reg] by (auto simp: db opt_string_def add_notes_keys)
    obtain rs' where "save_ports ''notes'' p q (Some sp) sample_db = sample_db\<lparr>system_settings := rs'\<rparr>"
      using save_ports_only_adds [where aid = "''notes''" and sp = "Some sp" and d = sample_db and p = p and q = q]
      by (auto simp: sample_db_def)
    moreover have "app_columns_fit (extra_app_record ''notes'' ''notes'' ''u/notes'' True ''server'' ''client'')"
      by (simp add: app_columns_fit_def extra_app_record_def fits_def DEV_APPS_DIR_def PROD_APPS_DIR_def)
    ultimately show ?thesis
      by (simp add: d4 upsertApp_def appExists_def sample_db_def extra_app_record_def)
  qed
  ultimately show ?thesis by metis
qed

theorem extra_app_add_remove_witness:
  "\<exists>s1. s1 = fst (handleAddExtraApp quiet_os add_notes sample_daemon) \<and> appExists ''notes'' (dm_db s1) \<and>
     dm_db (fst (handleRemoveExtraApp (JObj [(''app'', JStr ''notes'')]) s1)) = sample_db"
proof -
  obtain s1 r where add: "handleAddExtraApp quiet_os add_notes sample_daemon = (s1, Inr r)" "status r = 0"
    and stored: "appExists ''notes'' (dm_db s1)" using add_notes_runs by blast
  have "dm_db (fst (handleRemoveExtraApp (JObj [(''app'', JStr ''notes'')]) s1)) = dm_db sample_daemon"
    by (rule extra_app_add_remove [OF add add_notes_keys(2)])
       (simp_all add: stored extractAppNameFromUrl_def sample_db_def)
  with add stored show ?thesis by simp
qed

theorem listed_apps_resolve_witness:
  "getAppConfig ''cad'' sample_db = hd (AppManager_getAllApps sample_db) \<and>
   distinct (map appId (AppManager_getAllApps sample_db))"
proof -
  have ok: "apps_ok sample_db" by (simp add: apps_ok_def sample_db_def)
  have hd: "hd (AppManager_getAllApps sample_db) = hd APP_CONFIGS" "hd APP_CONFIGS \<in> set (AppManager_getAllApps sample_db)"
    "appId (hd APP_CONFIGS) = ''cad''"
    by (simp_all add: AppManager_getAllApps_def getAllApps_def sample_db_def APP_CONFIGS_def)
  with listed_apps_resolve [OF ok, of "hd APP_CONFIGS"] show ?thesis by simp
qed

subsection \<open>Stopping an extra application\<close>

lemma app_id_extra [simp]: "app_id (extra_app_record aid t u hs sd cd) = aid"
  by (simp add: extra_app_record_def)

lemma replace_first_skip:
  "c \<notin> set xs \<Longrightarrow> replace_first (c # ps) r (xs @ ys) = xs @ replace_first (c # ps) r ys"
  by (induction xs) auto

lemma resolve_extra:
  assumes "CHR ''{'' \<notin> set aid"
  shows "resolveServiceName (aid @ ''-{mode}'') aid m = aid @ ''-'' @ m"
    "resolveServiceName (aid @ ''-server-{mode}'') aid m = aid @ ''-server-'' @ m"
  using assms by (simp_all add: resolveServiceName_def replace_first_skip)

definition stop_calls :: "string \<Rightarrow> os_call list" where
  "stop_calls svc = [System (systemctl ''stop'' svc), System (systemctl ''reset-failed'' svc)]"

lemma on_service_stop:
  "on_service (stopService env) ok failed (Some svc) s =
     (s\<lparr>dm_calls := dm_calls s @ stop_calls svc\<rparr>, ok @ '' '' @ svc @ NL, True)"
  by (simp add: on_service_def stopService_def std_system_def os_do_def stop_calls_def)

lemma extra_services:
  assumes "CHR ''{'' \<notin> set aid"
  shows "client_service aid m (recordToConfig (extra_app_record aid t u hs sd cd)) = Some (aid @ ''-'' @ m)"
    "server_service aid m (recordToConfig (extra_app_record aid t u True sd cd)) = Some (aid @ ''-server-'' @ m)"
  by (simp_all add: client_service_def server_service_def recordToConfig_def extra_app_record_def
    resolve_extra [OF assms])

lemma kill_both_ports:
  assumes "getSetting (port_key_client_mode cfg m) (dm_db s) = to_string p" "INT_MIN \<le> p" "p \<le> INT_MAX"
    and "hasServerComponent cfg" "portKeyServer cfg \<noteq> []"
    and "getSetting (port_key_server_mode cfg m) (dm_db s) = (case q of Some i \<Rightarrow> to_string i | None \<Rightarrow> [])"
    and "\<forall>i \<in> set_option q. INT_MIN \<le> i \<and> i \<le> INT_MAX"
  shows "both_ports cfg m (killProcessOnPort env) s =
    (s\<lparr>dm_calls := dm_calls s @ [System (kill_command p)] @
       (case q of Some i \<Rightarrow> [System (kill_command i)] | None \<Rightarrow> [])\<rparr>, Inr ())"
  using assms by (cases q) (simp_all add: both_ports_def on_stored_port_def and_then_def cpp_simps killProcessOnPort_simp)

lemma stop_mode_both:
  assumes "client_service aid m cfg = Some c" "server_service aid m cfg = Some sv"
    "both_ports cfg m (killProcessOnPort env) (s\<lparr>dm_calls := dm_calls s @ stop_calls c @ stop_calls sv\<rparr>) = (s3, Inr ())"
  shows "stop_mode env aid cfg m s = (s3, Inr (''Stopped '' @ c @ NL @ ''Stopped '' @ sv @ NL))"
  using assms by (simp add: stop_mode_def on_service_stop and_then_def)

text \<open>Stopping an extra application with a server in one mode stops its client, then its server,
  and then kills what still listens on its ports. In production mode these are the client's and the
  server's port; in development mode the server's port is looked up under a key no registration
  writes, so a server left over on it survives.\<close>

theorem stop_extra_app:
  assumes cfg: "getAppConfig aid (dm_db s) = recordToConfig (extra_app_record aid t u True sd cd)"
    and aid: "aid \<noteq> []" "CHR ''{'' \<notin> set aid"
    and m: "m = ''dev'' \<or> m = ''prod''"
    and client: "getSetting (''port_'' @ aid @ ''-'' @ m) (dm_db s) = to_string p" "INT_MIN \<le> p" "p \<le> INT_MAX"
    and server: "getSetting (''port_'' @ aid @ ''-server'') (dm_db s) = to_string q" "INT_MIN \<le> q" "q \<le> INT_MAX"
    and dev: "getSetting (''port_'' @ aid @ ''-server-dev'') (dm_db s) = []"
  shows "handleStopApp env (JObj [(''app'', JStr aid), (''mode'', JStr m)]) s =
    (s\<lparr>dm_calls := dm_calls s @ stop_calls (aid @ ''-'' @ m) @ stop_calls (aid @ ''-server-'' @ m) @
        [System (kill_command p)] @ (if m = ''prod'' then [System (kill_command q)] else [])\<rparr>,
     Inr (CmdResult 0 (''Stopped '' @ aid @ ''-'' @ m @ NL @ ''Stopped '' @ aid @ ''-server-'' @ m @ NL)))"
proof -
  let ?cfg = "recordToConfig (extra_app_record aid t u True sd cd)"
  let ?cmd = "JObj [(''app'', JStr aid), (''mode'', JStr m)]"
  let ?sq = "if m = ''prod'' then Some q else None"
  define s2 where "s2 = s\<lparr>dm_calls := dm_calls s @ stop_calls (aid @ ''-'' @ m) @ stop_calls (aid @ ''-server-'' @ m)\<rparr>"
  have keys: "port_key_client_mode ?cfg m = ''port_'' @ aid @ ''-'' @ m"
    "port_key_server_mode ?cfg m = ''port_'' @ aid @ ''-server'' @ (if m = ''dev'' then ''-dev'' else [])"
    "hasServerComponent ?cfg" "portKeyServer ?cfg \<noteq> []" "prodPath ?cfg \<noteq> []" "appId ?cfg = aid"
    by (simp_all add: port_key_client_mode_def port_key_server_mode_def recordToConfig_def extra_app_record_def
      PROD_APPS_DIR_def)
  have "both_ports ?cfg m (killProcessOnPort env) s2 = (s2\<lparr>dm_calls := dm_calls s2 @ [System (kill_command p)] @
       (case ?sq of Some i \<Rightarrow> [System (kill_command i)] | None \<Rightarrow> [])\<rparr>, Inr ())"
    using m client server dev by (intro kill_both_ports) (auto simp: keys s2_def)
  then have stop: "stop_mode env aid ?cfg m s = (s2\<lparr>dm_calls := dm_calls s2 @ [System (kill_command p)] @
       (case ?sq of Some i \<Rightarrow> [System (kill_command i)] | None \<Rightarrow> [])\<rparr>,
     Inr (''Stopped '' @ (aid @ ''-'' @ m) @ NL @ ''Stopped '' @ (aid @ ''-server-'' @ m) @ NL))"
    unfolding s2_def by (rule stop_mode_both [OF extra_services(1) [OF aid(2)] extra_services(2) [OF aid(2)]])
  have cmd: "jcontains ?cmd ''app''" "command_string ?cmd ''app'' = Inr aid"
    "opt_string ?cmd ''mode'' ''all'' = Inr m"
    by (simp_all add: json_access_defs opt_string_def)
  have "app_modes m ?cfg = [m]" "\<not> dev_only m ?cfg" using m keys(5) by (auto simp: app_modes_def dev_only_def)
  then show ?thesis
    using aid(1) by (simp add: handleStopApp_def app_all_modes_def with_app_def with_key_def cmd known_app_def cfg keys(6)
      Let_def stop and_then_def reply_def s2_def)
qed

definition notes_db :: db where
  "notes_db = sample_db\<lparr>extra_apps := [extra_app_record ''notes'' ''Notes'' ''u/notes'' True ''server'' ''client''],
     system_settings := [(''port_notes-prod'', to_string 3000), (''port_notes-dev'', to_string 3001),
       (''port_notes-server'', to_string 3500)]\<rparr>"

lemma notes_lookups:
  "getSetting ''port_notes-dev'' notes_db = to_string 3001"
  "getSetting ''port_notes-server'' notes_db = to_string 3500"
  "getSetting ''port_notes-server-dev'' notes_db = []"
  by (simp_all add: getSetting_def notes_db_def sample_db_def)

lemma notes_config:
  "getAppConfig ''notes'' notes_db = recordToConfig (extra_app_record ''notes'' ''Notes'' ''u/notes'' True ''server'' ''client'')"
proof -
  have "find (\<lambda>cfg. appId cfg = ''notes'') APP_CONFIGS = None" by (simp add: APP_CONFIGS_def)
  moreover have "getApp ''notes'' notes_db = extra_app_record ''notes'' ''Notes'' ''u/notes'' True ''server'' ''client''"
    by (simp add: getApp_def notes_db_def sample_db_def)
  ultimately show ?thesis by (simp add: getAppConfig_def)
qed

theorem stop_extra_app_witness:
  "System (kill_command 3500) \<notin> set (dm_calls (fst (handleStopApp quiet_os
     (JObj [(''app'', JStr ''notes''), (''mode'', JStr ''dev'')]) (sample_daemon\<lparr>dm_db := notes_db\<rparr>))))"
proof -
  let ?s = "sample_daemon\<lparr>dm_db := notes_db\<rparr>"
  have "handleStopApp quiet_os (JObj [(''app'', JStr ''notes''), (''mode'', JStr ''dev'')]) ?s =
    (?s\<lparr>dm_calls := dm_calls ?s @ stop_calls (''notes'' @ ''-'' @ ''dev'') @ stop_calls (''notes'' @ ''-server-'' @ ''dev'') @
        [System (kill_command 3001)] @ (if ''dev'' = ''prod'' then [System (kill_command 3500)] else [])\<rparr>,
     Inr (CmdResult 0 (''Stopped '' @ ''notes'' @ ''-'' @ ''dev'' @ NL @ ''Stopped '' @ ''notes'' @ ''-server-'' @ ''dev'' @ NL)))"
    by (rule stop_extra_app [of "''notes''" ?s "''Notes''" "''u/notes''" "''server''" "''client''" "''dev''" 3001 3500])
       (simp_all add: notes_config notes_lookups int_range_defs)
  then show ?thesis
    by (simp add: sample_daemon_def stop_calls_def systemctl_def kill_command_def to_string_def nat_to_string.simps
      digit_char_def)
qed

subsection \<open>Dependencies\<close>

text \<open>The handler takes an installation whose output has \<open>error\<close> in lower case for a success.\<close>

lemma cad_config: "getAppConfig ''cad'' d = hd APP_CONFIGS"
  by (simp add: getAppConfig_def APP_CONFIGS_def)

lemma cad_fields:
  "appId (hd APP_CONFIGS) = ''cad''" "clientSubdir (hd APP_CONFIGS) = ''web''"
  "devPath (hd APP_CONFIGS) = ''/opt/dev/cad''"
  by (simp_all add: APP_CONFIGS_def)

lemma cad_install_output:
  "snd (installDependencies (quiet_os\<lparr>on_popen := (\<lambda>h c. ''npm error code E404'')\<rparr>) ''cad'' ''dev'' ''client'' s) =
     ''Installing dependencies for cad client (dev)...'' @ NL @ ''  Path: /opt/dev/cad/web'' @ NL @
     ''npm output:'' @ NL @ ''npm error code E404'' @ NL"
  by (simp add: installDependencies_def cad_config cad_fields install_client_def install_in_dir_def getAppPath_def
    std_system_def executeCommand_def os_do_def chomp_def Let_def)

lemma failed_install_reported_as_success:
  "\<exists>s1. handleInstallAppDeps (quiet_os\<lparr>on_popen := (\<lambda>h c. ''npm error code E404'')\<rparr>)
      (JObj [(''app'', JStr ''cad''), (''component'', JStr ''client'')]) sample_daemon =
    (s1, Inr (CmdResult 0 (''Installing dependencies for cad client (dev)...'' @ NL @
      ''  Path: /opt/dev/cad/web'' @ NL @ ''npm output:'' @ NL @ ''npm error code E404'' @ NL)))"
proof -
  let ?env = "quiet_os\<lparr>on_popen := (\<lambda>h c. ''npm error code E404'')\<rparr>"
  let ?cmd = "JObj [(''app'', JStr ''cad''), (''component'', JStr ''client'')]"
  have cmd: "jcontains ?cmd ''app''" "command_string ?cmd ''app'' = Inr ''cad''"
    "opt_string ?cmd ''mode'' ''dev'' = Inr ''dev''" "opt_string ?cmd ''component'' ''all'' = Inr ''client''"
    by (simp_all add: json_access_defs opt_string_def)
  obtain s1 out where out: "installDependencies ?env ''cad'' ''dev'' ''client'' sample_daemon = (s1, out)" by fastforce
  have "out = ''Installing dependencies for cad client (dev)...'' @ NL @ ''  Path: /opt/dev/cad/web'' @ NL @
     ''npm output:'' @ NL @ ''npm error code E404'' @ NL"
    using cad_install_output [of sample_daemon] unfolding out by simp
  moreover from this have "\<not> contains_str ''Error'' out" "\<not> contains_str ''ERR!'' out" by simp_all
  moreover have "\<not> dev_only ''dev'' (hd APP_CONFIGS)" by (simp add: dev_only_def)
  ultimately show ?thesis
    by (simp only: handleInstallAppDeps_def with_app_def with_key_def cmd with_result_simps known_app_def
      cad_config cad_fields Let_def out split_conv reply_def) simp
qed

end
