(* ===== verification/Peer_Facts.thy ===== *)
theory Peer_Facts
  imports App_Facts "HOL-Library.Multiset"
begin

text \<open>
  Facts about the peer components: the saved configuration, the connection to the leader and the loop
  that watches it, the registry of the leader, and the execution of commands on other machines.
\<close>

subsection \<open>Configuration\<close>

lemma upd_pm_simps [simp]:
  "dm_peers (upd_pm f s) = f (dm_peers s)" "dm_db (upd_pm f s) = dm_db s"
  "dm_calls (upd_pm f s) = dm_calls s" "dm_appStatus (upd_pm f s) = dm_appStatus s"
  by (simp_all add: upd_pm_def)

lemma saveConfig_peers [simp]: "dm_peers (saveConfig s) = dm_peers s"
  by (simp add: saveConfig_def Let_def)

text \<open>The three settings are different rows, and the values fit.\<close>

definition config_storable :: "db \<Rightarrow> string list \<Rightarrow> bool" where
  "config_storable d vs \<longleftrightarrow> db_conn d \<and>
     distinct (map (db_collate d) [''peer_role'', ''peer_id'', ''peer_leader_address'']) \<and>
     (\<forall>v \<in> set vs. v \<noteq> [] \<and> fits text_max v)"

lemma setSetting_conn [simp]: "db_conn (setSetting k v d) = db_conn d" "db_collate (setSetting k v d) = db_collate d"
  by (simp_all add: setSetting_settings)

lemma getSetting_setSetting:
  "db_conn d \<Longrightarrow> fits 255 k \<Longrightarrow> fits text_max v \<Longrightarrow>
     getSetting k' (setSetting k v d) = (if db_collate d k' = db_collate d k then v else getSetting k' d)"
  by (simp add: setSetting_settings getSetting_def)

text \<open>C39 (roundtrip). A role, a name and a leader address set at run time are found again after a restart: \<open>loadConfig\<close>
  reads what \<open>setRole\<close>, \<open>setPeerId\<close> and \<open>setLeaderAddress\<close> saved.\<close>

theorem peer_config_survives_restart:
  assumes "config_storable (dm_db s) [role, i, addr]"
  shows "let s1 = setLeaderAddress addr (setPeerId i (setRole role s));
             s2 = loadConfig (s1\<lparr>dm_peers := initial_peers\<rparr>)
         in m_role (dm_peers s2) = role \<and> m_peerId (dm_peers s2) = i \<and> m_leaderAddress (dm_peers s2) = addr"
proof -
  let ?d = "dm_db s"
  have v: "role \<noteq> []" "i \<noteq> []" "addr \<noteq> []" "fits text_max role" "fits text_max i" "fits text_max addr" "db_conn ?d"
    and k: "distinct (map (db_collate ?d) [''peer_role'', ''peer_id'', ''peer_leader_address''])"
    using assms by (auto simp: config_storable_def)
  define s1 where "s1 = setPeerId i (setRole role s)"
  have conn: "db_conn (dm_db s1)" "db_collate (dm_db s1) = db_collate ?d"
    using v(7) by (auto simp: s1_def setPeerId_def setRole_def saveConfig_def Let_def)
  have pm: "m_role (dm_peers s1) = role" "m_peerId (dm_peers s1) = i"
    by (simp_all add: s1_def setPeerId_def setRole_def)
  have keys: "fits 255 ''peer_role''" "fits 255 ''peer_id''" "fits 255 ''peer_leader_address''" by (simp_all add: fits_def)
  have "dm_db (setLeaderAddress addr s1) = setSetting ''peer_leader_address'' addr
      (setSetting ''peer_id'' i (setSetting ''peer_role'' role (dm_db s1)))"
    using v by (simp add: setLeaderAddress_def saveConfig_def pm Let_def)
  then show ?thesis
    using v k by (simp add: s1_def [symmetric] Let_def loadConfig_def getSetting_setSetting conn keys)
qed

subsection \<open>The connection to the leader\<close>

text \<open>A worker that believes to be connected but has no socket.\<close>

definition stranded :: "daemon \<Rightarrow> bool" where
  "stranded s \<longleftrightarrow> \<not> isLeader s \<and> isConnectedToLeader s \<and> m_leaderSocket (dm_peers s) < 0"

lemma stranded_cong: "dm_peers s' = dm_peers s \<Longrightarrow> stranded s' = stranded s"
  by (simp add: stranded_def isLeader_def isConnectedToLeader_def)

lemma grows_local_status: "grows s (fst (local_app_status env app s))"
proof -
  have "grows s (fst (isServiceActive env svc s))" for svc s
    by (simp add: isServiceActive_def std_system_def os_do_def)
  then show ?thesis unfolding local_app_status_def Let_def by (intro grows_rules) simp_all
qed

lemma grows_local_statuses: "grows s (fst (local_status_loop env apps m s))"
proof (induction apps arbitrary: m s)
  case (Cons app apps)
  show ?case unfolding local_status_loop.simps Let_def
    by (intro grows_bind grows_local_status Cons.IH)
qed simp

lemma grows_getLocalAppStatusAll: "grows s (fst (getLocalAppStatusAll env s))"
  unfolding getLocalAppStatusAll_def Let_def by (intro grows_bind grows_local_statuses) simp

lemma sleep_peers [simp]: "dm_peers ((sleep_ms n ^^ k) s) = dm_peers s"
  by (induction k) (simp_all add: sleep_ms_simp)

lemma sendToLeader_stranded: "stranded s \<Longrightarrow> sendToLeader env msg s = (s, False)"
  by (simp add: stranded_def sendToLeader_def)

lemma reconnect_sleep_peers:
  "dm_peers (reconnect_sleep n s) = (dm_peers s)\<lparr>m_reconnectRunning := m_reconnectRunning (dm_peers s) \<and> n \<ge> 10\<rparr>"
  by (simp add: reconnect_sleep_def stopReconnectLoop_def Let_def)

lemma stranded_sleep: "stranded (reconnect_sleep n s) = stranded s"
  by (simp add: stranded_def isLeader_def isConnectedToLeader_def reconnect_sleep_peers)

lemma stranded_heartbeat: "stranded s \<Longrightarrow> stranded (fst (send_heartbeat env c s))"
proof -
  assume s: "stranded s"
  obtain s1 a where a: "getLocalAppStatusAll env s = (s1, a)" by fastforce
  have "stranded s1" using s stranded_cong [of s1 s] growsD(2) [OF grows_getLocalAppStatusAll [of s env]] a by simp
  with s a show ?thesis by (simp add: send_heartbeat_def sendToLeader_stranded)
qed

lemma stranded_round: "stranded s \<Longrightarrow> stranded (fst (reconnect_round env n (s, c)))"
proof -
  assume s: "stranded s"
  then have up: "\<not> isLeader s" "isConnectedToLeader s" by (simp_all add: stranded_def)
  have sleep: "stranded (reconnect_sleep n s)" using s by (simp add: stranded_sleep)
  then have "isConnectedToLeader (reconnect_sleep n s)" by (simp add: stranded_def)
  with up s stranded_heartbeat [OF sleep] show ?thesis by (simp add: reconnect_round_def Let_def)
qed

text \<open>C13 (liveness). A connected worker that is told to connect again while its leader cannot be reached ends up without a
  socket and still marked as connected; no number of rounds of the reconnect loop ever repairs this,
  and nothing is sent to the leader any more.\<close>

theorem failed_reconnect_strands_worker:
  assumes "\<not> isLeader s" "isConnectedToLeader s" "m_leaderAddress (dm_peers s) \<noteq> []"
    and "\<forall>h fd. on_connect env h (m_leaderAddress (dm_peers s)) \<noteq> Connected fd"
  shows "let (s1, ok) = connectToLeader env s;
             s2 = fst (fold (\<lambda>(env', n). reconnect_round env' n) rounds (s1, c))
         in \<not> ok \<and> stranded s2 \<and> sendToLeader env2 msg s2 = (s2, False)"
proof -
  obtain s1 r where r: "tcp_connect env (m_leaderAddress (dm_peers s)) 3502 (drop_socket s) = (s1, r)" by fastforce
  then have fail: "\<forall>fd. r \<noteq> Connected fd"
    using assms(4) by (auto simp: tcp_connect_def os_do_def Let_def split: connect_reply.splits)
  have pm: "dm_peers s1 = dm_peers (drop_socket s)"
    using growsD(2) [OF grows_os(9) [of "drop_socket s" env "m_leaderAddress (dm_peers s)" 3502]] by (simp add: r)
  have drop: "m_role (dm_peers (drop_socket s)) = m_role (dm_peers s)"
    "m_connectedToLeader (dm_peers (drop_socket s)) = m_connectedToLeader (dm_peers s)"
    by (simp_all add: drop_socket_def close_fd_def os_do_def)
  let ?s1 = "upd_pm (\<lambda>pm. pm\<lparr>m_leaderSocket := - 1\<rparr>) s1"
  have conn: "connectToLeader env s = (?s1, False)"
    using assms(1,3) fail by (cases r) (simp_all add: connectToLeader_def r)
  have "stranded ?s1"
    using assms(1,2) by (simp add: stranded_def isLeader_def isConnectedToLeader_def pm drop)
  moreover have "stranded (fst (fold (\<lambda>(env', n). reconnect_round env' n) rounds (t, c)))" if "stranded t" for t c
    using that
  proof (induction rounds arbitrary: t c)
    case (Cons x rounds)
    obtain e n where x: "x = (e, n)" by fastforce
    obtain t1 c1 where t1: "reconnect_round e n (t, c) = (t1, c1)" by fastforce
    with stranded_round [OF Cons.prems, of e n c] have "stranded t1" by simp
    then show ?case using Cons.IH by (simp add: x t1)
  qed simp
  ultimately show ?thesis by (simp add: conn Let_def sendToLeader_stranded)
qed

definition connected_worker :: daemon where
  "connected_worker = sample_daemon\<lparr>dm_peers := initial_peers\<lparr>m_role := ''worker'', m_peerId := ''desk'',
     m_leaderAddress := ''10.0.0.1'', m_leaderSocket := 5, m_connectedToLeader := True, m_reconnectRunning := True\<rparr>\<rparr>"

theorem failed_reconnect_strands_worker_witness:
  "stranded (fst (reconnect_round quiet_os 10 (fst (connectToLeader quiet_os connected_worker), 0)))"
proof -
  have "let (s1, ok) = connectToLeader quiet_os connected_worker;
             s2 = fst (fold (\<lambda>(env', n). reconnect_round env' n) [(quiet_os, 10)] (s1, 0))
         in \<not> ok \<and> stranded s2 \<and> sendToLeader quiet_os JNull s2 = (s2, False)"
    by (rule failed_reconnect_strands_worker)
       (simp_all add: connected_worker_def isLeader_def isConnectedToLeader_def)
  then show ?thesis by (simp add: Let_def split: prod.splits)
qed

theorem peer_config_survives_restart_witness:
  "m_role (dm_peers (loadConfig ((setLeaderAddress ''10.0.0.1'' (setPeerId ''desk'' (setRole ''worker'' sample_daemon)))
     \<lparr>dm_peers := initial_peers\<rparr>))) = ''worker''"
proof -
  have "config_storable (dm_db sample_daemon) [''worker'', ''desk'', ''10.0.0.1'']"
    by (simp add: config_storable_def sample_db_def fits_def)
  from peer_config_survives_restart [OF this] show ?thesis by (simp add: Let_def)
qed

text \<open>A worker that is configured while the daemon runs gets no reconnect loop, so it sends no heartbeats.\<close>

lemma register_with_leader_loop:
  "m_reconnectRunning (dm_peers (register_with_leader env s)) = m_reconnectRunning (dm_peers s)"
proof -
  obtain s1 a where a: "getLocalAppStatusAll env s = (s1, a)" by fastforce
  have "dm_peers s1 = dm_peers s" using growsD(2) [OF grows_getLocalAppStatusAll [of s env]] by (simp add: a)
  then show ?thesis
    by (simp add: register_with_leader_def a Let_def gethostname_def os_do_def sendToLeader_def disconnectFromLeader_def
      drop_socket_def close_fd_def write_fd_def read_fd_def split: prod.split)
qed

lemma registered_worker_has_no_heartbeat:
  "m_reconnectRunning (dm_peers (fst (handleRegisterWorker env command s))) = m_reconnectRunning (dm_peers s)"
proof -
  have conn: "m_reconnectRunning (dm_peers (fst (connectToLeader env s))) = m_reconnectRunning (dm_peers s)" for s
    by (auto simp: connectToLeader_def tcp_connect_def os_do_def opened_def drop_socket_def close_fd_def Let_def
      register_with_leader_loop split: connect_reply.split)
  obtain s1 h where h: "gethostname env s = (s1, h)" by fastforce
  have s1: "dm_peers s1 = dm_peers s" using growsD(2) [OF grows_os(8) [of s env]] by (simp add: h)
  show ?thesis
  proof (cases h)
    case (Some pid)
    let ?t = "setLeaderAddress ''10.0.0.1'' (setPeerId pid (setRole ''worker'' s1))"
    obtain s3 ok where s3: "connectToLeader env ?t = (s3, ok)" by fastforce
    have "m_reconnectRunning (dm_peers s3) = m_reconnectRunning (dm_peers ?t)" using conn [of ?t] by (simp add: s3)
    then have "m_reconnectRunning (dm_peers s3) = m_reconnectRunning (dm_peers s)"
      by (simp add: s1 setLeaderAddress_def setPeerId_def setRole_def)
    then show ?thesis by (simp add: handleRegisterWorker_def h Some s3 reply_def Let_def)
  qed (simp add: handleRegisterWorker_def h s1 reply_def)
qed

subsection \<open>The registry of the leader\<close>

text \<open>The number an address is sorted by: what \<open>stoi\<close> reads after the last dot, and 0 without a dot.\<close>

definition sorted_as :: "string \<Rightarrow> int \<Rightarrow> bool" where
  "sorted_as ip n \<longleftrightarrow> CHR ''.'' \<notin> set ip \<and> n = 0 \<or>
     (\<exists>pre t. ip = pre @ CHR ''.'' # t \<and> CHR ''.'' \<notin> set t \<and> stoi t = Inr n)"

lemma after_last_dot:
  "CHR ''.'' \<notin> set t \<Longrightarrow> rev (takeWhile (\<lambda>c. c \<noteq> CHR ''.'') (rev (pre @ CHR ''.'' # t))) = t"
  by (auto simp: takeWhile_append)

lemma last_dot_split:
  assumes "CHR ''.'' \<in> set ip"
  obtains pre t where "ip = pre @ CHR ''.'' # t" "CHR ''.'' \<notin> set t"
  using split_list_last [OF assms] by blast

lemma getLastOctet_iff: "getLastOctet ip = Inr n \<longleftrightarrow> sorted_as ip n"
proof (cases "CHR ''.'' \<in> set ip")
  case True
  let ?last = "rev (takeWhile (\<lambda>c. c \<noteq> CHR ''.'') (rev ip))"
  have last: "?last = t" if "ip = pre @ CHR ''.'' # t" "CHR ''.'' \<notin> set t" for pre t
    using after_last_dot [OF that(2), of pre] unfolding that(1) .
  have "sorted_as ip n \<longleftrightarrow> stoi ?last = Inr n"
  proof
    show "sorted_as ip n \<Longrightarrow> stoi ?last = Inr n" using True last unfolding sorted_as_def by metis
    show "stoi ?last = Inr n \<Longrightarrow> sorted_as ip n"
      using last_dot_split [OF True] last unfolding sorted_as_def by metis
  qed
  with True show ?thesis by (simp add: getLastOctet_def)
qed (auto simp: getLastOctet_def sorted_as_def)

lemma getLastOctet_isl: "isl (getLastOctet ip) \<longleftrightarrow> (\<nexists>n. sorted_as ip n)"
  by (cases "getLastOctet ip") (auto simp: getLastOctet_iff [symmetric])

lemma sort_by_octet_fails_iff:
  "valid_sort algo \<Longrightarrow> isl (sort_by_octet algo ps) \<longleftrightarrow>
     2 \<le> length ps \<and> (\<exists>p \<in> set ps. \<nexists>n. sorted_as (ip_address p) n)"
  unfolding sort_by_octet_def octet_less_def by (simp add: std_sort_fails_iff getLastOctet_isl)

lemma sort_by_octet_sorts:
  assumes "valid_sort algo" "sort_by_octet algo ps = Inr qs"
  shows "mset qs = mset ps \<and> sorted_wrt (\<lambda>p q. \<exists>m n. sorted_as (ip_address p) m \<and> sorted_as (ip_address q) n \<and> m \<le> n) qs"
proof -
  let ?key = "\<lambda>p. projr (getLastOctet (ip_address p))"
  have sorts: "mset qs = mset ps" "sorted (map ?key qs)"
    using std_sort_sorts [of algo "\<lambda>p. getLastOctet (ip_address p)" ps qs] assms
    by (simp_all add: sort_by_octet_def octet_less_def)
  show ?thesis
  proof (cases "length qs < 2")
    case True
    then have "qs = [] \<or> (\<exists>q. qs = [q])" by (cases qs) auto
    with sorts(1) show ?thesis by auto
  next
    case False
    moreover have "length qs = length ps" "set qs = set ps" using sorts(1) by (metis size_mset, metis set_mset_mset)
    ultimately have "\<exists>n. sorted_as (ip_address q) n" if "q \<in> set qs" for q
      using sort_by_octet_fails_iff [OF assms(1), of ps] assms(2) that by auto
    then have "sorted_as (ip_address q) (?key q)" if "q \<in> set qs" for q
      using that by (metis getLastOctet_iff sum.sel(2))
    then have "sorted_wrt (\<lambda>p q. \<exists>m n. sorted_as (ip_address p) m \<and> sorted_as (ip_address q) n \<and> m \<le> n) qs"
      using sorts(2) unfolding sorted_map by (blast intro: sorted_wrt_mono_rel [rotated])
    with sorts(1) show ?thesis ..
  qed
qed

text \<open>C26 (error). On a leader, and on a worker that is not connected to one, \<open>listPeers\<close> answers with every
  peer of its registry, sorted by the number after the last dot of the address; an address with no dot, the empty one
  included, counts as 0. It fails exactly when there are at least two peers and what follows the last dot of some
  address starts with no number an \<open>int\<close> can hold, which any peer can bring about by registering such an address.
  This holds for every sorting algorithm the standard allows for \<open>std::sort\<close>, although nothing says which
  comparisons it makes.\<close>

theorem list_peers_answer:
  assumes "isLeader s \<or> \<not> isConnectedToLeader s" "valid_sort (on_sort env)"
  shows "let peers = getAllPeers (on_now env (dm_calls s)) (dm_db s); r = snd (handleListPeers env command s)
    in (isl r \<longleftrightarrow> 2 \<le> length peers \<and> (\<exists>p \<in> set peers. \<nexists>n. sorted_as (ip_address p) n)) \<and>
       (\<not> isl r \<longrightarrow> (\<exists>qs. mset qs = mset peers \<and>
          sorted_wrt (\<lambda>p q. \<exists>m n. sorted_as (ip_address p) m \<and> sorted_as (ip_address q) n \<and> m \<le> n) qs \<and>
          status (projr r) = 0 \<and>
          message (projr r) = on_dump2 env (JArr (map (\<lambda>p. peer_json p
            (listed_online env (dm_calls s @ [Now]) p)) qs)) @ NL))"
proof -
  let ?ps = "getAllPeers (on_now env (dm_calls s)) (dm_db s)"
  have run: "handleListPeers env command s = with_result (s\<lparr>dm_calls := dm_calls s @ [Now]\<rparr>) (sort_by_octet (on_sort env) ?ps)
      (\<lambda>peers. reply 0 (on_dump2 env (JArr (map (\<lambda>p. peer_json p (listed_online env (dm_calls s @ [Now]) p)) peers)) @ NL)
        (s\<lparr>dm_calls := dm_calls s @ [Now]\<rparr>))"
    using assms(1) by (auto simp: handleListPeers_def ask_leader_def sql_now_def os_do_def)
  note fails = sort_by_octet_fails_iff [OF assms(2), of ?ps]
  show ?thesis
  proof (cases "sort_by_octet (on_sort env) ?ps")
    case (Inl e)
    with fails show ?thesis by (simp add: run Let_def)
  next
    case (Inr qs)
    with fails sort_by_octet_sorts [OF assms(2) Inr] show ?thesis
      by (auto simp: run Let_def reply_def)
  qed
qed

definition crowded_daemon :: daemon where
  "crowded_daemon = sample_daemon\<lparr>dm_db := upsertPeer 1 ''b'' ''10.0.0.'' [] [] True 1
     (upsertPeer 1 ''a'' ''10.0.0.2'' [] [] True 1 sample_db)\<rparr>"

theorem list_peers_answer_witness:
  "isl (snd (handleListPeers quiet_os JNull crowded_daemon))"
proof -
  let ?ps = "getAllPeers (on_now quiet_os (dm_calls crowded_daemon)) (dm_db crowded_daemon)"
  have lead: "isLeader crowded_daemon \<or> \<not> isConnectedToLeader crowded_daemon"
    by (simp add: crowded_daemon_def isLeader_def sample_daemon_def)
  have algo: "valid_sort (on_sort quiet_os)" by (simp add: quiet_os_def insertion_valid)
  have ps: "map ip_address ?ps = [''10.0.0.2'', ''10.0.0.'']"
    by (simp add: crowded_daemon_def sample_db_def upsertPeer_def peer_find_def fits_def getAllPeers_def peer_record_def)
  then have "length ?ps = 2" by (metis length_map list.size(3,4) One_nat_def Suc_1 add.right_neutral add_Suc_right)
  moreover have "''10.0.0.'' \<in> ip_address ` set ?ps" using ps by (metis list.set_intros set_map)
  moreover have "isl (getLastOctet ''10.0.0.'')" by (simp add: getLastOctet_def)
  ultimately have "2 \<le> length ?ps \<and> (\<exists>p \<in> set ?ps. \<nexists>n. sorted_as (ip_address p) n)"
    unfolding getLastOctet_isl image_iff by (metis order_refl)
  then show ?thesis using list_peers_answer [OF lead algo, of JNull] unfolding Let_def by blast
qed

subsection \<open>Registration\<close>

lemma pm_find_upd: "pm_find k (upd_peers f s) = om_find k (f (m_peers (dm_peers s)))"
  by (simp add: pm_find_def upd_peers_def)

lemma peer_find_upsert:
  assumes "db_conn d" "fits 64 pid" "fits 15 ip" "fits 17 mac" "fits 255 hostname"
  shows "\<exists>r. peer_find (upsertPeer now pid ip mac hostname on v d) pid = Some r \<and>
    pr_ip r = ip \<and> pr_mac r = mac \<and> pr_hostname r = hostname \<and> pr_online r = on \<and> pr_last_seen r = now \<and>
    pr_version r = v"
proof (cases "peer_find d pid")
  case None
  then show ?thesis using assms by (auto simp: upsertPeer_def peer_find_def find_append_None)
next
  case (Some r0)
  let ?f = "\<lambda>r. r\<lparr>pr_ip := ip, pr_mac := mac, pr_hostname := hostname, pr_online := on, pr_last_seen := now, pr_version := v\<rparr>"
  have find_map: "find (peer_key_eq d pid) rs = Some r0 \<Longrightarrow>
      find (peer_key_eq d pid) (map (\<lambda>r. if peer_key_eq d pid r then ?f r else r) rs) = Some (?f r0)" for rs
    by (induction rs) (auto split: if_splits)
  have "upsertPeer now pid ip mac hostname on v d = update_peers pid ?f d"
    using assms Some by (simp add: upsertPeer_def)
  with find_map [of "peer_registry d"] Some show ?thesis
    by (simp add: update_peers_def peer_find_def)
qed

text \<open>C6 (roundtrip). After a worker has registered with the leader, the leader finds its address, keeps the socket it
  registered on, and reports it as online.\<close>

theorem registered_peer_found:
  assumes lead: "isLeader s" and conn: "db_conn (dm_db s)"
    and cmd: "opt_string command ''peer_id'' ''unknown'' = Inr pid" "opt_string command ''ip'' [] = Inr ip"
      "opt_string command ''mac'' [] = Inr mac" "opt_string command ''hostname'' [] = Inr host"
      "opt_int command ''daemon_version'' 0 = Inr v"
    and fit: "fits 64 pid" "fits 15 ip" "fits 17 mac" "fits 255 host" and ip: "ip \<noteq> []"
    and sorted: "om_sorted (m_peers (dm_peers s))"
  shows "let s1 = fst (handleRegisterPeer env command s) in
    resolvePeerIP env pid s1 = (s1, ip) \<and>
    pi_socket_fd (getPeerInfo pid s1) = dm_clientSocket s \<and> pi_ip_address (getPeerInfo pid s1) = ip \<and>
    is_online (getPeer False pid (dm_db s1)) \<and> daemon_version (getPeer False pid (dm_db s1)) = v"
proof -
  let ?now = "on_now env (dm_calls s)"
  let ?d = "upsertPeer ?now pid ip mac host True v (dm_db s)"
  let ?s1 = "registerPeer pid ip mac host (dm_clientSocket s) (s\<lparr>dm_calls := dm_calls s @ [Now], dm_db := ?d\<rparr>)"
  have run: "fst (handleRegisterPeer env command s) = ?s1"
    using lead by (simp add: handleRegisterPeer_def cmd sql_now_def os_do_def reply_def)
  obtain r where r: "peer_find ?d pid = Some r" "pr_ip r = ip" "pr_online r" "pr_version r = v"
    using peer_find_upsert [OF conn fit] by metis
  have conn': "db_conn ?d" using conn by (simp add: upsertPeer_def update_peers_def)
  have "getPeer False pid ?d = peer_record ?d (pr_online r) r" using r conn' by (simp add: getPeer_def)
  moreover have "pm_find pid ?s1 = Some \<lparr>pi_peer_id = pid, pi_ip_address = ip, pi_mac_address = mac, pi_hostname = host,
      pi_is_online = True, pi_socket_fd = dm_clientSocket s\<rparr>"
    using sorted by (simp add: registerPeer_def pm_find_upd om_find_put)
  ultimately show ?thesis
    using lead r ip by (simp add: run Let_def resolvePeerIP_def isLeader_def registerPeer_def upd_peers_def
      peer_record_def getPeerInfo_def)
qed

theorem registered_peer_found_witness:
  "let s1 = fst (handleRegisterPeer quiet_os (JObj [(''ip'', JStr ''10.0.0.9''), (''peer_id'', JStr ''desk'')]) sample_daemon)
   in resolvePeerIP quiet_os ''desk'' s1 = (s1, ''10.0.0.9'') \<and> pi_socket_fd (getPeerInfo ''desk'' s1) = 7"
proof -
  let ?cmd = "JObj [(''ip'', JStr ''10.0.0.9''), (''peer_id'', JStr ''desk'')]"
  have "let s1 = fst (handleRegisterPeer quiet_os ?cmd sample_daemon) in
    resolvePeerIP quiet_os ''desk'' s1 = (s1, ''10.0.0.9'') \<and>
    pi_socket_fd (getPeerInfo ''desk'' s1) = dm_clientSocket sample_daemon \<and> pi_ip_address (getPeerInfo ''desk'' s1) = ''10.0.0.9'' \<and>
    is_online (getPeer False ''desk'' (dm_db s1)) \<and> daemon_version (getPeer False ''desk'' (dm_db s1)) = 0"
    by (rule registered_peer_found [where mac = "[]" and host = "[]"])
       (simp_all add: isLeader_def sample_daemon_def sample_db_def opt_string_def opt_int_def json_access_defs fits_def
         initial_peers_def)
  moreover have "dm_clientSocket sample_daemon = 7" by (simp add: sample_daemon_def)
  ultimately show ?thesis by (simp add: Let_def)
qed

subsection \<open>Execution on another machine\<close>

text \<open>\<open>within n s s'\<close>: at most \<open>n\<close> calls were made.\<close>

definition within :: "nat \<Rightarrow> daemon \<Rightarrow> daemon \<Rightarrow> bool" where
  "within n s s' \<longleftrightarrow> (\<exists>cs. dm_calls s' = dm_calls s @ cs \<and> length cs \<le> n)"

lemma within_refl [simp]: "within n s s"
  by (simp add: within_def)

lemma within_trans: "within m s s1 \<Longrightarrow> within n s1 s2 \<Longrightarrow> within (m + n) s s2"
  by (fastforce simp: within_def)

lemma within_mono: "within m s s' \<Longrightarrow> m \<le> n \<Longrightarrow> within n s s'"
  by (auto simp: within_def)

lemma within_upd [simp]:
  "within n s (upd_pm f s') = within n s s'" "within n s (upd_peers g s') = within n s s'"
  by (simp_all add: within_def upd_peers_def)

lemma within_calls:
  "within 1 s (fst (write_fd env fd text s))" "within 1 s (fst (poll_fd env fd t s))"
  "within 1 s (fst (read_fd env fd k s))" "within 1 s (close_fd fd s)" "within 2 s (fst (tcp_connect env ip p s))"
  by (auto simp: within_def os_call_defs split: connect_reply.split)

lemma within_bind:
  "within m s (fst p) \<Longrightarrow> (\<And>s1 x. within n s1 (fst (g s1 x))) \<Longrightarrow> within (m + n) s (fst (case p of (s1, x) \<Rightarrow> g s1 x))"
  using within_trans by (cases p) fastforce

lemma within_query: "within 3 s (fst (queryLeaderForPeerIP env pid s))"
proof -
  have disc: "within 1 s (disconnectFromLeader s)" for s
    using within_calls(4) by (simp add: disconnectFromLeader_def drop_socket_def)
  have "within 3 s (fst (pm_forwardToLeader env cmd t s))" for cmd t
  proof -
    let ?fd = "m_leaderSocket (dm_peers s)"
    obtain s1 ok where w: "write_fd env ?fd (on_dump env cmd @ NL) s = (s1, ok)" by fastforce
    obtain s2 n where p: "poll_fd env ?fd t s1 = (s2, n)" by fastforce
    obtain s3 r where rd: "read_fd env ?fd 16383 s2 = (s3, r)" by fastforce
    have steps: "within 1 s s1" "within 1 s1 s2" "within 1 s2 s3"
      using within_calls(1) [of s env ?fd "on_dump env cmd @ NL"] within_calls(2) [of s1 env ?fd t]
        within_calls(3) [of s2 env ?fd 16383] by (simp_all add: w p rd)
    have "within 2 s s2" "within 3 s s3" "within 2 s (disconnectFromLeader s1)"
      using within_trans [OF steps(1) steps(2)] within_trans [OF within_trans [OF steps(1) steps(2)] steps(3)]
        within_trans [OF steps(1) disc] by (simp_all add: numeral_eq_Suc)
    then show ?thesis by (auto simp: pm_forwardToLeader_def w p rd Let_def intro: within_mono)
  qed
  then show ?thesis
    by (auto simp: queryLeaderForPeerIP_def Let_def split: prod.split) (metis fst_conv)
qed

lemma within_exchange: "within 4 s (fst (exec_exchange env first pid request peer s))"
proof -
  have send: "within 2 s (fst (sendToPeer env pid request s))"
  proof (cases "pm_find pid s")
    case (Some p)
    obtain s1 ok where w: "write_fd env (pi_socket_fd p) (on_dump env request @ NL) s = (s1, ok)" by fastforce
    have one: "within 1 s s1" using within_calls(1) [of s env "pi_socket_fd p" "on_dump env request @ NL"] by (simp add: w)
    then have "within 2 s (close_fd (pi_socket_fd p) s1)" using within_trans [OF one within_calls(4)] by (simp add: numeral_eq_Suc)
    with one Some show ?thesis by (auto simp: sendToPeer_def w Let_def intro: within_mono)
  qed (simp add: sendToPeer_def)
  have unreg: "within 1 s (unregisterPeer pid s)" for s
    using within_calls(4) by (auto simp: unregisterPeer_def split: option.split)
  obtain s1 sent where s1: "sendToPeer env pid request s = (s1, sent)" by fastforce
  obtain s2 r where r: "read_fd env (pi_socket_fd peer) 65535 s1 = (s2, r)" by fastforce
  have a: "within 2 s s1" using send by (simp add: s1)
  have b: "within 1 s1 s2" using within_calls(3) [of s1 env "pi_socket_fd peer" 65535] by (simp add: r)
  have c: "within 3 s s2" "within 4 s (unregisterPeer pid s2)"
    using within_trans [OF a b] within_trans [OF within_trans [OF a b] unreg] by (simp_all add: numeral_eq_Suc)
  from a c show ?thesis
    by (auto simp: exec_exchange_def s1 r Let_def intro: within_mono split: read_reply.split option.split)
qed

lemma within_attempt: "within 9 s (fst (exec_attempt env first pid request s))"
proof -
  have addr: "within 3 s (fst (exec_address env pid s))"
    using within_query [of s env pid] by (auto simp: exec_address_def Let_def split: prod.split)
  have conn: "within 2 s (fst (connectToPeer env pid ip s))" for ip s
    using within_calls(5) [of s env ip 3502]
    by (auto simp: connectToPeer_def Let_def split: prod.split connect_reply.split option.split)
  show ?thesis
  proof (cases "pi_peer_id (getPeerInfo pid s) = [] \<or> pi_socket_fd (getPeerInfo pid s) < 0")
    case True
    obtain s1 a where a: "exec_address env pid s = (s1, a)" by fastforce
    have s1: "within 3 s s1" using addr by (simp add: a)
    show ?thesis
    proof (cases a)
      case (Inl r)
      with True a s1 show ?thesis by (auto simp: exec_attempt_def Let_def intro: within_mono)
    next
      case (Inr ip)
      obtain s2 ok where s2: "connectToPeer env pid ip s1 = (s2, ok)" by fastforce
      have "within 2 s1 s2" using conn [of s1 ip] by (simp add: s2)
      with s1 have five: "within 5 s s2" using within_trans by fastforce
      then have "within 9 s (fst (exec_exchange env first pid request (getPeerInfo pid s2) s2))"
        using within_trans [OF five within_exchange] by simp
      with True a Inr s2 five show ?thesis by (auto simp: exec_attempt_def Let_def intro: within_mono)
    qed
  next
    case False
    then show ?thesis
      using within_mono [OF within_exchange, of 9] by (auto simp: exec_attempt_def Let_def)
  qed
qed

lemma last_attempt_answers: "snd (exec_attempt env False pid request s) \<noteq> Retry"
proof -
  have "snd (exec_exchange env False pid request p t) \<noteq> Retry" for p t
    by (auto simp: exec_exchange_def Let_def split: prod.split read_reply.split option.split)
  then show ?thesis
    by (auto simp: exec_attempt_def Let_def split: prod.split sum.split)
qed

text \<open>\<open>execOnPeer\<close> gives an answer after at most two attempts, whatever the peer, the network and the leader do; it
  makes at most 18 calls, and its last resort, the reply \<open>Unknown error\<close>, is never reached.\<close>

theorem exec_on_peer_two_attempts:
  assumes "command_string command ''peer'' = Inr pid" "command_string command ''directory'' = Inr dir"
    "command_string command ''shellCmd'' = Inr cmd"
  shows "let request = exec_request dir cmd; (s1, a1) = exec_attempt env True pid request s;
             (s2, a2) = exec_attempt env False pid request s1; (s', result) = handleExecOnPeer env command s
         in within 18 s s' \<and>
            (\<exists>r. result = Inr r \<and> (a1 = Answer r \<and> s' = s1 \<or> a1 = Retry \<and> a2 = Answer r \<and> s' = s2))"
proof -
  let ?req = "exec_request dir cmd"
  obtain s1 a1 where a1: "exec_attempt env True pid ?req s = (s1, a1)" by fastforce
  obtain s2 a2 where a2: "exec_attempt env False pid ?req s1 = (s2, a2)" by fastforce
  have w1: "within 9 s s1" and w2: "within 9 s1 s2"
    using within_attempt [of s env True pid ?req] within_attempt [of s1 env False pid ?req] by (simp_all add: a1 a2)
  have w: "within 18 s s1" "within 18 s s2"
    using within_mono [OF w1, of 18] within_trans [OF w1 w2] by simp_all
  obtain r2 where r2: "a2 = Answer r2" using last_attempt_answers [of env pid ?req s1] by (cases a2) (simp_all add: a2)
  show ?thesis
    using w r2 by (cases a1) (simp_all add: handleExecOnPeer_def with_key_def assms a1 a2 Let_def)
qed

theorem exec_on_peer_two_attempts_witness:
  "snd (handleExecOnPeer quiet_os (JObj [(''directory'', JStr ''/''), (''peer'', JStr ''x''), (''shellCmd'', JStr ''ls'')]) sample_daemon) =
     Inr (CmdResult 1 (''Peer not found: x'' @ NL))"
proof -
  let ?cmd = "JObj [(''directory'', JStr ''/''), (''peer'', JStr ''x''), (''shellCmd'', JStr ''ls'')]"
  have keys: "command_string ?cmd ''peer'' = Inr ''x''" "command_string ?cmd ''directory'' = Inr ''/''"
    "command_string ?cmd ''shellCmd'' = Inr ''ls''" by (simp_all add: json_access_defs)
  have "exec_attempt quiet_os True ''x'' (exec_request ''/'' ''ls'') sample_daemon =
      (sample_daemon, Answer (CmdResult 1 (''Peer not found: x'' @ NL)))"
    by (simp add: exec_attempt_def getPeerInfo_def pm_find_def sample_daemon_def initial_peers_def no_peer_def
      exec_address_def isLeader_def getPeer_def peer_find_def empty_peer_record_def sample_db_def Let_def)
  with exec_on_peer_two_attempts [OF keys, of quiet_os sample_daemon] show ?thesis
    by (auto simp: Let_def split: prod.splits)
qed

subsection \<open>The child process\<close>

text \<open>The reference: the events up to the first that ends the reading.\<close>

definition reads_on :: "int \<Rightarrow> int \<times> pipe_event \<Rightarrow> bool" where
  "reads_on timeout = (\<lambda>(elapsed, e). elapsed < timeout \<and> (case e of PipeData t \<Rightarrow> True | PipeInterrupted \<Rightarrow> True | _ \<Rightarrow> False))"

definition event_data :: "int \<times> pipe_event \<Rightarrow> string" where
  "event_data = (\<lambda>(elapsed, e). case e of PipeData t \<Rightarrow> c_string t | _ \<Rightarrow> [])"

definition times_out :: "int \<Rightarrow> (int \<times> pipe_event) list \<Rightarrow> bool" where
  "times_out timeout es = (case dropWhile (reads_on timeout) es of
      [] \<Rightarrow> False | (elapsed, e) # _ \<Rightarrow> timeout \<le> elapsed \<or> e = PipeSilent)"

lemma read_child_reference:
  "read_child timeout out es = (out @ concat (map event_data (takeWhile (reads_on timeout) es)), times_out timeout es)"
proof (induction timeout out es rule: read_child.induct)
  case (2 timeout out elapsed e es)
  then show ?case
    by (cases e) (auto simp: reads_on_def event_data_def times_out_def)
qed (simp add: times_out_def)

text \<open>The loop that reads a child process collects exactly the data up to the end of the pipe or the
  time limit; past the limit the exit code is 124 and the text says so, and otherwise it is the child's own.\<close>

theorem child_output_reference:
  assumes "ch_pipe_error ch = None" "ch_fork_error ch = None"
  shows "executeCommandWithTimeout ch timeout =
    (let out = concat (map event_data (takeWhile (reads_on timeout) (ch_events ch))) in
     if times_out timeout (ch_events ch)
     then (out @ NL @ ''[TIMEOUT after '' @ to_string timeout @ ''s]'', 124)
     else (out, case ch_exit ch of Some c \<Rightarrow> c | None \<Rightarrow> 1))"
  using assms by (simp add: executeCommandWithTimeout_def read_child_reference Let_def)

theorem child_output_reference_witness:
  "executeCommandWithTimeout \<lparr>ch_pipe_error = None, ch_fork_error = None,
     ch_events = [(0, PipeData ''a''), (1, PipeInterrupted), (2, PipeData ''b''), (3, PipeEnd)], ch_exit = Some 0\<rparr> 60 = (''ab'', 0)"
  using child_output_reference [of "\<lparr>ch_pipe_error = None, ch_fork_error = None,
     ch_events = [(0, PipeData ''a''), (1, PipeInterrupted), (2, PipeData ''b''), (3, PipeEnd)], ch_exit = Some 0\<rparr>" 60]
  by (simp add: Let_def reads_on_def event_data_def times_out_def c_string_def)

end
