(* ===== verification/Daemon_Server.thy ===== *)
theory Daemon_Server
  imports App_Peers Command_Dispatch
begin

text \<open>
  The socket server of \<open>daemon/src/DaemonServer.cpp\<close>: local clients, peers and the connection to the
  leader, each with a buffer cut into lines; the dispatch of each line; and the rounds of \<open>daemon_loop\<close>.

  What a \<open>read\<close> returned is a parameter (the empty text stands for end of file or an error). \<open>run\<close> is the
  behaviour of the command handlers. A slow command is appended to \<open>sv_threads\<close>, and the end of such a
  thread is an event; so is a descriptor that another thread of the process opens (the reconnect loop,
  a database connection of a slow command). \<open>select\<close> fails while it is given a closed descriptor, and the loop then starts
  over. An exception that leaves a handler function ends the process.

  One event is a round of the loop in which one descriptor is ready; a round with several is such events in the order in
  which the loop looks at them.
\<close>

record ClientState =
  cs_fd :: int
  cs_buffer :: string
  cs_pid :: int
  cs_uid :: int

record PeerClientState =
  ps_fd :: int
  ps_buffer :: string
  ps_peer_ip :: string
  ps_peer_id :: string
  ps_authenticated :: bool

record server =
  sv_clients :: "(int, ClientState) omap"
  sv_peers :: "(int, PeerClientState) omap"
  sv_leader_buffer :: string
  sv_threads :: "(int \<times> json) list"
  sv_daemon :: daemon

subsection \<open>Network interfaces\<close>

text \<open>\<open>names\<close> is the listing of \<open>/sys/class/net\<close> (\<open>None\<close> when it cannot be opened); \<open>address\<close> gives the
  first line of the address file of an interface, if the file opens.\<close>

definition usable_mac :: "(string \<Rightarrow> string option) \<Rightarrow> string \<Rightarrow> bool" where
  "usable_mac address ifname = (case address ifname of
      Some m \<Rightarrow> m \<noteq> [] \<and> m \<noteq> ''00:00:00:00:00:00'' | None \<Rightarrow> False)"

definition virtual_interface :: "string \<Rightarrow> bool" where
  "virtual_interface ifname \<longleftrightarrow> ifname = ''.'' \<or> ifname = ''..'' \<or> ifname = ''lo'' \<or> starts_with ''wg'' ifname \<or>
     starts_with ''veth'' ifname \<or> starts_with ''docker'' ifname \<or> starts_with ''br-'' ifname"

definition first_mac :: "(string \<Rightarrow> string option) \<Rightarrow> (string \<Rightarrow> bool) \<Rightarrow> string list \<Rightarrow> string option" where
  "first_mac address ok names =
     Option.bind (find (\<lambda>n. ok n \<and> usable_mac address n) names) address"

definition getPrimaryMacAddress :: "string list option \<Rightarrow> (string \<Rightarrow> string option) \<Rightarrow> string" where
  "getPrimaryMacAddress listing address = (case listing of
      None \<Rightarrow> []
    | Some names \<Rightarrow>
        (case first_mac address (starts_with ''eth'') names of Some m \<Rightarrow> m | None \<Rightarrow>
        (case first_mac address (starts_with ''en'') names of Some m \<Rightarrow> m | None \<Rightarrow>
        (case first_mac address (starts_with ''wlan'') names of Some m \<Rightarrow> m | None \<Rightarrow>
        (case first_mac address (\<lambda>n. \<not> virtual_interface n) names of Some m \<Rightarrow> m | None \<Rightarrow> [])))))"

text \<open>The interfaces with their IPv4 address, \<open>None\<close> for an entry of another family.\<close>

definition getWgInterfaceIP :: "(string \<times> string option) list option \<Rightarrow> string" where
  "getWgInterfaceIP ifaddrs = (case ifaddrs of
      None \<Rightarrow> []
    | Some ifs \<Rightarrow> (case find (\<lambda>(n, a). a \<noteq> None \<and> n = ''wg0'') ifs of
        Some (n, Some ip) \<Rightarrow> ip | _ \<Rightarrow> []))"

subsection \<open>Lines\<close>

definition break_line :: "string \<Rightarrow> (string \<times> string) option" where
  "break_line buf =
     (if CHR 0x0A \<in> set buf
      then Some (takeWhile (\<lambda>c. c \<noteq> CHR 0x0A) buf, tl (dropWhile (\<lambda>c. c \<noteq> CHR 0x0A) buf)) else None)"

definition chop_cr :: "string \<Rightarrow> string" where
  "chop_cr line = (if line \<noteq> [] \<and> last line = CHR 0x0D then butlast line else line)"

lemma dropWhile_newline:
  "CHR 0x0A \<in> set buf \<Longrightarrow>
     dropWhile (\<lambda>c. c \<noteq> CHR 0x0A) buf = CHR 0x0A # tl (dropWhile (\<lambda>c. c \<noteq> CHR 0x0A) buf)"
  by (induction buf) auto

lemma break_line_SomeD:
  "break_line buf = Some (line, rest) \<Longrightarrow> buf = line @ CHR 0x0A # rest \<and> CHR 0x0A \<notin> set line"
  by (auto simp: break_line_def dropWhile_newline [symmetric] dest: set_takeWhileD split: if_splits)

lemma break_line_line [simp]:
  "CHR 0x0A \<notin> set line \<Longrightarrow> break_line (line @ CHR 0x0A # rest) = Some (line, rest)"
  by (induction line) (auto simp: break_line_def)

lemma break_line_None_iff: "break_line buf = None \<longleftrightarrow> CHR 0x0A \<notin> set buf"
  by (simp add: break_line_def)

lemma break_line_shorter: "break_line buf = Some (line, rest) \<Longrightarrow> length rest < length buf"
  by (auto dest!: break_line_SomeD)

subsection \<open>Local clients\<close>

text \<open>\<open>mainCommand\<close> with its write of the reply.\<close>

definition serve_command ::
  "os \<Rightarrow> daemon runner \<Rightarrow> int \<Rightarrow> json \<Rightarrow> daemon \<Rightarrow> daemon \<times> int result" where
  "serve_command env run fd j d =
     (case mainCommand (on_dump env) (on_what env) run j (d\<lparr>dm_clientSocket := fd\<rparr>) of
        (d1, Inl e) \<Rightarrow> (d1, Inl e)
      | (d1, Inr (msg, code)) \<Rightarrow> (fst (write_fd env fd msg d1), Inr code))"

definition invalid_json :: string where "invalid_json = ''ERROR: Invalid JSON'' @ NL"

datatype session = Waiting string | Closing | HandedOver json

function client_lines ::
  "os \<Rightarrow> daemon runner \<Rightarrow> int \<Rightarrow> string \<Rightarrow> daemon \<Rightarrow> daemon \<times> session result" where
  "client_lines env run fd buf d = (case break_line buf of
      None \<Rightarrow> (d, Inr (Waiting buf))
    | Some (line, rest) \<Rightarrow> (case on_parse env (chop_cr line) of
        None \<Rightarrow> client_lines env run fd rest (fst (write_fd env fd invalid_json d))
      | Some j \<Rightarrow> (case serve_command env run fd j d of
          (d1, Inl e) \<Rightarrow> (d1, Inl e)
        | (d1, Inr code) \<Rightarrow>
            if code = 1 then (d1, Inr Closing)
            else if code = 2 then (d1, Inr (HandedOver j))
            else client_lines env run fd rest d1)))"
  by pat_completeness auto
termination by (relation "measure (\<lambda>(env, run, fd, buf, d). length buf)") (auto dest: break_line_shorter)

declare client_lines.simps [simp del]

definition unregisterLogSubscriber :: "int \<Rightarrow> daemon \<Rightarrow> daemon" where
  "unregisterLogSubscriber fd d = d\<lparr>dm_logSubscribers := removeAll fd (dm_logSubscribers d)\<rparr>"

text \<open>\<open>unregisterLogSubscriber\<close>, \<open>close\<close> and \<open>clients.erase\<close>.\<close>

definition drop_client :: "int \<Rightarrow> server \<Rightarrow> server" where
  "drop_client fd sv = sv\<lparr>sv_clients := om_erase fd (sv_clients sv),
     sv_daemon := close_fd fd (unregisterLogSubscriber fd (sv_daemon sv))\<rparr>"

definition hand_over :: "int \<Rightarrow> json \<Rightarrow> server \<Rightarrow> server" where
  "hand_over fd j sv = sv\<lparr>sv_threads := sv_threads sv @ [(fd, j)]\<rparr>"

definition end_session :: "int \<Rightarrow> ClientState \<Rightarrow> server \<Rightarrow> daemon \<times> session result \<Rightarrow> server \<times> unit result" where
  "end_session fd st sv = (\<lambda>(d, r). let sv1 = sv\<lparr>sv_daemon := d\<rparr> in
     case r of
       Inl e \<Rightarrow> (sv1, Inl e)
     | Inr (Waiting buf) \<Rightarrow> (sv1\<lparr>sv_clients := om_put fd (st\<lparr>cs_buffer := buf\<rparr>) (sv_clients sv1)\<rparr>, Inr ())
     | Inr Closing \<Rightarrow> (drop_client fd sv1, Inr ())
     | Inr (HandedOver j) \<Rightarrow>
         ((hand_over fd j sv1)\<lparr>sv_clients := om_erase fd (sv_clients sv1),
             sv_daemon := unregisterLogSubscriber fd d\<rparr>, Inr ()))"

definition handle_client_data ::
  "os \<Rightarrow> daemon runner \<Rightarrow> int \<Rightarrow> ClientState \<Rightarrow> string \<Rightarrow> server \<Rightarrow> server \<times> unit result" where
  "handle_client_data env run fd st data sv =
     (if data = [] then (drop_client fd sv, Inr ())
      else end_session fd st sv
        (client_lines env run fd (cs_buffer st @ c_string data) (sv_daemon sv)))"

subsection \<open>Peers\<close>

definition is_command :: "string \<Rightarrow> json \<Rightarrow> bool" where
  "is_command n j \<longleftrightarrow> jat j ''command'' = Inr (JStr n)"

text \<open>The status of the applications, when the message has one.\<close>

definition note_app_status :: "string \<Rightarrow> json \<Rightarrow> daemon \<Rightarrow> daemon" where
  "note_app_status pid j d = (case jat j ''appStatus'' of
      Inr (JObj m) \<Rightarrow> updatePeerAppStatus pid (JObj m) d | _ \<Rightarrow> d)"

definition touch_peer :: "os \<Rightarrow> string \<Rightarrow> int option \<Rightarrow> daemon \<Rightarrow> daemon" where
  "touch_peer env pid version d =
     (let (d1, now) = sql_now env d in
      d1\<lparr>dm_db := (case version of
          Some v \<Rightarrow> touchLastSeenVersion now pid v (dm_db d1) | None \<Rightarrow> touchLastSeen now pid (dm_db d1))\<rparr>)"

text \<open>The interception of a heartbeat.\<close>

definition take_heartbeat :: "os \<Rightarrow> json \<Rightarrow> PeerClientState \<Rightarrow> daemon \<Rightarrow> daemon \<times> PeerClientState result" where
  "take_heartbeat env j st d = (case command_string j ''peer_id'' of
      Inl e \<Rightarrow> (d, Inl e)
    | Inr pid \<Rightarrow>
        (case (if jcontains j ''daemon_version''
               then try_result (jat j ''daemon_version'') (\<lambda>v. try_result (jget_int v) (\<lambda>i. Inr (Some i)))
               else Inr None) of
           Inl e \<Rightarrow> (d, Inl e)
         | Inr version \<Rightarrow>
             (note_app_status pid j (touch_peer env pid version d),
              Inr (if ps_peer_id st = [] then st\<lparr>ps_peer_id := pid\<rparr> else st))))"

text \<open>The peer a \<open>registerPeer\<close> message names.\<close>

definition track_peer :: "json \<Rightarrow> PeerClientState \<Rightarrow> daemon \<Rightarrow> daemon \<times> PeerClientState result" where
  "track_peer j st d =
     (if is_command ''registerPeer'' j \<and> jcontains j ''peer_id'' then
        (case command_string j ''peer_id'' of
           Inl e \<Rightarrow> (d, Inl e)
         | Inr pid \<Rightarrow> (note_app_status pid j d, Inr (st\<lparr>ps_peer_id := pid\<rparr>)))
      else (d, Inr st))"

text \<open>One line from a peer. The last component lists the command when it went to a thread.\<close>

definition peer_message ::
  "os \<Rightarrow> daemon runner \<Rightarrow> int \<Rightarrow> json \<Rightarrow> PeerClientState \<Rightarrow> daemon \<Rightarrow> daemon \<times> (PeerClientState \<times> json list) result" where
  "peer_message env run fd j st d =
     (if is_command ''heartbeat'' j \<and> jcontains j ''peer_id'' then
        (case take_heartbeat env j st d of
           (d1, Inl e) \<Rightarrow> (d1, Inl e) | (d1, Inr st1) \<Rightarrow> (d1, Inr (st1, [])))
      else case track_peer j st d of
        (d1, Inl e) \<Rightarrow> (d1, Inl e)
      | (d1, Inr st1) \<Rightarrow> (case serve_command env run fd j d1 of
          (d2, Inl e) \<Rightarrow> (d2, Inl e)
        | (d2, Inr code) \<Rightarrow> (d2, Inr (st1, if code = 2 then [j] else []))))"

text \<open>The lines of a peer's buffer; \<open>slow\<close> collects the commands that went to a thread.\<close>

function peer_lines ::
  "os \<Rightarrow> daemon runner \<Rightarrow> int \<Rightarrow> string \<Rightarrow> json list \<Rightarrow> PeerClientState \<Rightarrow> daemon \<Rightarrow>
     daemon \<times> (PeerClientState \<times> json list) result" where
  "peer_lines env run fd buf slow st d = (case break_line buf of
      None \<Rightarrow> (d, Inr (st\<lparr>ps_buffer := buf\<rparr>, slow))
    | Some (line, rest) \<Rightarrow> (case on_parse env (chop_cr line) of
        None \<Rightarrow> peer_lines env run fd rest slow st (fst (write_fd env fd invalid_json d))
      | Some j \<Rightarrow> (case peer_message env run fd j st d of
          (d1, Inl e) \<Rightarrow> (d1, Inl e)
        | (d1, Inr (st1, js)) \<Rightarrow> peer_lines env run fd rest (slow @ js) st1 d1)))"
  by pat_completeness auto
termination
  by (relation "measure (\<lambda>(env, run, fd, buf, slow, st, d). length buf)") (auto dest: break_line_shorter)

declare peer_lines.simps [simp del]

definition drop_peer :: "os \<Rightarrow> int \<Rightarrow> PeerClientState \<Rightarrow> server \<Rightarrow> server" where
  "drop_peer env fd st sv =
     (let d = sv_daemon sv;
          d1 = (if ps_peer_id st \<noteq> [] then
              let (d', now) = sql_now env d in
              clearPeerAppStatus (ps_peer_id st)
                (d'\<lparr>dm_db := updateOnlineStatus now (ps_peer_id st) False (dm_db d')\<rparr>)
            else d)
      in sv\<lparr>sv_peers := om_erase fd (sv_peers sv), sv_daemon := close_fd fd d1\<rparr>)"

definition handle_peer_data ::
  "os \<Rightarrow> daemon runner \<Rightarrow> int \<Rightarrow> PeerClientState \<Rightarrow> string \<Rightarrow> server \<Rightarrow> server \<times> unit result" where
  "handle_peer_data env run fd st data sv =
     (if data = [] then (drop_peer env fd st sv, Inr ())
      else case peer_lines env run fd (ps_buffer st @ c_string data) [] st (sv_daemon sv) of
        (d, Inl e) \<Rightarrow> (sv\<lparr>sv_daemon := d\<rparr>, Inl e)
      | (d, Inr (st1, slow)) \<Rightarrow>
          (fold (hand_over fd) slow (sv\<lparr>sv_daemon := d, sv_peers := om_put fd st1 (sv_peers sv)\<rparr>), Inr ()))"

subsection \<open>The leader\<close>

function leader_lines ::
  "os \<Rightarrow> daemon runner \<Rightarrow> int \<Rightarrow> string \<Rightarrow> json list \<Rightarrow> daemon \<Rightarrow> daemon \<times> (string \<times> json list) result" where
  "leader_lines env run fd buf slow d = (case break_line buf of
      None \<Rightarrow> (d, Inr (buf, slow))
    | Some (line, rest) \<Rightarrow> (case on_parse env (chop_cr line) of
        None \<Rightarrow> leader_lines env run fd rest slow d
      | Some j \<Rightarrow>
          if \<not> jcontains j ''command'' then leader_lines env run fd rest slow d
          else (case serve_command env run fd j d of
            (d1, Inl e) \<Rightarrow> (d1, Inl e)
          | (d1, Inr code) \<Rightarrow> leader_lines env run fd rest (if code = 2 then slow @ [j] else slow) d1)))"
  by pat_completeness auto
termination
  by (relation "measure (\<lambda>(env, run, fd, buf, slow, d). length buf)") (auto dest: break_line_shorter)

declare leader_lines.simps [simp del]

definition handle_leader_data ::
  "os \<Rightarrow> daemon runner \<Rightarrow> string \<Rightarrow> server \<Rightarrow> server \<times> unit result" where
  "handle_leader_data env run data sv =
     (let fd = m_leaderSocket (dm_peers (sv_daemon sv)) in
      if fd < 0 then (sv, Inr ())
      else if data = [] then
        (sv\<lparr>sv_daemon := disconnectFromLeader (sv_daemon sv), sv_leader_buffer := []\<rparr>, Inr ())
      else case leader_lines env run fd (sv_leader_buffer sv @ c_string data) [] (sv_daemon sv) of
        (d, Inl e) \<Rightarrow> (sv\<lparr>sv_daemon := d\<rparr>, Inl e)
      | (d, Inr (buf, slow)) \<Rightarrow>
          (fold (hand_over fd) slow (sv\<lparr>sv_daemon := d, sv_leader_buffer := buf\<rparr>), Inr ()))"

subsection \<open>The loop\<close>

datatype server_event =
    AcceptClient int int int
  | AcceptPeer int string
  | ClientData int string
  | PeerData int string
  | LeaderData string
  | ThreadEnds nat
  | ThreadOpens int

text \<open>The descriptors given to \<open>select\<close> beside the listening sockets.\<close>

definition watched :: "server \<Rightarrow> int set" where
  "watched sv = fst ` set (sv_clients sv) \<union> fst ` set (sv_peers sv) \<union>
     (let pm = dm_peers (sv_daemon sv) in
      if m_connectedToLeader pm \<and> m_leaderSocket pm \<ge> 0 then {m_leaderSocket pm} else {})"

definition select_fails :: "server \<Rightarrow> bool" where
  "select_fails sv \<longleftrightarrow> (\<exists>fd \<in> watched sv. closed_fd fd (dm_calls (sv_daemon sv)))"

definition accept_new_client :: "int \<Rightarrow> int \<Rightarrow> int \<Rightarrow> server \<Rightarrow> server" where
  "accept_new_client fd pid uid sv =
     (if fd < 0 then sv
      else sv\<lparr>sv_clients := om_put fd \<lparr>cs_fd = fd, cs_buffer = [], cs_pid = pid, cs_uid = uid\<rparr> (sv_clients sv),
              sv_daemon := opened fd (sv_daemon sv)\<rparr>)"

definition accept_new_peer :: "int \<Rightarrow> string \<Rightarrow> server \<Rightarrow> server" where
  "accept_new_peer fd ip sv =
     (if fd < 0 then sv
      else sv\<lparr>sv_peers := om_put fd \<lparr>ps_fd = fd, ps_buffer = [], ps_peer_ip = ip, ps_peer_id = [],
                ps_authenticated = False\<rparr> (sv_peers sv),
              sv_daemon := opened fd (sv_daemon sv)\<rparr>)"

text \<open>A thread runs the handler again, writes its reply and closes the descriptor.\<close>

definition thread_ends :: "os \<Rightarrow> daemon runner \<Rightarrow> int \<Rightarrow> json \<Rightarrow> server \<Rightarrow> server \<times> unit result" where
  "thread_ends env run fd j sv = (case slow_thread (on_what env) run j (sv_daemon sv) of
      (d, Inl e) \<Rightarrow> (sv\<lparr>sv_daemon := d\<rparr>, Inl e)
    | (d, Inr msg) \<Rightarrow>
        (sv\<lparr>sv_daemon := close_fd fd (fst (write_fd env fd msg d))\<rparr>, Inr ()))"

text \<open>One event. The loop looks at the sockets only when \<open>select\<close> succeeds.\<close>

definition daemon_event ::
  "os \<Rightarrow> daemon runner \<Rightarrow> server_event \<Rightarrow> server \<Rightarrow> server \<times> unit result" where
  "daemon_event env run ev sv = (case ev of
      ThreadEnds i \<Rightarrow>
        if i < length (sv_threads sv) then
          let (fd, j) = sv_threads sv ! i in
          thread_ends env run fd j
            (sv\<lparr>sv_threads := take i (sv_threads sv) @ drop (Suc i) (sv_threads sv)\<rparr>)
        else (sv, Inr ())
    | ThreadOpens fd \<Rightarrow> (sv\<lparr>sv_daemon := opened fd (sv_daemon sv)\<rparr>, Inr ())
    | _ \<Rightarrow>
        if select_fails sv then (sv, Inr ())
        else (case ev of
            AcceptClient fd pid uid \<Rightarrow> (accept_new_client fd pid uid sv, Inr ())
          | AcceptPeer fd ip \<Rightarrow> (accept_new_peer fd ip sv, Inr ())
          | ClientData fd data \<Rightarrow> (case om_find fd (sv_clients sv) of
              Some st \<Rightarrow> handle_client_data env run fd st data sv | None \<Rightarrow> (sv, Inr ()))
          | PeerData fd data \<Rightarrow> (case om_find fd (sv_peers sv) of
              Some st \<Rightarrow> handle_peer_data env run fd st data sv | None \<Rightarrow> (sv, Inr ()))
          | LeaderData data \<Rightarrow>
              if isConnectedToLeader (sv_daemon sv) then handle_leader_data env run data sv else (sv, Inr ())
          | _ \<Rightarrow> (sv, Inr ())))"

text \<open>\<open>daemon_loop\<close> under a sequence of events, until an exception ends the process.\<close>

fun daemon_loop :: "os \<Rightarrow> daemon runner \<Rightarrow> server_event list \<Rightarrow> server \<Rightarrow> server \<times> unit result" where
  "daemon_loop env run [] sv = (sv, Inr ())"
| "daemon_loop env run (ev # evs) sv = (case daemon_event env run ev sv of
      (sv1, Inl e) \<Rightarrow> (sv1, Inl e)
    | (sv1, Inr _) \<Rightarrow> daemon_loop env run evs sv1)"

end
