(* ===== verification/Desktop_Commands.thy ===== *)
theory Desktop_Commands
  imports Daemon_State Key_Typing Command_Dispatch
begin

text \<open>
  The commands of the desktop: \<open>cmdSystem.cpp\<close>, \<open>cmdLogging.cpp\<close>, \<open>cmdWindow.cpp\<close>, \<open>cmdBrowser.cpp\<close>, the
  keyboard commands of \<open>cmdInput.cpp\<close>, \<open>KeyboardManager.cpp\<close>, \<open>AutomationManager.cpp\<close>, and what
  \<open>initialize_daemon\<close> restores from the database (all under \<open>daemon/src\<close>).

  The state adds to the state of the daemon the input mapper, the sockets of the window extension and the native
  host, the address of the active browser tab, and the keyboard flag. The sockets are kept in two places, as
  in the code. \<open>dv_tabs\<close> is what the DevTools port of the browser answers, parsed: type, address and title
  of each tab.
\<close>

record desktop =
  dt_daemon :: daemon
  dt_mapper :: mapper
  dt_limiter :: limiter
  dt_windowSocket :: int
  dt_tabUrl :: string
  dt_nativeHost :: int
  dt_syncSocket :: int
  dt_keyboardEnabled :: bool

record Directories =
  dir_base :: string
  dir_dev :: string
  dir_data :: string
  dir_symlinks :: string
  dir_terminal :: string

record desk_env =
  dv_os :: os
  dv_grab :: ev_env
  dv_clear :: "nat \<Rightarrow> bool"
  dv_now :: int
  dv_tabs :: "os_call list \<Rightarrow> (string \<times> string \<times> string) list option"
  dv_dirs :: Directories

type_synonym desk_handler = "json \<Rightarrow> desktop \<Rightarrow> desktop \<times> cmd_result result"

text \<open>A handler of the shared state as one of the desktop.\<close>

definition on_daemon :: "handler \<Rightarrow> desk_handler" where
  "on_daemon h command dt = (let (s, r) = h command (dt_daemon dt) in (dt\<lparr>dt_daemon := s\<rparr>, r))"

definition answer :: "int \<Rightarrow> string \<Rightarrow> desktop \<Rightarrow> desktop \<times> cmd_result result" where
  "answer st msg dt = (dt, Inr (CmdResult st msg))"

definition dt_with :: "desktop \<Rightarrow> 'a result \<Rightarrow> ('a \<Rightarrow> desktop \<times> cmd_result result) \<Rightarrow> desktop \<times> cmd_result result" where
  "dt_with dt r f = (case r of Inl e \<Rightarrow> (dt, Inl e) | Inr x \<Rightarrow> f x)"

lemma dt_with_simps [simp]: "dt_with dt (Inl e) f = (dt, Inl e)" "dt_with dt (Inr x) f = f x"
  by (simp_all add: dt_with_def)

subsection \<open>Directories\<close>

text \<open>The walk from the directory of the program upwards; paths are lists of components, innermost first,
  and \<open>marked\<close> says whether a directory contains \<open>data\<close>, \<open>daemon\<close> and \<open>symlinks\<close>.\<close>

fun repo_root :: "(string list \<Rightarrow> bool) \<Rightarrow> string list \<Rightarrow> string list option" where
  "repo_root marked [] = None"
| "repo_root marked (c # cs) = (if marked (c # cs) then Some (c # cs) else repo_root marked cs)"

definition path_text :: "string list \<Rightarrow> string" where
  "path_text cs = concat (map (\<lambda>c. ''/'' @ c) (rev cs))"

definition init_directories :: "(string list \<Rightarrow> bool) \<Rightarrow> string list option \<Rightarrow> Directories" where
  "init_directories marked exe =
     (let p = tl (case exe of Some p \<Rightarrow> p | None \<Rightarrow> [''daemon'', ''daemon'', ''automateLinux'', ''opt'']);
          base = (case repo_root marked p of Some q \<Rightarrow> path_text q @ ''/'' | None \<Rightarrow> ''/opt/automateLinux/'')
      in \<lparr>dir_base = base, dir_dev = ''/opt/dev/'', dir_data = base @ ''data/'', dir_symlinks = base @ ''symlinks/'',
          dir_terminal = base @ ''terminal/''\<rparr>)"

definition daemon_files :: "Directories \<Rightarrow> (string \<times> string) list" where
  "daemon_files dirs =
     [(''chrome.log'', dir_data dirs), (''combined.log'', dir_data dirs), (''daemon.db'', dir_data dirs),
      (''trapErrLogBackground.txt'', dir_data dirs), (''trapErrLog.txt'', dir_data dirs),
      (''theRealPath.sh'', dir_terminal dirs)]"

subsection \<open>System commands\<close>

text \<open>The help text, with names for the two quote characters.\<close>

definition apos :: string where "apos = [CHR 0x27]"
definition quot :: string where "quot = [CHR 0x22]"

definition HELP_MESSAGE :: string where
  "HELP_MESSAGE =
     ''Usage: d <command> [options]'' @ NL @
     ''       d <command> --help'' @ NL @ NL @
     ''automateLinux daemon - Central service for Linux desktop automation.'' @ NL @ NL @
     ''COMMON COMMANDS'' @ NL @
     ''  ping                    Check daemon is running (returns '' @ apos @ ''pong'' @ apos @ '')'' @ NL @
     ''  help, --help            Show this help message'' @ NL @
     ''  listCommands            List all available commands'' @ NL @ NL @
     ''KEYBOARD/INPUT'' @ NL @
     ''  enableKeyboard          Enable keyboard input grabbing'' @ NL @
     ''  disableKeyboard         Disable keyboard input grabbing'' @ NL @
     ''  getKeyboardEnabled      Check if keyboard is enabled'' @ NL @
     ''  simulateInput           Simulate input events or type text'' @ NL @
     ''                          --string '' @ quot @ ''text'' @ quot @ '' OR --type --code --value'' @ NL @ NL @
     ''PORT MANAGEMENT'' @ NL @
     ''  listPorts               List all port assignments'' @ NL @
     ''  getPort --key <app>     Get assigned port for an app'' @ NL @
     ''  setPort --key <app> --value <port>'' @ NL @
     ''                          Assign port to an app'' @ NL @
     ''  deletePort --key <app>  Remove port assignment'' @ NL @ NL @
     ''PEER NETWORKING'' @ NL @
     ''  setPeerConfig           Configure peer role and identity'' @ NL @
     ''                          --role (leader|worker) --id <name>'' @ NL @
     ''                          [--leader <ip>] (for workers)'' @ NL @
     ''  getPeerStatus           Show peer config and connection status'' @ NL @
     ''  listPeers               List all peers in the network'' @ NL @
     ''  getPeerInfo --peer <id> Get detailed info about a peer'' @ NL @ NL @
     ''APP ASSIGNMENTS (prevents git conflicts)'' @ NL @
     ''  claimApp --app <name>   Claim exclusive work on an extraApp'' @ NL @
     ''  releaseApp --app <name> Release app assignment'' @ NL @
     ''                          [--force true] to override ownership'' @ NL @
     ''  listApps                List all app assignments'' @ NL @
     ''  getAppOwner --app <name>'' @ NL @
     ''                          Check which peer owns an app'' @ NL @ NL @
     ''LOGGING'' @ NL @
     ''  shouldLog --enable <bool>'' @ NL @
     ''                          Enable or disable logging'' @ NL @
     ''  registerLogListener     Register for live log streaming'' @ NL @
     ''  addLogFilter            Add input event log filter'' @ NL @
     ''  listLogFilters          List active log filters'' @ NL @
     ''  clearLogFilters         Clear all log filters'' @ NL @ NL @
     ''DATABASE'' @ NL @
     ''  showDB                  Show database summary'' @ NL @
     ''  getEntry --key <k>      Get a setting value'' @ NL @
     ''  upsertEntry --key <k> --value <v>'' @ NL @
     ''                          Set a setting value'' @ NL @
     ''  deleteEntry --key <k>   Delete a setting'' @ NL @ NL @
     ''OPTIONS'' @ NL @
     ''  --help, -h              Show help for a specific command'' @ NL @
     ''  --json                  Output in JSON format (some commands)'' @ NL @ NL @
     ''EXAMPLES'' @ NL @
     ''  d ping'' @ NL @
     ''  d listPeers'' @ NL @
     ''  d claimApp --app cad'' @ NL @
     ''  d setPeerConfig --role leader --id desktop'' @ NL @
     ''  d simulateInput --string '' @ quot @ ''Hello World'' @ quot @ NL @
     ''  d getPort --key dashboard-dev'' @ NL @ NL @
     ''Run '' @ apos @ ''d <command> --help'' @ apos @ '' for detailed help on any command.'' @ NL @
     ''See also: man daemon(1)'' @ NL"

definition handleHelp :: desk_handler where "handleHelp command = answer 0 HELP_MESSAGE"

definition handlePing :: desk_handler where "handlePing command = answer 0 (''pong'' @ NL)"

definition handleVersion :: "desk_env \<Rightarrow> desk_handler" where
  "handleVersion env command = answer 0 (to_string (on_version (dv_os env)) @ NL)"

definition handleQuit :: desk_handler where
  "handleQuit command dt =
     answer 0 (''Shutting down daemon.'' @ NL) (dt\<lparr>dt_daemon := (dt_daemon dt)\<lparr>dm_running := False\<rparr>\<rparr>)"

definition handleGetDir :: "desk_env \<Rightarrow> desk_handler" where
  "handleGetDir env command dt = dt_with dt (command_string command ''dirName'') (\<lambda>dirName.
     if dirName = ''base'' then answer 0 (dir_base (dv_dirs env) @ NL) dt
     else if dirName = ''dev'' then answer 0 (dir_dev (dv_dirs env) @ NL) dt
     else if dirName = ''data'' then answer 0 (dir_data (dv_dirs env) @ NL) dt
     else answer 1 (''Unknown directory name: '' @ dirName @ NL) dt)"

definition handleGetFile :: "desk_env \<Rightarrow> desk_handler" where
  "handleGetFile env command dt = dt_with dt (command_string command ''fileName'') (\<lambda>fileName.
     case find (\<lambda>(n, d). contains_str fileName n) (daemon_files (dv_dirs env)) of
       Some (n, d) \<Rightarrow> answer 0 (d @ n @ NL) dt
     | None \<Rightarrow> answer 1 (''File not found: '' @ fileName @ NL) dt)"

definition handleGetSocketPath :: desk_handler where
  "handleGetSocketPath command = answer 0 (''/run/automatelinux/automatelinux-daemon.sock'' @ NL)"

definition handleListCommands :: desk_handler where
  "handleListCommands command =
     answer 0 (concat (map (\<lambda>sig. if name sig \<noteq> [] then name sig @ NL else []) COMMAND_REGISTRY))"

definition run_and_print :: "desk_env \<Rightarrow> string \<Rightarrow> desktop \<Rightarrow> desktop \<times> cmd_result result" where
  "run_and_print env cmd dt =
     (let (s, t) = executeCommand (dv_os env) cmd (dt_daemon dt) in answer 0 (t @ NL) (dt\<lparr>dt_daemon := s\<rparr>))"

definition handleTestLsof :: "desk_env \<Rightarrow> desk_handler" where
  "handleTestLsof env command dt = dt_with dt (try_result (jat command ''port'') jget_int) (\<lambda>port.
     run_and_print env (''/usr/bin/lsof -i :'' @ to_string port @ '' 2>&1'') dt)"

definition handleTestEcho :: "desk_env \<Rightarrow> desk_handler" where
  "handleTestEcho env command dt = dt_with dt (command_string command ''message'') (\<lambda>msg.
     run_and_print env (''echo '' @ msg) dt)"

definition handleTestLsofScript :: "desk_env \<Rightarrow> desk_handler" where
  "handleTestLsofScript env command dt = dt_with dt (command_string command ''port'') (\<lambda>port.
     run_and_print env (dir_base (dv_dirs env) @ ''daemon/scripts/test_lsof.sh '' @ port) dt)"

subsection \<open>Logging\<close>

definition LOG_CORE :: "32 word" where "LOG_CORE = 8"
definition LOG_ALL :: "32 word" where "LOG_ALL = 511"

definition quoted :: "string \<Rightarrow> string" where "quoted s = [CHR 0x22] @ s @ [CHR 0x22]"

definition mask_message :: "32 word \<Rightarrow> string" where
  "mask_message logMask = ''{'' @ quoted ''action'' @ '':'' @ quoted ''updateMask'' @ '','' @ quoted ''mask'' @ '':'' @
     to_string (uint logMask) @ ''}'' @ NL"

text \<open>\<open>syncLoggingWithBridge\<close>, to either of the two copies of the socket.\<close>

definition send_mask :: "desk_env \<Rightarrow> int \<Rightarrow> desktop \<Rightarrow> desktop" where
  "send_mask env sock dt =
     (if sock \<noteq> - 1
      then dt\<lparr>dt_daemon := fst (write_fd (dv_os env) sock (mask_message (dm_shouldLog (dt_daemon dt))) (dt_daemon dt))\<rparr>
      else dt)"

definition log_mask :: "json \<Rightarrow> (cmd_result + 32 word) result" where
  "log_mask command = try_result (jat command ''enable'') (\<lambda>val.
     case val of
       JStr s \<Rightarrow>
         if s = ''true'' then Inr (Inr LOG_ALL)
         else if s = ''false'' then Inr (Inr 0)
         else (case stoul s of
             Inr w \<Rightarrow> Inr (Inr (ucast w))
           | Inl _ \<Rightarrow> Inr (Inl (CmdResult 1 (''Invalid logging value string.'' @ NL))))
     | _ \<Rightarrow>
         if is_number val then try_result (jget_uint val) (\<lambda>w. Inr (Inr w))
         else Inr (Inl (CmdResult 1 (''Invalid logging value type.'' @ NL))))"

definition handleShouldLog :: "desk_env \<Rightarrow> desk_handler" where
  "handleShouldLog env command dt = dt_with dt (log_mask command) (\<lambda>r. case r of
       Inl res \<Rightarrow> (dt, Inr res)
     | Inr logMask \<Rightarrow>
         let s = dt_daemon dt;
             s1 = s\<lparr>dm_shouldLog := logMask, dm_db := setSetting ''shouldLogState'' (to_string (uint logMask)) (dm_db s)\<rparr>;
             dt1 = dt\<lparr>dt_daemon := s1\<rparr>
         in answer 0 (''Logging mask set to: '' @ to_string (uint logMask) @ NL) (send_mask env (dt_syncSocket dt1) dt1))"

definition handleGetShouldLog :: desk_handler where
  "handleGetShouldLog command dt = answer 0 (to_string (uint (dm_shouldLog (dt_daemon dt))) @ NL) dt"

text \<open>\<open>registerLogSubscriber\<close> keeps a sorted set.\<close>

definition registerLogSubscriber :: "int \<Rightarrow> daemon \<Rightarrow> daemon" where
  "registerLogSubscriber fd s = s\<lparr>dm_logSubscribers := insort_insert fd (dm_logSubscribers s)\<rparr>"

definition handleRegisterLogListener :: desk_handler where
  "handleRegisterLogListener command dt = answer 0 (''Subscribed to logs'' @ NL)
     (dt\<lparr>dt_daemon := registerLogSubscriber (dm_clientSocket (dt_daemon dt)) (dt_daemon dt)\<rparr>)"

definition handleGetEventFilters :: "desk_env \<Rightarrow> desk_handler" where
  "handleGetEventFilters env command dt = answer 0 (on_dump (dv_os env) (getEventFiltersJson (dt_mapper dt))) dt"

text \<open>The part of a handler inside \<open>try\<close>: the text in \<open>value\<close>, parsed. A failed assertion is not caught.\<close>

definition parsed_value :: "desk_env \<Rightarrow> json \<Rightarrow> json result" where
  "parsed_value env command = try_result (command_string command ''value'') (\<lambda>t.
     case on_parse (dv_os env) t of None \<Rightarrow> Inl ParseError | Some j \<Rightarrow> Inr j)"

definition rescue :: "desk_env \<Rightarrow> string \<Rightarrow> exn \<Rightarrow> desktop \<Rightarrow> desktop \<times> cmd_result result" where
  "rescue env msg e dt =
     (if e = AssertFail then (dt, Inl AssertFail) else answer 1 (msg @ on_what (dv_os env) e) dt)"

definition handleSetEventFilters :: "desk_env \<Rightarrow> desk_handler" where
  "handleSetEventFilters env command dt = (case parsed_value env command of
      Inl e \<Rightarrow> rescue env ''Failed to parse filters: '' e dt
    | Inr j \<Rightarrow>
        let s = dt_daemon dt; (m1, d1) = setEventFilters (on_dump (dv_os env)) j (dt_mapper dt) (dm_db s)
        in answer 0 ''Event filters updated successfully'' (dt\<lparr>dt_mapper := m1, dt_daemon := s\<lparr>dm_db := d1\<rparr>\<rparr>))"

text \<open>What \<open>initialize_daemon\<close> restores: the logging mask and the persisted mapper settings.\<close>

definition restore_mask :: "db \<Rightarrow> 32 word" where
  "restore_mask d = (let saved = getSetting ''shouldLogState'' d in
     if saved = [] then LOG_CORE else case stoul saved of Inr w \<Rightarrow> ucast w | Inl _ \<Rightarrow> LOG_CORE)"

definition restore_state :: "desk_env \<Rightarrow> desktop \<Rightarrow> desktop" where
  "restore_state env dt =
     (let s = dt_daemon dt in
      dt\<lparr>dt_daemon := s\<lparr>dm_shouldLog := restore_mask (dm_db s)\<rparr>,
         dt_mapper := loadPersistence (on_parse (dv_os env)) (dm_db s) (dt_mapper dt)\<rparr>)"

subsection \<open>The window extension\<close>

definition status_text :: "string \<Rightarrow> string" where
  "status_text st = ''{'' @ quoted ''status'' @ '':'' @ quoted st @ ''}'' @ NL"

definition to_extension ::
  "desk_env \<Rightarrow> string \<Rightarrow> int \<Rightarrow> cmd_result \<Rightarrow> desktop \<Rightarrow> desktop \<times> cmd_result result" where
  "to_extension env msg buffer_size no_reply dt =
     (if dt_windowSocket dt = - 1 then answer 1 ''Window extension not registered'' dt
      else let (s1, ok) = write_fd (dv_os env) (dt_windowSocket dt) msg (dt_daemon dt) in
        if \<not> ok then answer 1 ''Failed to write to extension'' (dt\<lparr>dt_daemon := s1, dt_windowSocket := - 1\<rparr>)
        else let (s2, r) = read_fd (dv_os env) (dt_windowSocket dt) (buffer_size - 1) s1; dt2 = dt\<lparr>dt_daemon := s2\<rparr> in
          case r of ReadData t \<Rightarrow> answer 0 (c_string t) dt2 | _ \<Rightarrow> (dt2, Inr no_reply))"

definition handleRegisterWindowExtension :: desk_handler where
  "handleRegisterWindowExtension command dt =
     answer 0 (status_text ''registered'') (dt\<lparr>dt_windowSocket := dm_clientSocket (dt_daemon dt)\<rparr>)"

definition handleListWindows :: "desk_env \<Rightarrow> desk_handler" where
  "handleListWindows env command =
     to_extension env (''{'' @ quoted ''action'' @ '':'' @ quoted ''listWindows'' @ ''}'' @ NL) 4096
       (CmdResult 1 ''No response from extension'')"

definition handleActivateWindow :: "desk_env \<Rightarrow> desk_handler" where
  "handleActivateWindow env command dt =
     (if dt_windowSocket dt = - 1 then answer 1 ''Window extension not registered'' dt
      else dt_with dt (jput command ''action'' (JStr ''activateWindow'')) (\<lambda>forward.
        to_extension env (on_dump (dv_os env) forward @ NL) 1024 (CmdResult 0 ''Command sent (no reply)'') dt))"

definition handleGetActiveContext :: "desk_env \<Rightarrow> desk_handler" where
  "handleGetActiveContext env command dt = answer 0 (on_dump (dv_os env) (getActiveContextJson (dt_mapper dt))) dt"

subsection \<open>The browser\<close>

definition kb_setContext :: "AppType \<Rightarrow> string \<Rightarrow> string \<Rightarrow> desktop \<Rightarrow> desktop" where
  "kb_setContext app url title dt = dt\<lparr>dt_mapper := setContext app url title (dt_mapper dt)\<rparr>"

definition handleSetActiveTabUrl :: desk_handler where
  "handleSetActiveTabUrl command dt = dt_with dt (command_string command ''url'') (\<lambda>url.
     answer 0 (status_text ''ok'') (kb_setContext CHROME url [] (dt\<lparr>dt_tabUrl := url\<rparr>)))"

definition handleRegisterNativeHost :: "desk_env \<Rightarrow> desk_handler" where
  "handleRegisterNativeHost env command dt =
     (let fd = dm_clientSocket (dt_daemon dt); dt1 = dt\<lparr>dt_nativeHost := fd, dt_syncSocket := fd\<rparr>
      in answer 0 (status_text ''registered'') (send_mask env (dt_nativeHost dt1) dt1))"

definition triggerChromeChatGPTFocus :: "desk_env \<Rightarrow> desktop \<Rightarrow> desktop" where
  "triggerChromeChatGPTFocus env dt =
     (if dt_nativeHost dt = - 1 then dt
      else let (s1, ok) = write_fd (dv_os env) (dt_nativeHost dt)
             (''{'' @ quoted ''action'' @ '':'' @ quoted ''focusChatGPT'' @ ''}'' @ NL) (dt_daemon dt)
           in dt\<lparr>dt_daemon := s1, dt_nativeHost := (if ok then dt_nativeHost dt else - 1)\<rparr>)"

definition handleFocusChatGPT :: "desk_env \<Rightarrow> desk_handler" where
  "handleFocusChatGPT env command dt = answer 0 (''Focus request sent'' @ NL) (triggerChromeChatGPTFocus env dt)"

definition handleFocusAck :: desk_handler where
  "handleFocusAck command dt = answer 0 (status_text ''ok'') (dt\<lparr>dt_mapper := onFocusAck (dt_mapper dt)\<rparr>)"

text \<open>The choice among the tabs: the first that fits the title, else the last with a real address, else the first.\<close>

definition is_page :: "string \<Rightarrow> string \<Rightarrow> bool" where
  "is_page kind url \<longleftrightarrow> kind = ''page'' \<and> \<not> contains_str ''chrome-extension://'' url \<and> \<not> contains_str ''devtools://'' url"

definition title_fits :: "string \<Rightarrow> string \<Rightarrow> bool" where
  "title_fits preferredTitle title \<longleftrightarrow> preferredTitle \<noteq> [] \<and>
     (contains_str title preferredTitle \<or> contains_str preferredTitle title)"

fun pick_tab :: "string \<Rightarrow> (string \<times> string \<times> string) list \<Rightarrow> string \<Rightarrow> string \<Rightarrow> string" where
  "pick_tab preferredTitle [] fallbackUrl lastRealUrl = (if lastRealUrl \<noteq> [] then lastRealUrl else fallbackUrl)"
| "pick_tab preferredTitle ((kind, url, title) # tabs) fallbackUrl lastRealUrl =
     (if \<not> is_page kind url then pick_tab preferredTitle tabs fallbackUrl lastRealUrl
      else if title_fits preferredTitle title then url
      else pick_tab preferredTitle tabs (if fallbackUrl = [] then url else fallbackUrl)
        (if \<not> contains_str ''chrome://'' url then url else lastRealUrl))"

definition getChromeTabUrl :: "desk_env \<Rightarrow> string \<Rightarrow> desktop \<Rightarrow> string" where
  "getChromeTabUrl env preferredTitle dt =
     (if dt_nativeHost dt \<noteq> - 1 \<and> dt_tabUrl dt \<noteq> [] then dt_tabUrl dt
      else case dv_tabs env (dm_calls (dt_daemon dt)) of
        None \<Rightarrow> [] | Some tabs \<Rightarrow> pick_tab preferredTitle tabs [] [])"

subsection \<open>The active window\<close>

definition window_app :: "string \<Rightarrow> string \<Rightarrow> AppType" where
  "window_app wmClass windowTitle =
     (let appType = stringToAppType wmClass; lowerTitle = to_lower windowTitle;
          appType1 = (if appType = OTHER \<and> (contains_str ''antigravity'' lowerTitle \<or> contains_str ''chatgpt'' lowerTitle)
                      then CHROME else appType)
      in if appType1 = OTHER \<and> contains_str ''terminal'' lowerTitle then TERMINAL else appType1)"

definition onActiveWindowChanged :: "desk_env \<Rightarrow> desk_handler" where
  "onActiveWindowChanged env command dt =
     dt_with dt (command_string command ''windowTitle'') (\<lambda>windowTitle.
     dt_with dt (command_string command ''wmClass'') (\<lambda>wmClass.
     dt_with dt (command_string command ''wmInstance'') (\<lambda>wmInstance.
     dt_with dt (try_result (jat command ''windowId'') jget_llong) (\<lambda>windowId.
       let url = (if wmClass = ''google-chrome'' \<or> wmClass = ''Antigravity'' then getChromeTabUrl env windowTitle dt else [])
       in answer 0 (''Active window info received and mapping updated.'' @ NL)
            (kb_setContext (window_app wmClass windowTitle) url windowTitle dt)))))"

subsection \<open>The keyboard\<close>

definition setKeyboard :: "desk_env \<Rightarrow> bool \<Rightarrow> desktop \<Rightarrow> desktop \<times> cmd_result result" where
  "setKeyboard env enableKeyboard dt =
     (if enableKeyboard then
        if running (dt_mapper dt) then
          answer 0 (''Keyboard grab attempted.'' @ NL) (dt\<lparr>dt_mapper := grabDevices (dv_grab env) (dv_clear env) (dt_mapper dt)\<rparr>)
        else if getDevicePath ''keyboard'' (dm_db (dt_daemon dt)) = [] then answer 1 (''Keyboard path not found'' @ NL) dt
        else answer 0 (''Input subsystem is currently disabled in code.'' @ NL) dt
      else answer 0 (''Keyboard disabled'' @ NL) (dt\<lparr>dt_mapper := stop (dt_mapper dt)\<rparr>))"

definition device_path_answer :: "string \<Rightarrow> string \<Rightarrow> desk_handler" where
  "device_path_answer device missing command dt =
     (let path = getDevicePath device (dm_db (dt_daemon dt)) in
      if path = [] then answer 1 missing dt else answer 0 path dt)"

definition handleGetKeyboardPath :: desk_handler where
  "handleGetKeyboardPath = device_path_answer ''keyboard'' ''Keyboard path not found''"

definition handleGetMousePath :: desk_handler where
  "handleGetMousePath = device_path_answer ''mouse'' ''Mouse path not found''"

definition handleSetKeyboard :: "desk_env \<Rightarrow> desk_handler" where
  "handleSetKeyboard = onActiveWindowChanged"

definition handleActiveWindowChanged :: "desk_env \<Rightarrow> desk_handler" where
  "handleActiveWindowChanged = onActiveWindowChanged"

definition handleGetKeyboard :: desk_handler where
  "handleGetKeyboard command dt = answer 0 ((if dt_keyboardEnabled dt then ''true'' else ''false'') @ NL) dt"

definition handleToggleKeyboard :: "desk_env \<Rightarrow> desk_handler" where
  "handleToggleKeyboard env command dt = dt_with dt (command_string command ''enable'') (\<lambda>enableStr.
     setKeyboard env (enableStr = ''true'') (dt\<lparr>dt_keyboardEnabled := enableStr = ''true''\<rparr>))"

definition handleDisableKeyboard :: desk_handler where
  "handleDisableKeyboard command = answer 0 (''Keyboard grab feature disabled'' @ NL)"

definition handleEnableKeyboard :: desk_handler where
  "handleEnableKeyboard command = answer 0 (''Keyboard grab feature disabled'' @ NL)"

definition handleGetMacros :: "desk_env \<Rightarrow> desk_handler" where
  "handleGetMacros env command dt = answer 0 (on_dump (dv_os env) (getMacrosJson (appMacros (dt_mapper dt)))) dt"

definition handleUpdateMacros :: "desk_env \<Rightarrow> desk_handler" where
  "handleUpdateMacros env command dt = (case parsed_value env command of
      Inl e \<Rightarrow> rescue env ''Failed to parse macros: '' e dt
    | Inr j \<Rightarrow>
        let s = dt_daemon dt; (m1, d1, r) = setMacrosFromJson (on_dump (dv_os env)) j (dt_mapper dt) (dm_db s);
            dt1 = dt\<lparr>dt_mapper := m1, dt_daemon := s\<lparr>dm_db := d1\<rparr>\<rparr>
        in case r of
             Inl e \<Rightarrow> rescue env ''Failed to parse macros: '' e dt1
           | Inr _ \<Rightarrow> answer 0 ''Macros updated successfully'' dt1)"

definition desk_simulateInput :: "desk_env \<Rightarrow> desk_handler" where
  "desk_simulateInput env command dt =
     (let ((l, m), r) = handleSimulateInput (dv_now env) command (dt_limiter dt, dt_mapper dt)
      in (dt\<lparr>dt_limiter := l, dt_mapper := m\<rparr>, r))"

text \<open>The loopback test: the lines the script prints, with the test events at the first line with \<open>READY\<close>.\<close>

definition loopback_events :: "mapper \<Rightarrow> mapper" where
  "loopback_events m = fold (\<lambda>(c, v) m. sync (emit EV_KEY c v m))
     [(KEY_ENTER, 1), (KEY_ENTER, 0), (BTN_LEFT, 1), (BTN_LEFT, 0)] m"

definition handleTestIntegrity :: "desk_env \<Rightarrow> string list option \<Rightarrow> desk_handler" where
  "handleTestIntegrity env printed command dt = (case printed of
      None \<Rightarrow> answer 1 ''Failed to run diagnostic script'' dt
    | Some ls \<Rightarrow> answer 0 (concat ls @ NL)
        (if list_ex (contains_str ''READY'') ls then dt\<lparr>dt_mapper := loopback_events (dt_mapper dt)\<rparr> else dt))"

end
