(* ===== verification/Wireguard_Commands.thy ===== *)
theory Wireguard_Commands
  imports Daemon_State
begin

text \<open>
  The commands of \<open>daemon/src/cmdWireGuard.cpp\<close>: the set-up of a peer by a script, the listing of the peers
  in the configuration of the server, the address of the local interface, and the set-up of the remote desktop.

  \<open>pipe\<close> answers \<open>popen\<close>: the text the \<open>fgets\<close> loop collects with the exit code, or \<open>None\<close> with \<open>errno_text\<close> when it
  cannot be started. \<open>base\<close> is the directory of the repository. The listing is built with \<open>ordered_json\<close>, so
  members of its objects are in the order they are first assigned.
\<close>

type_synonym pipe = "os_call list \<Rightarrow> string \<Rightarrow> (string \<times> int) option"

definition run_pipe :: "pipe \<Rightarrow> string \<Rightarrow> daemon \<Rightarrow> daemon \<times> (string \<times> int) option" where
  "run_pipe pipe cmd = os_do (Popen cmd) (\<lambda>h. pipe h cmd)"

definition apostrophe :: string where "apostrophe = [CHR 0x27]"
definition in_quotes :: "string \<Rightarrow> string" where "in_quotes s = [CHR 0x22] @ s @ [CHR 0x22]"

subsection \<open>Setting up a peer\<close>

definition wg_setup_args :: "string \<Rightarrow> string \<Rightarrow> string \<Rightarrow> bool \<Rightarrow> string \<Rightarrow> string" where
  "wg_setup_args peerName vpnIp mac dualBoot privateKey =
     ''--name '' @ peerName @ (if vpnIp \<noteq> [] then '' --ip '' @ vpnIp else []) @
     (if mac \<noteq> [] then '' --mac '' @ mac else []) @ (if dualBoot then '' --dual-boot'' else []) @
     (if privateKey \<noteq> [] then '' --private-key '' @ apostrophe @ privateKey @ apostrophe else []) @
     '' --leader-ip 10.0.0.1''"

definition wg_setup_command :: "string \<Rightarrow> string \<Rightarrow> string \<Rightarrow> string" where
  "wg_setup_command base host args =
     (let scriptPath = base @ ''daemon/scripts/setup_wireguard_peer.sh'' in
      if host = [] then ''bash '' @ scriptPath @ '' '' @ args @ '' 2>&1''
      else ''ssh -o StrictHostKeyChecking=accept-new -o ConnectTimeout=10 root@'' @ host @ '' '' @ apostrophe @
        ''bash -s -- '' @ args @ apostrophe @ '' < '' @ scriptPath @ '' 2>&1'')"

definition handleSetupWireGuardPeer :: "string \<Rightarrow> string \<Rightarrow> pipe \<Rightarrow> handler" where
  "handleSetupWireGuardPeer base errno_text pipe command s =
     with_result s (command_string command ''name'') (\<lambda>peerName.
     with_result s (jvalue jget_string command ''host'' []) (\<lambda>host.
     with_result s (jvalue jget_string command ''vpnIp'' []) (\<lambda>vpnIp.
     with_result s (jvalue jget_string command ''mac'' []) (\<lambda>mac.
     with_result s (jvalue jget_bool command ''dualBoot'' False) (\<lambda>dualBoot.
     with_result s (jvalue jget_string command ''privateKey'' []) (\<lambda>privateKey.
       if peerName = [] then reply 1 (''Name is required (--name)'' @ NL) s
       else let (s1, r) = run_pipe pipe (wg_setup_command base host (wg_setup_args peerName vpnIp mac dualBoot privateKey)) s
       in case r of
            None \<Rightarrow> reply 1 (''Failed to execute setup script: '' @ errno_text @ NL) s1
          | Some (output, rc) \<Rightarrow> reply rc output s1))))))"

subsection \<open>Listing the peers\<close>

definition trim_left :: "string \<Rightarrow> string" where
  "trim_left = dropWhile (\<lambda>c. c = CHR '' '' \<or> c = CHR 0x09)"

text \<open>The value after an equals sign, without leading spaces, if there is one.\<close>

definition value_after_eq :: "string \<Rightarrow> string option" where
  "value_after_eq line =
     (let v = dropWhile (\<lambda>c. c = CHR '' '') (tl (dropWhile (\<lambda>c. c \<noteq> CHR ''='') line)) in
      if CHR ''='' \<in> set line \<and> v \<noteq> [] then Some v else None)"

fun ordered_put :: "string \<Rightarrow> json \<Rightarrow> (string \<times> json) list \<Rightarrow> (string \<times> json) list" where
  "ordered_put k v [] = [(k, v)]"
| "ordered_put k v ((k', v') # m) = (if k = k' then (k, v) # m else (k', v') # ordered_put k v m)"

definition assign :: "string \<Rightarrow> string option \<Rightarrow> (string \<times> json) list \<Rightarrow> (string \<times> json) list" where
  "assign k v m = (case v of Some t \<Rightarrow> ordered_put k (JStr t) m | None \<Rightarrow> m)"

definition save_peer :: "(string \<times> json) list \<Rightarrow> json list \<Rightarrow> json list" where
  "save_peer current peers = (if current \<noteq> [] then peers @ [JObj current] else peers)"

text \<open>One line of the configuration: the finished peers and the current one.\<close>

definition wg_line :: "string \<Rightarrow> json list \<times> (string \<times> json) list \<Rightarrow> json list \<times> (string \<times> json) list" where
  "wg_line raw = (\<lambda>(peers, current). let line = trim_left raw in
     if line = [] then (peers, current)
     else if starts_with ''[Peer]'' line then (save_peer current peers, [])
     else if hd line = CHR ''#'' \<and> length line > 2 then (peers, ordered_put ''name'' (JStr (drop 2 line)) current)
     else if starts_with ''PublicKey'' line then (peers, assign ''public_key'' (value_after_eq line) current)
     else if starts_with ''AllowedIPs'' line then
       (peers, assign ''vpn_ip'' (map_option (takeWhile (\<lambda>c. c \<noteq> CHR ''/'')) (value_after_eq line)) current)
     else (peers, current))"

definition wg_peers :: "string \<Rightarrow> json list" where
  "wg_peers output = (let (peers, current) = fold wg_line (getlines output) ([], []) in save_peer current peers)"

definition wg_list_command :: string where
  "wg_list_command = ''ssh -o StrictHostKeyChecking=accept-new -o ConnectTimeout=5 root@31.133.102.195 '' @ apostrophe @
     ''grep -E '' @ in_quotes (''^'' @ [CHR 0x5C] @ ''[Peer'' @ [CHR 0x5C] @ '']|^# |^PublicKey|^AllowedIPs'') @
     '' /etc/wireguard/wg0.conf'' @ apostrophe @ '' 2>&1''"

definition handleListWireGuardPeers :: "os \<Rightarrow> pipe \<Rightarrow> handler" where
  "handleListWireGuardPeers env pipe command s =
     (let (s1, r) = run_pipe pipe wg_list_command s in
      case r of
        None \<Rightarrow> reply 1 (''Failed to connect to WireGuard server'' @ NL) s1
      | Some (output, rc) \<Rightarrow>
          if rc \<noteq> 0 then reply rc (''Failed to list peers: '' @ output) s1
          else reply 0 (on_dump2 env (JArr (wg_peers output)) @ NL) s1)"

subsection \<open>The local address and the remote desktop\<close>

text \<open>One \<open>fgets\<close> into a buffer of \<open>n + 1\<close> bytes.\<close>

definition fgets_line :: "nat \<Rightarrow> string \<Rightarrow> string" where
  "fgets_line n t =
     (let l = take n t in
      if CHR 0x0A \<in> set l then takeWhile (\<lambda>c. c \<noteq> CHR 0x0A) l @ NL else l)"

definition wg_ip_command :: string where
  "wg_ip_command = ''ip -4 addr show wg0 2>/dev/null | grep -oP '' @ apostrophe @ ''(?<=inet'' @ [CHR 0x5C] @ ''s)'' @
     [CHR 0x5C] @ ''d+'' @ [CHR 0x5C] @ ''.'' @ [CHR 0x5C] @ ''d+'' @ [CHR 0x5C] @ ''.'' @ [CHR 0x5C] @ ''d+'' @
     [CHR 0x5C] @ ''.'' @ [CHR 0x5C] @ ''d+'' @ apostrophe"

definition handleGetWireGuardIp :: "pipe \<Rightarrow> handler" where
  "handleGetWireGuardIp pipe command s =
     (let (s1, r) = run_pipe pipe wg_ip_command s in
      case r of
        None \<Rightarrow> reply 1 (''Failed to query wg0 interface'' @ NL) s1
      | Some (output, rc) \<Rightarrow>
          let ip = chomp (fgets_line 63 output) in
          if rc \<noteq> 0 \<or> ip = [] then reply 1 (''WireGuard interface wg0 not found or has no IP'' @ NL) s1
          else reply 0 (ip @ NL) s1)"

definition handleSetupRdp :: "string \<Rightarrow> pipe \<Rightarrow> handler" where
  "handleSetupRdp errno_text pipe command s =
     with_result s (jvalue jget_string command ''rdpUsername'' ''yaniv'') (\<lambda>username.
     with_result s (jvalue jget_string command ''rdpPassword'' ''testpass123'') (\<lambda>password.
       let quote = (\<lambda>t. apostrophe @ t @ apostrophe);
           cmd = ''(grdctl rdp enable && grdctl rdp set-credentials '' @ quote username @ '' '' @ quote password @
             '' && grdctl rdp disable-view-only && echo '' @ quote ''RDP setup complete'' @ '') 2>&1'';
           (s1, r) = run_pipe pipe cmd s
       in case r of
            None \<Rightarrow> reply 1 (''Failed to execute grdctl: '' @ errno_text @ NL) s1
          | Some (output, rc) \<Rightarrow>
              if rc \<noteq> 0 then reply rc (''RDP setup failed:'' @ NL @ output) s1
              else reply 0 (''RDP enabled for user '' @ quote username @ '' on port 3389'' @ NL) s1))"

end
