(* ===== verification/Daemon_Commands.thy ===== *)
theory Daemon_Commands
  imports Desktop_Commands App_Peers Wireguard_Commands
begin

text \<open>
  The handlers of all components on one state, by the names of their C++ functions: the table
  \<open>COMMAND_HANDLERS\<close> of \<open>daemon/src/mainCommand.cpp\<close> read as behaviour. With it \<open>mainCommand\<close> is the
  whole daemon as a client sees it.

  \<open>handleGetAppPeers\<close> is not in the table, because it may not return; \<open>sy_other\<close> stands for it.
\<close>

record sys_env =
  sy_desk :: desk_env
  sy_isdir :: is_dir
  sy_port_os :: os_env
  sy_child :: "string \<Rightarrow> child"
  sy_pipe :: pipe
  sy_errno :: string
  sy_printed :: "string list option"
  sy_other :: "desktop runner"

subsection \<open>Handlers of the parts on the whole state\<close>

definition on_db :: "(json \<Rightarrow> db \<Rightarrow> db \<times> cmd_result result) \<Rightarrow> desk_handler" where
  "on_db h = on_daemon (\<lambda>command s. let (d, r) = h command (dm_db s) in (s\<lparr>dm_db := d\<rparr>, r))"

definition on_terminals :: "(json \<Rightarrow> term_state \<Rightarrow> term_state \<times> cmd_result result) \<Rightarrow> desk_handler" where
  "on_terminals h = on_daemon (\<lambda>command s.
     let (ts, r) = h command \<lparr>ts_db = dm_db s, instances = dm_terminals s, dangling = dm_dangling s\<rparr>
     in (s\<lparr>dm_db := ts_db ts, dm_terminals := instances ts, dm_dangling := dangling ts\<rparr>, r))"

text \<open>The forwarding of a port command: what the connection to the leader answers.\<close>

definition link_to_leader :: "os \<Rightarrow> json \<Rightarrow> daemon \<Rightarrow> daemon \<times> peer_link" where
  "link_to_leader env fwdCmd s =
     (let link = \<lparr>pl_isLeader = isLeader s, pl_connected = isConnectedToLeader s, pl_connect = False,
                  pl_write_ok = False, pl_reply = (\<lambda>j. None)\<rparr>
      in if isLeader s then (s, link)
      else let (s1, ok) = (if isConnectedToLeader s then (s, True) else connectToLeader env s);
               link1 = link\<lparr>pl_connect := ok\<rparr>
           in if \<not> ok then (s1, link1)
      else let fd = m_leaderSocket (dm_peers s1); (s2, written) = write_fd env fd (on_dump env fwdCmd @ NL) s1
           in if \<not> written then (s2, link1)
      else let (s3, r) = read_fd env fd 8191 s2
           in (s3, link1\<lparr>pl_write_ok := True,
                pl_reply := (\<lambda>j. case r of ReadData t \<Rightarrow> Some (c_string t) | _ \<Rightarrow> None)\<rparr>))"

definition on_port ::
  "os \<Rightarrow> string \<Rightarrow> (json \<Rightarrow> json) \<Rightarrow> (peer_link \<Rightarrow> json \<Rightarrow> db \<Rightarrow> db \<times> cmd_result result) \<Rightarrow> desk_handler" where
  "on_port env cmdName sent h = on_daemon (\<lambda>command s.
     case jput (sent command) ''command'' (JStr cmdName) of
       Inl e \<Rightarrow> (s, Inl e)
     | Inr fwdCmd \<Rightarrow>
         let (s1, link) = link_to_leader env fwdCmd s; (d, r) = h link command (dm_db s1)
         in (s1\<lparr>dm_db := d\<rparr>, r))"

definition plain_answer :: "(db \<Rightarrow> cmd_result) \<Rightarrow> json \<Rightarrow> db \<Rightarrow> db \<times> cmd_result result" where
  "plain_answer f command d = (d, Inr (f d))"

subsection \<open>The table\<close>

definition system_handlers :: "sys_env \<Rightarrow> (string \<times> desk_handler) list" where
  "system_handlers env =
    [(''handleHelp'', handleHelp), (''handlePing'', handlePing), (''handleVersion'', handleVersion (sy_desk env)),
     (''handleQuit'', handleQuit), (''handleGetDir'', handleGetDir (sy_desk env)),
     (''handleGetFile'', handleGetFile (sy_desk env)), (''handleGetSocketPath'', handleGetSocketPath),
     (''handleListCommands'', handleListCommands), (''handleTestLsof'', handleTestLsof (sy_desk env)),
     (''handleTestEcho'', handleTestEcho (sy_desk env)), (''handleTestLsofScript'', handleTestLsofScript (sy_desk env)),
     (''handleGetKeyboardPath'', handleGetKeyboardPath), (''handleGetMousePath'', handleGetMousePath),
     (''handleSetKeyboard'', handleSetKeyboard (sy_desk env)), (''handleGetKeyboard'', handleGetKeyboard),
     (''handleToggleKeyboard'', handleToggleKeyboard (sy_desk env)), (''handleDisableKeyboard'', handleDisableKeyboard),
     (''handleEnableKeyboard'', handleEnableKeyboard), (''handleSimulateInput'', desk_simulateInput (sy_desk env)),
     (''handleTestIntegrity'', handleTestIntegrity (sy_desk env) (sy_printed env)),
     (''handleGetMacros'', handleGetMacros (sy_desk env)), (''handleUpdateMacros'', handleUpdateMacros (sy_desk env)),
     (''handleShouldLog'', handleShouldLog (sy_desk env)), (''handleGetShouldLog'', handleGetShouldLog),
     (''handleRegisterLogListener'', handleRegisterLogListener),
     (''handleGetEventFilters'', handleGetEventFilters (sy_desk env)),
     (''handleSetEventFilters'', handleSetEventFilters (sy_desk env)),
     (''handleRegisterWindowExtension'', handleRegisterWindowExtension),
     (''handleListWindows'', handleListWindows (sy_desk env)), (''handleActivateWindow'', handleActivateWindow (sy_desk env)),
     (''handleActiveWindowChanged'', handleActiveWindowChanged (sy_desk env)),
     (''handleGetActiveContext'', handleGetActiveContext (sy_desk env)),
     (''handleSetActiveTabUrl'', handleSetActiveTabUrl), (''handleRegisterNativeHost'', handleRegisterNativeHost (sy_desk env)),
     (''handleFocusChatGPT'', handleFocusChatGPT (sy_desk env)), (''handleFocusAck'', handleFocusAck)]"

definition record_handlers :: "sys_env \<Rightarrow> (string \<times> desk_handler) list" where
  "record_handlers env =
    [(''handleOpenedTty'', on_terminals (openedTty (sy_isdir env))), (''handleClosedTty'', on_terminals closedTty),
     (''handleUpdateDirHistory'', on_terminals (updateDirHistory (sy_isdir env))),
     (''handleCdForward'', on_terminals (cdForward (sy_isdir env))),
     (''handleCdBackward'', on_terminals (cdBackward (sy_isdir env))),
     (''handleShellSignal'', on_db (\<lambda>command d. (d, handleShellSignal command))),
     (''handleShowTerminalInstance'', on_terminals showTerminalInstance),
     (''handleShowAllTerminalInstances'', on_terminals (\<lambda>command. showAllTerminalInstances)),
     (''handlePrintDirHistory'', on_terminals (\<lambda>command ts. (ts, Inr (handlePrintDirHistory ts)))),
     (''handleEmptyDirHistoryTable'', on_terminals (\<lambda>command ts.
        let (ts1, r) = handleEmptyDirHistoryTable ts in (ts1, Inr r))),
     (''handleShowEntriesByPrefix'', on_db (\<lambda>command d. (d, handleShowEntriesByPrefix command))),
     (''handleDeleteEntriesByPrefix'', on_db (\<lambda>command d. (d, Inr (handleDeleteEntriesByPrefix command)))),
     (''handleShowDb'', on_db (plain_answer handleShowDb)), (''handleDeleteEntry'', on_db handleDeleteEntry),
     (''handleUpsertEntry'', on_db handleUpsertEntry), (''handleGetEntry'', on_db (\<lambda>command d. (d, handleGetEntry command d))),
     (''handleGetPort'', on_port (dv_os (sy_desk env)) ''getPort'' id handleGetPort),
     (''handleSetPort'', on_port (dv_os (sy_desk env)) ''setPort'' id handleSetPort),
     (''handleListPorts'', on_port (dv_os (sy_desk env)) ''listPorts'' (\<lambda>j. JNull)
        (\<lambda>link command. handleListPorts link (sy_port_os env))),
     (''handleDeletePort'', on_port (dv_os (sy_desk env)) ''deletePort'' id handleDeletePort),
     (''handlePublicTransportationStartProxy'', on_db (\<lambda>command d.
        let (d1, r) = handlePublicTransportationStartProxy (sy_port_os env) d in (d1, Inr r))),
     (''handlePublicTransportationOpenApp'', on_db (\<lambda>command d.
        (d, handlePublicTransportationOpenApp (sy_port_os env) command d)))]"

definition app_handlers :: "os \<Rightarrow> (string \<times> handler) list" where
  "app_handlers env =
    [(''handleStartApp'', handleStartApp env), (''handleStopApp'', handleStopApp env),
     (''handleRestartApp'', handleRestartApp env), (''handleAppStatus'', handleAppStatus env),
     (''handleListApps'', handleListApps), (''handleBuildApp'', handleBuildApp env),
     (''handleInstallAppDeps'', handleInstallAppDeps env), (''handleEnableApp'', handleEnableApp env),
     (''handleDisableApp'', handleDisableApp env), (''handleAddExtraApp'', handleAddExtraApp env),
     (''handleRemoveExtraApp'', handleRemoveExtraApp), (''handleListExtraApps'', handleListExtraApps),
     (''handleDeployToProd'', handleDeployToProd env), (''handleProdStatus'', handleProdStatus env),
     (''handleCleanProd'', handleCleanProd env), (''handleInstallAppOnPeer'', handleInstallAppOnPeer env),
     (''handleUninstallAppOnPeer'', handleUninstallAppOnPeer env), (''handleStartAppOnPeer'', handleStartAppOnPeer env),
     (''handleStopAppOnPeer'', handleStopAppOnPeer env), (''handleInstallAppServices'', handleInstallAppServices env)]"

definition peer_handlers :: "sys_env \<Rightarrow> os \<Rightarrow> (string \<times> handler) list" where
  "peer_handlers sy env =
    [(''handleSetPeerConfig'', handleSetPeerConfig env), (''handleGetPeerStatus'', handleGetPeerStatus env),
     (''handleRegisterPeer'', handleRegisterPeer env), (''handleListPeers'', handleListPeers env),
     (''handleDeletePeer'', handleDeletePeer env), (''handleGetPeerInfo'', handleGetPeerInfo env),
     (''handleExecOnPeer'', handleExecOnPeer env), (''handleExecRequest'', handleExecRequest (sy_child sy)),
     (''handleRemotePull'', handleRemotePull env), (''handleRemoteBd'', handleRemoteBd env),
     (''handleRemoteDeployDaemon'', handleRemoteDeployDaemon env), (''handleDbSanityCheck'', handleDbSanityCheck env),
     (''handleRegisterWorker'', handleRegisterWorker env), (''handleUpdatePeerMac'', handleUpdatePeerMac env),
     (''handleUpdatePeerMacInternal'', handleUpdatePeerMacInternal env),
     (''handleSetupWireGuardPeer'', handleSetupWireGuardPeer (dir_base (dv_dirs (sy_desk sy))) (sy_errno sy) (sy_pipe sy)),
     (''handleListWireGuardPeers'', handleListWireGuardPeers env (sy_pipe sy)),
     (''handleGetWireGuardIp'', handleGetWireGuardIp (sy_pipe sy)), (''handleSetupRdp'', handleSetupRdp (sy_errno sy) (sy_pipe sy))]"

definition handler_table :: "sys_env \<Rightarrow> (string \<times> desk_handler) list" where
  "handler_table env = system_handlers env @ record_handlers env @
     map (\<lambda>(n, h). (n, on_daemon h)) (app_handlers (dv_os (sy_desk env)) @ peer_handlers env (dv_os (sy_desk env)))"

definition system_run :: "sys_env \<Rightarrow> desktop runner" where
  "system_run env n = (case map_of (handler_table env) n of Some h \<Rightarrow> h | None \<Rightarrow> sy_other env n)"

text \<open>One command of a client: what \<open>mainCommand\<close> writes back, with its code. \<open>g_clientSocket\<close> is set first.\<close>

definition execute :: "sys_env \<Rightarrow> int \<Rightarrow> json \<Rightarrow> desktop \<Rightarrow> desktop \<times> (string \<times> int) result" where
  "execute env fd command dt =
     mainCommand (on_dump (dv_os (sy_desk env))) (on_what (dv_os (sy_desk env))) (system_run env) command
       (dt\<lparr>dt_daemon := (dt_daemon dt)\<lparr>dm_clientSocket := fd\<rparr>\<rparr>)"

end
