(* ===== verification/Server_Facts.thy ===== *)
theory Server_Facts
  imports Daemon_Server Dispatch_Facts Peer_Facts Daemon_Commands
begin

text \<open>
  Facts about the socket server: a session does not depend on how its bytes are cut into pieces, a
  heartbeat keeps its sender online, and three ways in which one message stops the whole server.
\<close>

subsection \<open>Sessions\<close>

lemma c_string_id: "CHR 0x00 \<notin> set s \<Longrightarrow> c_string s = s"
  by (auto simp: c_string_def takeWhile_eq_all_conv)

lemma break_line_append: "break_line a = Some (line, rest) \<Longrightarrow> break_line (a @ b) = Some (line, rest @ b)"
  by (auto dest!: break_line_SomeD)

text \<open>Lines read later are read as if they had been there from the start.\<close>

lemma client_lines_append:
  "client_lines env run fd (a @ b) d = (case client_lines env run fd a d of
      (d1, Inr (Waiting r)) \<Rightarrow> client_lines env run fd (r @ b) d1 | x \<Rightarrow> x)"
proof (induction env run fd a d rule: client_lines.induct)
  case (1 env run fd buf d)
  show ?case
  proof (cases "break_line buf")
    case None
    then show ?thesis by (simp add: client_lines.simps [of env run fd buf])
  next
    case (Some lr)
    obtain line rest where lr: "lr = (line, rest)" by fastforce
    note br = Some [unfolded lr] break_line_append [OF Some [unfolded lr], of b]
    show ?thesis
    proof (cases "on_parse env (chop_cr line)")
      case None
      then show ?thesis
        using 1(1) [OF Some [unfolded lr] refl None] br
        by (simp add: client_lines.simps [of env run fd buf] client_lines.simps [of env run fd "buf @ b"])
    next
      case (Some j)
      obtain d1 r where r: "serve_command env run fd j d = (d1, r)" by fastforce
      show ?thesis
        using 1(2) [OF br(1) refl Some r [symmetric]] br Some r
        by (cases r) (auto simp: client_lines.simps [of env run fd buf] client_lines.simps [of env run fd "buf @ b"])
    qed
  qed
qed

text \<open>The pieces the loop hands to a client, each only while the client is known.\<close>

fun feed :: "os \<Rightarrow> daemon runner \<Rightarrow> int \<Rightarrow> string list \<Rightarrow> server \<Rightarrow> server \<times> unit result" where
  "feed env run fd [] sv = (sv, Inr ())"
| "feed env run fd (data # pieces) sv = (case om_find fd (sv_clients sv) of
      None \<Rightarrow> feed env run fd pieces sv
    | Some st \<Rightarrow> (case handle_client_data env run fd st data sv of
        (sv1, Inl e) \<Rightarrow> (sv1, Inl e) | (sv1, Inr _) \<Rightarrow> feed env run fd pieces sv1))"

lemma feed_unknown: "om_find fd (sv_clients sv) = None \<Longrightarrow> feed env run fd pieces sv = (sv, Inr ())"
  by (induction pieces) simp_all

text \<open>The same result, the same work done, and the same server unless an exception ended the process.\<close>

definition same_end :: "server \<times> unit result \<Rightarrow> server \<times> unit result \<Rightarrow> bool" where
  "same_end p q \<longleftrightarrow> snd p = snd q \<and> sv_daemon (fst p) = sv_daemon (fst q) \<and>
     (snd p = Inr () \<longrightarrow> fst p = fst q)"

lemma same_end_refl [simp]: "same_end p p"
  by (simp add: same_end_def)

lemma same_end_trans: "same_end p q \<Longrightarrow> same_end q r \<Longrightarrow> same_end p r"
  by (auto simp: same_end_def)

definition go_on :: "(server \<Rightarrow> server \<times> unit result) \<Rightarrow> server \<times> unit result \<Rightarrow> server \<times> unit result" where
  "go_on f p = (case p of (sv1, Inl e) \<Rightarrow> (sv1, Inl e) | (sv1, Inr _) \<Rightarrow> f sv1)"

lemma same_end_go_on: "same_end p q \<Longrightarrow> same_end (go_on f p) (go_on f q)"
  by (cases p; cases q; cases "snd p"; cases "snd q") (auto simp: same_end_def go_on_def)

lemma feed_known:
  "om_find fd (sv_clients sv) = Some st \<Longrightarrow> feed env run fd (data # pieces) sv =
     go_on (feed env run fd pieces) (handle_client_data env run fd st data sv)"
  by (simp add: go_on_def)

lemma end_session_again:
  assumes "om_sorted (sv_clients sv)"
  shows "same_end (end_session fd (st\<lparr>cs_buffer := buf\<rparr>)
      (sv\<lparr>sv_daemon := d, sv_clients := om_put fd (st\<lparr>cs_buffer := buf\<rparr>) (sv_clients sv)\<rparr>) y) (end_session fd st sv y)"
proof -
  note maps = om.put_put [OF assms] om.erase_put [OF assms]
  obtain d1 r where y: "y = (d1, r)" by fastforce
  show ?thesis
  proof (cases r)
    case (Inr x)
    then show ?thesis
      by (cases x) (simp_all add: y same_end_def end_session_def Let_def maps drop_client_def hand_over_def)
  qed (simp add: y same_end_def end_session_def)
qed

lemma feed_twice:
  assumes st: "om_find fd (sv_clients sv) = Some st" and sorted: "om_sorted (sv_clients sv)"
    and ne: "a \<noteq> []" "b \<noteq> []" and nul: "CHR 0x00 \<notin> set a" "CHR 0x00 \<notin> set b"
  shows "same_end (feed env run fd (a # b # pieces) sv) (feed env run fd ((a @ b) # pieces) sv)"
proof -
  obtain d r where r: "client_lines env run fd (cs_buffer st @ a) (sv_daemon sv) = (d, r)" by fastforce
  have long: "client_lines env run fd (cs_buffer st @ a @ b) (sv_daemon sv) = (case r of
      Inr (Waiting rest) \<Rightarrow> client_lines env run fd (rest @ b) d | x \<Rightarrow> (d, x))"
    using client_lines_append [of env run fd "cs_buffer st @ a" b "sv_daemon sv"] r
    by (cases r) (auto split: session.split)
  have both: "handle_client_data env run fd st (a @ b) sv =
      end_session fd st sv (client_lines env run fd (cs_buffer st @ a @ b) (sv_daemon sv))"
    and one: "handle_client_data env run fd st a sv = end_session fd st sv (d, r)"
    using ne nul r by (simp_all add: handle_client_data_def c_string_id)
  have gone: "om_find fd (om_erase fd (sv_clients sv)) = None" using sorted by (simp add: om_find_erase)
  show ?thesis
  proof (cases "\<exists>buf. r = Inr (Waiting buf)")
    case True
    then obtain buf where buf: "r = Inr (Waiting buf)" by blast
    let ?sv1 = "sv\<lparr>sv_daemon := d, sv_clients := om_put fd (st\<lparr>cs_buffer := buf\<rparr>) (sv_clients sv)\<rparr>"
    have first: "end_session fd st sv (d, r) = (?sv1, Inr ())" by (simp add: end_session_def buf)
    have find: "om_find fd (sv_clients ?sv1) = Some (st\<lparr>cs_buffer := buf\<rparr>)" using sorted by (simp add: om_find_put)
    have "handle_client_data env run fd (st\<lparr>cs_buffer := buf\<rparr>) b ?sv1 =
        end_session fd (st\<lparr>cs_buffer := buf\<rparr>) ?sv1 (client_lines env run fd (buf @ b) d)"
      using ne nul by (simp add: handle_client_data_def c_string_id)
    moreover have "feed env run fd (a # b # pieces) sv = feed env run fd (b # pieces) ?sv1"
      by (simp only: feed_known [OF st] one first go_on_def split_conv sum.case)
    ultimately show ?thesis
      using same_end_go_on [OF end_session_again [OF sorted]]
      by (simp only: feed_known [OF st] feed_known [OF find] both long buf sum.case session.case)
  next
    case False
    have "snd (end_session fd st sv (d, r)) = Inr () \<Longrightarrow> om_find fd (sv_clients (fst (end_session fd st sv (d, r)))) = None"
      using False gone by (auto simp: end_session_def Let_def drop_client_def hand_over_def split: sum.splits session.splits)
    then have "go_on (feed env run fd (b # pieces)) (end_session fd st sv (d, r)) =
        go_on (feed env run fd pieces) (end_session fd st sv (d, r))"
      by (cases "end_session fd st sv (d, r)"; cases "snd (end_session fd st sv (d, r))") (auto simp: go_on_def)
    moreover have "client_lines env run fd (cs_buffer st @ a @ b) (sv_daemon sv) = (d, r)"
      using False long by (auto split: sum.split session.split)
    ultimately show ?thesis by (simp only: feed_known [OF st] one both same_end_refl)
  qed
qed

text \<open>C4 (equivalence). What a client's session does does not depend on how its bytes arrive: any cutting of a text without
  NUL bytes into pieces has the outcome of the whole text received at once.\<close>

theorem session_independent_of_cutting:
  assumes "om_find fd (sv_clients sv) = Some st" "om_sorted (sv_clients sv)"
    and "[] \<notin> set (piece # pieces)" "CHR 0x00 \<notin> set (concat (piece # pieces))"
  shows "same_end (feed env run fd (piece # pieces) sv) (feed env run fd [concat (piece # pieces)] sv)"
  using assms(3,4)
proof (induction pieces arbitrary: piece)
  case (Cons p ps)
  have "same_end (feed env run fd (piece # p # ps) sv) (feed env run fd ((piece @ p) # ps) sv)"
    using Cons.prems by (intro feed_twice [OF assms(1,2)]) auto
  moreover have "same_end (feed env run fd ((piece @ p) # ps) sv) (feed env run fd [concat ((piece @ p) # ps)] sv)"
    using Cons.prems by (intro Cons.IH) auto
  ultimately show ?case using same_end_trans by fastforce
qed simp

definition sample_server :: server where
  "sample_server = \<lparr>sv_clients = [(9, \<lparr>cs_fd = 9, cs_buffer = [], cs_pid = 1, cs_uid = 1000\<rparr>)],
     sv_peers = [(11, \<lparr>ps_fd = 11, ps_buffer = [], ps_peer_ip = ''10.0.0.5'', ps_peer_id = [], ps_authenticated = False\<rparr>)],
     sv_leader_buffer = [], sv_threads = [], sv_daemon = sample_daemon\<rparr>"

definition quiet_runner :: "daemon runner" where
  "quiet_runner h command d = (d, Inr (CmdResult 0 ''pong''))"

lemma sample_server_members:
  "om_find 9 (sv_clients sample_server) = Some \<lparr>cs_fd = 9, cs_buffer = [], cs_pid = 1, cs_uid = 1000\<rparr>"
  "om_find 11 (sv_peers sample_server) = Some \<lparr>ps_fd = 11, ps_buffer = [], ps_peer_ip = ''10.0.0.5'', ps_peer_id = [],
     ps_authenticated = False\<rparr>"
  "om_sorted (sv_clients sample_server)" "sv_daemon sample_server = sample_daemon"
  by (simp_all add: sample_server_def om_sorted_def)

theorem session_independent_of_cutting_witness:
  "same_end (feed quiet_os quiet_runner 9 [''pi'', ''ng'' @ NL] sample_server)
     (feed quiet_os quiet_runner 9 [concat [''pi'', ''ng'' @ NL]] sample_server)"
  by (rule session_independent_of_cutting [OF sample_server_members(1,3)]) simp_all

subsection \<open>Heartbeats\<close>

text \<open>What the message says of the version of the daemon that sent it.\<close>

definition version_sent :: "json \<Rightarrow> int option \<Rightarrow> bool" where
  "version_sent j version = (case version of
      None \<Rightarrow> \<not> jcontains j ''daemon_version''
    | Some v \<Rightarrow> (\<exists>x. jat j ''daemon_version'' = Inr x \<and> jget_int x = Inr v))"

lemma version_sent_result:
  "version_sent j version \<Longrightarrow>
     (if jcontains j ''daemon_version''
      then try_result (jat j ''daemon_version'') (\<lambda>v. try_result (jget_int v) (\<lambda>i. Inr (Some i))) else Inr None) = Inr version"
  by (auto simp: version_sent_def dest: jat_contains split: option.splits)

lemma note_app_status_only [simp]:
  "dm_db (note_app_status pid j d) = dm_db d" "dm_calls (note_app_status pid j d) = dm_calls d"
  by (auto simp: note_app_status_def updatePeerAppStatus_def split: sum.split json.split)

lemma touch_online:
  assumes conn: "db_conn d" and "row \<in> set (peer_registry d)" "peer_key_eq d pid row"
    and touch: "d1 = (case version of Some v \<Rightarrow> touchLastSeenVersion now pid v d | None \<Rightarrow> touchLastSeen now pid d)"
  shows "\<exists>q \<in> set (getAllPeers t d1). peer_id q = pr_peer_id row"
    and "q \<in> set (getAllPeers t d1) \<Longrightarrow> db_collate d (peer_id q) = db_collate d pid \<Longrightarrow> is_online q \<longleftrightarrow> t < now + 20"
proof -
  obtain f where f: "d1 = update_peers pid f d"
      "\<And>r. pr_peer_id (f r) = pr_peer_id r \<and> pr_online (f r) \<and> pr_last_seen (f r) = now"
  proof (cases version)
    case None
    then show ?thesis
      using conn touch by (intro that [of "\<lambda>r. r\<lparr>pr_last_seen := now, pr_online := True\<rparr>"]) (simp_all add: touchLastSeen_def)
  next
    case (Some v)
    then show ?thesis
      using conn touch by (intro that [of "\<lambda>r. r\<lparr>pr_last_seen := now, pr_online := True, pr_version := v\<rparr>"])
        (simp_all add: touchLastSeenVersion_def)
  qed
  show "\<exists>q \<in> set (getAllPeers t d1). peer_id q = pr_peer_id row"
    using assms(1-3) f(2) by (force simp: f(1) getAllPeers_def update_peers_def peer_record_def)
  assume "q \<in> set (getAllPeers t d1)" "db_collate d (peer_id q) = db_collate d pid"
  then show "is_online q \<longleftrightarrow> t < now + 20"
    using conn f(2) by (auto simp: f(1) getAllPeers_def update_peers_def peer_record_def)
qed

text \<open>C7 (functional). A heartbeat of a registered peer is not answered; it makes the peer count as online for exactly the
  twenty seconds that follow, and the connection belongs to that peer from then on.\<close>

theorem heartbeat_keeps_peer_online:
  assumes "is_command ''heartbeat'' j" "jat j ''peer_id'' = Inr (JStr pid)" "version_sent j version"
    and "db_conn (dm_db d)" "row \<in> set (peer_registry (dm_db d))" "peer_key_eq (dm_db d) pid row"
  shows "let (d1, r) = peer_message env run fd j st d; now = on_now env (dm_calls d) in
    r = Inr (if ps_peer_id st = [] then st\<lparr>ps_peer_id := pid\<rparr> else st, []) \<and> dm_calls d1 = dm_calls d @ [Now] \<and>
    (\<exists>q \<in> set (getAllPeers t (dm_db d1)). peer_id q = pr_peer_id row) \<and>
    (\<forall>q \<in> set (getAllPeers t (dm_db d1)). db_collate (dm_db d) (peer_id q) = db_collate (dm_db d) pid \<longrightarrow>
       (is_online q \<longleftrightarrow> t < now + 20))"
proof -
  have pid: "jcontains j ''peer_id''" "command_string j ''peer_id'' = Inr pid"
    using assms(2) by (auto dest: jat_contains simp: command_string_def jget_string_def)
  have "peer_message env run fd j st d = (note_app_status pid j (touch_peer env pid version d),
      Inr (if ps_peer_id st = [] then st\<lparr>ps_peer_id := pid\<rparr> else st, []))"
    using assms(1) pid by (simp add: peer_message_def take_heartbeat_def version_sent_result [OF assms(3)])
  moreover have "dm_db (touch_peer env pid version d) = (case version of
      Some v \<Rightarrow> touchLastSeenVersion (on_now env (dm_calls d)) pid v (dm_db d)
    | None \<Rightarrow> touchLastSeen (on_now env (dm_calls d)) pid (dm_db d))"
      "dm_calls (touch_peer env pid version d) = dm_calls d @ [Now]"
    by (auto simp: touch_peer_def sql_now_def os_do_def split: option.split)
  ultimately show ?thesis using touch_online [OF assms(4-6)] by (simp add: Let_def)
qed

definition beat :: json where
  "beat = JObj [(''command'', JStr ''heartbeat''), (''daemon_version'', JInt 4), (''peer_id'', JStr ''desk'')]"

lemma desk_row:
  assumes "d = upsertPeer 1 ''desk'' ''10.0.0.5'' [] [] False 1 sample_db"
  shows "\<exists>row \<in> set (peer_registry d). peer_key_eq d ''desk'' row" "db_conn d"
  by (simp_all add: assms sample_db_def upsertPeer_def peer_find_def fits_def)

theorem heartbeat_keeps_peer_online_witness:
  "let d = sample_daemon\<lparr>dm_db := upsertPeer 1 ''desk'' ''10.0.0.5'' [] [] False 1 sample_db\<rparr>;
     st = \<lparr>ps_fd = 11, ps_buffer = [], ps_peer_ip = ''10.0.0.5'', ps_peer_id = [], ps_authenticated = False\<rparr>
   in snd (peer_message quiet_os quiet_runner 11 beat st d) = Inr (st\<lparr>ps_peer_id := ''desk''\<rparr>, [])"
proof -
  let ?d = "sample_daemon\<lparr>dm_db := upsertPeer 1 ''desk'' ''10.0.0.5'' [] [] False 1 sample_db\<rparr>"
  have msg: "is_command ''heartbeat'' beat" "jat beat ''peer_id'' = Inr (JStr ''desk'')" "version_sent beat (Some 4)"
    by (simp_all add: beat_def is_command_def version_sent_def json_access_defs)
  obtain row where row: "db_conn (dm_db ?d)" "row \<in> set (peer_registry (dm_db ?d))" "peer_key_eq (dm_db ?d) ''desk'' row"
    using desk_row [OF refl] by fastforce
  show ?thesis
    using heartbeat_keeps_peer_online [OF msg row, of quiet_os quiet_runner 11
      "\<lparr>ps_fd = 11, ps_buffer = [], ps_peer_ip = ''10.0.0.5'', ps_peer_id = [], ps_authenticated = False\<rparr>" 0]
    by (simp add: Let_def split_beta)
qed

subsection \<open>Messages that stop the server\<close>

lemma slow_command_facts:
  "n \<in> set slow_commands \<Longrightarrow> return_code n = 2 \<and> n \<noteq> ''heartbeat'' \<and> n \<noteq> ''registerPeer''"
  by (auto simp: slow_commands_def return_code_def keep_open_commands_def)

text \<open>A named command whose own handler fails no assertion always has a reply.\<close>

definition no_assert :: "daemon runner \<Rightarrow> string \<Rightarrow> json \<Rightarrow> bool" where
  "no_assert run n j \<longleftrightarrow> (\<forall>h d. map_of COMMAND_HANDLERS n = Some h \<longrightarrow> snd (run h j d) \<noteq> Inl AssertFail)"

lemma named_command_replies:
  assumes "jat command ''command'' = Inr (JStr n)" "no_assert run n command"
  shows "\<exists>d' msg. mainCommand dump what run command d = (d', Inr (msg, return_code n))"
proof -
  have "snd (dispatch dump run command d) \<noteq> Inl AssertFail"
    using assms(2) by (auto simp: dispatch_named [OF assms(1)] no_assert_def split: option.split)
  then show ?thesis
    using named_command [OF assms(1)] by (auto simp: mainCommand_def caught_def Let_def split: prod.split sum.split)
qed

lemma thread_replies:
  assumes "jat command ''command'' = Inr (JStr n)" "no_assert run n command"
  shows "\<exists>d' msg. slow_thread what run command d = (d', Inr msg)"
proof (cases "map_of COMMAND_HANDLERS n")
  case (Some h)
  obtain d' r where r: "run h command d = (d', r)" by fastforce
  then have "r \<noteq> Inl AssertFail" using assms(2) Some by (metis no_assert_def snd_conv)
  then show ?thesis using named_command [OF assms(1)] Some r
    by (auto simp: slow_thread_def caught_def split: sum.split)
qed (use named_command [OF assms(1)] in \<open>simp add: slow_thread_def\<close>)

lemma put_member: "fd \<in> fst ` set (om_put fd v m)"
  by (simp add: om_put_keys)

lemma closed_at_end: "dm_calls (close_fd fd d) = dm_calls d @ [CloseFd fd]"
  by (simp add: close_fd_def os_do_def)

text \<open>While a watched descriptor stays closed, only the other threads change anything.\<close>

definition openings :: "int list \<Rightarrow> server \<Rightarrow> server" where
  "openings fds sv = sv\<lparr>sv_daemon := (sv_daemon sv)\<lparr>dm_calls := dm_calls (sv_daemon sv) @ map Opened fds\<rparr>\<rparr>"

lemma openings_keep_closed:
  "closed_fd fd (dm_calls (sv_daemon sv)) \<Longrightarrow> fd \<notin> set fds \<Longrightarrow>
     closed_fd fd (dm_calls (sv_daemon (openings fds sv)))"
  by (induction fds rule: rev_induct) (simp_all add: openings_def closed_fd_def)

lemma stalled_loop:
  assumes "fd \<in> fst ` set (sv_peers sv)" "closed_fd fd (dm_calls (sv_daemon sv))"
    and "\<And>i. ThreadEnds i \<notin> set evs" "ThreadOpens fd \<notin> set evs"
  shows "\<exists>fds. daemon_loop env run evs sv = (openings fds sv, Inr ()) \<and> select_fails (openings fds sv)"
  using assms
proof (induction evs arbitrary: sv)
  case Nil
  then show ?case
    by (intro exI [of _ "[]"]) (auto simp: openings_def select_fails_def watched_def)
next
  case (Cons ev evs)
  have ne: "ev \<noteq> ThreadEnds i" for i using Cons.prems(3) [of i] by auto
  show ?case
  proof (cases "\<exists>fd'. ev = ThreadOpens fd'")
    case True
    then obtain fd' where ev: "ev = ThreadOpens fd'" "fd' \<noteq> fd" using Cons.prems(4) by auto
    let ?sv = "openings [fd'] sv"
    have step: "daemon_event env run ev sv = (?sv, Inr ())"
      by (simp add: ev daemon_event_def openings_def opened_def os_do_def)
    have "fd \<in> fst ` set (sv_peers ?sv)" using Cons.prems(1) by (simp add: openings_def)
    moreover have "closed_fd fd (dm_calls (sv_daemon ?sv))"
      using openings_keep_closed [OF Cons.prems(2), of "[fd']"] ev(2) by simp
    ultimately obtain fds where "daemon_loop env run evs ?sv = (openings fds ?sv, Inr ())"
      "select_fails (openings fds ?sv)"
      using Cons.IH [of ?sv] Cons.prems(3,4) by auto
    moreover have "openings fds ?sv = openings (fd' # fds) sv" by (simp add: openings_def)
    ultimately show ?thesis using step by (intro exI [of _ "fd' # fds"]) simp
  next
    case False
    have "select_fails sv" using Cons.prems(1,2) by (auto simp: select_fails_def watched_def)
    then have "daemon_event env run ev sv = (sv, Inr ())"
      using ne False by (cases ev) (auto simp: daemon_event_def)
    then show ?thesis using Cons.IH [of sv] Cons.prems by simp
  qed
qed

text \<open>One line of a peer whose buffer is empty.\<close>

lemma one_peer_line:
  assumes "om_find fd (sv_peers sv) = Some st" "ps_buffer st = []" "\<not> select_fails sv"
    and "CHR 0x00 \<notin> set line" "CHR 0x0A \<notin> set line" "on_parse env (chop_cr line) = Some j"
  shows "daemon_event env run (PeerData fd (line @ NL)) sv = (case peer_message env run fd j st (sv_daemon sv) of
      (d1, Inl e) \<Rightarrow> (sv\<lparr>sv_daemon := d1\<rparr>, Inl e)
    | (d1, Inr (st1, js)) \<Rightarrow>
        (fold (hand_over fd) js (sv\<lparr>sv_daemon := d1, sv_peers := om_put fd (st1\<lparr>ps_buffer := []\<rparr>) (sv_peers sv)\<rparr>), Inr ()))"
proof -
  have "c_string (line @ NL) = line @ NL" using assms(4) by (intro c_string_id) simp
  moreover have "break_line (line @ NL) = Some (line, [])" using assms(5) break_line_line [of line "[]"] by simp
  moreover have "peer_lines env run fd [] slow st1 d1 = (d1, Inr (st1\<lparr>ps_buffer := []\<rparr>, slow))" for slow st1 d1
    by (simp add: peer_lines.simps [of env run fd "[]"] break_line_def)
  ultimately have lines: "peer_lines env run fd (line @ NL) [] st d = (case peer_message env run fd j st d of
      (d1, Inl e) \<Rightarrow> (d1, Inl e) | (d1, Inr (st1, js)) \<Rightarrow> (d1, Inr (st1\<lparr>ps_buffer := []\<rparr>, js)))" for d
    using assms(6) by (simp add: peer_lines.simps [of env run fd "line @ NL"] split: prod.split sum.split)
  show ?thesis
    using assms(1-3) lines [of "sv_daemon sv"] \<open>c_string (line @ NL) = line @ NL\<close>
    by (simp add: daemon_event_def handle_peer_data_def split: prod.split sum.split)
qed

text \<open>C12 (liveness). One slow command of a peer, whose own handler fails no assertion on it, stops the server: when its
  thread has ended, the descriptor of the peer is closed but still given to \<open>select\<close>, and from then on the loop serves no
  client, no peer and not the leader, whatever arrives: nothing changes but the descriptors that other threads open, until
  one of them happens to get the closed number or another slow command ends.\<close>

theorem peer_slow_command_stalls_server:
  assumes "om_find fd (sv_peers sv) = Some st" "ps_buffer st = []" "\<not> select_fails sv"
    and "CHR 0x00 \<notin> set line" "CHR 0x0A \<notin> set line" "on_parse env (chop_cr line) = Some j"
    and "jat j ''command'' = Inr (JStr n)" "n \<in> set slow_commands" "no_assert run n j"
  shows "\<exists>sv2. daemon_loop env run [PeerData fd (line @ NL), ThreadEnds (length (sv_threads sv))] sv = (sv2, Inr ()) \<and>
    fd \<in> watched sv2 \<and> closed_fd fd (dm_calls (sv_daemon sv2)) \<and>
    (\<forall>evs. (\<forall>i. ThreadEnds i \<notin> set evs) \<and> ThreadOpens fd \<notin> set evs \<longrightarrow>
       (\<exists>fds. daemon_loop env run evs sv2 = (openings fds sv2, Inr ()) \<and> select_fails (openings fds sv2)))"
proof -
  note n = slow_command_facts [OF assms(8)]
  obtain d1 msg where main: "mainCommand (on_dump env) (on_what env) run j ((sv_daemon sv)\<lparr>dm_clientSocket := fd\<rparr>) =
      (d1, Inr (msg, 2))"
    using named_command_replies [of j n run, OF assms(7,9)] n by metis
  have cmd: "is_command m j \<longleftrightarrow> n = m" for m using assms(7) by (simp add: is_command_def)
  obtain d2 where "peer_message env run fd j st (sv_daemon sv) = (d2, Inr (st, [j]))"
    using n by (simp add: peer_message_def track_peer_def cmd serve_command_def main)
  with one_peer_line [OF assms(1-6)]
  have first: "daemon_event env run (PeerData fd (line @ NL)) sv = (hand_over fd j
      (sv\<lparr>sv_daemon := d2, sv_peers := om_put fd (st\<lparr>ps_buffer := []\<rparr>) (sv_peers sv)\<rparr>), Inr ())"
    by simp
  obtain d3 reply where thread: "slow_thread (on_what env) run j d2 = (d3, Inr reply)"
    using thread_replies [of j n run, OF assms(7,9)] by metis
  let ?sv2 = "sv\<lparr>sv_daemon := close_fd fd (fst (write_fd env fd reply d3)),
    sv_peers := om_put fd (st\<lparr>ps_buffer := []\<rparr>) (sv_peers sv)\<rparr>"
  have "daemon_loop env run [PeerData fd (line @ NL), ThreadEnds (length (sv_threads sv))] sv = (?sv2, Inr ())"
    using first thread by (simp add: daemon_event_def hand_over_def thread_ends_def nth_append)
  moreover have peer: "fd \<in> fst ` set (sv_peers ?sv2)" by (simp add: put_member)
  moreover have closed: "closed_fd fd (dm_calls (sv_daemon ?sv2))" by (simp add: closed_fd_def closed_at_end)
  ultimately show ?thesis
    using stalled_loop [OF peer closed] by (intro exI [of _ ?sv2]) (auto simp: watched_def)
qed

text \<open>C25 (error). A heartbeat whose \<open>peer_id\<close> is not a string ends the daemon: the exception leaves \<open>daemon_loop\<close>, and
  nothing that arrives later is handled.\<close>

theorem malformed_heartbeat_ends_daemon:
  assumes "om_find fd (sv_peers sv) = Some st" "ps_buffer st = []" "\<not> select_fails sv"
    and "CHR 0x00 \<notin> set line" "CHR 0x0A \<notin> set line" "on_parse env (chop_cr line) = Some j"
    and "is_command ''heartbeat'' j" "jat j ''peer_id'' = Inr v" "\<not> is_string v"
  shows "daemon_loop env run (PeerData fd (line @ NL) # evs) sv = (sv, Inl (TypeError 302))"
proof -
  have "command_string j ''peer_id'' = Inl (TypeError 302)"
    using assms(8,9) by (cases v) (simp_all add: command_string_def jget_string_def is_string_def)
  then have "peer_message env run fd j st (sv_daemon sv) = (sv_daemon sv, Inl (TypeError 302))"
    using assms(7) jat_contains [OF assms(8)] by (simp add: peer_message_def take_heartbeat_def)
  with one_peer_line [OF assms(1-6)] show ?thesis by simp
qed

text \<open>After a peer has disconnected, its entry among the known peers still has the closed descriptor.\<close>

lemma disconnected_peer_keeps_descriptor:
  "dm_peers (sv_daemon (drop_peer env fd st sv)) = dm_peers (sv_daemon sv) \<and>
   closed_fd fd (dm_calls (sv_daemon (drop_peer env fd st sv)))"
  by (simp add: drop_peer_def Let_def closed_fd_def close_fd_def os_do_def sql_now_def clearPeerAppStatus_def)

text \<open>Environments whose parser knows one message.\<close>

definition parsing :: "json \<Rightarrow> os" where
  "parsing j = quiet_os\<lparr>on_parse := (\<lambda>t. if t = ''m'' then Some j else None)\<rparr>"

lemma sample_not_failing: "\<not> select_fails sample_server"
  by (simp add: select_fails_def closed_fd_def sample_server_members sample_daemon_def)

lemma parse_m: "on_parse (parsing j) (chop_cr ''m'') = Some j"
  by (simp add: parsing_def chop_cr_def)

lemma m_clean: "CHR 0x00 \<notin> set ''m''" "CHR 0x0A \<notin> set ''m''"
  by simp_all

lemma sample_peer_buffer: "ps_buffer \<lparr>ps_fd = 11, ps_buffer = [], ps_peer_ip = ''10.0.0.5'', ps_peer_id = [],
  ps_authenticated = False\<rparr> = []"
  by simp

lemmas sample_line = sample_server_members(2) sample_peer_buffer sample_not_failing m_clean parse_m

text \<open>The daemon's own table of handlers as the behaviour of the server, beside a fixed rest of the desktop.\<close>

definition table_runner :: "sys_env \<Rightarrow> desktop \<Rightarrow> daemon runner" where
  "table_runner env dt h j d = (let (dt1, r) = system_run env h j (dt\<lparr>dt_daemon := d\<rparr>) in (dt_daemon dt1, r))"

definition exec_request :: json where
  "exec_request = JObj [(''command'', JStr ''execRequest''), (''directory'', JStr ''/''), (''shellCmd'', JStr ''ls'')]"

lemma exec_handler: "map_of COMMAND_HANDLERS ''execRequest'' = Some ''handleExecRequest''"
  unfolding COMMAND_HANDLERS_def
  by (simp only: list.map fst_conv snd_conv list.inject char.inject list.distinct simp_thms if_True if_False
      map_of.simps fun_upd_apply)

lemma run_exec: "system_run sy ''handleExecRequest'' = on_daemon (handleExecRequest (sy_child sy))"
  unfolding system_run_def handler_table_def system_handlers_def record_handlers_def app_handlers_def
    peer_handlers_def append.simps list.map
  by (simp only: list.map fst_conv snd_conv list.inject char.inject list.distinct simp_thms if_True if_False
      map_of.simps fun_upd_apply option.case split_conv)

lemma exec_request_replies: "snd (handleExecRequest child exec_request d) \<noteq> Inl AssertFail"
  by (simp add: handleExecRequest_def exec_request_def with_key_def json_access_defs case_prod_unfold Let_def reply_def)

theorem peer_slow_command_stalls_server_witness:
  "\<forall>sy dt. \<exists>sv2. daemon_loop (parsing exec_request) (table_runner sy dt)
      [PeerData 11 (''m'' @ NL), ThreadEnds (length (sv_threads sample_server))] sample_server = (sv2, Inr ()) \<and>
      11 \<in> watched sv2 \<and> closed_fd 11 (dm_calls (sv_daemon sv2))"
proof (intro allI)
  fix sy dt
  have "jat exec_request ''command'' = Inr (JStr ''execRequest'')" by (simp add: exec_request_def json_access_defs)
  moreover have "''execRequest'' \<in> set slow_commands" by (simp add: slow_commands_def)
  moreover have "no_assert (table_runner sy dt) ''execRequest'' exec_request"
    unfolding no_assert_def exec_handler
    using exec_request_replies
    by (simp add: table_runner_def run_exec on_daemon_def case_prod_unfold Let_def)
  ultimately show "\<exists>sv2. daemon_loop (parsing exec_request) (table_runner sy dt)
      [PeerData 11 (''m'' @ NL), ThreadEnds (length (sv_threads sample_server))] sample_server = (sv2, Inr ()) \<and>
      11 \<in> watched sv2 \<and> closed_fd 11 (dm_calls (sv_daemon sv2))"
    using peer_slow_command_stalls_server [OF sample_line, of exec_request "''execRequest''" "table_runner sy dt"] by blast
qed

theorem malformed_heartbeat_ends_daemon_witness:
  "daemon_loop (parsing (JObj [(''command'', JStr ''heartbeat''), (''peer_id'', JInt 7)])) quiet_runner
     (PeerData 11 (''m'' @ NL) # [AcceptClient 5 1 1000]) sample_server = (sample_server, Inl (TypeError 302))"
proof (rule malformed_heartbeat_ends_daemon [OF sample_line])
  let ?j = "JObj [(''command'', JStr ''heartbeat''), (''peer_id'', JInt 7)]"
  show "is_command ''heartbeat'' ?j" "jat ?j ''peer_id'' = Inr (JInt 7)" by (simp_all add: is_command_def json_access_defs)
  show "\<not> is_string (JInt 7)" by (simp add: is_string_def)
qed

end
