(* ===== verification/Wireguard_Facts.thy ===== *)
theory Wireguard_Facts
  imports Wireguard_Commands
begin

text \<open>
  The listing of the WireGuard peers reads back what the set-up script writes.
\<close>

text \<open>The lines the script appends for a peer, and the entry the listing shows for it.\<close>

definition conf_lines :: "string \<times> string \<times> string \<Rightarrow> string list" where
  "conf_lines = (\<lambda>(n, key, ip).
     [''[Peer]'', ''# '' @ n, ''PublicKey = '' @ key, ''AllowedIPs = '' @ ip @ ''/32''])"

definition conf_entry :: "string \<times> string \<times> string \<Rightarrow> json" where
  "conf_entry = (\<lambda>(n, key, ip). JObj [(''name'', JStr n), (''public_key'', JStr key), (''vpn_ip'', JStr ip)])"

definition plain :: "string \<Rightarrow> bool" where
  "plain t \<longleftrightarrow> t \<noteq> [] \<and> hd t \<noteq> CHR '' '' \<and> CHR 0x0A \<notin> set t \<and> CHR ''/'' \<notin> set t"

text \<open>Keys are written in base 64 and may contain a slash.\<close>

definition conf_ok :: "string \<times> string \<times> string \<Rightarrow> bool" where
  "conf_ok = (\<lambda>(n, key, ip). n \<noteq> [] \<and> CHR 0x0A \<notin> set n \<and> key \<noteq> [] \<and> hd key \<noteq> CHR '' '' \<and> CHR 0x0A \<notin> set key \<and> plain ip)"

lemma getlines_line: "CHR 0x0A \<notin> set l \<Longrightarrow> getlines (l @ CHR 0x0A # rest) = l # getlines rest"
  by (induction l) auto

lemma getlines_unlines:
  "(\<And>l. l \<in> set ls \<Longrightarrow> CHR 0x0A \<notin> set l) \<Longrightarrow> getlines (concat (map (\<lambda>l. l @ NL) ls)) = ls"
  by (induction ls) (simp_all add: getlines_line)

lemma takeWhile_slash: "CHR ''/'' \<notin> set ip \<Longrightarrow> takeWhile (\<lambda>c. c \<noteq> CHR ''/'') (ip @ CHR ''/'' # r) = ip"
  by (induction ip) auto

lemma dropWhile_space: "t \<noteq> [] \<Longrightarrow> hd t \<noteq> CHR '' '' \<Longrightarrow> dropWhile (\<lambda>c. c = CHR '' '') (t @ r) = t @ r"
  by (cases t) auto

lemma wg_lines_of_peer:
  assumes "conf_ok p"
  shows "fold wg_line (conf_lines p) (peers, current) =
    (save_peer current peers, [(''name'', JStr (fst p)), (''public_key'', JStr (fst (snd p))), (''vpn_ip'', JStr (snd (snd p)))])"
proof -
  obtain n key ip where p: "p = (n, key, ip)" by (cases p) auto
  have ok: "n \<noteq> []" "key \<noteq> []" "hd key \<noteq> CHR '' ''" "ip \<noteq> []" "hd ip \<noteq> CHR '' ''" "CHR ''/'' \<notin> set ip"
    using assms by (auto simp: conf_ok_def plain_def p)
  have val: "value_after_eq (''PublicKey = '' @ key) = Some key" "value_after_eq (''AllowedIPs = '' @ ip @ ''/32'') = Some (ip @ ''/32'')"
    using ok dropWhile_space [of key "[]"] dropWhile_space [of ip "''/32''"] by (simp_all add: value_after_eq_def)
  have "wg_line ''[Peer]'' (peers, current) = (save_peer current peers, [])" for peers current
    by (simp add: wg_line_def trim_left_def)
  moreover have "wg_line (''# '' @ n) (peers, []) = (peers, [(''name'', JStr n)])" for peers
    using ok(1) by (simp add: wg_line_def trim_left_def)
  moreover have "wg_line (''PublicKey = '' @ key) (peers, [(''name'', JStr n)]) =
      (peers, [(''name'', JStr n), (''public_key'', JStr key)])" for peers
    using val(1) by (simp add: wg_line_def trim_left_def assign_def)
  moreover have "wg_line (''AllowedIPs = '' @ ip @ ''/32'') (peers, [(''name'', JStr n), (''public_key'', JStr key)]) =
      (peers, [(''name'', JStr n), (''public_key'', JStr key), (''vpn_ip'', JStr ip)])" for peers
    using val(2) takeWhile_slash [OF ok(6), of "''32''"] by (simp add: wg_line_def trim_left_def assign_def)
  ultimately show ?thesis unfolding p conf_lines_def by (simp only: fold.simps split_conv comp_apply id_apply fst_conv snd_conv)
qed

text \<open>C11 (roundtrip). The listing of the WireGuard peers shows exactly the peers the set-up script has written to the
  configuration, in order, with their names, keys and addresses.\<close>

theorem wireguard_listing_roundtrip:
  assumes "\<And>p. p \<in> set ps \<Longrightarrow> conf_ok p"
  shows "wg_peers (concat (map (\<lambda>l. l @ NL) (concat (map conf_lines ps)))) = map conf_entry ps"
proof -
  have "getlines (concat (map (\<lambda>l. l @ NL) (concat (map conf_lines ps)))) = concat (map conf_lines ps)"
    using assms by (intro getlines_unlines) (auto simp: conf_lines_def conf_ok_def plain_def)
  moreover have "(let (peers, current) = fold wg_line (concat (map conf_lines ps)) (peers0, current0) in save_peer current peers) =
      save_peer current0 peers0 @ map conf_entry ps" for peers0 current0
    using assms
  proof (induction ps arbitrary: peers0 current0)
    case (Cons p ps)
    have "fold wg_line (conf_lines p) (peers0, current0) = (save_peer current0 peers0,
        [(''name'', JStr (fst p)), (''public_key'', JStr (fst (snd p))), (''vpn_ip'', JStr (snd (snd p)))])"
      using Cons.prems by (intro wg_lines_of_peer) simp
    moreover have "save_peer [(''name'', JStr (fst p)), (''public_key'', JStr (fst (snd p))), (''vpn_ip'', JStr (snd (snd p)))]
        (save_peer current0 peers0) = save_peer current0 peers0 @ [conf_entry p]"
      by (simp add: save_peer_def conf_entry_def split_beta)
    ultimately show ?case using Cons.IH Cons.prems by simp
  qed simp
  ultimately show ?thesis by (simp add: wg_peers_def save_peer_def)
qed

theorem wireguard_listing_roundtrip_witness:
  "wg_peers (concat (map (\<lambda>l. l @ NL) (concat (map conf_lines [(''desk'', ''k/ey='', ''10.0.0.5'')])))) =
     map conf_entry [(''desk'', ''k/ey='', ''10.0.0.5'')]"
  by (rule wireguard_listing_roundtrip) (simp add: conf_ok_def plain_def)

end
