(* ===== verification/Client_Args.thy ===== *)
theory Client_Args
  imports Command_Dispatch
begin

text \<open>
  The command line client \<open>daemon send\<close> (\<open>daemon/src/ClientSender.cpp\<close> and the client mode of
  \<open>main.cpp\<close>): the arguments become the JSON object of a command, which is sent to the socket of the
  daemon, and what the daemon answers is printed. The client builds its object with \<open>ordered_json\<close>; the
  order of the members does not matter to anything the daemon does with it, so it is a sorted map here.
\<close>

subsection \<open>Values\<close>

text \<open>\<open>stoll\<close> with the rest of the text after the number; \<open>None\<close> stands for both of its exceptions,
  which the client does not tell apart.\<close>

definition stoll :: "string \<Rightarrow> (int \<times> string) option" where
  "stoll s = (case strtol s of
      None \<Rightarrow> None
    | Some i \<Rightarrow>
        if i < - (2 ^ 63) \<or> 2 ^ 63 \<le> i then None
        else Some (i, dropWhile is_digit (snd (strip_sign (dropWhile is_space s)))))"

definition arg_value :: "string \<Rightarrow> json" where
  "arg_value val = (case stoll val of
      Some (num, rest) \<Rightarrow> if rest = [] then JInt num else JStr val
    | None \<Rightarrow> JStr val)"

subsection \<open>Arguments\<close>

text \<open>The loop over the arguments; \<open>Inl\<close> when it returns early.\<close>

fun parse_args ::
  "string \<Rightarrow> string list \<Rightarrow> (string, json) omap \<Rightarrow> (string, json) omap + (string, json) omap" where
  "parse_args commandName [] j = Inr j"
| "parse_args commandName (arg # args) j =
     (if starts_with ''--'' arg then
        (case args of
           [] \<Rightarrow> Inl (om_put ''error'' (JStr ''Missing argument value.'') j)
         | val # rest \<Rightarrow> parse_args commandName rest (om_put (drop 2 arg) (arg_value val) j))
      else if commandName = ''simulateInput'' then parse_args commandName args (om_put ''key'' (JStr arg) j)
      else Inl (om_put ''error'' (JStr ''Invalid argument format.'') j))"

definition check_required :: "CommandSignature \<Rightarrow> (string, json) omap \<Rightarrow> (string, json) omap" where
  "check_required sig j =
     (if \<exists>arg \<in> set (requiredArgs sig). \<not> jcontains (JObj j) arg
      then om_put ''error'' (JStr ''Missing required argument.'') j else j)"

definition parse_client_args :: "string list \<Rightarrow> json" where
  "parse_client_args argv = (case argv of
      [] \<Rightarrow> JObj [(''error'', JStr ''No command provided.'')]
    | commandName # args \<Rightarrow>
        let j = [(''command'', JStr commandName)] in
        (case find_signature commandName of
           None \<Rightarrow> JObj (om_put ''error'' (JStr ''Unknown command.'') j)
         | Some sig \<Rightarrow>
             if args \<noteq> [] \<and> hd args \<in> {''--help'', ''-h''} then JObj (om_put ''_help_shown'' (JBool True) j)
             else (case parse_args commandName args j of
                 Inl j1 \<Rightarrow> JObj j1
               | Inr j1 \<Rightarrow> JObj (check_required sig j1))))"

definition generate_command_help :: "CommandSignature \<Rightarrow> string" where
  "generate_command_help cmd =
     ''Usage: d '' @ name cmd @ concat (map (\<lambda>arg. '' --'' @ arg @ '' <value>'') (requiredArgs cmd)) @
     (if optionalArgs cmd \<noteq> [] then '' ['' @ optionalArgs cmd @ '']'' else []) @ NL @ NL @
     (if description cmd \<noteq> [] then description cmd @ NL @ NL else []) @
     (if requiredArgs cmd \<noteq> []
      then ''Required arguments:'' @ NL @ concat (map (\<lambda>arg. ''  --'' @ arg @ NL) (requiredArgs cmd)) @ NL else []) @
     (if optionalArgs cmd \<noteq> [] then ''Optional arguments:'' @ NL @ ''  '' @ optionalArgs cmd @ NL @ NL else [])"

subsection \<open>The exchange with the daemon\<close>

text \<open>What the client finds: whether it gets a socket, whether \<open>connect\<close> succeeds, and the pieces
  \<open>read\<close> returns before it returns nothing more. A piece is printed up to its first NUL byte. The result is the exit
  code with the bytes sent and the text printed.\<close>

record client_env =
  got_socket :: bool
  connected :: bool
  reply_pieces :: "string list"

definition send_command_to_daemon :: "(json \<Rightarrow> string) \<Rightarrow> client_env \<Rightarrow> json \<Rightarrow> int \<times> string \<times> string" where
  "send_command_to_daemon dump cl jsonCmd =
     (if \<not> got_socket cl \<or> \<not> connected cl then (1, [], [])
      else (0, dump jsonCmd @ NL, concat (map (takeWhile (\<lambda>c. c \<noteq> CHR 0x00)) (reply_pieces cl))))"

text \<open>The client mode of \<open>main\<close>; \<open>argv\<close> starts after the word \<open>send\<close>. The help text is printed by
  \<open>parse_client_args\<close>.\<close>

definition help_printed :: "string list \<Rightarrow> string" where
  "help_printed argv = (case argv of
      commandName # arg # args \<Rightarrow>
        (case find_signature commandName of
           Some sig \<Rightarrow> if arg \<in> {''--help'', ''-h''} then generate_command_help sig else []
         | None \<Rightarrow> [])
    | _ \<Rightarrow> [])"

definition client_main :: "(json \<Rightarrow> string) \<Rightarrow> client_env \<Rightarrow> string list \<Rightarrow> int \<times> string \<times> string" where
  "client_main dump cl argv =
     (let cmdJson = parse_client_args argv in
      if jcontains cmdJson ''error'' then (1, [], [])
      else if jcontains cmdJson ''_help_shown'' then (0, [], help_printed argv)
      else send_command_to_daemon dump cl cmdJson)"

end
