(* ===== verification/Client_Facts.thy ===== *)
theory Client_Facts
  imports Client_Args Dispatch_Facts Settings_Commands
begin

text \<open>
  The command line client and the daemon fit together: the client refuses exactly the commands the daemon
  would refuse. The client turns every argument that is a number into a JSON number, also where the handler wants a
  text.
\<close>

subsection \<open>Values\<close>

lemma dropWhile_digits: "dropWhile is_digit (nat_to_string n) = []"
  by (simp add: dropWhile_eq_Nil_conv nat_to_string_digits)

lemma to_string_rest: "dropWhile is_digit (snd (strip_sign (dropWhile is_space (to_string i)))) = []"
proof (cases "i < 0")
  case True
  then show ?thesis by (simp add: to_string_def is_space_def strip_sign_def dropWhile_digits)
next
  case False
  have "dropWhile is_space (nat_to_string n) = nat_to_string n" for n by (simp add: dropWhile_eq_self_iff)
  moreover have "strip_sign (nat_to_string n) = (False, nat_to_string n)" for n
    using hd_nat_to_string [of n] nat_to_string_nonempty [of n]
    by (cases "nat_to_string n") (auto simp: strip_sign_def simp del: hd_nat_to_string)
  ultimately show ?thesis using False by (simp add: to_string_def dropWhile_digits)
qed

lemma arg_value_number: "- (2 ^ 63) \<le> i \<Longrightarrow> i < 2 ^ 63 \<Longrightarrow> arg_value (to_string i) = JInt i"
  by (simp add: arg_value_def stoll_def to_string_rest)

lemma arg_value_cases: "arg_value v = JStr v \<or> (\<exists>i. arg_value v = JInt i)"
  by (auto simp: arg_value_def split: option.split)

subsection \<open>Arguments\<close>

definition option_words :: "(string \<times> string) list \<Rightarrow> string list" where
  "option_words kvs = concat (map (\<lambda>(k, v). [''--'' @ k, v]) kvs)"

definition typed_args :: "string \<Rightarrow> (string \<times> string) list \<Rightarrow> (string, json) omap" where
  "typed_args n kvs = fold (\<lambda>(k, v). om_put k (arg_value v)) kvs [(''command'', JStr n)]"

lemma parse_option_words:
  "parse_args n (option_words kvs) j = Inr (fold (\<lambda>(k, v). om_put k (arg_value v)) kvs j)"
  by (induction kvs arbitrary: j) (auto simp: option_words_def)

lemma find_fold_put:
  "k \<notin> fst ` set kvs \<Longrightarrow> om_find k (fold (\<lambda>(k, v). om_put k (arg_value v)) kvs m) = om_find k m"
  by (induction kvs arbitrary: m) (auto simp: om_find_put)

text \<open>C10 (equivalence). The client and the daemon check the same thing: for a command with options the client
  reports an error exactly if the daemon would refuse the command, and otherwise sends the object with the typed
  options, with which the daemon runs the handler of the command.\<close>

theorem client_check_agrees:
  assumes keys: "\<And>k v. (k, v) \<in> set kvs \<Longrightarrow> k \<noteq> ''command'' \<and> k \<noteq> ''error'' \<and> k \<noteq> ''help''"
  shows "let j = parse_client_args (n # option_words kvs); m = JObj (typed_args n kvs) in
    (jcontains j ''error'' \<longleftrightarrow> validateCommand m \<noteq> Inr (CmdResult 0 [])) \<and>
    (\<not> jcontains j ''error'' \<longrightarrow> j = m \<and> dispatch dump run m d = (case map_of COMMAND_HANDLERS n of
        Some h \<Rightarrow> run h m d | None \<Rightarrow> (d, Inr (CmdResult 1 (''Unhandled command: '' @ dump m @ NL)))))"
proof -
  let ?m = "JObj (typed_args n kvs)"
  have "''command'' \<notin> fst ` set kvs" "''error'' \<notin> fst ` set kvs" using keys by fastforce+
  then have cmd: "jat ?m ''command'' = Inr (JStr n)" and err: "\<not> jcontains ?m ''error''"
    by (simp_all add: find_fold_put typed_args_def jat_def jcontains_def)
  have valid: "validateCommand ?m = Inr (CmdResult 0 []) \<longleftrightarrow>
      (\<exists>sig. find_signature n = Some sig \<and> (\<forall>arg \<in> set (requiredArgs sig). jcontains ?m arg))"
    using named_command [OF cmd]
    by (auto simp: validateCommand_def find_None_iff find_Some_iff split: option.split)
  have no_help: "option_words kvs \<noteq> [] \<Longrightarrow> hd (option_words kvs) \<notin> {''--help'', ''-h''}"
    using keys [of "fst (hd kvs)" "snd (hd kvs)"] by (cases kvs) (auto simp: option_words_def)
  show ?thesis
  proof (cases "find_signature n")
    case None
    then show ?thesis
      using valid by (simp add: parse_client_args_def Let_def jcontains_def om_find_put)
  next
    case (Some sig)
    have j: "parse_client_args (n # option_words kvs) = JObj (check_required sig (typed_args n kvs))"
      using no_help Some by (auto simp: parse_client_args_def Let_def parse_option_words typed_args_def)
    show ?thesis
    proof (cases "\<exists>arg \<in> set (requiredArgs sig). \<not> jcontains ?m arg")
      case True
      then show ?thesis
        using valid Some by (auto simp: j Let_def check_required_def jcontains_def om_find_put)
    next
      case False
      then have "parse_client_args (n # option_words kvs) = ?m" by (simp add: j check_required_def)
      moreover have "validateCommand ?m = Inr (CmdResult 0 [])" using valid Some False by auto
      ultimately show ?thesis
        using err named_command [OF cmd] by (simp add: Let_def dispatch_def)
    qed
  qed
qed

text \<open>Without \<open>--\<close> an argument is an error, except for \<open>simulateInput\<close>.\<close>

lemma bare_word_refused:
  "n \<noteq> ''simulateInput'' \<Longrightarrow> find_signature n \<noteq> None \<Longrightarrow> \<not> starts_with ''--'' w \<Longrightarrow> w \<noteq> ''-h'' \<Longrightarrow>
     jcontains (parse_client_args (n # w # ws)) ''error''"
  by (auto simp: parse_client_args_def Let_def jcontains_def om_find_put)

theorem client_check_agrees_witness:
  "let j = parse_client_args (''ping'' # option_words [(''n'', ''5'')]); m = JObj (typed_args ''ping'' [(''n'', ''5'')]) in
    (jcontains j ''error'' \<longleftrightarrow> validateCommand m \<noteq> Inr (CmdResult 0 [])) \<and>
    (\<not> jcontains j ''error'' \<longrightarrow> j = m \<and> dispatch (\<lambda>_. []) (\<lambda>h c d. (d, Inr (CmdResult 0 h))) m () =
      (case map_of COMMAND_HANDLERS ''ping'' of
        Some h \<Rightarrow> ((), Inr (CmdResult 0 h)) | None \<Rightarrow> ((), Inr (CmdResult 1 (''Unhandled command: '' @ [] @ NL)))))"
  by (rule client_check_agrees) auto

subsection \<open>Numbers\<close>

lemma upsertEntry_signature: "\<exists>sig. find_signature ''upsertEntry'' = Some sig \<and> requiredArgs sig = [''key'', ''value'']"
proof -
  have "map_option requiredArgs (find_signature ''upsertEntry'') = Some [''key'', ''value'']" by code_simp
  then show ?thesis by (auto simp: map_option_eq_Some)
qed

text \<open>\<open>upsertEntry\<close> from the command line stores a value that is no number, and fails on every number that fits
  into 64 bits, because the client sends it as a number and the handler reads a text.\<close>

theorem upsert_from_command_line:
  assumes "arg_value key = JStr key"
  shows "handleUpsertEntry (parse_client_args [''upsertEntry'', ''--key'', key, ''--value'', v]) d =
      (if arg_value v = JStr v
       then (setSetting key v d, Inr (CmdResult 0 (''Entry upserted to settings table'' @ NL)))
       else (d, Inl (TypeError 302))) \<and>
    (- (2 ^ 63) \<le> i \<and> i < 2 ^ 63 \<longrightarrow> arg_value (to_string i) \<noteq> JStr (to_string i))"
proof -
  obtain sig where sig: "find_signature ''upsertEntry'' = Some sig" "requiredArgs sig = [''key'', ''value'']"
    using upsertEntry_signature by blast
  have "parse_client_args [''upsertEntry'', ''--key'', key, ''--value'', v] =
      JObj (om_put ''value'' (arg_value v) (om_put ''key'' (JStr key) [(''command'', JStr ''upsertEntry'')]))"
    using sig assms by (simp add: parse_client_args_def check_required_def jcontains_def)
  moreover have "jget_string (arg_value v) = (if arg_value v = JStr v then Inr v else Inl (TypeError 302))"
    using arg_value_cases [of v] by (auto simp: jget_string_def)
  ultimately show ?thesis
    using arg_value_number [of i] by (simp add: handleUpsertEntry_def command_string_def jat_def jget_string_def)
qed


theorem upsert_from_command_line_witness:
  "handleUpsertEntry (parse_client_args [''upsertEntry'', ''--key'', ''volume'', ''--value'', ''50'']) sample_db =
     (sample_db, Inl (TypeError 302))"
proof -
  have key: "arg_value ''volume'' = JStr ''volume''" and v: "arg_value ''50'' \<noteq> JStr ''50''"
    by (simp_all add: arg_value_def stoll_def strtol_def strip_sign_def is_space_def is_digit_def digit_val_def)
  show ?thesis using upsert_from_command_line [OF key, of "''50''" sample_db] v by (simp only: if_False)
qed

end
