(* ===== verification/System_Facts.thy ===== *)
theory System_Facts
  imports Daemon_Commands Client_Facts App_Facts
begin

text \<open>
  Facts about the daemon as a whole: which commands its table answers, what a client gets back that sets
  and then asks for a port, what survives a restart, which browser tab is taken for the active one, and that no command
  ever starts the input mapper.
\<close>

subsection \<open>The table\<close>

lemma handler_table_names:
  "map fst (handler_table env) = map fst (system_handlers env) @ map fst (record_handlers env) @
     map fst (app_handlers (dv_os (sy_desk env))) @ map fst (peer_handlers env (dv_os (sy_desk env)))"
  by (simp add: handler_table_def comp_def split_beta)

lemmas table_defs = system_handlers_def record_handlers_def app_handlers_def peer_handlers_def

text \<open>Rules to compare literal strings; the tables are too long for the full simplifier.\<close>

lemmas literal_simps = list.map fst_conv snd_conv list.inject char.inject list.distinct simp_thms if_True if_False

lemma every_handler_modelled:
  "set (map snd COMMAND_HANDLERS) \<subseteq> insert ''handleGetAppPeers'' (set (map fst (handler_table env)))"
  unfolding handler_table_names COMMAND_HANDLERS_def table_defs
  by (simp only: list.map fst_conv snd_conv list.set insert_subset empty_subsetI append.simps)
     (simp only: insert_iff empty_iff list.inject char.inject list.distinct simp_thms)

lemma run_ports:
  "system_run env ''handleSetPort'' = on_port (dv_os (sy_desk env)) ''setPort'' id handleSetPort"
  "system_run env ''handleGetPort'' = on_port (dv_os (sy_desk env)) ''getPort'' id handleGetPort"
  unfolding system_run_def handler_table_def table_defs append.simps list.map
  by (simp_all only: literal_simps map_of.simps fun_upd_apply option.case split_conv)

lemma port_signatures:
  "map_option requiredArgs (find_signature ''setPort'') = Some [''key'', ''value'']"
  "map_option requiredArgs (find_signature ''getPort'') = Some [''key'']"
  by code_simp+

lemma port_handlers:
  "map_of COMMAND_HANDLERS ''setPort'' = Some ''handleSetPort''" "map_of COMMAND_HANDLERS ''getPort'' = Some ''handleGetPort''"
  unfolding COMMAND_HANDLERS_def by (simp_all only: literal_simps map_of.simps fun_upd_apply)

lemma execute_handled:
  assumes "jat command ''command'' = Inr (JStr n)" "find_signature n = Some sig" "map_of COMMAND_HANDLERS n = Some h"
    and "\<And>arg. arg \<in> set (requiredArgs sig) \<Longrightarrow> jcontains command arg"
    and "system_run env h command (dt\<lparr>dt_daemon := (dt_daemon dt)\<lparr>dm_clientSocket := fd\<rparr>\<rparr>) = (dt', Inr res)"
  shows "execute env fd command dt = (dt', Inr (end_with_newline (message res), return_code n))"
proof -
  have "missing_arg command n = None" using assms(2,4) by (auto simp: missing_arg_def find_None_iff)
  then show ?thesis
    using assms named_command [OF assms(1)] by (simp add: execute_def mainCommand_def dispatch_named caught_def)
qed

subsection \<open>A daemon that has just been started\<close>

definition quiet_clock :: ev_env where
  "quiet_clock = \<lparr>clk_context = 0, clk_macros = 0, clk_match = (\<lambda>n. 0), hw_pressed = (\<lambda>n. False),
     poll_time = (\<lambda>n. 0), grab_kbd_ok = True, grab_mouse_ok = True\<rparr>"

definition quiet_desk :: desk_env where
  "quiet_desk = \<lparr>dv_os = quiet_os, dv_grab = quiet_clock, dv_clear = (\<lambda>n. True), dv_now = 0, dv_tabs = (\<lambda>h. None),
     dv_dirs = init_directories (\<lambda>p. False) None\<rparr>"

definition quiet_system :: sys_env where
  "quiet_system = \<lparr>sy_desk = quiet_desk, sy_isdir = (\<lambda>p. Inr True),
     sy_port_os = \<lparr>os_exec = (\<lambda>c. []), os_system = (\<lambda>c. 0), os_socket_ok = True, os_bind_ok = True,
       os_getsockname_ok = True, os_free_port = 5000, os_port_file_ok = True\<rparr>,
     sy_child = (\<lambda>c. \<lparr>ch_pipe_error = None, ch_fork_error = None, ch_events = [], ch_exit = Some 0\<rparr>),
     sy_pipe = (\<lambda>h c. None), sy_errno = [], sy_printed = None,
     sy_other = (\<lambda>n. on_daemon (\<lambda>command s. (s, Inr (CmdResult 0 []))))\<rparr>"

definition fresh_desktop :: desktop where
  "fresh_desktop = \<lparr>dt_daemon = sample_daemon, dt_mapper = initial_mapper, dt_limiter = \<lparr>lastEventTime = 0, eventCount = 0\<rparr>,
     dt_windowSocket = - 1, dt_tabUrl = [], dt_nativeHost = - 1, dt_syncSocket = - 1, dt_keyboardEnabled = True\<rparr>"

lemma fresh_desktop_simps [simp]:
  "dt_daemon fresh_desktop = sample_daemon" "dt_mapper fresh_desktop = initial_mapper"
  "isLeader sample_daemon" "db_conn sample_db"
  by (simp_all add: fresh_desktop_def sample_daemon_def isLeader_def sample_db_def)

subsection \<open>Ports from the command line\<close>

lemma on_port_leader:
  assumes "isLeader (dt_daemon dt)" "command = JObj m"
    and "h \<lparr>pl_isLeader = True, pl_connected = isConnectedToLeader (dt_daemon dt), pl_connect = False,
        pl_write_ok = False, pl_reply = (\<lambda>j. None)\<rparr> command (dm_db (dt_daemon dt)) = (d, r)"
  shows "on_port env cmdName id h command dt = (dt\<lparr>dt_daemon := (dt_daemon dt)\<lparr>dm_db := d\<rparr>\<rparr>, r)"
  using assms by (simp add: on_port_def on_daemon_def jput_def link_to_leader_def Let_def)

text \<open>C8 (roundtrip). On the leader a port set from the command line is printed by \<open>getPort\<close> from the command line: through the
  parsing of the arguments, the dispatcher, the handlers and the settings table.\<close>

theorem port_from_command_line:
  assumes "isLeader (dt_daemon dt)" "db_conn (dm_db (dt_daemon dt))" "arg_value k = JStr k"
    and "fits 255 (''port_'' @ k)" "fits text_max (to_string p)" "- (2 ^ 63) \<le> p" "p < 2 ^ 63"
  shows "let (dt1, r1) = execute env fd1 (parse_client_args [''setPort'', ''--key'', k, ''--value'', to_string p]) dt;
      (dt2, r2) = execute env fd2 (parse_client_args [''getPort'', ''--key'', k]) dt1
    in r1 = Inr (''Port set for '' @ k @ '' to '' @ to_string p @ NL, 1) \<and> r2 = Inr (to_string p @ NL, 1)"
proof -
  let ?s = "JObj (om_put ''value'' (JInt p) (om_put ''key'' (JStr k) [(''command'', JStr ''setPort'')]))"
  let ?g = "JObj (om_put ''key'' (JStr k) [(''command'', JStr ''getPort'')])"
  obtain sg gg where sig: "find_signature ''setPort'' = Some sg" "requiredArgs sg = [''key'', ''value'']"
      "find_signature ''getPort'' = Some gg" "requiredArgs gg = [''key'']"
    using port_signatures by (auto simp: map_option_eq_Some)
  have args: "parse_client_args [''setPort'', ''--key'', k, ''--value'', to_string p] = ?s"
      "parse_client_args [''getPort'', ''--key'', k] = ?g"
    using sig assms(3,6,7) by (simp_all add: parse_client_args_def check_required_def jcontains_def arg_value_number)
  let ?d = "dm_db (dt_daemon dt)"
  define d1 where "d1 = setSetting (''port_'' @ k) (to_string p) ?d"
  define dt1 where "dt1 = dt\<lparr>dt_daemon := (dt_daemon dt)\<lparr>dm_clientSocket := fd1, dm_db := d1\<rparr>\<rparr>"
  have v: "port_value ?s = Inr (to_string p)"
    using assms(6,7) by (simp add: port_value_def json_access_defs signed_take_bit_int_eq_self)
  have set: "execute env fd1 ?s dt = (dt1, Inr (''Port set for '' @ k @ '' to '' @ to_string p @ NL, 1))"
  proof (subst execute_handled [where n = "''setPort''" and h = "''handleSetPort''" and sig = sg and dt' = dt1])
    show "system_run env ''handleSetPort'' ?s (dt\<lparr>dt_daemon := (dt_daemon dt)\<lparr>dm_clientSocket := fd1\<rparr>\<rparr>) =
        (dt1, Inr (CmdResult 0 (''Port set for '' @ k @ '' to '' @ to_string p @ NL)))"
      unfolding run_ports using assms(1) v
      by (subst on_port_leader [where d = d1]) (simp_all add: isLeader_def handleSetPort_def forwarded_leader
        command_string_def jat_def jget_string_def d1_def dt1_def)
  qed (use sig port_handlers in \<open>auto simp: jat_def jcontains_def end_with_newline_def return_code_def
    keep_open_commands_def slow_commands_def\<close>)
  have found: "getSetting (''port_'' @ k) d1 = to_string p"
    using settings_kv.get_put [of ?d "''port_'' @ k" "to_string p" "''port_'' @ k"] assms(2,4,5) by (simp add: d1_def)
  have "execute env fd2 ?g dt1 = (dt1\<lparr>dt_daemon := (dt_daemon dt1)\<lparr>dm_clientSocket := fd2\<rparr>\<rparr>, Inr (to_string p @ NL, 1))"
  proof (subst execute_handled [where n = "''getPort''" and h = "''handleGetPort''" and sig = gg])
    show "system_run env ''handleGetPort'' ?g (dt1\<lparr>dt_daemon := (dt_daemon dt1)\<lparr>dm_clientSocket := fd2\<rparr>\<rparr>) =
        (dt1\<lparr>dt_daemon := (dt_daemon dt1)\<lparr>dm_clientSocket := fd2\<rparr>\<rparr>, Inr (CmdResult 0 (to_string p @ NL)))"
      unfolding run_ports using assms(1) found
      by (subst on_port_leader [where d = d1]) (simp_all add: isLeader_def handleGetPort_def forwarded_leader
        command_string_def jat_def jget_string_def dt1_def)
  qed (use sig port_handlers in \<open>auto simp: jat_def jcontains_def end_with_newline_def return_code_def
    keep_open_commands_def slow_commands_def\<close>)
  with set show ?thesis by (simp add: args)
qed

theorem port_from_command_line_witness:
  "let (dt1, r1) = execute quiet_system 7 (parse_client_args [''setPort'', ''--key'', ''cad'', ''--value'', to_string 9000])
        fresh_desktop;
      (dt2, r2) = execute quiet_system 8 (parse_client_args [''getPort'', ''--key'', ''cad'']) dt1
    in r1 = Inr (''Port set for '' @ ''cad'' @ '' to '' @ to_string 9000 @ NL, 1) \<and> r2 = Inr (to_string 9000 @ NL, 1)"
proof (rule port_from_command_line)
  show "arg_value ''cad'' = JStr ''cad''"
    by (simp add: arg_value_def stoll_def strtol_def strip_sign_def is_space_def is_digit_def)
  show "fits 255 (''port_'' @ ''cad'')" "fits text_max (to_string (9000 :: int))"
    by (simp_all add: fits_def to_string_def nat_to_string.simps)
qed simp_all

subsection \<open>Logging\<close>

lemma stoul_to_string: "0 \<le> i \<Longrightarrow> i < 2 ^ 64 \<Longrightarrow> stoul (to_string i) = Inr (word_of_int i)"
  by (simp add: stoul_def)

lemma narrow_mask: "ucast (ucast (w :: 32 word) :: 64 word) = w"
  by (rule bit_word_eqI) (auto simp: bit_ucast_iff)

lemma send_mask_db [simp]:
  "dm_db (dt_daemon (send_mask env fd dt)) = dm_db (dt_daemon dt)"
  "dm_shouldLog (dt_daemon (send_mask env fd dt)) = dm_shouldLog (dt_daemon dt)"
  by (simp_all add: send_mask_def write_fd_def os_do_def)

text \<open>The logging mask a client sets is the one in force, and the daemon finds it again when it is restarted; a value
  the command refuses changes nothing.\<close>

theorem log_mask_survives_restart:
  assumes "db_conn (dm_db (dt_daemon dt))" "fits text_max (to_string (uint (dm_shouldLog (dt_daemon dt1))))"
    and "handleShouldLog env command dt = (dt1, Inr res)"
  shows "if status res = 0
    then dm_shouldLog (dt_daemon (restore_state env dt1)) = dm_shouldLog (dt_daemon dt1) \<and>
         message res = ''Logging mask set to: '' @ to_string (uint (dm_shouldLog (dt_daemon dt1))) @ NL
    else dt1 = dt"
proof (cases "log_mask command")
  case (Inr r)
  show ?thesis
  proof (cases r)
    case (Inl res')
    moreover have "status res' = 1"
      using \<open>log_mask command = Inr r\<close> Inl
      by (auto simp: log_mask_def try_result_def split: sum.splits json.splits if_splits)
    ultimately show ?thesis using Inr assms(3) by (simp add: handleShouldLog_def)
  next
    case (Inr logMask)
    let ?d = "setSetting ''shouldLogState'' (to_string (uint logMask)) (dm_db (dt_daemon dt))"
    have dt1: "dm_shouldLog (dt_daemon dt1) = logMask" "dm_db (dt_daemon dt1) = ?d"
        "res = CmdResult 0 (''Logging mask set to: '' @ to_string (uint logMask) @ NL)"
      using \<open>log_mask command = Inr r\<close> Inr assms(3) by (auto simp: handleShouldLog_def Let_def answer_def)
    have "getSetting ''shouldLogState'' ?d = to_string (uint logMask)"
      using settings_kv.get_put [of "dm_db (dt_daemon dt)" "''shouldLogState''" "to_string (uint logMask)" "''shouldLogState''"]
        assms(1,2) by (simp add: dt1 fits_def)
    moreover have "uint logMask < 2 ^ 64" using uint_bounded [of logMask] by simp
    ultimately have "restore_mask ?d = logMask"
      by (simp add: restore_mask_def Let_def stoul_to_string narrow_mask)
    then show ?thesis by (simp add: restore_state_def Let_def dt1)
  qed
qed (use assms(3) in \<open>simp add: handleShouldLog_def\<close>)

lemma switch_logging_off:
  "\<exists>dt1. handleShouldLog env (JObj [(''enable'', JStr ''false'')]) dt =
      (dt1, Inr (CmdResult 0 (''Logging mask set to: '' @ to_string 0 @ NL))) \<and> dm_shouldLog (dt_daemon dt1) = 0"
  by (simp add: handleShouldLog_def log_mask_def try_result_def jat_def answer_def Let_def)

theorem log_mask_survives_restart_witness:
  "dm_shouldLog (dt_daemon (restore_state quiet_desk
     (fst (handleShouldLog quiet_desk (JObj [(''enable'', JStr ''false'')]) fresh_desktop)))) = 0"
proof -
  obtain dt1 where set: "handleShouldLog quiet_desk (JObj [(''enable'', JStr ''false'')]) fresh_desktop =
      (dt1, Inr (CmdResult 0 (''Logging mask set to: '' @ to_string 0 @ NL)))" "dm_shouldLog (dt_daemon dt1) = 0"
    using switch_logging_off by blast
  have conn: "db_conn (dm_db (dt_daemon fresh_desktop))" unfolding fresh_desktop_simps sample_daemon_db by (rule fresh_desktop_simps)
  have "fits text_max (to_string (uint (dm_shouldLog (dt_daemon dt1))))"
    by (simp add: set(2) fits_def to_string_def nat_to_string.simps)
  from log_mask_survives_restart [OF conn this set(1)] show ?thesis
    unfolding set fst_conv by simp
qed

subsection \<open>The active tab\<close>

definition ordinary_page :: "string \<times> string \<times> string \<Rightarrow> bool" where
  "ordinary_page = (\<lambda>(kind, url, title). is_page kind url \<and> \<not> contains_str ''chrome://'' url)"

definition tab_url :: "string \<times> string \<times> string \<Rightarrow> string" where
  "tab_url = (\<lambda>(kind, url, title). url)"

definition first_page_url :: "(string \<times> string \<times> string) list \<Rightarrow> string" where
  "first_page_url tabs = (case find (\<lambda>(kind, url, title). is_page kind url \<and> url \<noteq> []) tabs of
      Some tab \<Rightarrow> tab_url tab | None \<Rightarrow> [])"

definition last_ordinary_url :: "string \<Rightarrow> (string \<times> string \<times> string) list \<Rightarrow> string" where
  "last_ordinary_url dflt tabs = last (dflt # map tab_url (filter ordinary_page tabs))"

lemma last_ordinary_url_Cons:
  "last_ordinary_url real ((kind, url, title) # tabs) =
     last_ordinary_url (if is_page kind url \<and> \<not> contains_str ''chrome://'' url then url else real) tabs"
  by (simp add: last_ordinary_url_def ordinary_page_def tab_url_def)

text \<open>The loop over the tabs takes the first page whose title fits the title of the window; if there is none, the last
  page with an ordinary address, and otherwise the first page that has an address.\<close>

theorem tab_choice_reference:
  "pick_tab t tabs [] [] = (case find (\<lambda>(kind, url, title). is_page kind url \<and> title_fits t title) tabs of
      Some tab \<Rightarrow> tab_url tab
    | None \<Rightarrow> if last_ordinary_url [] tabs \<noteq> [] then last_ordinary_url [] tabs else first_page_url tabs)"
proof -
  have "pick_tab t tabs fb real = (case find (\<lambda>(kind, url, title). is_page kind url \<and> title_fits t title) tabs of
      Some tab \<Rightarrow> tab_url tab
    | None \<Rightarrow> if last_ordinary_url real tabs \<noteq> [] then last_ordinary_url real tabs
        else if fb \<noteq> [] then fb else first_page_url tabs)" for fb real
  proof (induction tabs arbitrary: fb real)
    case Nil
    then show ?case by (simp add: last_ordinary_url_def first_page_url_def)
  next
    case (Cons tab tabs)
    obtain kind url title where tab: "tab = (kind, url, title)" by (cases tab)
    show ?case
      by (cases "is_page kind url"; cases "title_fits t title"; cases "url = []")
        (simp_all add: tab Cons.IH last_ordinary_url_Cons first_page_url_def tab_url_def split: option.split)
  qed
  then show ?thesis by simp
qed

subsection \<open>The input mapper stays off\<close>

definition input_disabled :: "mapper \<Rightarrow> bool" where
  "input_disabled m \<longleftrightarrow> \<not> running m \<and> \<not> uinputDev m \<and> \<not> kbdGrabbed m \<and> \<not> mouseGrabbed m \<and> out m = []"

lemma no_device_no_output [simp]:
  assumes "\<not> uinputDev m"
  shows "emit t c v m = m" "emitNoSync t c v m = m" "sync m = m" "emit_sync t c v m = m"
  using assms by (simp_all add: emit_def emitNoSync_def sync_def emit_sync_def write_raw_def)

lemma fold_same: "(\<And>x. x \<in> set xs \<Longrightarrow> f x m = m) \<Longrightarrow> fold f xs m = m"
  by (induction xs) auto

lemma typed_nothing: "\<not> uinputDev m \<Longrightarrow> typeString str m = m"
  by (auto simp: typeString_def typeChar_def Let_def split: option.split prod.split intro!: fold_same)

lemma app_switch_nothing: "\<not> uinputDev m \<Longrightarrow> app_switch c m = m" "\<not> uinputDev m \<Longrightarrow> numlock_event v m = m"
  by (simp_all add: app_switch_def numlock_event_def)

lemma key_nothing: "\<not> uinputDev m \<Longrightarrow> fst (simulate_key k m) = m"
  by (simp add: simulate_key_def app_switch_nothing split: prod.split option.split)

lemma raw_nothing: "\<not> uinputDev m \<Longrightarrow> snd (simulate_raw now t c v (l, m)) = m"
  by (simp add: simulate_raw_def)

lemma simulated_nothing:
  assumes "\<not> uinputDev m"
  shows "snd (fst (handleSimulateInput now command (l, m))) = m"
  using typed_nothing [OF assms] key_nothing [OF assms] raw_nothing [OF assms]
  by (simp add: handleSimulateInput_def Let_def split: sum.split prod.split) (metis fst_conv)

lemma released_disabled: "input_disabled m \<Longrightarrow> input_disabled (releaseAllPressedKeys m)"
proof -
  assume dis: "input_disabled m"
  have claims: "input_disabled (fold (\<lambda>i m. snd (registry_claim i m)) is m)" for "is"
    using dis by (induction "is" arbitrary: m) (auto simp: input_disabled_def registry_claim_def split_beta)
  have "input_disabled m2 \<Longrightarrow> fold (\<lambda>c m. emit EV_KEY c 0 m) cs m2 = m2" for cs m2
    by (rule fold_same) (simp add: input_disabled_def)
  then show ?thesis
    using claims by (simp add: releaseAllPressedKeys_def Let_def input_disabled_def)
qed

definition keeps_off :: "desk_handler \<Rightarrow> bool" where
  "keeps_off h \<longleftrightarrow> (\<forall>command dt. input_disabled (dt_mapper dt) \<longrightarrow> input_disabled (dt_mapper (fst (h command dt))))"

lemma keeps_offI: "(\<And>command dt. dt_mapper (fst (h command dt)) = dt_mapper dt) \<Longrightarrow> keeps_off h"
  by (simp add: keeps_off_def)

lemma keeps_daemon: "keeps_off (on_daemon h)"
  by (rule keeps_offI) (simp add: on_daemon_def split_beta)

lemma keeps_answer: "dt_mapper (fst (answer st msg dt)) = dt_mapper dt"
  by (simp add: answer_def)

lemma keeps_with:
  "(\<And>x. dt_mapper (fst (f x)) = dt_mapper dt) \<Longrightarrow> dt_mapper (fst (dt_with dt r f)) = dt_mapper dt"
  by (cases r) simp_all

lemma keeps_context: "input_disabled (dt_mapper dt) \<Longrightarrow> input_disabled (dt_mapper (kb_setContext app url title dt))"
  using released_disabled by (auto simp: kb_setContext_def setContext_def input_disabled_def)

lemma keeps_run: "dt_mapper (fst (run_and_print env cmd dt)) = dt_mapper dt"
  by (simp add: run_and_print_def keeps_answer split_beta)

lemma keeps_send: "dt_mapper (send_mask env fd dt) = dt_mapper dt"
  by (simp add: send_mask_def)

lemma keeps_extension: "dt_mapper (fst (to_extension env msg n r dt)) = dt_mapper dt"
  by (simp add: to_extension_def keeps_answer Let_def split: prod.split read_reply.split)

lemma keeps_rescue: "dt_mapper (fst (rescue env msg e dt)) = dt_mapper dt"
  by (simp add: rescue_def keeps_answer)

lemmas keeps_same = keeps_answer keeps_with keeps_run keeps_send keeps_extension keeps_rescue

lemma plain_handlers_keep_off:
  "keeps_off handleHelp" "keeps_off handlePing" "keeps_off (handleVersion env)" "keeps_off handleQuit"
  "keeps_off (handleGetDir env)" "keeps_off (handleGetFile env)" "keeps_off handleGetSocketPath" "keeps_off handleListCommands"
  "keeps_off (handleTestLsof env)" "keeps_off (handleTestEcho env)" "keeps_off (handleTestLsofScript env)"
  "keeps_off handleGetKeyboardPath" "keeps_off handleGetMousePath" "keeps_off handleGetKeyboard"
  "keeps_off handleDisableKeyboard" "keeps_off handleEnableKeyboard" "keeps_off (handleGetMacros env)"
  by (rule keeps_offI, simp add: handleHelp_def handlePing_def handleVersion_def handleQuit_def handleGetDir_def handleGetFile_def
    handleGetSocketPath_def handleListCommands_def handleTestLsof_def handleTestEcho_def handleTestLsofScript_def
    handleGetKeyboardPath_def handleGetMousePath_def device_path_answer_def handleGetKeyboard_def handleDisableKeyboard_def
    handleEnableKeyboard_def handleGetMacros_def keeps_same Let_def split: option.split prod.split)+

lemma log_handlers_keep_off:
  "keeps_off (handleShouldLog env)" "keeps_off handleGetShouldLog" "keeps_off handleRegisterLogListener"
  "keeps_off (handleGetEventFilters env)" "keeps_off handleRegisterWindowExtension" "keeps_off (handleListWindows env)"
  "keeps_off (handleActivateWindow env)" "keeps_off (handleGetActiveContext env)" "keeps_off (handleRegisterNativeHost env)"
  "keeps_off (handleFocusChatGPT env)"
  by (rule keeps_offI, simp add: handleShouldLog_def handleGetShouldLog_def handleRegisterLogListener_def handleGetEventFilters_def
    handleRegisterWindowExtension_def handleListWindows_def handleActivateWindow_def handleGetActiveContext_def
    handleRegisterNativeHost_def handleFocusChatGPT_def triggerChromeChatGPTFocus_def keeps_same Let_def
    split: sum.split prod.split)+

lemma window_keeps_off: "keeps_off (onActiveWindowChanged env)"
  unfolding keeps_off_def by (auto simp: onActiveWindowChanged_def dt_with_def answer_def keeps_context split: sum.split)

lemma toggle_keeps_off: "keeps_off (handleToggleKeyboard env)"
  unfolding keeps_off_def
  by (auto simp: handleToggleKeyboard_def setKeyboard_def dt_with_def answer_def stop_def ungrabDevices_def
    input_disabled_def Let_def split: sum.split)

lemma simulate_keeps_off: "keeps_off (desk_simulateInput env)"
  unfolding keeps_off_def
proof (intro allI impI)
  fix command and dt :: desktop
  assume "input_disabled (dt_mapper dt)"
  then have "snd (fst (handleSimulateInput (dv_now env) command (dt_limiter dt, dt_mapper dt))) = dt_mapper dt"
    by (intro simulated_nothing) (simp add: input_disabled_def)
  then show "input_disabled (dt_mapper (fst (desk_simulateInput env command dt)))"
    using \<open>input_disabled (dt_mapper dt)\<close> by (simp add: desk_simulateInput_def split_beta)
qed

lemma other_mapper_handlers_keep_off:
  "keeps_off (handleTestIntegrity env printed)" "keeps_off (handleUpdateMacros env)" "keeps_off (handleSetEventFilters env)"
  "keeps_off handleSetActiveTabUrl" "keeps_off handleFocusAck"
proof -
  show "keeps_off (handleTestIntegrity env printed)"
    unfolding keeps_off_def by (auto simp: handleTestIntegrity_def answer_def loopback_events_def input_disabled_def split: option.split)
  show "keeps_off (handleUpdateMacros env)"
    unfolding keeps_off_def
    by (auto simp: handleUpdateMacros_def rescue_def answer_def setMacrosFromJson_def setMacrosFromJsonInternal_def Let_def
      input_disabled_def split: sum.split prod.split)
  show "keeps_off (handleSetEventFilters env)"
    unfolding keeps_off_def
    by (auto simp: handleSetEventFilters_def rescue_def answer_def setEventFilters_def setEventFiltersInternal_def
      input_disabled_def Let_def split: sum.split)
  show "keeps_off handleSetActiveTabUrl"
    unfolding keeps_off_def by (auto simp: handleSetActiveTabUrl_def dt_with_def answer_def keeps_context split: sum.split)
  show "keeps_off handleFocusAck"
    unfolding keeps_off_def by (auto simp: handleFocusAck_def answer_def onFocusAck_def input_disabled_def)
qed

lemmas system_keeps_off = plain_handlers_keep_off log_handlers_keep_off window_keeps_off toggle_keeps_off
  simulate_keeps_off other_mapper_handlers_keep_off

lemma table_keeps_off: "(n, h) \<in> set (handler_table env) \<Longrightarrow> keeps_off h"
proof -
  have "list_all keeps_off (map snd (system_handlers env))"
    unfolding system_handlers_def handleSetKeyboard_def handleActiveWindowChanged_def
    by (simp only: list.map snd_conv list.pred_inject system_keeps_off simp_thms)
  moreover have "list_all keeps_off (map snd (record_handlers env))"
    unfolding record_handlers_def on_db_def on_terminals_def on_port_def
    by (simp only: list.map snd_conv list.pred_inject keeps_daemon simp_thms)
  ultimately show "(n, h) \<in> set (handler_table env) \<Longrightarrow> keeps_off h"
    by (auto simp: handler_table_def list_all_iff keeps_daemon)
qed

text \<open>Every sequence of commands, from any clients, in any environments. What stands for \<open>handleGetAppPeers\<close> works on
  the shared state only.\<close>

inductive serves :: "desktop \<Rightarrow> desktop \<Rightarrow> bool" for dt0 where
  started: "serves dt0 dt0"
| served: "serves dt0 dt \<Longrightarrow> \<forall>n. \<exists>h. sy_other env n = on_daemon h \<Longrightarrow> execute env fd command dt = (dt', r) \<Longrightarrow> serves dt0 dt'"

lemma run_keeps_off: "\<forall>n. \<exists>h. sy_other env n = on_daemon h \<Longrightarrow> keeps_off (system_run env n)"
  using table_keeps_off keeps_daemon by (auto simp: system_run_def dest!: map_of_SomeD split: option.split) metis

text \<open>C9 (invariant). No sequence of commands starts the input mapper of a daemon that has none running: no device is grabbed, no event
  is written, and \<open>simulateInput\<close> leaves the mapper as it was, whatever it answers.\<close>

theorem input_stays_disabled:
  assumes "serves dt0 dt" "input_disabled (dt_mapper dt0)"
  shows "input_disabled (dt_mapper dt)"
  using assms
proof (induction rule: serves.induct)
  case (served dt env fd command dt' r)
  let ?dt = "dt\<lparr>dt_daemon := (dt_daemon dt)\<lparr>dm_clientSocket := fd\<rparr>\<rparr>"
  have "input_disabled (dt_mapper (fst (dispatch (on_dump (dv_os (sy_desk env))) (system_run env) command ?dt)))"
    using served run_keeps_off [OF served.hyps(2)] by (auto simp: dispatch_def keeps_off_def split: sum.split option.split)
  then show ?case
    using served by (auto simp: execute_def mainCommand_def Let_def split_beta split: sum.splits if_splits)
qed

theorem input_stays_disabled_witness:
  "serves fresh_desktop (fst (execute quiet_system 7 (JObj [(''command'', JStr ''toggleKeyboard'')]) fresh_desktop)) \<and>
   input_disabled (dt_mapper (fst (execute quiet_system 7 (JObj [(''command'', JStr ''toggleKeyboard'')]) fresh_desktop)))"
proof -
  have other: "\<forall>n. \<exists>h. sy_other quiet_system n = on_daemon h" by (auto simp: quiet_system_def)
  have "serves fresh_desktop (fst (execute quiet_system 7 (JObj [(''command'', JStr ''toggleKeyboard'')]) fresh_desktop))"
    by (rule served [OF started other]) (rule surjective_pairing)
  moreover have "input_disabled (dt_mapper fresh_desktop)"
    by (simp add: input_disabled_def initial_mapper_def)
  ultimately show ?thesis using input_stays_disabled by blast
qed

end
