(* ===== verification/Daemon_Startup.thy ===== *)
theory Daemon_Startup
  imports Daemon_Commands Daemon_Server
begin

text \<open>
  Start and end of the daemon: \<open>MySQLManager.cpp\<close> without the tables, the functions of \<open>DaemonServer.cpp\<close>
  before and after the loop, and the daemon mode of \<open>main.cpp\<close> (all under \<open>daemon/src\<close>).

  What these functions do outside the shared state is a list of calls in order. What the system answers is a record;
  an answer that can change with time is a function of the number of looks or of the seconds gone. Messages and the
  directory of the socket are left out, and so are exceptions of the file system library.
\<close>

datatype start_call =
    CopyServer
  | WriteConf string
  | InitDataDir string
  | KillPid int
  | RemovePidFile
  | ForkServer string
  | WaitTick
  | CreateSchema int
  | OpenSocket int
  | CloseSocket int
  | UnlinkSocket
  | BindSocket int bool
  | ListenSocket int bool
  | OpenDevice string

subsection \<open>The database server\<close>

record mysql_env =
  my_binary_exists :: bool
  my_port_socket :: bool
  my_port_bind :: bool
  my_port_name :: bool
  my_os_port :: int
  my_data_exists :: bool
  my_user :: "string option"
  my_is_root :: bool
  my_pid_file :: "string option"
  my_pid_file_at_stop :: "string option"
  my_alive :: "int \<Rightarrow> bool"
  my_fork :: int
  my_socket_at :: "nat \<Rightarrow> bool"

record mysql =
  mysqlPid :: int
  mysqlPort :: int
  my_calls :: "start_call list"

definition findFreePort :: "mysql_env \<Rightarrow> int" where
  "findFreePort env =
     (if \<not> my_port_socket env \<or> \<not> my_port_bind env \<or> \<not> my_port_name env then 3307 else my_os_port env)"

definition generateMySQLConfigFile :: "int \<Rightarrow> string \<Rightarrow> string \<Rightarrow> string" where
  "generateMySQLConfigFile port dataDir sock =
     ''[mysqld]'' @ NL @ ''datadir='' @ dataDir @ ''/data'' @ NL @ ''socket='' @ sock @ NL @
     ''port='' @ to_string port @ NL @ ''log-error='' @ dataDir @ ''/logs/error.log'' @ NL @
     ''pid-file='' @ dataDir @ ''/mysqld.pid'' @ NL @ ''lc-messages-dir=/usr/share/mysql'' @ NL @
     ''skip-networking=0'' @ NL @ ''bind-address=127.0.0.1'' @ NL"

definition server_user :: "mysql_env \<Rightarrow> string" where
  "server_user env = (if my_is_root env then ''root'' else case my_user env of Some u \<Rightarrow> u | None \<Rightarrow> ''root'')"

definition initializeMySQLDataDir :: "mysql_env \<Rightarrow> string \<Rightarrow> string \<Rightarrow> start_call" where
  "initializeMySQLDataDir env mysqldPath configFile =
     InitDataDir (mysqldPath @ '' --defaults-file='' @ configFile @ '' --initialize-insecure --user='' @ server_user env @ '' 2>&1'')"

definition startMySQLServer :: "mysql_env \<Rightarrow> string \<Rightarrow> string \<Rightarrow> mysql \<Rightarrow> mysql" where
  "startMySQLServer env mysqldPath configFile st =
     (let cmd = mysqldPath @ '' --defaults-file='' @ configFile @ '' --user '' @ server_user env;
          st1 = st\<lparr>my_calls := my_calls st @ [ForkServer cmd]\<rparr>
      in if my_fork env > 0 then st1\<lparr>mysqlPid := my_fork env\<rparr> else st1)"

text \<open>The process of a file with a number, if it is alive, is ended; the file goes in any case.\<close>

definition kill_from_file :: "mysql_env \<Rightarrow> string option \<Rightarrow> start_call list" where
  "kill_from_file env contents = (case contents of
      None \<Rightarrow> []
    | Some t \<Rightarrow> (case stoi t of Inr p \<Rightarrow> if my_alive env p then [KillPid p] else [] | Inl e \<Rightarrow> []) @ [RemovePidFile])"

text \<open>The wait for the socket: the number of ticks waited, at most \<open>n\<close> more.\<close>

fun wait_for_server :: "mysql_env \<Rightarrow> nat \<Rightarrow> nat \<Rightarrow> nat" where
  "wait_for_server env 0 ticks = ticks"
| "wait_for_server env (Suc n) ticks = (if my_socket_at env ticks then ticks else wait_for_server env n (Suc ticks))"

definition initializeAndStartMySQL :: "string \<Rightarrow> mysql_env \<Rightarrow> mysql \<Rightarrow> mysql" where
  "initializeAndStartMySQL base env st =
     (let baseDir = base @ ''data/mysql''; targetMysqld = baseDir @ ''/bin/mysqld''; configFile = baseDir @ ''/conf/my.cnf'';
          port = findFreePort env;
          calls = (if my_binary_exists env then [] else [CopyServer]) @
            [WriteConf (generateMySQLConfigFile port baseDir (baseDir @ ''/mysql.sock''))] @
            (if my_data_exists env then [] else [initializeMySQLDataDir env targetMysqld configFile]) @
            kill_from_file env (my_pid_file env);
          st1 = startMySQLServer env targetMysqld configFile (st\<lparr>mysqlPort := port, my_calls := my_calls st @ calls\<rparr>);
          ticks = wait_for_server env 50 0
      in st1\<lparr>my_calls := my_calls st1 @ replicate ticks WaitTick @ (if my_socket_at env ticks then [CreateSchema port] else [])\<rparr>)"

definition stopMySQL :: "mysql_env \<Rightarrow> mysql \<Rightarrow> mysql" where
  "stopMySQL env st =
     (let st1 = (if mysqlPid st > 0 then st\<lparr>my_calls := my_calls st @ [KillPid (mysqlPid st)], mysqlPid := - 1\<rparr> else st)
      in st1\<lparr>my_calls := my_calls st1 @ kill_from_file env (my_pid_file_at_stop env)\<rparr>)"

subsection \<open>Devices and sockets\<close>

record startup_env =
  se_sys :: sys_env
  se_mysql :: mysql_env
  se_log_ok :: bool
  se_keyboard_open :: int
  se_socket :: int
  se_probe :: int
  se_other_daemon :: bool
  se_bind_ok :: bool
  se_listen_ok :: bool
  se_ifaddrs :: "nat \<Rightarrow> (string \<times> string option) list option"
  se_peer_fd :: "nat \<Rightarrow> int"
  se_peer_bind :: "nat \<Rightarrow> bool"
  se_peer_listen :: "nat \<Rightarrow> bool"
  se_running_at :: "nat \<Rightarrow> bool"

record startup =
  su_desk :: desktop
  su_mysql :: mysql
  g_keyboard_fd :: int
  socket_fd :: int
  peer_socket_fd :: int
  su_log_open :: bool
  su_retrying :: bool
  su_looks :: nat
  su_seconds :: nat
  su_calls :: "start_call list"

definition on_desk :: "(daemon \<Rightarrow> daemon) \<Rightarrow> startup \<Rightarrow> startup" where
  "on_desk f s = s\<lparr>su_desk := (su_desk s)\<lparr>dt_daemon := f (dt_daemon (su_desk s))\<rparr>\<rparr>"

definition su_do :: "start_call list \<Rightarrow> startup \<Rightarrow> startup" where
  "su_do cs s = s\<lparr>su_calls := su_calls s @ cs\<rparr>"

definition se_os :: "startup_env \<Rightarrow> os" where
  "se_os env = dv_os (sy_desk (se_sys env))"

definition DBUS_SIGNAL_COMMAND :: string where
  "DBUS_SIGNAL_COMMAND = ''/usr/bin/gdbus emit --system --object-path /com/automatelinux/daemon --signal com.automatelinux.daemon.Ready''"

definition KEYBOARD_DISCOVERY_CMD :: string where
  "KEYBOARD_DISCOVERY_CMD = ''ls /dev/input/by-id/ | grep '' @ [CHR 0x27] @ ''Corsair.*-event-kbd'' @ [CHR 0x27]"

definition MOUSE_DISCOVERY_CMD :: string where
  "MOUSE_DISCOVERY_CMD = ''awk '' @ [CHR 0x27] @ ''/Logitech/ && /Mouse/ {found=1} found && /Handlers/ {if (match($0, '' @
     ''/event[0-9]+/, a)) {print a[0]; exit}}'' @ [CHR 0x27] @ '' /proc/bus/input/devices''"

definition find_device :: "os \<Rightarrow> string \<Rightarrow> string \<Rightarrow> string \<Rightarrow> daemon \<Rightarrow> daemon" where
  "find_device env cmd dir device s =
     (let (s1, found) = executeCommand env cmd s in
      if found \<noteq> [] then s1\<lparr>dm_db := setDevicePath device (dir @ found) (dm_db s1)\<rparr> else s1)"

definition initializeKeyboardPath :: "os \<Rightarrow> daemon \<Rightarrow> daemon" where
  "initializeKeyboardPath env = find_device env KEYBOARD_DISCOVERY_CMD ''/dev/input/by-id/'' ''keyboard''"

definition initializeMousePath :: "os \<Rightarrow> daemon \<Rightarrow> daemon" where
  "initializeMousePath env = find_device env MOUSE_DISCOVERY_CMD ''/dev/input/'' ''mouse''"

definition openKeyboardDevice :: "startup_env \<Rightarrow> startup \<Rightarrow> startup" where
  "openKeyboardDevice env s =
     (let path = getDevicePath ''keyboard'' (dm_db (dt_daemon (su_desk s))) in
      if path = [] then s else su_do [OpenDevice path] (s\<lparr>g_keyboard_fd := se_keyboard_open env\<rparr>))"

definition setup_socket :: "startup_env \<Rightarrow> startup \<Rightarrow> startup \<times> int" where
  "setup_socket env s0 =
     (let fd = se_socket env; s = s0\<lparr>socket_fd := fd\<rparr>; probe = se_probe env in
      if fd < 0 then (s, 1)
      else let s1 = su_do ([OpenSocket fd] @ (if probe \<ge> 0 then [OpenSocket probe, CloseSocket probe] else [])) s
      in if probe \<ge> 0 \<and> se_other_daemon env then (su_do [CloseSocket fd] s1, 1)
      else let s2 = su_do [UnlinkSocket, BindSocket fd (se_bind_ok env)] s1
      in if \<not> se_bind_ok env then (su_do [CloseSocket fd] s2, 1)
      else let s3 = su_do [ListenSocket fd (se_listen_ok env)] s2
      in if \<not> se_listen_ok env then (su_do [CloseSocket fd] s3, 1) else (s3, 0))"

definition look_wg :: "startup_env \<Rightarrow> startup \<Rightarrow> startup \<times> string" where
  "look_wg env s = (s\<lparr>su_looks := Suc (su_looks s)\<rparr>, getWgInterfaceIP (se_ifaddrs env (su_looks s)))"

definition setup_peer_socket :: "startup_env \<Rightarrow> startup \<Rightarrow> startup \<times> int" where
  "setup_peer_socket env s =
     (let k = su_looks s; (s1, wg_ip) = look_wg env s; fd = se_peer_fd env k in
      if wg_ip = [] then (s1, 0)
      else if fd < 0 then (s1\<lparr>peer_socket_fd := fd\<rparr>, 1)
      else let s2 = su_do [OpenSocket fd, BindSocket fd (se_peer_bind env k)] (s1\<lparr>peer_socket_fd := fd\<rparr>)
      in if \<not> se_peer_bind env k then (su_do [CloseSocket fd] (s2\<lparr>peer_socket_fd := - 1\<rparr>), 1)
      else let s3 = su_do [ListenSocket fd (se_peer_listen env k)] s2
      in if \<not> se_peer_listen env k then (su_do [CloseSocket fd] (s3\<lparr>peer_socket_fd := - 1\<rparr>), 1) else (s3, 0))"

subsection \<open>The retry of the peer socket\<close>

text \<open>A leader writes its address again, this time without a version.\<close>

definition update_leader :: "os \<Rightarrow> string \<Rightarrow> daemon \<Rightarrow> daemon" where
  "update_leader env wg_ip s =
     (if isLeader s \<and> m_peerId (dm_peers s) \<noteq> [] then
        let (s1, hostname) = gethostname env s; (s2, now) = sql_now env s1
        in s2\<lparr>dm_db := upsertPeer now (m_peerId (dm_peers s2)) wg_ip (on_mac env)
               (case hostname of Some h \<Rightarrow> h | None \<Rightarrow> []) True 0 (dm_db s2)\<rparr>
      else s)"

fun wait_seconds :: "startup_env \<Rightarrow> nat \<Rightarrow> startup \<Rightarrow> startup" where
  "wait_seconds env 0 s = s"
| "wait_seconds env (Suc n) s =
     (if se_running_at env (su_seconds s) then wait_seconds env n (s\<lparr>su_seconds := Suc (su_seconds s)\<rparr>) else s)"

fun retry_rounds :: "startup_env \<Rightarrow> nat \<Rightarrow> startup \<Rightarrow> startup" where
  "retry_rounds env 0 s = s"
| "retry_rounds env (Suc n) s =
     (if \<not> se_running_at env (su_seconds s) then s
      else let s1 = wait_seconds env 5 s in
      if \<not> se_running_at env (su_seconds s1) then s1
      else let (s2, wg_ip) = look_wg env s1 in
      if wg_ip = [] then retry_rounds env n s2
      else let (s3, rc) = setup_peer_socket env s2 in
      if rc = 0 \<and> peer_socket_fd s3 \<ge> 0 then on_desk (update_leader (se_os env) wg_ip) s3
      else retry_rounds env n s3)"

definition retry_peer_socket_setup :: "startup_env \<Rightarrow> startup \<Rightarrow> startup" where
  "retry_peer_socket_setup env = retry_rounds env 12"

subsection \<open>Start and end\<close>

definition emitDaemonReadySignal :: "os \<Rightarrow> daemon \<Rightarrow> daemon" where
  "emitDaemonReadySignal env s = fst (std_system env DBUS_SIGNAL_COMMAND s)"

definition start_dashboard :: "startup_env \<Rightarrow> daemon \<Rightarrow> daemon" where
  "start_dashboard env s =
     fst (std_system (se_os env) (dir_base (dv_dirs (sy_desk (se_sys env))) @ ''daemon/scripts/start_dashboard.sh > /dev/null 2>&1 &'') s)"

text \<open>\<open>su_retrying\<close> says that the thread with the retry was started.\<close>

definition initialize_daemon :: "startup_env \<Rightarrow> startup \<Rightarrow> startup \<times> int" where
  "initialize_daemon env s0 =
     (let s1 = on_desk (\<lambda>d. d\<lparr>dm_shouldLog := restore_mask (dm_db d)\<rparr>) s0;
          s2 = s1\<lparr>su_log_open := se_log_ok env\<rparr>;
          s3 = on_desk (initializeMousePath (se_os env) \<circ> initializeKeyboardPath (se_os env)) s2;
          desk = su_desk s3;
          s4 = s3\<lparr>su_desk := desk\<lparr>dt_mapper := loadPersistence (on_parse (se_os env)) (dm_db (dt_daemon desk)) (dt_mapper desk)\<rparr>\<rparr>;
          s5 = openKeyboardDevice env s4;
          (s6, rc) = setup_socket env s5
      in if rc \<noteq> 0 then
           ((if g_keyboard_fd s6 \<ge> 0 then su_do [CloseSocket (g_keyboard_fd s6)] (s6\<lparr>g_keyboard_fd := - 1\<rparr>) else s6), rc)
         else let (s7, rc7) = setup_peer_socket env s6;
                  s8 = (if rc7 = 0 \<and> peer_socket_fd s7 < 0 then s7\<lparr>su_retrying := True\<rparr> else s7)
              in (on_desk (emitDaemonReadySignal (se_os env) \<circ> start_dashboard env) s8, 0))"

text \<open>The end of \<open>daemon_loop\<close>, with the descriptors of the clients and of the peers.\<close>

definition close_all :: "int list \<Rightarrow> int list \<Rightarrow> startup \<Rightarrow> startup" where
  "close_all clients peers s =
     (let s1 = su_do (map CloseSocket clients @ [CloseSocket (socket_fd s), UnlinkSocket] @ map CloseSocket peers) s;
          s2 = (if peer_socket_fd s1 \<ge> 0 then su_do [CloseSocket (peer_socket_fd s1)] (s1\<lparr>peer_socket_fd := - 1\<rparr>) else s1);
          s3 = (if g_keyboard_fd s2 \<ge> 0 then su_do [CloseSocket (g_keyboard_fd s2)] (s2\<lparr>g_keyboard_fd := - 1\<rparr>) else s2)
      in s3\<lparr>su_log_open := False\<rparr>)"

definition on_mysql :: "(mysql \<Rightarrow> mysql) \<Rightarrow> startup \<Rightarrow> startup" where
  "on_mysql f s = s\<lparr>su_mysql := f (su_mysql s)\<rparr>"

text \<open>The daemon mode of \<open>main\<close>; \<open>serve\<close> stands for the loop and gives the descriptors open at its end.\<close>

definition daemon_main :: "startup_env \<Rightarrow> (startup \<Rightarrow> startup \<times> int list \<times> int list) \<Rightarrow> startup \<Rightarrow> startup \<times> int" where
  "daemon_main env serve s0 =
     (let s1 = on_mysql (initializeAndStartMySQL (dir_base (dv_dirs (sy_desk (se_sys env)))) (se_mysql env)) s0;
          s2 = on_desk (restore_peers (se_os env)) s1;
          (s3, rc) = initialize_daemon env s2
      in if rc \<noteq> 0 then (on_mysql (stopMySQL (se_mysql env)) s3, 1)
         else let (s4, clients, peers) = serve s3;
                  s5 = on_desk stopReconnectLoop (close_all clients peers s4);
                  s6 = s5\<lparr>su_desk := (su_desk s5)\<lparr>dt_mapper := stop (dt_mapper (su_desk s5))\<rparr>\<rparr>
              in (on_mysql (stopMySQL (se_mysql env)) s6, 0))"

end
