(* ===== verification/Startup_Facts.thy ===== *)
theory Startup_Facts
  imports Daemon_Startup System_Facts
begin

text \<open>
  Facts about the start of the daemon: what a second daemon does to the first, how long the database server and the peer
  socket are waited for, and what the retry of the peer socket writes to the registry.
\<close>

subsection \<open>The database server\<close>

definition calm_mysql :: mysql_env where
  "calm_mysql = \<lparr>my_binary_exists = True, my_port_socket = True, my_port_bind = True, my_port_name = True, my_os_port = 40000,
     my_data_exists = True, my_user = None, my_is_root = True, my_pid_file = Some ''42'', my_pid_file_at_stop = None,
     my_alive = (\<lambda>p. p = 42), my_fork = 43, my_socket_at = (\<lambda>t. t = 3)\<rparr>"

lemma wait_for_server_bounds:
  "ticks \<le> wait_for_server env n ticks \<and> wait_for_server env n ticks \<le> ticks + n \<and>
   (\<forall>t. ticks \<le> t \<and> t < wait_for_server env n ticks \<longrightarrow> \<not> my_socket_at env t) \<and>
   (my_socket_at env (wait_for_server env n ticks) \<or> wait_for_server env n ticks = ticks + n)"
proof (induction env n ticks rule: wait_for_server.induct)
  case (2 env n ticks)
  show ?case
  proof (cases "my_socket_at env ticks")
    case False
    have "\<not> my_socket_at env t" if "ticks \<le> t" "t < wait_for_server env n (Suc ticks)" for t
      using that False "2.IH" [OF False] by (cases "t = ticks") (simp_all add: Suc_le_eq)
    then show ?thesis using False "2.IH" [OF False] by auto
  qed auto
qed auto

lemma kill_from_file_no_schema: "CreateSchema port \<notin> set (kill_from_file env t)" "WaitTick \<notin> set (kill_from_file env t)"
  by (auto simp: kill_from_file_def split: option.split sum.split)

lemma start_calls:
  "\<exists>before ticks. my_calls (initializeAndStartMySQL base env st) = my_calls st @ before @ replicate ticks WaitTick @
      (if my_socket_at env ticks then [CreateSchema (findFreePort env)] else []) \<and>
    set (kill_from_file env (my_pid_file env)) \<subseteq> set before \<and> WaitTick \<notin> set before \<and> (\<forall>port. CreateSchema port \<notin> set before) \<and>
    ticks = wait_for_server env 50 0"
  by (intro exI [of _ "my_calls (startMySQLServer env (base @ ''data/mysql'' @ ''/bin/mysqld'') (base @ ''data/mysql'' @ ''/conf/my.cnf'')
        \<lparr>mysqlPid = 0, mysqlPort = 0, my_calls =
           (if my_binary_exists env then [] else [CopyServer]) @
           [WriteConf (generateMySQLConfigFile (findFreePort env) (base @ ''data/mysql'') (base @ ''data/mysql'' @ ''/mysql.sock''))] @
           (if my_data_exists env then [] else [initializeMySQLDataDir env (base @ ''data/mysql'' @ ''/bin/mysqld'')
             (base @ ''data/mysql'' @ ''/conf/my.cnf'')]) @ kill_from_file env (my_pid_file env)\<rparr>)"]
      exI [of _ "wait_for_server env 50 0"])
    (auto simp: initializeAndStartMySQL_def startMySQLServer_def Let_def initializeMySQLDataDir_def kill_from_file_no_schema)

text \<open>The wait for the database server ends after at most fifty ticks; the schema is created exactly if the socket is there
  at the end, and the ticks waited are those before it appears.\<close>

theorem database_wait_ends:
  "\<exists>ticks \<le> 50. \<exists>before. my_calls (initializeAndStartMySQL base env st) = my_calls st @ before @ replicate ticks WaitTick @
      (if my_socket_at env ticks then [CreateSchema (findFreePort env)] else []) \<and>
    WaitTick \<notin> set before \<and> (\<forall>t < ticks. \<not> my_socket_at env t) \<and> (my_socket_at env ticks \<or> ticks = 50)"
proof -
  have "wait_for_server env 50 0 \<le> 50" "\<forall>t < wait_for_server env 50 0. \<not> my_socket_at env t"
      "my_socket_at env (wait_for_server env 50 0) \<or> wait_for_server env 50 0 = 50"
    using wait_for_server_bounds [of 0 env 50] by auto
  then show ?thesis using start_calls [of base env st] by blast
qed

theorem database_wait_ends_witness:
  "\<exists>before. my_calls (initializeAndStartMySQL ''/opt/'' calm_mysql \<lparr>mysqlPid = - 1, mysqlPort = 0, my_calls = []\<rparr>) =
    before @ replicate 3 WaitTick @ [CreateSchema 40000]"
proof -
  define base st where "base = ''/opt/''" and "st = \<lparr>mysqlPid = - 1, mysqlPort = 0, my_calls = [] :: start_call list\<rparr>"
  obtain ticks before where t: "my_calls (initializeAndStartMySQL base calm_mysql st) = my_calls st @ before @ replicate ticks WaitTick @
      (if my_socket_at calm_mysql ticks then [CreateSchema (findFreePort calm_mysql)] else [])"
      "\<forall>t < ticks. \<not> my_socket_at calm_mysql t" "my_socket_at calm_mysql ticks \<or> ticks = 50"
    using database_wait_ends [of base calm_mysql st] by blast
  have "ticks = 3" using t(2) [rule_format, of 3] t(3) by (auto simp: calm_mysql_def)
  moreover have "findFreePort calm_mysql = 40000" "my_socket_at calm_mysql 3" by (simp_all add: calm_mysql_def findFreePort_def)
  ultimately show ?thesis using t(1) by (simp add: base_def st_def)
qed

subsection \<open>A second daemon\<close>

lemma mysql_untouched [simp]:
  "su_mysql (on_desk f s) = su_mysql s" "su_mysql (su_do cs s) = su_mysql s" "su_mysql (openKeyboardDevice env s) = su_mysql s"
  by (simp_all add: on_desk_def su_do_def openKeyboardDevice_def Let_def)

lemma calls_of [simp]:
  "su_calls (on_desk f s) = su_calls s" "su_calls (su_do cs s) = su_calls s @ cs" "su_calls (on_mysql g s) = su_calls s"
  by (simp_all add: on_desk_def su_do_def on_mysql_def)

lemma openKeyboardDevice_calls: "\<exists>cs. su_calls (openKeyboardDevice env s) = su_calls s @ cs \<and> set cs \<subseteq> range OpenDevice"
  by (auto simp: openKeyboardDevice_def Let_def)

lemma setup_socket_refused:
  assumes "se_other_daemon env" "0 \<le> se_socket env" "0 \<le> se_probe env"
  shows "setup_socket env s = (su_do [OpenSocket (se_socket env), OpenSocket (se_probe env), CloseSocket (se_probe env),
      CloseSocket (se_socket env)] (s\<lparr>socket_fd := se_socket env\<rparr>), 1)"
  using assms by (simp add: setup_socket_def Let_def su_do_def)

lemma other_daemon_refused:
  assumes "se_other_daemon env" "0 \<le> se_socket env" "0 \<le> se_probe env"
  shows "\<exists>s' cs. initialize_daemon env s = (s', 1) \<and> su_mysql s' = su_mysql s \<and> su_calls s' = su_calls s @ cs \<and>
    UnlinkSocket \<notin> set cs \<and> (\<forall>fd ok. BindSocket fd ok \<notin> set cs)"
proof -
  define s2 where "s2 = on_desk (initializeMousePath (se_os env) \<circ> initializeKeyboardPath (se_os env))
    ((on_desk (\<lambda>d. d\<lparr>dm_shouldLog := restore_mask (dm_db d)\<rparr>) s)\<lparr>su_log_open := se_log_ok env\<rparr>)"
  define s4 where "s4 = s2\<lparr>su_desk := (su_desk s2)\<lparr>dt_mapper :=
    loadPersistence (on_parse (se_os env)) (dm_db (dt_daemon (su_desk s2))) (dt_mapper (su_desk s2))\<rparr>\<rparr>"
  obtain cs where cs: "su_calls (openKeyboardDevice env s4) = su_calls s4 @ cs" "set cs \<subseteq> range OpenDevice"
    using openKeyboardDevice_calls by blast
  have s4: "su_mysql s4 = su_mysql s" "su_calls s4 = su_calls s" by (simp_all add: s4_def s2_def)
  have "initialize_daemon env s = (let s6 = su_do [OpenSocket (se_socket env), OpenSocket (se_probe env), CloseSocket (se_probe env),
      CloseSocket (se_socket env)] ((openKeyboardDevice env s4)\<lparr>socket_fd := se_socket env\<rparr>)
    in ((if g_keyboard_fd s6 \<ge> 0 then su_do [CloseSocket (g_keyboard_fd s6)] (s6\<lparr>g_keyboard_fd := - 1\<rparr>) else s6), 1))"
    unfolding initialize_daemon_def setup_socket_refused [OF assms] s4_def s2_def by (simp add: Let_def)
  then show ?thesis using cs s4 by (auto simp: Let_def)
qed

text \<open>C35 (safety). A second daemon gives up without touching the socket of the first, but by then it has ended the database server of the
  first, whose process it takes for an orphan.\<close>

theorem second_daemon_kills_database:
  assumes "se_other_daemon env" "0 \<le> se_socket env" "0 \<le> se_probe env"
    and "my_pid_file (se_mysql env) = Some t" "stoi t = Inr p" "my_alive (se_mysql env) p"
  shows "\<exists>s'. daemon_main env serve s = (s', 1) \<and> KillPid p \<in> set (my_calls (su_mysql s')) \<and>
    (\<exists>cs. su_calls s' = su_calls s @ cs \<and> UnlinkSocket \<notin> set cs \<and> (\<forall>fd ok. BindSocket fd ok \<notin> set cs))"
proof -
  let ?start = "initializeAndStartMySQL (dir_base (dv_dirs (sy_desk (se_sys env)))) (se_mysql env)"
  let ?s2 = "on_desk (restore_peers (se_os env)) (on_mysql ?start s)"
  obtain s3 cs where init: "initialize_daemon env ?s2 = (s3, 1)" "su_mysql s3 = su_mysql ?s2" "su_calls s3 = su_calls ?s2 @ cs"
      "UnlinkSocket \<notin> set cs" "\<forall>fd ok. BindSocket fd ok \<notin> set cs"
    using other_daemon_refused [OF assms(1-3), of ?s2] by blast
  have "KillPid p \<in> set (kill_from_file (se_mysql env) (my_pid_file (se_mysql env)))"
    using assms(4-6) by (simp add: kill_from_file_def)
  then have "KillPid p \<in> set (my_calls (?start (su_mysql s)))"
    using start_calls [of "dir_base (dv_dirs (sy_desk (se_sys env)))" "se_mysql env" "su_mysql s"] by auto
  then have "KillPid p \<in> set (my_calls (stopMySQL (se_mysql env) (su_mysql s3)))"
    using init(2) by (simp add: stopMySQL_def Let_def on_mysql_def)
  then show ?thesis
    using init by (intro exI [of _ "on_mysql (stopMySQL (se_mysql env)) s3"])
      (simp add: daemon_main_def Let_def on_mysql_def on_desk_def)
qed

definition calm_startup :: startup_env where
  "calm_startup = \<lparr>se_sys = quiet_system, se_mysql = calm_mysql, se_log_ok = True, se_keyboard_open = - 1, se_socket = 3,
     se_probe = 4, se_other_daemon = True, se_bind_ok = True, se_listen_ok = True,
     se_ifaddrs = (\<lambda>k. if k < 2 then None else Some [(''wg0'', Some ''10.0.0.1'')]), se_peer_fd = (\<lambda>k. 9),
     se_peer_bind = (\<lambda>k. True), se_peer_listen = (\<lambda>k. True), se_running_at = (\<lambda>t. True)\<rparr>"

definition fresh_startup :: startup where
  "fresh_startup = \<lparr>su_desk = fresh_desktop, su_mysql = \<lparr>mysqlPid = - 1, mysqlPort = 0, my_calls = []\<rparr>, g_keyboard_fd = - 1,
     socket_fd = - 1, peer_socket_fd = - 1, su_log_open = False, su_retrying = False, su_looks = 0, su_seconds = 0, su_calls = []\<rparr>"

theorem second_daemon_kills_database_witness:
  "\<exists>s'. daemon_main calm_startup (\<lambda>s. (s, [], [])) fresh_startup = (s', 1) \<and> KillPid 42 \<in> set (my_calls (su_mysql s')) \<and>
    (\<exists>cs. su_calls s' = su_calls fresh_startup @ cs \<and> UnlinkSocket \<notin> set cs \<and> (\<forall>fd ok. BindSocket fd ok \<notin> set cs))"
proof (rule second_daemon_kills_database [where t = "''42''"])
  have "stoi (to_string 42) = Inr 42" by (simp add: stoi_to_string int_range_defs)
  moreover have "to_string 42 = ''42''" by code_simp
  ultimately show "stoi ''42'' = Inr 42" by (simp only:)
qed (simp_all add: calm_startup_def calm_mysql_def)

subsection \<open>The retry of the peer socket\<close>

lemma wait_seconds_bounds:
  "su_seconds s \<le> su_seconds (wait_seconds env n s) \<and> su_seconds (wait_seconds env n s) \<le> su_seconds s + n \<and>
   su_looks (wait_seconds env n s) = su_looks s"
  by (induction env n s rule: wait_seconds.induct) auto

lemma setup_peer_socket_counts:
  "su_seconds (fst (setup_peer_socket env s)) = su_seconds s" "su_looks (fst (setup_peer_socket env s)) = Suc (su_looks s)"
  by (simp_all add: setup_peer_socket_def look_wg_def su_do_def Let_def)

lemma retry_rounds_bounds:
  "su_seconds (retry_rounds env n s) \<le> su_seconds s + 5 * n \<and> su_looks (retry_rounds env n s) \<le> su_looks s + 2 * n"
proof (induction env n s rule: retry_rounds.induct)
  case (2 env n s)
  define s1 where "s1 = wait_seconds env 5 s"
  define s2 where "s2 = s1\<lparr>su_looks := Suc (su_looks s1)\<rparr>"
  have look: "look_wg env s1 = (s2, getWgInterfaceIP (se_ifaddrs env (su_looks s1)))"
    by (simp add: look_wg_def s2_def)
  have s1: "su_seconds s1 \<le> su_seconds s + 5" "su_looks s1 = su_looks s"
    using wait_seconds_bounds [of s env 5] by (simp_all add: s1_def)
  have s3: "su_seconds (fst (setup_peer_socket env s2)) = su_seconds s1" "su_looks (fst (setup_peer_socket env s2)) = su_looks s1 + 2"
    by (simp_all add: setup_peer_socket_counts s2_def)
  note IH = "2.IH" [OF _ s1_def, unfolded look]
  show ?case
  proof (cases "se_running_at env (su_seconds s) \<and> se_running_at env (su_seconds s1)")
    case True
    show ?thesis
    proof (cases "getWgInterfaceIP (se_ifaddrs env (su_looks s1)) = []")
      case no_ip: True
      then show ?thesis using True IH(1) [OF _ _ refl refl] s1 by (simp add: look s1_def [symmetric] Let_def s2_def)
    next
      case False
      obtain s3 rc where peer: "setup_peer_socket env s2 = (s3, rc)" by fastforce
      show ?thesis
        using True False peer s1 s3 IH(2) [OF _ _ refl refl _ peer [symmetric] refl]
        by (auto simp: look s1_def [symmetric] Let_def on_desk_def)
    qed
  next
    case False
    then show ?thesis using s1 by (auto simp: s1_def [symmetric] Let_def)
  qed
qed simp

text \<open>The retry of the peer socket ends: it waits at most sixty seconds and looks at the interfaces at most twenty-four times,
  whatever they show.\<close>

theorem retry_ends:
  "su_seconds (retry_peer_socket_setup env s) \<le> su_seconds s + 60 \<and> su_looks (retry_peer_socket_setup env s) \<le> su_looks s + 24"
  using retry_rounds_bounds [of env 12 s] by (simp add: retry_peer_socket_setup_def)

lemma wait_all_seconds:
  "(\<And>t. se_running_at env t) \<Longrightarrow> wait_seconds env n s = s\<lparr>su_seconds := su_seconds s + n\<rparr>"
  by (induction env n s rule: wait_seconds.induct) auto

lemma peer_socket_succeeds:
  assumes "getWgInterfaceIP (se_ifaddrs env (su_looks s)) \<noteq> []" "0 \<le> se_peer_fd env (su_looks s)"
    and "se_peer_bind env (su_looks s)" "se_peer_listen env (su_looks s)"
  shows "\<exists>cs. setup_peer_socket env s = (su_do cs (s\<lparr>su_looks := Suc (su_looks s), peer_socket_fd := se_peer_fd env (su_looks s)\<rparr>), 0)"
  using assms by (intro exI [of _ "[OpenSocket (se_peer_fd env (su_looks s)), BindSocket (se_peer_fd env (su_looks s)) True,
    ListenSocket (se_peer_fd env (su_looks s)) True]"]) (simp add: setup_peer_socket_def look_wg_def Let_def su_do_def)

text \<open>C36 (liveness). When the interface comes up before round \<open>i\<close> of the twelve and the socket can be set up, the daemon listens to peers
  five seconds a round later; if it is the leader, it then writes its own entry again.\<close>

theorem retry_finds_interface:
  assumes "\<And>t. se_running_at env t" "i < n" "\<And>k. k < i \<Longrightarrow> getWgInterfaceIP (se_ifaddrs env (su_looks s + k)) = []"
    and "getWgInterfaceIP (se_ifaddrs env (su_looks s + i)) = ip" "ip \<noteq> []"
    and "getWgInterfaceIP (se_ifaddrs env (su_looks s + i + 1)) \<noteq> []" "0 \<le> se_peer_fd env (su_looks s + i + 1)"
    and "se_peer_bind env (su_looks s + i + 1)" "se_peer_listen env (su_looks s + i + 1)"
  shows "peer_socket_fd (retry_rounds env n s) = se_peer_fd env (su_looks s + i + 1) \<and>
    su_seconds (retry_rounds env n s) = su_seconds s + 5 * (i + 1) \<and>
    dt_daemon (su_desk (retry_rounds env n s)) = update_leader (se_os env) ip (dt_daemon (su_desk s))"
  using assms(2-)
proof (induction i arbitrary: n s)
  case 0
  then obtain m where n: "n = Suc m" by (cases n) auto
  let ?s = "s\<lparr>su_seconds := su_seconds s + 5, su_looks := Suc (su_looks s)\<rparr>"
  obtain cs where "setup_peer_socket env ?s =
      (su_do cs (?s\<lparr>su_looks := Suc (su_looks ?s), peer_socket_fd := se_peer_fd env (su_looks ?s)\<rparr>), 0)"
    using peer_socket_succeeds [of env ?s] "0.prems" by auto
  then show ?case
    using "0.prems" assms(1) by (simp add: n wait_all_seconds look_wg_def Let_def on_desk_def su_do_def)
next
  case (Suc i)
  then obtain m where n: "n = Suc m" "i < m" by (cases n) auto
  let ?s = "s\<lparr>su_seconds := su_seconds s + 5, su_looks := Suc (su_looks s)\<rparr>"
  have "getWgInterfaceIP (se_ifaddrs env (su_looks s)) = []" using Suc.prems(2) [of 0] by simp
  then have "retry_rounds env n s = retry_rounds env m ?s"
    using assms(1) by (simp add: n wait_all_seconds look_wg_def Let_def)
  moreover have "getWgInterfaceIP (se_ifaddrs env (su_looks ?s + k)) = []" if "k < i" for k
    using Suc.prems(2) [of "Suc k"] that by simp
  ultimately show ?case using Suc.IH [of m ?s] Suc.prems n by simp
qed

theorem retry_finds_interface_witness:
  "peer_socket_fd (retry_rounds calm_startup 12 fresh_startup) = 9 \<and> su_seconds (retry_rounds calm_startup 12 fresh_startup) = 15"
  using retry_finds_interface [of calm_startup 2 12 fresh_startup "''10.0.0.1''"]
  by (simp add: calm_startup_def fresh_startup_def getWgInterfaceIP_def)

text \<open>The entry the leader writes then has no version.\<close>

lemma leader_version_reset:
  assumes "isLeader s" "m_peerId (dm_peers s) = pid" "pid \<noteq> []" "db_conn (dm_db s)" "fits 64 pid" "fits 15 ip" "fits 17 (on_mac env)"
    and "\<And>h t. on_hostname env h = Some t \<Longrightarrow> fits 255 t" "peer_find (dm_db s) pid = Some r"
  shows "\<exists>now hostname. dm_db (update_leader env ip s) = update_peers pid
     (\<lambda>r. r\<lparr>pr_ip := ip, pr_mac := on_mac env, pr_hostname := hostname, pr_online := True, pr_last_seen := now, pr_version := 0\<rparr>)
     (dm_db s)"
proof -
  have "fits 255 (case on_hostname env (dm_calls s) of Some h \<Rightarrow> h | None \<Rightarrow> [])"
    using assms(8) by (auto simp: fits_def split: option.split)
  then show ?thesis
    using assms(1-7,9)
    by (auto simp: update_leader_def gethostname_def sql_now_def os_do_def upsertPeer_def Let_def)
qed

end
