(* ===== verification/Ignore_Rules.thy ===== *)
theory Ignore_Rules
  imports Cpp_Strings
begin

text \<open>
  The ignore rules of the tools \<open>fileSize\<close> and \<open>lastChanged\<close>: \<open>gitignore.c\<close> of
  \<open>utilities/fileSize/src\<close>. \<open>utilities/lastChanged/src/gitignore.c\<close> holds the same functions in
  another layout.

  The global array \<open>ignorePatterns\<close> with its counter is a list. \<open>fnmatch\<close> is the function of the C library in
  the C locale, in which both programs run; its collating symbols and equivalence classes are left out. A path buffer has
  4096 bytes; the model is of trees whose paths fit.
\<close>

definition MAX_IGNORE :: nat where "MAX_IGNORE = 5000"
definition MAX_FILES :: nat where "MAX_FILES = 10000"
definition MAX_PATH :: nat where "MAX_PATH = 4096"

record IgnorePattern =
  pattern :: string
  isNegation :: bool
  isDirectory :: bool
  baseDir :: string

subsection \<open>Wildcards\<close>

definition char_class :: "string \<Rightarrow> char \<Rightarrow> bool" where
  "char_class cls c =
     (let n = (of_char c :: nat); upper = 65 \<le> n \<and> n \<le> 90; lower = 97 \<le> n \<and> n \<le> 122; digit = 48 \<le> n \<and> n \<le> 57
      in if cls = ''alpha'' then upper \<or> lower else if cls = ''digit'' then digit
      else if cls = ''alnum'' then upper \<or> lower \<or> digit else if cls = ''upper'' then upper
      else if cls = ''lower'' then lower else if cls = ''space'' then 9 \<le> n \<and> n \<le> 13 \<or> n = 32
      else if cls = ''blank'' then n = 9 \<or> n = 32 else if cls = ''cntrl'' then n < 32 \<or> n = 127
      else if cls = ''graph'' then 33 \<le> n \<and> n \<le> 126 else if cls = ''print'' then 32 \<le> n \<and> n \<le> 126
      else if cls = ''punct'' then 33 \<le> n \<and> n \<le> 126 \<and> \<not> (upper \<or> lower \<or> digit)
      else cls = ''xdigit'' \<and> (digit \<or> 65 \<le> n \<and> n \<le> 70 \<or> 97 \<le> n \<and> n \<le> 102))"

definition in_range :: "char \<Rightarrow> char \<Rightarrow> char \<Rightarrow> bool" where
  "in_range lo hi c \<longleftrightarrow> (of_char lo :: nat) \<le> of_char c \<and> (of_char c :: nat) \<le> of_char hi"

text \<open>One member of a bracket expression after its opening bracket: what it accepts and the rest.\<close>

definition bracket_member :: "string \<Rightarrow> ((char \<Rightarrow> bool) \<times> string) option" where
  "bracket_member p =
     (let literal = (\<lambda>p. case p of [] \<Rightarrow> None
            | c # q \<Rightarrow> if c = CHR 0x5C then (case q of [] \<Rightarrow> None | e # r \<Rightarrow> Some (e, r)) else Some (c, q));
          cls = takeWhile (\<lambda>c. c \<noteq> CHR '':'') (drop 2 p); after = drop (2 + length cls) p
      in if starts_with ''[:'' p \<and> list_all (char_class ''lower'') cls \<and> starts_with '':]'' after then Some (char_class cls, drop 2 after)
      else case literal p of
          None \<Rightarrow> None
        | Some (lo, q) \<Rightarrow>
            if starts_with ''-'' q \<and> tl q \<noteq> [] \<and> hd (tl q) \<noteq> CHR '']''
            then (case literal (tl q) of None \<Rightarrow> None | Some (hi, r) \<Rightarrow> Some (in_range lo hi, r))
            else Some (\<lambda>c. c = lo, q))"

lemma bracket_member_shorter: "bracket_member p = Some (P, q) \<Longrightarrow> length q < length p"
proof -
  assume member: "bracket_member p = Some (P, q)"
  define after where "after = drop (2 + length (takeWhile (\<lambda>c. c \<noteq> CHR '':'') (drop 2 p))) p"
  show ?thesis
  proof (cases "starts_with ''[:'' p \<and> list_all (char_class ''lower'') (takeWhile (\<lambda>c. c \<noteq> CHR '':'') (drop 2 p)) \<and> starts_with '':]'' after")
    case True
    then obtain r where "after = '':]'' @ r" by (auto simp: starts_with_iff)
    moreover have "length after \<le> length p" by (simp add: after_def)
    ultimately have "length (drop 2 after) < length p" by simp
    moreover have "q = drop 2 after"
      using True member by (auto simp: bracket_member_def Let_def after_def)
    ultimately show ?thesis by simp
  next
    case False
    then show ?thesis
      using member by (auto simp: bracket_member_def Let_def after_def starts_with_iff split: if_splits option.splits list.splits)
  qed
qed

text \<open>The members up to the closing bracket, which is a member itself when it comes first; \<open>None\<close> when the bracket
  is not closed.\<close>

function bracket_body :: "bool \<Rightarrow> string \<Rightarrow> ((char \<Rightarrow> bool) list \<times> string) option" where
  "bracket_body first p =
     (if \<not> first \<and> starts_with '']'' p then Some ([], tl p)
      else case bracket_member p of
          None \<Rightarrow> None
        | Some (P, q) \<Rightarrow> (case bracket_body False q of None \<Rightarrow> None | Some (Ps, r) \<Rightarrow> Some (P # Ps, r)))"
  by pat_completeness auto
termination by (relation "measure (length \<circ> snd)") (auto simp: bracket_member_shorter)

declare bracket_body.simps [simp del]

lemma bracket_body_shorter: "bracket_body first p = Some (Ps, q) \<Longrightarrow> length q < length p"
proof (induction first p arbitrary: Ps q rule: bracket_body.induct)
  case (1 first p)
  from "1.prems" consider "\<not> first" "starts_with '']'' p" "q = tl p"
    | P q' Ps' where "bracket_member p = Some (P, q')" "bracket_body False q' = Some (Ps', q)" "first \<or> \<not> starts_with '']'' p"
    by (subst (asm) bracket_body.simps) (auto split: if_splits option.splits)
  then show ?case
  proof cases
    case 1
    then show ?thesis by (cases p) auto
  next
    case 2
    then show ?thesis using "1.IH" bracket_member_shorter by fastforce
  qed
qed

text \<open>\<open>fnmatch (p, s, flags) == 0\<close>; \<open>pn\<close> is the flag \<open>FNM_PATHNAME\<close>. An opening bracket that is never
  closed stands for itself.\<close>

function fnmatch :: "bool \<Rightarrow> string \<Rightarrow> string \<Rightarrow> bool" where
  "fnmatch pn [] s = (s = [])"
| "fnmatch pn (c # p) s =
     (if c = CHR ''*'' then fnmatch pn p s \<or>
        (case s of [] \<Rightarrow> False | d # t \<Rightarrow> \<not> (pn \<and> d = CHR ''/'') \<and> fnmatch pn (c # p) t)
      else case s of
          [] \<Rightarrow> False
        | d # t \<Rightarrow>
            if c = CHR ''?'' then \<not> (pn \<and> d = CHR ''/'') \<and> fnmatch pn p t
            else if c = CHR 0x5C then (case p of [] \<Rightarrow> False | e # q \<Rightarrow> d = e \<and> fnmatch pn q t)
            else if c = CHR ''['' then
              (let neg = p \<noteq> [] \<and> hd p \<in> {CHR ''!'', CHR 0x5E} in
               case bracket_body True (if neg then tl p else p) of
                 None \<Rightarrow> d = c \<and> fnmatch pn p t
               | Some (Ps, q) \<Rightarrow> \<not> (pn \<and> d = CHR ''/'') \<and> ((\<exists>P \<in> set Ps. P d) \<noteq> neg) \<and> fnmatch pn q t)
            else d = c \<and> fnmatch pn p t)"
  by pat_completeness auto
termination
  by (relation "measure (\<lambda>(pn, p, s). length p + length s)")
    (auto dest!: bracket_body_shorter split: if_splits)

declare fnmatch.simps(2) [simp del]

subsection \<open>The list of patterns\<close>

definition blank :: "char \<Rightarrow> bool" where
  "blank c \<longleftrightarrow> c = CHR '' '' \<or> c = CHR 0x09"

definition addPattern :: "string \<Rightarrow> string \<Rightarrow> IgnorePattern list \<Rightarrow> IgnorePattern list" where
  "addPattern line dir pats =
     (if length pats \<ge> MAX_IGNORE then pats
      else let neg = starts_with ''!'' line; p = (if neg then tl line else line); p1 = dropWhile blank p
      in if p1 = [] then pats
      else let isDir = last p1 = CHR ''/''
      in pats @ [\<lparr>pattern = (if isDir then butlast p1 else p1), isNegation = neg, isDirectory = isDir, baseDir = dir\<rparr>])"

text \<open>\<open>fgets\<close> until the end of the file, with a buffer of \<open>n + 1\<close> bytes.\<close>

function fgets_all :: "nat \<Rightarrow> string \<Rightarrow> string list" where
  "fgets_all n t =
     (if t = [] \<or> n = 0 then []
      else let l = take n t; k = (if CHR 0x0A \<in> set l then Suc (length (takeWhile (\<lambda>c. c \<noteq> CHR 0x0A) l)) else length l)
      in take k t # fgets_all n (drop k t))"
  by pat_completeness auto
termination by (relation "measure (length \<circ> snd)") (auto simp: Let_def)

declare fgets_all.simps [simp del]

definition readGitignore :: "string option \<Rightarrow> string \<Rightarrow> IgnorePattern list \<Rightarrow> IgnorePattern list" where
  "readGitignore contents dir pats = (case contents of
      None \<Rightarrow> pats
    | Some t \<Rightarrow> fold (\<lambda>chunk pats.
        let line = takeWhile (\<lambda>c. c \<notin> {CHR 0x0D, CHR 0x0A, CHR 0x00}) chunk; trimmed = dropWhile blank line
        in if trimmed = [] \<or> hd trimmed = CHR ''#'' then pats else addPattern trimmed dir pats) (fgets_all 511 t) pats)"

subsection \<open>Matching a path\<close>

definition strip_dot :: "string \<Rightarrow> string" where
  "strip_dot path = (if starts_with ''./'' path then drop 2 path else path)"

definition base_name :: "string \<Rightarrow> string" where
  "base_name path = rev (takeWhile (\<lambda>c. c \<noteq> CHR ''/'') (rev path))"

function match_from :: "string \<Rightarrow> string \<Rightarrow> bool" where
  "match_from pat p =
     (if p = [] then False
      else fnmatch True pat p \<or>
        (let q = dropWhile (\<lambda>c. c \<noteq> CHR ''/'') p in if q = [] then False else match_from pat (tl q)))"
  by pat_completeness auto
termination
proof (relation "measure (length \<circ> snd)")
  fix pat p q :: string
  assume "p \<noteq> []" "q = dropWhile (\<lambda>c. c \<noteq> CHR ''/'') p" "q \<noteq> []"
  then have "length (tl q) < length q" "length q \<le> length p" by (auto simp: length_dropWhile_le)
  then show "((pat, tl q), pat, p) \<in> measure (length \<circ> snd)" by simp
qed simp

declare match_from.simps [simp del]

definition pathMatches :: "string \<Rightarrow> string \<Rightarrow> bool \<Rightarrow> bool \<Rightarrow> bool" where
  "pathMatches pat path isDir checkDir =
     (if isDir \<and> \<not> checkDir then False
      else if CHR ''/'' \<in> set pat then fnmatch True pat (strip_dot path)
      else fnmatch False pat (base_name path) \<or> match_from pat (strip_dot path))"

definition pathIsUnderDir :: "string \<Rightarrow> string \<Rightarrow> bool" where
  "pathIsUnderDir path dir \<longleftrightarrow> dir = ''.'' \<or>
     starts_with dir path \<and> (drop (length dir) path = [] \<or> hd (drop (length dir) path) = CHR ''/'')"

definition relPath :: "string \<Rightarrow> string \<Rightarrow> string" where
  "relPath dir path =
     (if dir \<noteq> ''.'' \<and> starts_with dir path
      then case drop (length dir) path of [] \<Rightarrow> ''.'' | c # r \<Rightarrow> if c = CHR ''/'' then r else path
      else path)"

definition rule_applies :: "string \<Rightarrow> bool \<Rightarrow> IgnorePattern \<Rightarrow> bool" where
  "rule_applies path isDir p \<longleftrightarrow> pathIsUnderDir path (baseDir p) \<and>
     pathMatches (pattern p) (relPath (baseDir p) path) (isDirectory p) isDir"

definition shouldIgnore :: "IgnorePattern list \<Rightarrow> string \<Rightarrow> bool \<Rightarrow> bool" where
  "shouldIgnore pats path isDir =
     fold (\<lambda>p ignored. if rule_applies path isDir p then \<not> isNegation p else ignored) pats False"

subsection \<open>The root of the repository\<close>

text \<open>The walk upwards from a path; \<open>has_git\<close> says whether a directory holds a directory \<open>.git\<close>.\<close>

function findGitRoot :: "(string \<Rightarrow> bool) \<Rightarrow> string \<Rightarrow> string option" where
  "findGitRoot has_git p =
     (if length p \<le> 1 \<or> length p + 6 > MAX_PATH then None
      else if has_git p then Some p
      else let parent = rev (tl (dropWhile (\<lambda>c. c \<noteq> CHR ''/'') (rev p)))
      in if parent = [] then None else findGitRoot has_git parent)"
  by pat_completeness auto
termination
proof (relation "measure (length \<circ> snd)")
  fix has_git :: "string \<Rightarrow> bool" and p parent :: string
  assume "\<not> (length p \<le> 1 \<or> length p + 6 > MAX_PATH)" "parent = rev (tl (dropWhile (\<lambda>c. c \<noteq> CHR ''/'') (rev p)))"
  then have "length parent < length p"
    using length_dropWhile_le [of "\<lambda>c. c \<noteq> CHR ''/''" "rev p"] by auto
  then show "((has_git, parent), has_git, p) \<in> measure (length \<circ> snd)" by simp
qed simp

declare findGitRoot.simps [simp del]

end
