(* ===== verification/Tree_Scan.thy ===== *)
theory Tree_Scan
  imports Ignore_Rules
begin

text \<open>
  The tools \<open>fileSize\<close> and \<open>lastChanged\<close> (\<open>utilities/*/src/scanner.c\<close>, \<open>main.c\<close> and the end of
  \<open>gitignore.c\<close>): the walk over a directory, the table of files it fills, and the report.

  What the walk finds below a directory is a tree, with the entries in the order of \<open>readdir\<close>. A symbolic
  link carries what it leads to: the kernel follows at most forty links on a path, so this is finite also where links form a
  cycle. \<open>qsort\<close> is the stable merge sort of the C library.
\<close>

datatype node =
    Reg int "string option" int
  | Dir "(string \<times> node) list"
  | Locked_Dir
  | Link "node option"
  | Special

text \<open>\<open>Reg\<close> has the size, the contents if it can be read, and the time of the last change. \<open>stat\<close> follows links.\<close>

fun followed :: "node \<Rightarrow> node" where
  "followed (Link (Some n)) = followed n"
| "followed (Link None) = Special"
| "followed n = n"

definition is_dir :: "node \<Rightarrow> bool" where
  "is_dir n = (case n of Dir es \<Rightarrow> True | Locked_Dir \<Rightarrow> True | _ \<Rightarrow> False)"

definition text_of :: "node \<Rightarrow> string option" where
  "text_of n = (case followed n of Reg sz t time \<Rightarrow> t | _ \<Rightarrow> None)"

definition has_git_dir :: "(string \<times> node) list \<Rightarrow> bool" where
  "has_git_dir es = (case map_of es ''.git'' of Some n \<Rightarrow> is_dir (followed n) | None \<Rightarrow> False)"

definition gitignore_of :: "(string \<times> node) list \<Rightarrow> string option" where
  "gitignore_of es = Option.bind (map_of es ''.gitignore'') text_of"

definition countLines :: "string option \<Rightarrow> int" where
  "countLines contents = (case contents of None \<Rightarrow> 0 | Some t \<Rightarrow> int (length (filter (\<lambda>c. c = CHR 0x0A) t)))"

subsection \<open>fileSize\<close>

record FileEntry =
  fe_path :: string
  fe_size :: int
  fe_lines :: int

record scan =
  ignorePatterns :: "IgnorePattern list"
  files :: "FileEntry list"

definition record_file :: "string \<Rightarrow> int \<Rightarrow> string option \<Rightarrow> scan \<Rightarrow> scan" where
  "record_file path sz contents s =
     (if length (files s) < MAX_FILES
      then s\<lparr>files := files s @ [\<lparr>fe_path = path, fe_size = sz, fe_lines = countLines contents\<rparr>]\<rparr> else s)"

text \<open>The rules a directory adds, and the repository its entries belong to.\<close>

definition dir_rules :: "string \<Rightarrow> string option \<Rightarrow> (string \<times> node) list \<Rightarrow> IgnorePattern list \<Rightarrow> IgnorePattern list" where
  "dir_rules dir gitRoot es pats =
     (if has_git_dir es then addPattern ''.git/'' dir (readGitignore (gitignore_of es) dir pats)
      else if gitRoot \<noteq> None then readGitignore (gitignore_of es) dir pats
      else pats)"

definition dir_root :: "string \<Rightarrow> string option \<Rightarrow> (string \<times> node) list \<Rightarrow> string option" where
  "dir_root dir gitRoot es = (if has_git_dir es then Some dir else gitRoot)"

definition skipped :: "string \<Rightarrow> string option \<Rightarrow> string \<Rightarrow> node \<Rightarrow> IgnorePattern list \<Rightarrow> bool" where
  "skipped dir root name n pats \<longleftrightarrow> name = ''.'' \<or> name = ''..'' \<or>
     root \<noteq> None \<and> shouldIgnore pats (dir @ ''/'' @ name) (is_dir n)"

fun scanDir :: "string \<Rightarrow> string option \<Rightarrow> node \<Rightarrow> scan \<Rightarrow> scan \<times> int"
  and scan_entries :: "string \<Rightarrow> string option \<Rightarrow> (string \<times> node) list \<Rightarrow> scan \<Rightarrow> scan \<times> int" where
  "scanDir dir gitRoot (Dir es) s =
     scan_entries dir (dir_root dir gitRoot es) es (s\<lparr>ignorePatterns := dir_rules dir gitRoot es (ignorePatterns s)\<rparr>)"
| "scanDir dir gitRoot n s = (s, 0)"
| "scan_entries dir root [] s = (s, 0)"
| "scan_entries dir root ((name, n) # es) s =
     (if skipped dir root name n (ignorePatterns s) then scan_entries dir root es s
      else let path = dir @ ''/'' @ name;
               (s1, size1) = (if is_dir n then scanDir path root n s
                 else case n of Reg sz t time \<Rightarrow> (record_file path sz t s, sz) | _ \<Rightarrow> (s, 0));
               (s2, size2) = scan_entries dir root es s1
           in (s2, size1 + size2))"

subsection \<open>The report of fileSize\<close>

text \<open>\<open>printf\<close> with \<open>%.2f\<close> of the quotient by a power of two, which a \<open>double\<close> holds exactly: rounded to the
  nearest hundredth, to the even one in the middle.\<close>

definition round_even :: "int \<Rightarrow> int \<Rightarrow> int" where
  "round_even a b = (let q = a div b; r = a mod b in if 2 * r > b \<or> 2 * r = b \<and> odd q then q + 1 else q)"

definition two_decimals :: "int \<Rightarrow> int \<Rightarrow> string" where
  "two_decimals a b = (let h = round_even (100 * a) b in
     to_string (h div 100) @ ''.'' @ to_string (h mod 100 div 10) @ to_string (h mod 10))"

definition print_size :: "int \<Rightarrow> string" where
  "print_size sz =
     (if sz < 1024 then to_string sz @ ''B''
      else if sz < 1024 * 1024 then two_decimals sz 1024 @ ''K''
      else if sz < 1024 * 1024 * 1024 then two_decimals sz (1024 * 1024) @ ''M''
      else two_decimals sz (1024 * 1024 * 1024) @ ''G'')"

definition file_line :: "FileEntry \<Rightarrow> string" where
  "file_line f = print_size (fe_size f) @ [CHR 0x09] @ to_string (fe_lines f) @ [CHR 0x09] @ fe_path f @ NL"

definition top_files :: "int \<Rightarrow> FileEntry list \<Rightarrow> FileEntry list" where
  "top_files n fs = take (nat n) (sort_key (\<lambda>f. - fe_size f) fs)"

definition topSizes :: "int \<Rightarrow> FileEntry list \<Rightarrow> string" where
  "topSizes n fs = concat (map file_line (top_files n fs))"

text \<open>\<open>main\<close>: exit code and output. \<open>cwd\<close> is what \<open>realpath\<close> gives with the tree below it; \<open>read\<close> reads a file by
  its path.\<close>

definition atoi :: "string \<Rightarrow> int" where
  "atoi s = (case strtol s of Some i \<Rightarrow> i | None \<Rightarrow> 0)"

definition main_rules :: "(string \<Rightarrow> string option) \<Rightarrow> string option \<Rightarrow> IgnorePattern list" where
  "main_rules read gitRoot = (case gitRoot of
      None \<Rightarrow> [] | Some r \<Rightarrow> readGitignore (read (r @ ''/.gitignore'')) r (addPattern ''.git/'' r []))"

definition fileSize_main ::
  "string list \<Rightarrow> (string \<times> node) option \<Rightarrow> (string \<Rightarrow> bool) \<Rightarrow> (string \<Rightarrow> string option) \<Rightarrow> int \<times> string" where
  "fileSize_main argv cwd has_git read =
     (let n = (case argv of [] \<Rightarrow> 10 | a # as \<Rightarrow> atoi a) in
      case cwd of
        None \<Rightarrow> (1, [])
      | Some (realPath, tree) \<Rightarrow>
          let root = findGitRoot has_git realPath;
              s = fst (scanDir realPath root tree \<lparr>ignorePatterns = main_rules read root, files = []\<rparr>)
          in (0, topSizes n (files s)))"

subsection \<open>lastChanged\<close>

text \<open>This scanner follows links, forgets the rules it has when it enters a repository, and adds nothing up.\<close>

record ChangedEntry =
  ce_path :: string
  ce_mtime :: int

record changed_scan =
  lc_patterns :: "IgnorePattern list"
  lc_files :: "ChangedEntry list"

definition lc_record :: "string \<Rightarrow> int \<Rightarrow> changed_scan \<Rightarrow> changed_scan" where
  "lc_record path time s =
     (if length (lc_files s) < MAX_FILES then s\<lparr>lc_files := lc_files s @ [\<lparr>ce_path = path, ce_mtime = time\<rparr>]\<rparr> else s)"

definition lc_rules :: "string \<Rightarrow> string option \<Rightarrow> (string \<times> node) list \<Rightarrow> IgnorePattern list \<Rightarrow> IgnorePattern list" where
  "lc_rules dir gitRoot es pats = dir_rules dir gitRoot es (if has_git_dir es then [] else pats)"

fun lc_scanDir :: "string \<Rightarrow> string option \<Rightarrow> node \<Rightarrow> changed_scan \<Rightarrow> changed_scan"
  and lc_entries :: "string \<Rightarrow> string option \<Rightarrow> (string \<times> node) list \<Rightarrow> changed_scan \<Rightarrow> changed_scan" where
  "lc_scanDir dir gitRoot (Dir es) s =
     lc_entries dir (dir_root dir gitRoot es) es (s\<lparr>lc_patterns := lc_rules dir gitRoot es (lc_patterns s)\<rparr>)"
| "lc_scanDir dir gitRoot (Link (Some n)) s = lc_scanDir dir gitRoot n s"
| "lc_scanDir dir gitRoot n s = s"
| "lc_entries dir root [] s = s"
| "lc_entries dir root ((name, n) # es) s =
     (if skipped dir root name (followed n) (lc_patterns s) then lc_entries dir root es s
      else let path = dir @ ''/'' @ name;
               s1 = (if is_dir (followed n) then lc_scanDir path root n s
                 else case followed n of Reg sz t time \<Rightarrow> lc_record path time s | _ \<Rightarrow> s)
           in lc_entries dir root es s1)"

definition last_files :: "int \<Rightarrow> ChangedEntry list \<Rightarrow> ChangedEntry list" where
  "last_files n fs = take (nat n) (sort_key (\<lambda>f. - ce_mtime f) fs)"

definition lastChanged :: "int \<Rightarrow> ChangedEntry list \<Rightarrow> string" where
  "lastChanged n fs = concat (map (\<lambda>f. ce_path f @ NL) (last_files n fs))"

definition lastChanged_main ::
  "string list \<Rightarrow> (string \<times> node) option \<Rightarrow> (string \<Rightarrow> bool) \<Rightarrow> (string \<Rightarrow> string option) \<Rightarrow> int \<times> string" where
  "lastChanged_main argv cwd has_git read =
     (let n = (case argv of [] \<Rightarrow> 10 | a # as \<Rightarrow> atoi a) in
      case cwd of
        None \<Rightarrow> (1, [])
      | Some (realPath, tree) \<Rightarrow>
          let root = findGitRoot has_git realPath;
              s = lc_scanDir realPath root tree \<lparr>lc_patterns = main_rules read root, lc_files = []\<rparr>
          in (0, lastChanged n (lc_files s)))"

end
