(* ===== verification/Scan_Facts.thy ===== *)
theory Scan_Facts
  imports Tree_Scan "HOL-Library.Multiset"
begin

text \<open>
  Facts about \<open>fileSize\<close> and \<open>lastChanged\<close>: how the list of rules decides, that the rules of a directory reach no further
  than the directory in the one tool and that the other loses the rules of the surrounding repository, what the walk
  adds up, and what is reported.
\<close>

subsection \<open>The rules\<close>

lemma shouldIgnore_append:
  "shouldIgnore (pats @ [p]) path b = (if rule_applies path b p then \<not> isNegation p else shouldIgnore pats path b)"
  by (simp add: shouldIgnore_def)

text \<open>C27 (equivalence). The loop over the rules decides as the last rule that applies.\<close>

theorem last_rule_decides:
  "shouldIgnore pats path b =
     (case find (rule_applies path b) (rev pats) of Some p \<Rightarrow> \<not> isNegation p | None \<Rightarrow> False)"
proof (induction pats rule: rev_induct)
  case Nil
  then show ?case by (simp add: shouldIgnore_def)
qed (simp add: shouldIgnore_append)

lemma concat_fgets_all: "0 < n \<Longrightarrow> concat (fgets_all n t) = t"
proof (induction n t rule: fgets_all.induct)
  case (1 n t)
  then show ?case by (subst fgets_all.simps) (simp add: Let_def)
qed

definition grow_by :: "string \<Rightarrow> IgnorePattern list \<Rightarrow> IgnorePattern list \<Rightarrow> bool" where
  "grow_by dir pats pats' \<longleftrightarrow> (\<exists>new. pats' = pats @ new \<and> (\<forall>p \<in> set new. pathIsUnderDir (baseDir p) dir)) \<and>
     (length pats \<le> MAX_IGNORE \<longrightarrow> length pats' \<le> MAX_IGNORE)"

lemma grow_by_refl [simp, intro]: "grow_by dir pats pats"
  by (simp add: grow_by_def)

lemma grow_by_trans [trans]: "grow_by dir p q \<Longrightarrow> grow_by dir q r \<Longrightarrow> grow_by dir p r"
  unfolding grow_by_def by (auto simp: ball_Un)

lemma under_self [simp]: "pathIsUnderDir dir dir"
  using starts_with_append [of dir "[]"] by (simp add: pathIsUnderDir_def)

lemma under_entry: "pathIsUnderDir (dir @ ''/'' @ x) dir"
  by (simp add: pathIsUnderDir_def)

lemma under_trans:
  assumes "pathIsUnderDir path d" "pathIsUnderDir d dir" "d \<noteq> ''.''"
  shows "pathIsUnderDir path dir"
proof (cases "dir = ''.''")
  case False
  with assms(2) obtain r where d: "d = dir @ r" "r = [] \<or> hd r = CHR ''/''"
    by (auto simp: pathIsUnderDir_def starts_with_iff)
  from assms(1,3) obtain q where p: "path = d @ q" "q = [] \<or> hd q = CHR ''/''"
    by (auto simp: pathIsUnderDir_def starts_with_iff)
  have "path = dir @ (r @ q)" using d p by simp
  moreover have "r @ q = [] \<or> hd (r @ q) = CHR ''/''" using d p by (cases r) auto
  ultimately show ?thesis by (simp add: pathIsUnderDir_def)
qed (simp add: pathIsUnderDir_def)

lemma grow_addPattern: "grow_by dir pats (addPattern line dir pats)"
  by (auto simp: grow_by_def addPattern_def Let_def)

lemma grow_fold: "(\<And>x pats. grow_by dir pats (f x pats)) \<Longrightarrow> grow_by dir pats (fold f xs pats)"
proof (induction xs arbitrary: pats)
  case (Cons x xs)
  then show ?case using grow_by_trans by fastforce
qed simp

lemma grow_readGitignore: "grow_by dir pats (readGitignore contents dir pats)"
  by (auto simp: readGitignore_def Let_def grow_addPattern intro!: grow_fold split: option.split)

lemma grow_dir_rules: "grow_by dir pats (dir_rules dir root es pats)"
  by (auto simp: dir_rules_def grow_readGitignore intro: grow_by_trans [OF grow_readGitignore grow_addPattern])

lemma entry_not_dot: "dir @ ''/'' @ x \<noteq> ''.''"
  by (cases dir) auto

lemma grow_entry: "grow_by (dir @ ''/'' @ x) p q \<Longrightarrow> grow_by dir p q"
  unfolding grow_by_def by (blast intro: under_trans [OF _ under_entry entry_not_dot])

subsection \<open>The walk\<close>

definition walked :: "string \<Rightarrow> scan \<Rightarrow> scan \<Rightarrow> int \<Rightarrow> bool" where
  "walked dir s s' t \<longleftrightarrow> grow_by dir (ignorePatterns s) (ignorePatterns s') \<and>
     (\<exists>new. files s' = files s @ new \<and> (\<forall>f \<in> set new. pathIsUnderDir (fe_path f) dir) \<and>
        (length (files s') < MAX_FILES \<longrightarrow> t = sum_list (map fe_size new))) \<and>
     (length (files s) \<le> MAX_FILES \<longrightarrow> length (files s') \<le> MAX_FILES)"

lemma walked_refl [simp, intro]: "walked dir s s 0"
  by (simp add: walked_def)

lemma walked_trans:
  assumes "walked dir s s1 t1" "walked dir s1 s2 t2"
  shows "walked dir s s2 (t1 + t2)"
proof -
  from assms(1) obtain n1 where n1: "files s1 = files s @ n1" "\<forall>f \<in> set n1. pathIsUnderDir (fe_path f) dir"
      "length (files s1) < MAX_FILES \<longrightarrow> t1 = sum_list (map fe_size n1)"
    unfolding walked_def by blast
  from assms(2) obtain n2 where n2: "files s2 = files s1 @ n2" "\<forall>f \<in> set n2. pathIsUnderDir (fe_path f) dir"
      "length (files s2) < MAX_FILES \<longrightarrow> t2 = sum_list (map fe_size n2)"
    unfolding walked_def by blast
  have "files s2 = files s @ (n1 @ n2) \<and> (\<forall>f \<in> set (n1 @ n2). pathIsUnderDir (fe_path f) dir) \<and>
      (length (files s2) < MAX_FILES \<longrightarrow> t1 + t2 = sum_list (map fe_size (n1 @ n2)))"
    using n1 n2 by auto
  moreover have "grow_by dir (ignorePatterns s) (ignorePatterns s2)"
      "length (files s) \<le> MAX_FILES \<longrightarrow> length (files s2) \<le> MAX_FILES"
    using assms grow_by_trans unfolding walked_def by blast+
  ultimately show ?thesis unfolding walked_def by blast
qed

lemma walked_rules:
  assumes "grow_by dir (ignorePatterns s) pats" "walked dir (s\<lparr>ignorePatterns := pats\<rparr>) s' t"
  shows "walked dir s s' t"
  using assms grow_by_trans by (auto simp: walked_def)

lemma walked_entry: "walked (dir @ ''/'' @ x) s s' t \<Longrightarrow> walked dir s s' t"
  unfolding walked_def by (blast intro: grow_entry under_trans [OF _ under_entry entry_not_dot])

lemma walked_file: "walked dir s (record_file (dir @ ''/'' @ x) sz contents s) sz"
  using under_entry by (auto simp: walked_def record_file_def)

lemma scan_walks:
  "walked dir s (fst (scanDir dir root n s)) (snd (scanDir dir root n s))"
  "walked dir s (fst (scan_entries dir root es s)) (snd (scan_entries dir root es s))"
proof (induction dir root n s and dir root es s rule: scanDir_scan_entries.induct)
  case (1 dir root es s)
  then show ?case by (auto intro: walked_rules [OF grow_dir_rules])
next
  case (4 dir root name n es s)
  show ?case
  proof (cases "skipped dir root name n (ignorePatterns s)")
    case True
    then show ?thesis using "4.IH" by simp
  next
    case False
    define r where "r = (if is_dir n then scanDir (dir @ ''/'' @ name) root n s
      else case n of Reg sz t time \<Rightarrow> (record_file (dir @ ''/'' @ name) sz t s, sz) | _ \<Rightarrow> (s, 0))"
    have "walked dir s (fst r) (snd r)"
      using "4.IH"(2) [OF False refl] walked_entry
      by (cases "is_dir n") (auto simp: r_def walked_file [simplified] split: node.split)
    moreover have "walked dir (fst r) (fst (scan_entries dir root es (fst r))) (snd (scan_entries dir root es (fst r)))"
      using "4.IH"(3) [OF False refl r_def, of "fst r" "snd r"] by simp
    moreover have "scan_entries dir root ((name, n) # es) s =
        (fst (scan_entries dir root es (fst r)), snd r + snd (scan_entries dir root es (fst r)))"
      unfolding scan_entries.simps(2) if_not_P [OF False] Let_def r_def [symmetric] by (simp add: split_beta)
    ultimately show ?thesis using walked_trans by simp
  qed
qed auto

text \<open>C30 (functional). The walk of \<open>fileSize\<close> appends files below the directory to the table, and while the table is not full
  the size it returns is the sum of their sizes; the tables keep within their bounds.\<close>

theorem walk_adds_up:
  "(\<exists>new. files (fst (scanDir dir root n s)) = files s @ new \<and> (\<forall>f \<in> set new. pathIsUnderDir (fe_path f) dir) \<and>
     (length (files (fst (scanDir dir root n s))) < MAX_FILES \<longrightarrow> snd (scanDir dir root n s) = sum_list (map fe_size new))) \<and>
   (length (files s) \<le> MAX_FILES \<longrightarrow> length (files (fst (scanDir dir root n s))) \<le> MAX_FILES) \<and>
   (length (ignorePatterns s) \<le> MAX_IGNORE \<longrightarrow> length (ignorePatterns (fst (scanDir dir root n s))) \<le> MAX_IGNORE)"
  using scan_walks(1) [of dir s root n] unfolding walked_def grow_by_def by blast

theorem walk_adds_up_witness:
  "snd (scanDir ''/r'' None (Dir [(''a'', Reg 3 None 0), (''d'', Dir [(''b'', Reg 4 None 0)])]) \<lparr>ignorePatterns = [], files = []\<rparr>) =
     sum_list (map fe_size (files (fst (scanDir ''/r'' None
       (Dir [(''a'', Reg 3 None 0), (''d'', Dir [(''b'', Reg 4 None 0)])]) \<lparr>ignorePatterns = [], files = []\<rparr>))))"
proof -
  let ?n = "Dir [(''a'', Reg 3 None 0), (''d'', Dir [(''b'', Reg 4 None 0)])]" and ?s = "\<lparr>ignorePatterns = [], files = []\<rparr>"
  have "length (files (fst (scanDir ''/r'' None ?n ?s))) < MAX_FILES"
    by (simp add: skipped_def is_dir_def dir_root_def dir_rules_def has_git_dir_def record_file_def MAX_FILES_def)
  then show ?thesis using walk_adds_up [of "''/r''" None ?n ?s] by auto
qed

lemma outside_rule:
  assumes "pathIsUnderDir (baseDir p) dir" "dir \<noteq> ''.''" "\<not> pathIsUnderDir path dir"
  shows "\<not> rule_applies path b p"
proof -
  have "baseDir p \<noteq> ''.''"
    using assms(1,2) by (cases dir) (auto simp: pathIsUnderDir_def starts_with_iff)
  then show ?thesis using assms under_trans [of path "baseDir p" dir] by (auto simp: rule_applies_def)
qed

lemma outside_rules:
  assumes "\<forall>p \<in> set new. pathIsUnderDir (baseDir p) dir" "dir \<noteq> ''.''" "\<not> pathIsUnderDir path dir"
  shows "shouldIgnore (pats @ new) path b = shouldIgnore pats path b"
  using assms(1)
proof (induction new rule: rev_induct)
  case (snoc p new)
  then show ?case
    using shouldIgnore_append [of "pats @ new" p] outside_rule [OF _ assms(2,3)] by simp
qed simp

text \<open>C28 (safety). In \<open>fileSize\<close> the rules found below a directory decide nothing outside it.\<close>

theorem rules_stay_inside:
  assumes "dir \<noteq> ''.''" "\<not> pathIsUnderDir path dir"
  shows "shouldIgnore (ignorePatterns (fst (scanDir dir root n s))) path b = shouldIgnore (ignorePatterns s) path b"
proof -
  obtain new where "ignorePatterns (fst (scanDir dir root n s)) = ignorePatterns s @ new"
      "\<forall>p \<in> set new. pathIsUnderDir (baseDir p) dir"
    using scan_walks(1) [of dir s root n] unfolding walked_def grow_by_def by blast
  then show ?thesis using outside_rules assms by simp
qed

text \<open>A repository \<open>/r\<close> that ignores objects, with another repository in it before an object file.\<close>

definition nested_repo :: node where
  "nested_repo = Dir [(''.git'', Dir []), (''.gitignore'', Reg 4 (Some (''*.o'' @ NL)) 0)]"

definition outer_rules :: "IgnorePattern list" where
  "outer_rules = [\<lparr>pattern = ''*.o'', isNegation = False, isDirectory = False, baseDir = ''/r''\<rparr>]"

lemma outer_ignores: "shouldIgnore outer_rules ''/r/x.o'' False"
  by (simp add: shouldIgnore_def outer_rules_def rule_applies_def pathIsUnderDir_def relPath_def pathMatches_def base_name_def
    fnmatch.simps)

lemma outside_sub: "\<not> pathIsUnderDir ''/r/x.o'' ''/r/sub''"
  by (simp add: pathIsUnderDir_def)

theorem rules_stay_inside_witness:
  "shouldIgnore (ignorePatterns (fst (scanDir ''/r/sub'' (Some ''/r'') nested_repo
     \<lparr>ignorePatterns = outer_rules, files = []\<rparr>))) ''/r/x.o'' False"
  by (subst rules_stay_inside) (simp_all add: outer_ignores outside_sub)

definition lc_within :: "string \<Rightarrow> IgnorePattern list \<Rightarrow> IgnorePattern list \<Rightarrow> bool" where
  "lc_within dir pats pats' \<longleftrightarrow> (\<forall>p \<in> set pats'. p \<in> set pats \<or> pathIsUnderDir (baseDir p) dir)"

lemma lc_within_trans: "lc_within dir p q \<Longrightarrow> lc_within dir q r \<Longrightarrow> lc_within dir p r"
  by (auto simp: lc_within_def)

lemma lc_within_grow: "grow_by dir p q \<Longrightarrow> lc_within dir p q"
  by (auto simp: lc_within_def grow_by_def)

lemma lc_within_entry: "lc_within (dir @ ''/'' @ x) p q \<Longrightarrow> lc_within dir p q"
  unfolding lc_within_def by (blast intro: under_trans [OF _ under_entry entry_not_dot])

lemma lc_within_rules: "lc_within dir pats (lc_rules dir root es pats)"
proof -
  have "lc_within dir pats (if has_git_dir es then [] else pats)" by (simp add: lc_within_def)
  then show ?thesis
    unfolding lc_rules_def using lc_within_trans lc_within_grow [OF grow_dir_rules] by blast
qed

lemma lc_record_patterns [simp]: "lc_patterns (lc_record path time s) = lc_patterns s"
  by (simp add: lc_record_def)

lemma lc_scan_within:
  "lc_within dir (lc_patterns s) (lc_patterns (lc_scanDir dir root n s))"
  "lc_within dir (lc_patterns s) (lc_patterns (lc_entries dir root es s))"
proof (induction dir root n s and dir root es s rule: lc_scanDir_lc_entries.induct)
  case (1 dir root es s)
  then show ?case using lc_within_trans [OF lc_within_rules] by simp
next
  case (5 dir root name n es s)
  show ?case
  proof (cases "skipped dir root name (followed n) (lc_patterns s)")
    case False
    define s1 where "s1 = (if is_dir (followed n) then lc_scanDir (dir @ ''/'' @ name) root n s
      else case followed n of Reg sz t time \<Rightarrow> lc_record (dir @ ''/'' @ name) time s | _ \<Rightarrow> s)"
    have "lc_within dir (lc_patterns s) (lc_patterns s1)"
      using "5.IH"(2) [OF False refl] lc_within_entry
      by (cases "is_dir (followed n)") (auto simp: s1_def lc_within_def split: node.split)
    moreover have "lc_within dir (lc_patterns s1) (lc_patterns (lc_entries dir root es s1))"
      using "5.IH"(3) [OF False refl s1_def] .
    moreover have "lc_entries dir root ((name, n) # es) s = lc_entries dir root es s1"
      unfolding lc_entries.simps(2) if_not_P [OF False] Let_def s1_def ..
    ultimately show ?thesis using lc_within_trans by simp
  qed (use "5.IH" in simp)
qed (auto simp: lc_within_def)

text \<open>C29 (safety). \<open>lastChanged\<close> forgets the rules of the surrounding repository at every repository it enters: after that no
  path outside is ignored any more.\<close>

theorem nested_repository_forgets:
  assumes "has_git_dir es" "dir \<noteq> ''.''" "\<not> pathIsUnderDir path dir"
  shows "\<not> shouldIgnore (lc_patterns (lc_scanDir dir root (Dir es) s)) path b"
proof -
  let ?s = "s\<lparr>lc_patterns := []\<rparr>"
  have "lc_scanDir dir root (Dir es) s = lc_scanDir dir root (Dir es) ?s"
    using assms(1) by (simp add: lc_rules_def)
  then have "\<forall>p \<in> set (lc_patterns (lc_scanDir dir root (Dir es) s)). pathIsUnderDir (baseDir p) dir"
    using lc_scan_within(1) [of dir ?s root "Dir es"] by (simp add: lc_within_def)
  then have "shouldIgnore ([] @ lc_patterns (lc_scanDir dir root (Dir es) s)) path b = shouldIgnore [] path b"
    using outside_rules assms(2,3) by blast
  then show ?thesis by (simp add: shouldIgnore_def)
qed

theorem nested_repository_forgets_witness:
  "shouldIgnore outer_rules ''/r/x.o'' False \<and>
   \<not> shouldIgnore (lc_patterns (lc_scanDir ''/r/sub'' (Some ''/r'') nested_repo
     \<lparr>lc_patterns = outer_rules, lc_files = []\<rparr>)) ''/r/x.o'' False"
  using outer_ignores outside_sub unfolding nested_repo_def
  by (intro conjI nested_repository_forgets) (simp_all add: has_git_dir_def is_dir_def)

text \<open>A rule that starts with a slash, which anchors it for git, never applies.\<close>

theorem anchored_rule_never_applies:
  assumes "pattern p = ''/'' @ rest" "baseDir p \<noteq> ''.''" "path = baseDir p @ ''/'' @ rel" "\<not> starts_with ''/'' (strip_dot rel)"
  shows "\<not> rule_applies path isDir p"
proof -
  have "relPath (baseDir p) path = rel" using assms by (simp add: relPath_def starts_with_iff)
  moreover have "\<not> fnmatch True (''/'' @ rest) (strip_dot rel)"
    using assms(4) by (cases "strip_dot rel") (auto simp: fnmatch.simps)
  ultimately show ?thesis using assms(1) by (simp add: rule_applies_def pathMatches_def)
qed

theorem anchored_rule_never_applies_witness:
  "\<not> rule_applies (''/r'' @ ''/'' @ ''build'') True \<lparr>pattern = ''/'' @ ''build'', isNegation = False, isDirectory = True, baseDir = ''/r''\<rparr>"
  by (rule anchored_rule_never_applies [where rest = "''build''" and rel = "''build''"]) (simp_all add: strip_dot_def)

subsection \<open>The report\<close>

lemma take_sorted_split:
  assumes "sorted (map f xs)" "a \<in># mset xs - mset (take k xs)" "b \<in> set (take k xs)"
  shows "f b \<le> f a"
proof -
  have "mset xs - mset (take k xs) = mset (drop k xs)"
    by (metis add_diff_cancel_left' append_take_drop_id mset_append)
  with assms(2) have "a \<in> set (drop k xs)" by simp
  moreover have "sorted (map f (take k xs) @ map f (drop k xs))"
    using assms(1) by (metis append_take_drop_id map_append)
  ultimately show ?thesis using assms(3) by (auto simp: sorted_append)
qed

text \<open>\<open>fileSize\<close> reports that many of the files it has found, the largest first, and none it leaves out is larger than
  one it reports.\<close>

theorem largest_files_reported:
  "mset (top_files n fs) \<subseteq># mset fs \<and> length (top_files n fs) = min (nat n) (length fs) \<and>
   sorted_wrt (\<lambda>a b. fe_size a \<ge> fe_size b) (top_files n fs) \<and>
   (\<forall>a \<in># mset fs - mset (top_files n fs). \<forall>b \<in> set (top_files n fs). fe_size a \<le> fe_size b)"
proof -
  let ?key = "\<lambda>f. - fe_size f"
  let ?xs = "sort_key ?key fs"
  have sorted: "sorted (map ?key ?xs)" by simp
  have "mset (take (nat n) ?xs) \<subseteq># mset ?xs"
    by (metis append_take_drop_id mset_append mset_subset_eq_add_left)
  moreover have "sorted (map ?key (take (nat n) ?xs))" using sorted sorted_wrt_take take_map by metis
  moreover have "\<forall>a \<in># mset ?xs - mset (take (nat n) ?xs). \<forall>b \<in> set (take (nat n) ?xs). ?key b \<le> ?key a"
    using take_sorted_split [OF sorted] by blast
  ultimately show ?thesis
    by (simp add: top_files_def sorted_map min.commute)
qed

theorem largest_files_reported_witness:
  "map fe_size (top_files 1 [\<lparr>fe_path = ''a'', fe_size = 1, fe_lines = 0\<rparr>, \<lparr>fe_path = ''b'', fe_size = 2, fe_lines = 0\<rparr>]) = [2]"
  using largest_files_reported [of 1 "[\<lparr>fe_path = ''a'', fe_size = 1, fe_lines = 0\<rparr>, \<lparr>fe_path = ''b'', fe_size = 2, fe_lines = 0\<rparr>]"]
  by (simp add: top_files_def)

end
