(* ===== verification/Clean_Between.thy ===== *)
theory Clean_Between
  imports Ignore_Rules
begin

text \<open>
  The tool \<open>cleanBetween\<close> (\<open>utilities/cleanBetween/src/main.c\<close>), which removes the empty lines inside braces from a
  file. A line is what one \<open>fgets\<close> with 1024 bytes reads, up to its first NUL byte. The brace level is an \<open>int\<close>; a file
  has fewer than two billion braces.
\<close>

definition brace_level :: "string \<Rightarrow> int" where
  "brace_level line = int (length (filter (\<lambda>c. c = CHR 0x7B) line)) - int (length (filter (\<lambda>c. c = CHR 0x7D) line))"

definition all_space :: "string \<Rightarrow> bool" where
  "all_space = list_all is_space"

fun clean_lines :: "int \<Rightarrow> string list \<Rightarrow> string list" where
  "clean_lines level [] = []"
| "clean_lines level (l # ls) =
     (let line = takeWhile (\<lambda>c. c \<noteq> CHR 0x00) l; level1 = level + brace_level line in
      if level1 > 0 \<and> all_space line then clean_lines level1 ls else line # clean_lines level1 ls)"

definition cleaned :: "string \<Rightarrow> string" where
  "cleaned contents = concat (clean_lines 0 (fgets_all 1023 contents))"

text \<open>\<open>main\<close>: the exit code and what the file holds afterwards; \<open>contents\<close> is what it held if it can be opened.\<close>

definition cleanBetween_main :: "string list \<Rightarrow> string option \<Rightarrow> bool \<Rightarrow> int \<times> string option" where
  "cleanBetween_main argv contents temp_ok =
     (if length argv \<noteq> 1 then (1, contents)
      else case contents of
        None \<Rightarrow> (1, None)
      | Some t \<Rightarrow> if \<not> temp_ok then (1, Some t) else (0, Some (cleaned t)))"

subsection \<open>Facts\<close>

text \<open>Lines as \<open>fgets\<close> reads them, of a text in which every line is ended and fits the buffer.\<close>

definition text_line :: "string \<Rightarrow> bool" where
  "text_line l \<longleftrightarrow> length l \<le> 1023 \<and> CHR 0x00 \<notin> set l \<and> (\<exists>t. l = t @ NL \<and> CHR 0x0A \<notin> set t)"

lemma fgets_text_line:
  assumes "text_line l"
  shows "fgets_all 1023 (l @ rest) = l # fgets_all 1023 rest"
proof -
  obtain t where l: "l = t @ NL" "CHR 0x0A \<notin> set t" "length t < 1023"
    using assms by (auto simp: text_line_def)
  have "take 1023 (l @ rest) = t @ NL @ take (1022 - length t) rest"
  proof -
    have "1023 - length t = Suc (1022 - length t)" using l(3) by simp
    then show ?thesis using l(1,3) by simp
  qed
  moreover have "takeWhile (\<lambda>c. c \<noteq> CHR 0x0A) (t @ NL @ x) = t" for x
    using l(2) by (subst takeWhile_append2) auto
  ultimately show ?thesis
    using l by (subst fgets_all.simps) (simp add: Let_def)
qed

lemma fgets_text_lines: "list_all text_line ls \<Longrightarrow> fgets_all 1023 (concat ls) = ls"
proof (induction ls)
  case Nil
  then show ?case by (simp add: fgets_all.simps)
qed (simp add: fgets_text_line)

lemma text_line_whole: "text_line l \<Longrightarrow> takeWhile (\<lambda>c. c \<noteq> CHR 0x00) l = l"
  by (auto simp: text_line_def takeWhile_eq_all_conv)

text \<open>White space holds no braces.\<close>

lemma space_level: "all_space l \<Longrightarrow> brace_level l = 0"
proof -
  assume "all_space l"
  then have "\<forall>c \<in> set l. c \<noteq> CHR 0x7B \<and> c \<noteq> CHR 0x7D"
    by (auto simp: all_space_def list_all_iff is_space_def)
  then show ?thesis by (simp add: brace_level_def filter_empty_conv)
qed

text \<open>The level before each line.\<close>

fun levels :: "int \<Rightarrow> string list \<Rightarrow> (int \<times> string) list" where
  "levels level [] = []"
| "levels level (l # ls) = (level + brace_level l, l) # levels (level + brace_level l) ls"

lemma clean_lines_filter:
  "list_all text_line ls \<Longrightarrow> clean_lines level ls = map snd (filter (\<lambda>(k, l). \<not> (k > 0 \<and> all_space l)) (levels level ls))"
  by (induction ls arbitrary: level) (auto simp: text_line_whole Let_def)

lemma clean_lines_again:
  "list_all text_line ls \<Longrightarrow> clean_lines level (clean_lines level ls) = clean_lines level ls"
  by (induction ls arbitrary: level) (auto simp: text_line_whole space_level Let_def)

lemma clean_lines_text: "list_all text_line ls \<Longrightarrow> list_all text_line (clean_lines level ls)"
  by (induction ls arbitrary: level) (auto simp: text_line_whole Let_def)

text \<open>On a text of ended lines that fit the buffer, exactly the lines of white space at a positive level are removed, the
  other lines stay as they are, and a second run changes nothing.\<close>

theorem cleaning_removes_blank_lines:
  assumes "list_all text_line ls"
  shows "cleaned (concat ls) = concat (map snd (filter (\<lambda>(k, l). \<not> (k > 0 \<and> all_space l)) (levels 0 ls))) \<and>
    cleaned (cleaned (concat ls)) = cleaned (concat ls)"
proof -
  have "cleaned (concat ls) = concat (clean_lines 0 ls)"
    by (simp add: cleaned_def fgets_text_lines [OF assms])
  moreover have "cleaned (concat (clean_lines 0 ls)) = concat (clean_lines 0 ls)"
    using assms by (simp add: cleaned_def fgets_text_lines clean_lines_text clean_lines_again)
  ultimately show ?thesis using clean_lines_filter [OF assms] by simp
qed

theorem cleaning_removes_blank_lines_witness:
  "cleaned (concat [''f {'' @ NL, NL, ''x;'' @ NL, ''}'' @ NL, NL]) = concat [''f {'' @ NL, ''x;'' @ NL, ''}'' @ NL, NL]"
proof -
  have "list_all text_line [''f {'' @ NL, NL, ''x;'' @ NL, ''}'' @ NL, NL]"
    by (simp add: text_line_def)
  from cleaning_removes_blank_lines [OF this] show ?thesis
    by (simp add: brace_level_def all_space_def is_space_def)
qed

end
