(* ===== verification/Send_Keys.thy ===== *)
theory Send_Keys
  imports Key_Typing
begin

text \<open>
  The tool \<open>sendKeys\<close> (\<open>utilities/sendKeys/sendKeys.c\<close>): its commands as the events it writes to a keyboard
  device, and a comparison with \<open>simulateInput\<close> of the daemon, which has the same vocabulary.

  A descriptor below zero makes every write fail. Pauses are left out.
\<close>

subsection \<open>Commands\<close>

definition sendEvent :: "int \<Rightarrow> int \<Rightarrow> int \<Rightarrow> int \<Rightarrow> raw_event list" where
  "sendEvent fd type code v = (if fd \<ge> 0 then [(word_of_int type, word_of_int code, word_of_int v)] else [])"

definition isApp :: "string \<Rightarrow> int" where
  "isApp input =
     (if input = ''code'' then 102 else if input = ''gnome-terminal-server'' then 103
      else if input = ''google-chrome'' then 104 else if input = ''DefaultKeyboard'' then 101 else 0)"

definition KEY_MAP :: "(string \<times> int) list" where
  "KEY_MAP = map (\<lambda>(n, c). (n, uint (c :: u16)))
    [(''keyA'', KEY_A), (''keyB'', KEY_B), (''keyC'', KEY_C), (''keyD'', KEY_D), (''keyE'', KEY_E),
     (''keyF'', KEY_F), (''keyG'', KEY_G), (''keyH'', KEY_H), (''keyI'', KEY_I), (''keyJ'', KEY_J),
     (''keyK'', KEY_K), (''keyL'', KEY_L), (''keyM'', KEY_M), (''keyN'', KEY_N), (''keyO'', KEY_O),
     (''keyP'', KEY_P), (''keyQ'', KEY_Q), (''keyR'', KEY_R), (''keyS'', KEY_S), (''keyT'', KEY_T),
     (''keyU'', KEY_U), (''keyV'', KEY_V), (''keyW'', KEY_W), (''keyX'', KEY_X), (''keyY'', KEY_Y),
     (''keyZ'', KEY_Z), (''period'', KEY_DOT), (''slash'', KEY_SLASH), (''minus'', KEY_MINUS),
     (''space'', KEY_SPACE), (''comma'', KEY_COMMA), (''equals'', KEY_EQUAL), (''backspace'', KEY_BACKSPACE),
     (''semicolon'', KEY_SEMICOLON), (''apostrophe'', KEY_APOSTROPHE), (''backslash'', KEY_BACKSLASH),
     (''bracket_left'', KEY_LEFTBRACE), (''bracket_right'', KEY_RIGHTBRACE), (''backtick'', KEY_GRAVE),
     (''enter'', KEY_ENTER), (''keyShift'', KEY_LEFTSHIFT)]"

text \<open>The first name that begins the command, with the code and the rest of the command.\<close>

definition lookup_key :: "string \<Rightarrow> (int \<times> string) option" where
  "lookup_key cmd = map_option (\<lambda>(n, c). (c, drop (length n) cmd)) (find (\<lambda>(n, c). starts_with n cmd) KEY_MAP)"

definition atoi_key :: "string \<Rightarrow> int" where
  "atoi_key s = (case strtol s of Some i \<Rightarrow> i | None \<Rightarrow> 0)"

definition numlock_press :: "int \<Rightarrow> int \<Rightarrow> raw_event list" where
  "numlock_press fd v = sendEvent fd 4 4 0x45 @ sendEvent fd 1 69 v @ sendEvent fd 0 0 0"

definition handle_command :: "int \<Rightarrow> string \<Rightarrow> raw_event list" where
  "handle_command fd cmd =
     (case lookup_key cmd of
        Some (key_code, rest) \<Rightarrow>
          if rest = [] then sendEvent fd 1 key_code 1 @ sendEvent fd 1 key_code 0 @ sendEvent fd 0 0 0
          else if rest = ''Down'' then sendEvent fd 1 key_code 1 @ sendEvent fd 0 0 0
          else if rest = ''Up'' then sendEvent fd 1 key_code 0 @ sendEvent fd 0 0 0
          else []
      | None \<Rightarrow>
          if starts_with ''keycode:'' cmd then
            (let keycode = atoi_key (drop 8 cmd) in
             if keycode > 0 then sendEvent fd 1 keycode 1 @ sendEvent fd 1 keycode 0 @ sendEvent fd 0 0 0 else [])
          else if cmd = ''numlock'' then numlock_press fd 1 @ numlock_press fd 0
          else if cmd = ''numlockDown'' then numlock_press fd 1
          else if cmd = ''numlockUp'' then numlock_press fd 0
          else if cmd = ''syn'' then sendEvent fd 0 0 0
          else if isApp cmd \<noteq> 0 then
            concat (map (\<lambda>i. sendEvent fd 4 4 100 @ sendEvent fd 4 4 (200 + i) @ sendEvent fd 0 0 0) [0, 1, 2]) @
            sendEvent fd 4 4 (isApp cmd) @ sendEvent fd 0 0 0
          else [])"

text \<open>\<open>sendKeys_execute_commands\<close> with what \<open>open\<close> returns: the exit code and the events written.\<close>

definition sendKeys_execute_commands :: "int \<Rightarrow> string list \<Rightarrow> int \<times> raw_event list" where
  "sendKeys_execute_commands fd commands =
     (if fd < 0 then (1, []) else (0, concat (map (handle_command fd) commands)))"

definition sendKeys_with_fd :: "int \<Rightarrow> string list \<Rightarrow> raw_event list" where
  "sendKeys_with_fd fd commands = (if fd < 0 then [] else concat (map (handle_command fd) commands))"

subsection \<open>The program\<close>

text \<open>The path of the keyboard: what the daemon answers to \<open>getKeyboardPath\<close>, if it can be asked, up to the first NUL byte and
  without a newline at its end.\<close>

definition getKeyboardPath :: "bool \<Rightarrow> bool \<Rightarrow> bool \<Rightarrow> string option \<Rightarrow> string" where
  "getKeyboardPath got_socket connected written answer =
     (case answer of
        Some t \<Rightarrow>
          if got_socket \<and> connected \<and> written \<and> t \<noteq> []
          then takeWhile (\<lambda>c. c \<noteq> CHR 0x00) (let b = take 511 t in if last b = CHR 0x0A then butlast b else b)
          else ''/dev/input/by-id/corsairKeyBoardLogiMouse''
      | None \<Rightarrow> ''/dev/input/by-id/corsairKeyBoardLogiMouse'')"

text \<open>The options of \<open>main\<close>: the usage text, a missing path, or the path with the commands.\<close>

datatype sk_request = Usage int | Missing_Path | Run string "string list"

fun sk_args :: "string \<Rightarrow> string list \<Rightarrow> sk_request" where
  "sk_args path [] = Run path []"
| "sk_args path (a # as) =
     (if a = ''-h'' \<or> a = ''--help'' then Usage 0
      else if a = ''-k'' \<or> a = ''--keyboard'' then (case as of [] \<Rightarrow> Missing_Path | p # rest \<Rightarrow> sk_args p rest)
      else Run path (a # as))"

definition sendKeys_main :: "string \<Rightarrow> (string \<Rightarrow> int) \<Rightarrow> string list \<Rightarrow> int \<times> raw_event list" where
  "sendKeys_main default_path open_device argv =
     (case argv of
        [] \<Rightarrow> (1, [])
      | _ \<Rightarrow> (case sk_args default_path argv of
            Usage rc \<Rightarrow> (rc, [])
          | Missing_Path \<Rightarrow> (1, [])
          | Run path commands \<Rightarrow> sendKeys_execute_commands (open_device path) commands))"

subsection \<open>Comparison with the daemon\<close>

definition key_events :: "raw_event list \<Rightarrow> raw_event list" where
  "key_events = filter (\<lambda>(t, c, v). t \<noteq> EV_SYN)"

definition working_keys :: "(string \<times> int) list" where
  "working_keys = filter (\<lambda>(n, c). n \<noteq> ''keyShift'') KEY_MAP"

lemma working_keys_looked_up:
  "list_all (\<lambda>(n, c). \<forall>s \<in> set [[], ''Down'', ''Up'']. lookup_key (n @ s) = Some (c, s)) working_keys"
  by code_simp

lemma working_keys_known:
  "list_all (\<lambda>(n, c). map_option uint (map_of KEY_NAME_TO_CODE n) = Some c \<and> split_key_name (n @ ''Down'') = (n, Some 1) \<and>
     split_key_name (n @ ''Up'') = (n, Some 0) \<and> split_key_name n = (n, None) \<and>
     list_all (\<lambda>s. map_of APP_NAME_TO_CODE (n @ s) = None \<and> n @ s \<notin> {''syn'', ''numlock'', ''numlockDown'', ''numlockUp''})
       [[], ''Down'', ''Up'']) working_keys"
  by code_simp

lemma simulated_key:
  assumes "uinputDev m" "map_of KEY_NAME_TO_CODE n = Some code" "split_key_name k = (n, v)"
    and "map_of APP_NAME_TO_CODE k = None" "k \<notin> {''syn'', ''numlock'', ''numlockDown'', ''numlockUp''}"
  shows "out (fst (simulate_key k m)) = out m @
    concat (map (\<lambda>v. [(EV_KEY, code, v), SYN, SYN]) (case v of None \<Rightarrow> [1, 0] | Some v \<Rightarrow> [v]))"
  using assms by (simp add: simulate_key_def emit_sync_def emit_def sync_def write_raw_def split: option.split)

lemma written_key:
  assumes "0 \<le> fd" "lookup_key k = Some (uint (code :: u16), s)" "s \<in> {[], ''Down'', ''Up''}"
  shows "handle_command fd k = map (\<lambda>v. (EV_KEY, code, v)) (if s = [] then [1, 0] else if s = ''Down'' then [1] else [0]) @ [SYN]"
  using assms by (auto simp: handle_command_def sendEvent_def)

lemma shift_swallowed: "handle_command fd (''keyShift'' @ s) = []"
proof -
  have "lookup_key (''keyShift'' @ s) = Some (31, ''hift'' @ s)"
    by (simp add: lookup_key_def KEY_MAP_def)
  then show ?thesis by (simp add: handle_command_def)
qed

text \<open>C31 (equivalence). Every key of \<open>sendKeys\<close> is written as \<open>simulateInput\<close> writes it, up to the synchronisation events, with
  and without \<open>Down\<close> and \<open>Up\<close>; but \<open>keyShift\<close>, which the table lists, is taken for \<open>keyS\<close> and written not at all.\<close>

theorem send_keys_as_daemon:
  assumes "(n, c) \<in> set KEY_MAP" "s \<in> {[], ''Down'', ''Up''}" "0 \<le> fd" "uinputDev m"
  shows "key_events (handle_command fd (n @ s)) =
    (if n = ''keyShift'' then []
     else key_events (drop (length (out m)) (out (fst (simulate_key (n @ s) m)))))"
proof (cases "n = ''keyShift''")
  case False
  then have key: "(n, c) \<in> set working_keys" using assms(1) by (simp add: working_keys_def)
  obtain code where code: "map_of KEY_NAME_TO_CODE n = Some code" "c = uint code"
    using working_keys_known key by (fastforce simp: list_all_iff)
  have look: "lookup_key (n @ s) = Some (uint code, s)"
    using working_keys_looked_up key assms(2) code(2) by (fastforce simp: list_all_iff)
  define v where "v = (if s = [] then None else if s = ''Down'' then Some (1 :: i32) else Some 0)"
  have "split_key_name (n @ s) = (n, v)" "map_of APP_NAME_TO_CODE (n @ s) = None"
      "n @ s \<notin> {''syn'', ''numlock'', ''numlockDown'', ''numlockUp''}"
    using working_keys_known key assms(2) by (fastforce simp: list_all_iff v_def)+
  from simulated_key [OF assms(4) code(1) this] show ?thesis
    unfolding written_key [OF assms(3) look assms(2)] using False by (simp add: key_events_def v_def)
qed (simp only: shift_swallowed key_events_def filter.simps if_True simp_thms)

theorem send_keys_as_daemon_witness:
  "key_events (handle_command 3 (''keyA'' @ ''Down'')) = [(EV_KEY, KEY_A, 1)] \<and>
   key_events (handle_command 3 (''keyA'' @ ''Down'')) = key_events (out (fst (simulate_key (''keyA'' @ ''Down'')
     (initial_mapper\<lparr>uinputDev := True\<rparr>))))"
proof -
  have "(''keyA'', 30) \<in> set KEY_MAP" by (simp add: KEY_MAP_def)
  then have "key_events (handle_command 3 (''keyA'' @ ''Down'')) = key_events (drop 0 (out (fst (simulate_key (''keyA'' @ ''Down'')
     (initial_mapper\<lparr>uinputDev := True\<rparr>)))))"
    using send_keys_as_daemon [of "''keyA''" 30 "''Down''" 3 "initial_mapper\<lparr>uinputDev := True\<rparr>"]
    by (simp add: initial_mapper_def)
  moreover have "key_events (handle_command 3 (''keyA'' @ ''Down'')) = [(EV_KEY, KEY_A, 1)]"
    by (simp add: key_events_def handle_command_def lookup_key_def KEY_MAP_def sendEvent_def)
  ultimately show ?thesis by simp
qed

end
