(* ===== verification/Screen_Buffer.thy ===== *)
theory Screen_Buffer
  imports Prelude
begin

text \<open>
  The character buffer of \<open>termcontrol\<close> (\<open>utilities/termcontrol/src/buffer.cpp\<close> and
  \<open>include/buffer.hpp\<close>): its operations, the shape every operation keeps, and what is read back after a write.
\<close>

record Buffer =
  buf_rows :: int
  buf_cols :: int
  buf_data :: "char list list"

text \<open>A negative size is a huge number for \<open>std::vector\<close>, which throws: \<open>None\<close>.\<close>

definition Buffer_new :: "int \<Rightarrow> int \<Rightarrow> Buffer option" where
  "Buffer_new rows cols =
     (if rows < 0 \<or> cols < 0 then None
      else Some \<lparr>buf_rows = rows, buf_cols = cols, buf_data = replicate (nat rows) (replicate (nat cols) CHR '' '')\<rparr>)"

text \<open>The loop over the text, which stops at the right edge.\<close>

fun write_line :: "string \<Rightarrow> int \<Rightarrow> int \<Rightarrow> char list \<Rightarrow> char list" where
  "write_line [] col cols line = line"
| "write_line (c # s) col cols line = (if col < cols then write_line s (col + 1) cols (line[nat col := c]) else line)"

definition buf_write :: "string \<Rightarrow> int \<Rightarrow> int \<Rightarrow> Buffer \<Rightarrow> Buffer" where
  "buf_write s row col b =
     (if row < 0 \<or> row \<ge> buf_rows b \<or> col < 0 then b
      else b\<lparr>buf_data := (buf_data b)[nat row := write_line s col (buf_cols b) (buf_data b ! nat row)]\<rparr>)"

definition buf_clear :: "Buffer \<Rightarrow> Buffer" where
  "buf_clear b = b\<lparr>buf_data := map (map (\<lambda>c. CHR '' '')) (buf_data b)\<rparr>"

definition resize_to :: "nat \<Rightarrow> 'a \<Rightarrow> 'a list \<Rightarrow> 'a list" where
  "resize_to n x xs = take n xs @ replicate (n - length xs) x"

definition buf_resize :: "int \<Rightarrow> int \<Rightarrow> Buffer \<Rightarrow> Buffer option" where
  "buf_resize rows cols b =
     (if rows < 0 \<or> 0 < rows \<and> cols < 0 then None
      else Some \<lparr>buf_rows = rows, buf_cols = cols,
        buf_data = map (resize_to (nat cols) CHR '' '') (resize_to (nat rows) [] (buf_data b))\<rparr>)"

definition buf_at :: "Buffer \<Rightarrow> int \<Rightarrow> int \<Rightarrow> char" where
  "buf_at b row col =
     (if row < 0 \<or> row \<ge> buf_rows b \<or> col < 0 \<or> col \<ge> buf_cols b then CHR '' '' else buf_data b ! nat row ! nat col)"

definition buf_getLine :: "Buffer \<Rightarrow> int \<Rightarrow> string" where
  "buf_getLine b row = (if row < 0 \<or> row \<ge> buf_rows b then [] else buf_data b ! nat row)"

subsection \<open>The shape of the buffer\<close>

definition buffer_ok :: "Buffer \<Rightarrow> bool" where
  "buffer_ok b \<longleftrightarrow> length (buf_data b) = nat (buf_rows b) \<and> (\<forall>line \<in> set (buf_data b). length line = nat (buf_cols b))"

lemma length_write_line [simp]: "length (write_line s col cols line) = length line"
  by (induction s col cols line rule: write_line.induct) auto

lemma length_resize_to [simp]: "length (resize_to n x xs) = n"
  by (simp add: resize_to_def)

lemma write_line_nth:
  "0 \<le> col \<Longrightarrow> k < length line \<Longrightarrow> length line = nat cols \<Longrightarrow>
     write_line s col cols line ! k = (if nat col \<le> k \<and> k < nat col + length s then s ! (k - nat col) else line ! k)"
proof (induction s col cols line rule: write_line.induct)
  case (2 c s col cols line)
  then show ?case by (auto simp: nat_add_distrib nth_list_update nth_Cons' not_less_eq_eq Suc_diff_le split: if_splits)
qed auto

lemma Buffer_new_some: "0 \<le> rows \<Longrightarrow> 0 \<le> cols \<Longrightarrow> \<exists>b. Buffer_new rows cols = Some b"
  by (simp add: Buffer_new_def)

lemma buffer_ok_new: "Buffer_new rows cols = Some b \<Longrightarrow> buffer_ok b"
  by (auto simp: buffer_ok_def Buffer_new_def split: if_splits)

lemma buffer_ok_write: "buffer_ok b \<Longrightarrow> buffer_ok (buf_write s row col b)"
proof -
  assume ok: "buffer_ok b"
  have "length line = nat (buf_cols b)"
    if row: "0 \<le> row" "row < buf_rows b"
      and line: "line \<in> set ((buf_data b)[nat row := write_line s col (buf_cols b) (buf_data b ! nat row)])" for line
  proof -
    have "line \<in> set (buf_data b) \<or> line = write_line s col (buf_cols b) (buf_data b ! nat row)"
      using line set_update_subset_insert by fast
    moreover have "buf_data b ! nat row \<in> set (buf_data b)"
      using row ok by (simp add: buffer_ok_def nat_less_iff)
    ultimately show ?thesis using ok by (auto simp: buffer_ok_def)
  qed
  then show ?thesis using ok by (auto simp: buf_write_def buffer_ok_def)
qed

lemma buffer_ok_clear: "buffer_ok b \<Longrightarrow> buffer_ok (buf_clear b)"
  by (auto simp: buffer_ok_def buf_clear_def)

lemma buffer_ok_resize: "buf_resize rows cols b = Some b' \<Longrightarrow> buffer_ok b'"
  by (auto simp: buffer_ok_def buf_resize_def split: if_splits)

lemmas buffer_ok_intros = buffer_ok_new buffer_ok_write buffer_ok_clear buffer_ok_resize

lemma buf_at_new: "Buffer_new rows cols = Some b \<Longrightarrow> buf_at b row col = CHR '' ''"
  by (auto simp: buf_at_def Buffer_new_def nat_less_iff split: if_splits)

lemma buf_dims_new: "Buffer_new rows cols = Some b \<Longrightarrow> buf_rows b = rows \<and> buf_cols b = cols"
  by (auto simp: Buffer_new_def split: if_splits)

lemma buf_dims_write [simp]: "buf_rows (buf_write s row col b) = buf_rows b" "buf_cols (buf_write s row col b) = buf_cols b"
  by (simp_all add: buf_write_def)

lemma buf_at_write:
  assumes "buffer_ok b"
  shows "buf_at (buf_write s row col b) r c =
    (if 0 \<le> row \<and> row < buf_rows b \<and> r = row \<and> 0 \<le> col \<and> col \<le> c \<and> c < col + int (length s) \<and> c < buf_cols b
     then s ! nat (c - col) else buf_at b r c)"
proof (cases "0 \<le> row \<and> row < buf_rows b \<and> 0 \<le> col \<and> 0 \<le> r \<and> r < buf_rows b \<and> 0 \<le> c \<and> c < buf_cols b")
  case True
  then have len: "length (buf_data b ! nat row) = nat (buf_cols b)" "nat row < length (buf_data b)"
    using assms by (auto simp: buffer_ok_def nat_less_iff)
  show ?thesis
  proof (cases "r = row")
    case same: True
    have "buf_at (buf_write s row col b) r c = write_line s col (buf_cols b) (buf_data b ! nat row) ! nat c"
      using True same len by (simp add: buf_at_def buf_write_def)
    then show ?thesis
      using True same len by (auto simp: write_line_nth buf_at_def nat_diff_distrib nat_le_eq_zle nat_less_iff)
  next
    case False
    then have "nat row \<noteq> nat r" using True by auto
    then show ?thesis using True False by (simp add: buf_at_def buf_write_def)
  qed
qed (auto simp: buf_at_def buf_write_def)

text \<open>C32 (functional). A write inside the buffer changes exactly the cells of its text up to the right edge, and any other write
  changes nothing.\<close>

theorem buffer_read_after_write:
  assumes "buffer_ok b"
  shows "buf_at (buf_write s row col b) r c =
    (if 0 \<le> row \<and> row < buf_rows b \<and> r = row \<and> 0 \<le> col \<and> col \<le> c \<and> c < col + int (length s) \<and> c < buf_cols b
     then s ! nat (c - col) else buf_at b r c)"
  by (rule buf_at_write [OF assms])

definition small_buffer :: Buffer where
  "small_buffer = \<lparr>buf_rows = 2, buf_cols = 4, buf_data = [''    '', ''    '']\<rparr>"

lemma small_buffer_ok: "buffer_ok small_buffer"
  by (simp add: buffer_ok_def small_buffer_def)

theorem buffer_read_after_write_witness:
  "buf_at (buf_write ''abc'' 1 2 small_buffer) 1 3 = CHR ''b'' \<and> buf_at (buf_write ''abc'' 1 2 small_buffer) 0 3 = CHR '' ''"
  unfolding buffer_read_after_write [OF small_buffer_ok] by (simp add: small_buffer_def buf_at_def)

text \<open>C33 (type). Every operation leaves the buffer with the number of rows and the length of rows it claims, whatever its arguments; only
  a negative size makes it fail.\<close>

theorem buffer_shape:
  assumes "buffer_ok b"
  shows "buffer_ok (buf_write s row col b) \<and> buffer_ok (buf_clear b) \<and>
    (case Buffer_new rows cols of Some b' \<Rightarrow> buffer_ok b' | None \<Rightarrow> rows < 0 \<or> cols < 0) \<and>
    (case buf_resize rows cols b of Some b' \<Rightarrow> buffer_ok b' | None \<Rightarrow> rows < 0 \<or> cols < 0) \<and>
    (0 \<le> row \<and> row < buf_rows b \<longrightarrow> length (buf_getLine b row) = nat (buf_cols b))"
proof -
  have "length (buf_getLine b row) = nat (buf_cols b)" if "0 \<le> row \<and> row < buf_rows b"
    using that assms by (simp add: buf_getLine_def buffer_ok_def nat_less_iff)
  moreover have "rows < 0 \<or> cols < 0" if "Buffer_new rows cols = None \<or> buf_resize rows cols b = None"
    using that by (auto simp: Buffer_new_def buf_resize_def split: if_splits)
  ultimately show ?thesis using assms buffer_ok_intros by (auto split: option.split)
qed

theorem buffer_shape_witness:
  "\<exists>b. buf_resize 3 2 small_buffer = Some b \<and> buffer_ok b \<and> buffer_ok (buf_write ''too long'' 0 1 small_buffer)"
  using buffer_shape [OF small_buffer_ok, where rows = 3 and cols = 2 and s = "''too long''" and row = 0 and col = 1]
  by (auto split: option.splits)

end
