(* ===== verification/Term_Control.thy ===== *)
theory Term_Control
  imports Screen_Buffer Cpp_Strings
begin

text \<open>
  The program \<open>termcontrol\<close> (\<open>utilities/termcontrol/src\<close>): the class \<open>Terminal\<close> of \<open>terminal.cpp\<close> and
  the commands of \<open>main.cpp\<close>.

  The state holds what was written to the standard output and to the standard error, the setting of the terminal, and what
  the reads from the standard input will return: \<open>Some\<close> a byte, \<open>None\<close> for a read that returns none. All behaviour of
  the terminal towards one run of the program is such a sequence. Sums of row and column numbers stay within an \<open>int\<close>.
\<close>

record termios =
  c_iflag :: "32 word"
  c_oflag :: "32 word"
  c_cflag :: "32 word"
  c_lflag :: "32 word"
  c_vmin :: "8 word"
  c_vtime :: "8 word"

record terminal =
  tm_out :: string
  tm_err :: string
  tm_in :: "char option list"
  tm_tty :: termios
  tm_sets :: nat
  original_termios :: termios
  is_raw_mode :: bool
  tm_buffer :: "Buffer option"

text \<open>What the program finds: the first \<open>tcgetattr\<close>, the \<open>tcsetattr\<close> with a number, the size of the window.\<close>

record term_env =
  te_tty_ok :: bool
  te_set_ok :: "nat \<Rightarrow> bool"
  te_window :: "(16 word \<times> 16 word) option"

definition ESC :: string where "ESC = [CHR 0x1B]"

definition print :: "string \<Rightarrow> terminal \<Rightarrow> terminal" where
  "print t m = m\<lparr>tm_out := tm_out m @ t\<rparr>"

definition tcsetattr :: "term_env \<Rightarrow> termios \<Rightarrow> terminal \<Rightarrow> terminal \<times> bool" where
  "tcsetattr env t m =
     (let ok = te_set_ok env (tm_sets m); m1 = m\<lparr>tm_sets := Suc (tm_sets m)\<rparr>
      in if ok then (m1\<lparr>tm_tty := t\<rparr>, True) else (m1, False))"

subsection \<open>Set-up and modes\<close>

definition getTerminalSize :: "term_env \<Rightarrow> int \<times> int" where
  "getTerminalSize env = (case te_window env of None \<Rightarrow> (24, 80) | Some (rows, cols) \<Rightarrow> (uint rows, uint cols))"

definition scrollback_lines :: int where "scrollback_lines = 1000"

lemma terminal_size_nonneg: "getTerminalSize env = (rows, cols) \<Longrightarrow> 0 \<le> rows \<and> 0 \<le> cols"
  by (auto simp: getTerminalSize_def split: option.splits)

text \<open>The sizes of a window are unsigned, so the buffer can always be made.\<close>

definition term_init :: "term_env \<Rightarrow> terminal \<Rightarrow> terminal \<times> bool" where
  "term_init env m =
     (if \<not> te_tty_ok env then (m, False)
      else let (rows, cols) = getTerminalSize env
           in (m\<lparr>original_termios := tm_tty m, tm_buffer := Buffer_new (rows + scrollback_lines) cols\<rparr>, True))"

definition term_cleanup :: "term_env \<Rightarrow> terminal \<Rightarrow> terminal" where
  "term_cleanup env m = (if is_raw_mode m then fst (tcsetattr env (original_termios m) m) else m)"

unbundle bit_operations_syntax

text \<open>\<open>BRKINT | ICRNL | INPCK | ISTRIP | IXON\<close>, \<open>OPOST\<close>, \<open>CS8\<close>, \<open>ECHO | ICANON | IEXTEN | ISIG\<close>.\<close>

definition raw_termios :: "termios \<Rightarrow> termios" where
  "raw_termios t = t\<lparr>c_iflag := c_iflag t AND NOT 0x532, c_oflag := c_oflag t AND NOT 1, c_cflag := c_cflag t OR 0x30,
     c_lflag := c_lflag t AND NOT 0x800B, c_vmin := 0, c_vtime := 1\<rparr>"

definition setRawMode :: "term_env \<Rightarrow> bool \<Rightarrow> terminal \<Rightarrow> terminal \<times> bool" where
  "setRawMode env enable m =
     (if enable = is_raw_mode m then (m, True)
      else let (m1, ok) = tcsetattr env (if enable then raw_termios (original_termios m) else original_termios m) m
           in if ok then (m1\<lparr>is_raw_mode := enable\<rparr>, True) else (m1, False))"

subsection \<open>Escape sequences\<close>

definition moveCursor :: "int \<Rightarrow> int \<Rightarrow> terminal \<Rightarrow> terminal" where
  "moveCursor row col = print (ESC @ ''['' @ to_string (row + 1) @ '';'' @ to_string (col + 1) @ ''H'')"

definition saveCursor :: "terminal \<Rightarrow> terminal" where "saveCursor = print (ESC @ ''[s'')"
definition restoreCursor :: "terminal \<Rightarrow> terminal" where "restoreCursor = print (ESC @ ''[u'')"
definition resetAttributes :: "terminal \<Rightarrow> terminal" where "resetAttributes = print (ESC @ ''[0m'')"
definition term_clear :: "terminal \<Rightarrow> terminal" where "term_clear m = print (ESC @ ''[H'') (print (ESC @ ''[2J'') m)"
definition clearLine :: "terminal \<Rightarrow> terminal" where "clearLine m = print [CHR 0x0D] (print (ESC @ ''[2K'') m)"

definition print_attribute :: "int \<Rightarrow> terminal \<Rightarrow> terminal" where
  "print_attribute n = print (ESC @ ''['' @ to_string n @ ''m'')"

definition setForegroundColor :: "int \<Rightarrow> terminal \<Rightarrow> terminal" where "setForegroundColor color = print_attribute (30 + color)"
definition setBackgroundColor :: "int \<Rightarrow> terminal \<Rightarrow> terminal" where "setBackgroundColor color = print_attribute (40 + color)"
definition setBold :: "bool \<Rightarrow> terminal \<Rightarrow> terminal" where "setBold enable = print_attribute (if enable then 1 else 22)"
definition setUnderline :: "bool \<Rightarrow> terminal \<Rightarrow> terminal" where "setUnderline enable = print_attribute (if enable then 4 else 24)"

text \<open>The bytes \<open>readInput\<close> gives to its callback, up to the first read that returns none.\<close>

fun read_bytes :: "char option list \<Rightarrow> string \<times> char option list" where
  "read_bytes [] = ([], [])"
| "read_bytes (None # rest) = ([], rest)"
| "read_bytes (Some c # rest) = (let (t, rest1) = read_bytes rest in (c # t, rest1))"

definition readInput :: "terminal \<Rightarrow> terminal \<times> string \<times> bool" where
  "readInput m = (let (t, rest) = read_bytes (tm_in m) in (m\<lparr>tm_in := rest\<rparr>, t, True))"

text \<open>The bytes of a reply, up to an \<open>R\<close>, a read without a byte, or the end of the buffer.\<close>

fun read_reply_bytes :: "nat \<Rightarrow> char option list \<Rightarrow> string \<times> char option list" where
  "read_reply_bytes 0 input = ([], input)"
| "read_reply_bytes (Suc k) [] = ([], [])"
| "read_reply_bytes (Suc k) (None # input) = ([], input)"
| "read_reply_bytes (Suc k) (Some c # input) =
     (if c = CHR ''R'' then ([], input) else let (t, rest) = read_reply_bytes k input in (c # t, rest))"

definition read_answer :: "terminal \<Rightarrow> terminal \<times> string" where
  "read_answer m = (let (t, rest) = read_reply_bytes 31 (tm_in m) in (m\<lparr>tm_in := rest\<rparr>, t))"

text \<open>One \<open>%d\<close> of \<open>sscanf\<close>, and the pattern of a cursor position; the text ends at a NUL byte.\<close>

definition scan_int :: "string \<Rightarrow> (int \<times> string) option" where
  "scan_int s =
     (case strtol s of
        None \<Rightarrow> None
      | Some i \<Rightarrow> Some (sint (word_of_int (max (- (2 ^ 63)) (min (2 ^ 63 - 1) i)) :: 32 word),
                    dropWhile is_digit (snd (strip_sign (dropWhile is_space s)))))"

definition scan_position :: "string \<Rightarrow> (int \<times> int) option" where
  "scan_position t0 =
     (let t = takeWhile (\<lambda>c. c \<noteq> CHR 0x00) t0 in
      if \<not> starts_with (ESC @ ''['') t then None
      else case scan_int (drop 2 t) of
        Some (row, CHR '';'' # rest) \<Rightarrow> (case scan_int rest of Some (col, _) \<Rightarrow> Some (row, col) | None \<Rightarrow> None)
      | _ \<Rightarrow> None)"

definition getCursorPosition :: "term_env \<Rightarrow> terminal \<Rightarrow> terminal \<times> int \<times> int" where
  "getCursorPosition env m =
     (let term = tm_tty m; m1 = fst (setRawMode env True m); (m2, t) = read_answer (print (ESC @ ''[6n'') m1);
          pos = (case scan_position t of Some (row, col) \<Rightarrow> (row - 1, col - 1) | None \<Rightarrow> (- 1, - 1))
      in (fst (tcsetattr env term m2), pos))"

record TerminalBufferInfo =
  ti_rows :: int
  ti_cols :: int
  ti_buffer_rows :: int
  ti_buffer_cols :: int
  ti_cursor_row :: int
  ti_cursor_col :: int
  ti_raw_mode :: bool

definition getBufferInfo :: "term_env \<Rightarrow> terminal \<Rightarrow> terminal \<times> TerminalBufferInfo" where
  "getBufferInfo env m =
     (let m1 = fst (setRawMode env True (saveCursor m)); (rows, cols) = getTerminalSize env;
          (m2, row, col) = getCursorPosition env m1;
          (m3, t) = read_answer (print (ESC @ ''[9999A'' @ ESC @ ''[6n'') (print (ESC @ ''[H'') m2));
          buffer_rows = (case scan_position t of Some (top_row, _) \<Rightarrow> \<bar>top_row\<bar> | None \<Rightarrow> rows); m4 = restoreCursor m3
      in (m4, \<lparr>ti_rows = rows, ti_cols = cols, ti_buffer_rows = buffer_rows, ti_buffer_cols = cols, ti_cursor_row = row,
               ti_cursor_col = col, ti_raw_mode = is_raw_mode m4\<rparr>))"

subsection \<open>Characters\<close>

record CharacterInfo =
  ci_ch :: char
  fg_color :: int
  bg_color :: int
  ci_bold :: bool
  ci_underline :: bool
  ci_reverse :: bool
  ci_blink :: bool

definition no_character :: CharacterInfo where
  "no_character = \<lparr>ci_ch = CHR 0x00, fg_color = 0, bg_color = 0, ci_bold = False, ci_underline = False,
     ci_reverse = False, ci_blink = False\<rparr>"

definition getCharacterInfo :: "int \<Rightarrow> int \<Rightarrow> terminal \<Rightarrow> terminal \<times> CharacterInfo" where
  "getCharacterInfo row col m =
     (let (m1, t) = read_answer (print (ESC @ ''[6n'') (moveCursor row col (saveCursor m)));
          m2 = print (ESC @ '']11;?'' @ [CHR 0x07]) (print (ESC @ '']10;?'' @ [CHR 0x07])
                 (print (ESC @ ''[0m'' @ ESC @ ''[?25l'') m1))
      in (restoreCursor (print (ESC @ ''[0m'') m2), no_character\<lparr>ci_ch := (if t = [] then CHR 0x00 else hd t)\<rparr>))"

definition attribute_codes :: "CharacterInfo \<Rightarrow> string" where
  "attribute_codes info =
     (if ci_bold info then ESC @ ''[1m'' else []) @ (if ci_underline info then ESC @ ''[4m'' else []) @
     (if ci_reverse info then ESC @ ''[7m'' else []) @ (if ci_blink info then ESC @ ''[5m'' else []) @
     (if fg_color info \<ge> 0 then ESC @ ''[38;5;'' @ to_string (fg_color info) @ ''m'' else []) @
     (if bg_color info \<ge> 0 then ESC @ ''[48;5;'' @ to_string (bg_color info) @ ''m'' else [])"

text \<open>The visible rows are the last ones of the buffer.\<close>

definition remember_char :: "term_env \<Rightarrow> int \<Rightarrow> int \<Rightarrow> char \<Rightarrow> Buffer \<Rightarrow> Buffer" where
  "remember_char env row col ch b =
     (let buf_row = buf_rows b - fst (getTerminalSize env) + row in
      if buf_row \<ge> 0 \<and> buf_row < buf_rows b \<and> col \<ge> 0 \<and> col < buf_cols b then buf_write [ch] buf_row col b else b)"

definition setCharacterInfo :: "term_env \<Rightarrow> int \<Rightarrow> int \<Rightarrow> CharacterInfo \<Rightarrow> terminal \<Rightarrow> terminal" where
  "setCharacterInfo env row col info m =
     (let m1 = print (attribute_codes info @ [ci_ch info]) (moveCursor row col (saveCursor m));
          m2 = m1\<lparr>tm_buffer := map_option (remember_char env row col (ci_ch info)) (tm_buffer m1)\<rparr>
      in restoreCursor (resetAttributes m2))"

text \<open>The positions of a range, row by row; \<open>last_col\<close> ends all rows but the last.\<close>

definition range_cells :: "int \<Rightarrow> int \<Rightarrow> int \<Rightarrow> int \<Rightarrow> int \<Rightarrow> (int \<times> int) list" where
  "range_cells last_col r1 c1 r2 c2 =
     concat (map (\<lambda>row. map (Pair row) [(if row = r1 then c1 else 0)..(if row = r2 then c2 else last_col)]) [r1..r2])"

fun query_cells :: "(int \<times> int) list \<Rightarrow> terminal \<Rightarrow> terminal \<times> CharacterInfo list" where
  "query_cells [] m = (m, [])"
| "query_cells ((row, col) # cells) m =
     (let (m1, info) = getCharacterInfo row col m; (m2, infos) = query_cells cells m1 in (m2, info # infos))"

definition getCharacterRange :: "int \<Rightarrow> int \<Rightarrow> int \<Rightarrow> int \<Rightarrow> terminal \<Rightarrow> terminal \<times> CharacterInfo list" where
  "getCharacterRange r1 c1 r2 c2 m =
     (case tm_buffer m of
        Some b \<Rightarrow> (m, map (\<lambda>(row, col). no_character\<lparr>ci_ch := buf_at b row col, fg_color := - 1, bg_color := - 1\<rparr>)
                     (range_cells (buf_cols b - 1) r1 c1 r2 c2))
      | None \<Rightarrow> query_cells (range_cells 80 r1 c1 r2 c2) m)"

definition setCharacterRange ::
  "term_env \<Rightarrow> int \<Rightarrow> int \<Rightarrow> int \<Rightarrow> int \<Rightarrow> CharacterInfo list \<Rightarrow> terminal \<Rightarrow> terminal" where
  "setCharacterRange env r1 c1 r2 c2 chars =
     fold (\<lambda>((row, col), info). setCharacterInfo env row col info) (zip (range_cells 80 r1 c1 r2 c2) chars)"

subsection \<open>Commands\<close>

type_synonym term_handler = "string list \<Rightarrow> terminal \<Rightarrow> terminal \<times> int result"

definition fails :: "string \<Rightarrow> terminal \<Rightarrow> terminal \<times> int result" where
  "fails msg m = (m\<lparr>tm_err := tm_err m @ msg @ NL\<rparr>, Inr 1)"

definition with_ints :: "string list \<Rightarrow> (int list \<Rightarrow> terminal \<Rightarrow> terminal \<times> int result) \<Rightarrow> terminal \<Rightarrow> terminal \<times> int result" where
  "with_ints args f m =
     (case fold (\<lambda>a r. try_result r (\<lambda>is. try_result (stoi a) (\<lambda>i. Inr (is @ [i])))) args (Inr []) of
        Inl e \<Rightarrow> (m, Inl e) | Inr is \<Rightarrow> f is m)"

fun split_tokens :: "char \<Rightarrow> string \<Rightarrow> string \<Rightarrow> string list" where
  "split_tokens d token [] = (if token \<noteq> [] then [token] else [])"
| "split_tokens d token (c # s) =
     (if c = d then (if token \<noteq> [] then token # split_tokens d [] s else split_tokens d [] s)
      else split_tokens d (token @ [c]) s)"

definition splitString :: "string \<Rightarrow> string list" where
  "splitString = split_tokens CHR '','' []"

definition set_attr :: "string \<Rightarrow> CharacterInfo \<Rightarrow> CharacterInfo" where
  "set_attr attr info =
     (if attr = ''bold'' then info\<lparr>ci_bold := True\<rparr> else if attr = ''underline'' then info\<lparr>ci_underline := True\<rparr>
      else if attr = ''reverse'' then info\<lparr>ci_reverse := True\<rparr> else if attr = ''blink'' then info\<lparr>ci_blink := True\<rparr> else info)"

fun set_options :: "string list \<Rightarrow> CharacterInfo \<Rightarrow> CharacterInfo result" where
  "set_options (opt # a # b # rest) info =
     (if opt = ''--color'' then try_result (stoi a) (\<lambda>fg. try_result (stoi b) (\<lambda>bg.
        set_options rest (info\<lparr>fg_color := fg, bg_color := bg\<rparr>)))
      else if opt = ''--attr'' then set_options (b # rest) (fold set_attr (splitString a) info)
      else set_options (a # b # rest) info)"
| "set_options [opt, a] info = Inr (if opt = ''--attr'' then fold set_attr (splitString a) info else info)"
| "set_options args info = Inr info"

definition handleBuffer :: "term_env \<Rightarrow> term_handler" where
  "handleBuffer env args m =
     (let (m1, info) = getBufferInfo env m in
      (print (''Terminal Buffer Information:'' @ NL @ ''  Visible Rows: '' @ to_string (ti_rows info) @ NL @
        ''  Visible Columns: '' @ to_string (ti_cols info) @ NL @
        ''  Buffer Rows (including scrollback): '' @ to_string (ti_buffer_rows info) @ NL @
        ''  Buffer Columns: '' @ to_string (ti_buffer_cols info) @ NL @
        ''  Cursor Position (visible): '' @ to_string (ti_cursor_row info) @ '','' @ to_string (ti_cursor_col info) @ NL @
        ''  Raw Mode: '' @ (if ti_raw_mode info then ''Yes'' else ''No'') @ NL) m1, Inr 0))"

definition handleGenerateCompletion :: term_handler where
  "handleGenerateCompletion args m =
     (let shell = (if args \<noteq> [] then hd args else ''bash'') in
      if shell = ''bash'' then
        (print (''_termcontrol() {'' @ NL @ ''  local cur prev words cword'' @ NL @
           ''  _get_comp_words_by_ref -n : cur prev words cword || return'' @ NL @
           ''  COMPREPLY=( $(termcontrol --complete '' @ [CHR 0x22] @ ''$cur'' @ [CHR 0x22] @ '') )'' @ NL @ ''}'' @ NL @
           ''complete -F _termcontrol termcontrol'' @ NL) m, Inr 0)
      else if shell = ''zsh'' then (print (''# zsh completion not yet implemented'' @ NL) m, Inr 0)
      else fails (''Unsupported shell: '' @ shell) m)"

text \<open>The table of commands in the order of the map: name, description, usage.\<close>

definition term_commands :: "(string \<times> string \<times> string) list" where
  "term_commands =
    [(''--buffer'', ''Show terminal buffer information'', ''termcontrol --buffer''),
     (''--char'', ''Get character information at position'', ''termcontrol --char ROW COL''),
     (''--char-range'', ''Get character information for range'', ''termcontrol --char-range START_ROW START_COL END_ROW END_COL''),
     (''--complete'', ''Internal: print completions for the given prefix (used by shell completion)'',
      ''termcontrol --complete PREFIX''),
     (''--cursor'', ''Control cursor position'', ''termcontrol --cursor ROW COL | save | restore''),
     (''--generate-completion'', ''Print shell completion script for termcontrol'',
      ''termcontrol --generate-completion [bash|zsh]''),
     (''--raw'', ''Control raw mode'', ''termcontrol --raw on|off''),
     (''--reset'', ''Reset terminal'', ''termcontrol --reset''),
     (''--set'', ''Set character at position'', ''termcontrol --set ROW COL CHAR [--color FG BG] [--attr ATTRIBUTES]''),
     (''--set-range'', ''Set text in range'', ''termcontrol --set-range ROW COL TEXT [--color FG BG] [--attr ATTRIBUTES]'')]"

definition handleComplete :: term_handler where
  "handleComplete args m =
     (let pre = (if args \<noteq> [] then hd args else []) in
      (print (concat (map (\<lambda>(n, d, u). if starts_with pre n then n @ NL else []) term_commands)) m, Inr 0))"

definition handleChar :: term_handler where
  "handleChar args m =
     (if length args < 2 then fails ''Error: --char requires ROW and COL arguments'' m
      else with_ints (take 2 args) (\<lambda>is m.
        let row = is ! 0; col = is ! 1; (m1, info) = getCharacterInfo row col m
        in (print (''Character Information at '' @ to_string row @ '','' @ to_string col @ '':'' @ NL @
             ''  Character: '' @ [CHR 0x27] @ [ci_ch info] @ [CHR 0x27] @ NL @
             ''  FG Color: '' @ to_string (fg_color info) @ NL @ ''  BG Color: '' @ to_string (bg_color info) @ NL @
             ''  Attributes: '' @ (if ci_bold info then ''bold '' else []) @ (if ci_underline info then ''underline '' else []) @
             (if ci_reverse info then ''reverse '' else []) @ (if ci_blink info then ''blink'' else []) @ NL) m1, Inr 0)) m)"

text \<open>The rows as they are printed; the printing takes 81 columns for every row but the last.\<close>

fun print_rows :: "int \<Rightarrow> int \<Rightarrow> int \<Rightarrow> int \<Rightarrow> int list \<Rightarrow> CharacterInfo list \<Rightarrow> string" where
  "print_rows r1 c1 r2 c2 [] chars = []"
| "print_rows r1 c1 r2 c2 (row # rows) chars =
     (let k = length [(if row = r1 then c1 else 0)..(if row = r2 then c2 else 80)] in
      ''  Row '' @ to_string row @ '': '' @ map ci_ch (take k chars) @ NL @ print_rows r1 c1 r2 c2 rows (drop k chars))"

definition handleCharRange :: term_handler where
  "handleCharRange args m =
     (if length args < 4 then fails ''Error: --char-range requires START_ROW START_COL END_ROW END_COL arguments'' m
      else with_ints (take 4 args) (\<lambda>is m.
        let r1 = is ! 0; c1 = is ! 1; r2 = is ! 2; c2 = is ! 3; (m1, chars) = getCharacterRange r1 c1 r2 c2 m
        in (print (''Characters in range ('' @ to_string r1 @ '','' @ to_string c1 @ '') to ('' @ to_string r2 @ '','' @
             to_string c2 @ ''):'' @ NL @ print_rows r1 c1 r2 c2 [r1..r2] chars) m1, Inr 0)) m)"

definition plain_character :: "char \<Rightarrow> CharacterInfo" where
  "plain_character c = no_character\<lparr>ci_ch := c, fg_color := - 1, bg_color := - 1\<rparr>"

definition handleSet :: "term_env \<Rightarrow> term_handler" where
  "handleSet env args m =
     (if length args < 3 then fails ''Error: --set requires ROW COL CHAR arguments'' m
      else with_ints (take 2 args) (\<lambda>is m.
        let ch = (if args ! 2 = [] then CHR 0x00 else hd (args ! 2)) in
        case set_options (drop 3 args) (plain_character ch) of
          Inl e \<Rightarrow> (m, Inl e) | Inr info \<Rightarrow> (setCharacterInfo env (is ! 0) (is ! 1) info m, Inr 0)) m)"

definition handleSetRange :: "term_env \<Rightarrow> term_handler" where
  "handleSetRange env args m =
     (if length args < 3 then fails ''Error: --set-range requires ROW COL TEXT arguments'' m
      else with_ints (take 2 args) (\<lambda>is m.
        let row = is ! 0; col = is ! 1; t = args ! 2 in
        case set_options (drop 3 args) (plain_character CHR 0x00) of
          Inl e \<Rightarrow> (m, Inl e)
        | Inr info \<Rightarrow> (setCharacterRange env row col row (col + int (length t) - 1) (map (\<lambda>c. info\<lparr>ci_ch := c\<rparr>) t) m, Inr 0)) m)"

definition handleCursor :: term_handler where
  "handleCursor args m =
     (if args = [] then fails ''Error: --cursor requires position or save/restore argument'' m
      else if hd args = ''save'' then (saveCursor m, Inr 0)
      else if hd args = ''restore'' then (restoreCursor m, Inr 0)
      else if length args \<ge> 2 then with_ints (take 2 args) (\<lambda>is m. (moveCursor (is ! 0) (is ! 1) m, Inr 0)) m
      else fails ''Error: Invalid cursor command'' m)"

definition handleRaw :: "term_env \<Rightarrow> term_handler" where
  "handleRaw env args m =
     (if args = [] then fails ''Error: --raw requires on/off argument'' m
      else let (m1, ok) = setRawMode env (hd args = ''on'') m in (m1, Inr (if ok then 0 else 1)))"

definition handleReset :: term_handler where
  "handleReset args m = (resetAttributes m, Inr 0)"

definition term_handler_of :: "term_env \<Rightarrow> string \<Rightarrow> term_handler option" where
  "term_handler_of env = map_of
    [(''--buffer'', handleBuffer env), (''--generate-completion'', handleGenerateCompletion), (''--complete'', handleComplete),
     (''--char'', handleChar), (''--char-range'', handleCharRange), (''--set'', handleSet env),
     (''--set-range'', handleSetRange env), (''--cursor'', handleCursor), (''--raw'', handleRaw env), (''--reset'', handleReset)]"

definition showHelp :: "terminal \<Rightarrow> terminal" where
  "showHelp = print (''Usage: termcontrol [COMMAND] [OPTIONS]'' @ NL @ NL @ ''Commands:'' @ NL @
     concat (map (\<lambda>(n, d, u). ''  '' @ n @ NL @ ''    '' @ d @ NL @ ''    Usage: '' @ u @ NL @ NL) term_commands))"

definition term_run :: "term_env \<Rightarrow> string list \<Rightarrow> terminal \<Rightarrow> terminal \<times> int result" where
  "term_run env argv m =
     (case argv of
        [] \<Rightarrow> (showHelp m, Inr 1)
      | command # args \<Rightarrow>
          if command \<in> {''-h'', ''--help''} then (showHelp m, Inr 0)
          else case term_handler_of env command of
              None \<Rightarrow> (showHelp (m\<lparr>tm_err := tm_err m @ ''Unknown command: '' @ command @ NL\<rparr>), Inr 1)
            | Some h \<Rightarrow> h args m)"

text \<open>\<open>main\<close>: the destructor runs before an exception is reported. Both exceptions of \<open>stoi\<close> have the text \<open>stoi\<close>.\<close>

definition term_main :: "term_env \<Rightarrow> string list \<Rightarrow> terminal \<Rightarrow> terminal \<times> int" where
  "term_main env argv m =
     (let (m1, ok) = term_init env (m\<lparr>is_raw_mode := False, tm_buffer := None\<rparr>) in
      if \<not> ok then (m1\<lparr>tm_err := tm_err m1 @ ''Error: Failed to initialize terminal'' @ NL\<rparr>, 1)
      else let (m2, r) = term_run env argv m1; m3 = term_cleanup env m2
      in case r of Inr rc \<Rightarrow> (m3, rc) | Inl e \<Rightarrow> (m3\<lparr>tm_err := tm_err m3 @ ''Error: stoi'' @ NL\<rparr>, 1))"

subsection \<open>The mode of the terminal\<close>

definition mode_kept :: "termios \<Rightarrow> terminal \<Rightarrow> bool" where
  "mode_kept t0 m \<longleftrightarrow> original_termios m = t0 \<and> (is_raw_mode m \<or> tm_tty m = t0)"

definition keeps_mode :: "terminal \<Rightarrow> terminal \<Rightarrow> bool" where
  "keeps_mode m m' \<longleftrightarrow> original_termios m' = original_termios m \<and> is_raw_mode m' = is_raw_mode m \<and> tm_tty m' = tm_tty m"

lemma keeps_mode_refl [simp]: "keeps_mode m m"
  by (simp add: keeps_mode_def)

lemma keeps_mode_trans: "keeps_mode m m1 \<Longrightarrow> keeps_mode m1 m2 \<Longrightarrow> keeps_mode m m2"
  by (simp add: keeps_mode_def)

lemma keeps_mode_kept: "keeps_mode m m' \<Longrightarrow> mode_kept t0 m' = mode_kept t0 m"
  by (simp add: keeps_mode_def mode_kept_def)

lemma printing_keeps_mode [simp]:
  "keeps_mode m (print t m') = keeps_mode m m'" "keeps_mode m (m'\<lparr>tm_err := e\<rparr>) = keeps_mode m m'"
  "keeps_mode m (m'\<lparr>tm_buffer := b\<rparr>) = keeps_mode m m'" "keeps_mode m (moveCursor r c m') = keeps_mode m m'"
  "keeps_mode m (saveCursor m') = keeps_mode m m'" "keeps_mode m (restoreCursor m') = keeps_mode m m'"
  "keeps_mode m (resetAttributes m') = keeps_mode m m'" "keeps_mode m (fst (read_answer m')) = keeps_mode m m'"
  by (simp_all add: keeps_mode_def print_def moveCursor_def saveCursor_def restoreCursor_def resetAttributes_def read_answer_def
    split_beta)

lemma character_keeps_mode [simp]:
  "keeps_mode m (fst (getCharacterInfo r c m')) = keeps_mode m m'" "keeps_mode m (setCharacterInfo env r c i m') = keeps_mode m m'"
  by (simp_all add: getCharacterInfo_def setCharacterInfo_def Let_def split_beta)

lemma query_keeps_mode [simp]: "keeps_mode m (fst (query_cells cells m')) = keeps_mode m m'"
proof (induction cells m' rule: query_cells.induct)
  case (2 row col cells m')
  obtain m1 info where "getCharacterInfo row col m' = (m1, info)" by fastforce
  then show ?case
    using "2.IH" [OF refl, of m1 info] character_keeps_mode(1) [of m row col m'] by (simp add: split_beta Let_def)
qed simp

lemma range_keeps_mode [simp]:
  "keeps_mode m (fst (getCharacterRange a b c d m')) = keeps_mode m m'"
  "keeps_mode m (setCharacterRange env a b c d chars m') = keeps_mode m m'"
proof -
  show "keeps_mode m (fst (getCharacterRange a b c d m')) = keeps_mode m m'"
    by (simp add: getCharacterRange_def split: option.split)
  have "keeps_mode m (fold (\<lambda>((row, col), info). setCharacterInfo env row col info) xs m') = keeps_mode m m'" for xs
    by (induction xs arbitrary: m') (auto split: prod.split)
  then show "keeps_mode m (setCharacterRange env a b c d chars m') = keeps_mode m m'"
    by (simp add: setCharacterRange_def)
qed

lemma with_ints_keeps_mode:
  "(\<And>is. keeps_mode m (fst (f is m))) \<Longrightarrow> keeps_mode m (fst (with_ints args f m))"
  by (simp add: with_ints_def split: sum.split)

lemma plain_commands_keep_mode:
  "keeps_mode m (fst (handleGenerateCompletion args m))" "keeps_mode m (fst (handleComplete args m))"
  "keeps_mode m (fst (handleChar args m))" "keeps_mode m (fst (handleCharRange args m))"
  "keeps_mode m (fst (handleSet env args m))" "keeps_mode m (fst (handleSetRange env args m))"
  "keeps_mode m (fst (handleCursor args m))" "keeps_mode m (fst (handleReset args m))"
  by (simp_all add: handleGenerateCompletion_def handleComplete_def handleChar_def handleCharRange_def handleSet_def
    handleSetRange_def handleCursor_def handleReset_def fails_def Let_def split_beta with_ints_keeps_mode split: sum.split)

lemma raw_mode_kept: "mode_kept t0 m \<Longrightarrow> mode_kept t0 (fst (setRawMode env enable m))"
  by (auto simp: mode_kept_def setRawMode_def tcsetattr_def Let_def split_beta)

lemma raw_mode_entered:
  "(\<And>n. te_set_ok env n) \<Longrightarrow> is_raw_mode (fst (setRawMode env True m)) \<and> original_termios (fst (setRawMode env True m)) = original_termios m"
  by (simp add: setRawMode_def tcsetattr_def Let_def split_beta)

lemma buffer_command_raw:
  assumes "\<And>n. te_set_ok env n"
  shows "is_raw_mode (fst (handleBuffer env args m)) \<and> original_termios (fst (handleBuffer env args m)) = original_termios m"
proof -
  have same: "is_raw_mode (fst (tcsetattr env t x)) = is_raw_mode x" "original_termios (fst (tcsetattr env t x)) = original_termios x"
    "is_raw_mode (print s x) = is_raw_mode x" "original_termios (print s x) = original_termios x"
    "is_raw_mode (fst (read_answer x)) = is_raw_mode x" "original_termios (fst (read_answer x)) = original_termios x" for t s x
    by (simp_all add: tcsetattr_def print_def read_answer_def Let_def split_beta)
  show ?thesis
    using raw_mode_entered [OF assms]
    by (simp add: handleBuffer_def getBufferInfo_def getCursorPosition_def Let_def split_beta same restoreCursor_def saveCursor_def)
qed

lemma commands_keep_mode:
  assumes "\<And>n. te_set_ok env n" "mode_kept t0 m"
  shows "mode_kept t0 (fst (term_run env argv m))"
proof (cases argv)
  case Nil
  then show ?thesis using assms keeps_mode_kept by (simp add: term_run_def showHelp_def mode_kept_def print_def)
next
  case (Cons command args)
  have "mode_kept t0 (fst (h args m))" if "term_handler_of env command = Some h" for h
  proof -
    from that consider "keeps_mode m (fst (h args m))" | "h = handleBuffer env" | "h = handleRaw env"
      using plain_commands_keep_mode by (auto simp: term_handler_of_def split: if_splits)
    then show ?thesis
    proof cases
      case 1
      then show ?thesis using assms(2) keeps_mode_kept by blast
    next
      case 2
      then show ?thesis using buffer_command_raw [OF assms(1), of args m] assms(2) by (simp add: mode_kept_def)
    next
      case 3
      then show ?thesis
        using raw_mode_kept [OF assms(2), of env "hd args = ''on''"] assms(2)
        by (simp add: handleRaw_def fails_def Let_def split_beta mode_kept_def)
    qed
  qed
  then show ?thesis
    using assms(2) Cons by (auto simp: term_run_def showHelp_def mode_kept_def print_def split: option.split)
qed

text \<open>C34 (safety). Whatever the command and whatever the terminal answers, the program leaves the terminal in the mode it found it in, as long
  as the terminal takes its settings; so \<open>--raw on\<close> has no lasting effect.\<close>

theorem terminal_mode_restored:
  assumes "\<And>n. te_set_ok env n"
  shows "tm_tty (fst (term_main env argv m)) = tm_tty m"
proof (cases "te_tty_ok env")
  case True
  define m1 where "m1 = fst (term_init env (m\<lparr>is_raw_mode := False, tm_buffer := None\<rparr>))"
  have "mode_kept (tm_tty m) m1"
    using True by (simp add: m1_def term_init_def split_beta mode_kept_def)
  then have "mode_kept (tm_tty m) (fst (term_run env argv m1))"
    using commands_keep_mode assms by blast
  then have "tm_tty (term_cleanup env (fst (term_run env argv m1))) = tm_tty m"
    using assms by (auto simp: mode_kept_def term_cleanup_def tcsetattr_def Let_def)
  moreover have "snd (term_init env (m\<lparr>is_raw_mode := False, tm_buffer := None\<rparr>))"
    using True by (simp add: term_init_def split_beta)
  ultimately show ?thesis
    by (simp add: term_main_def Let_def split_beta m1_def split: sum.split)
qed (simp add: term_main_def term_init_def Let_def)

definition plain_termios :: termios where
  "plain_termios = \<lparr>c_iflag = 0x532, c_oflag = 1, c_cflag = 0x30, c_lflag = 0x800B, c_vmin = 1, c_vtime = 0\<rparr>"

definition plain_terminal :: terminal where
  "plain_terminal = \<lparr>tm_out = [], tm_err = [], tm_in = [], tm_tty = plain_termios, tm_sets = 0,
     original_termios = plain_termios, is_raw_mode = False, tm_buffer = None\<rparr>"

definition plain_window :: term_env where
  "plain_window = \<lparr>te_tty_ok = True, te_set_ok = (\<lambda>n. True), te_window = Some (24, 80)\<rparr>"

theorem terminal_mode_restored_witness:
  "tm_tty (fst (term_main plain_window [''--raw'', ''on''] plain_terminal)) = plain_termios"
  using terminal_mode_restored [of plain_window "[''--raw'', ''on'']" plain_terminal]
  by (simp add: plain_window_def plain_terminal_def)

subsection \<open>Reading back\<close>

lemma remember_ok: "buffer_ok b \<Longrightarrow> buffer_ok (remember_char env row col c b)"
  by (simp add: remember_char_def Let_def buffer_ok_write)

text \<open>A character set at a visible position is found in the buffer a thousand rows further down, below the rows of the
  scrollback; reading the position itself gives the blank that was there.\<close>

theorem set_character_read_back:
  assumes "te_tty_ok env" "getTerminalSize env = (rows, cols)" "0 \<le> row" "row < rows" "0 \<le> col" "col < cols" "row < scrollback_lines"
  shows "let m1 = setCharacterInfo env row col info (fst (term_init env m))
    in map ci_ch (snd (getCharacterRange row col row col m1)) = '' '' \<and>
       map ci_ch (snd (getCharacterRange (row + scrollback_lines) col (row + scrollback_lines) col m1)) = [ci_ch info]"
proof -
  obtain b where b: "Buffer_new (rows + scrollback_lines) cols = Some b"
    using Buffer_new_some [of "rows + scrollback_lines" cols] assms by (auto simp: scrollback_lines_def)
  note dims = buf_dims_new [OF b]
  let ?b = b
  let ?b1 = "remember_char env row col (ci_ch info) ?b"
  have b1: "?b1 = buf_write [ci_ch info] (row + scrollback_lines) col ?b"
    using assms dims by (simp add: remember_char_def Let_def scrollback_lines_def add.commute)
  have "tm_buffer (setCharacterInfo env row col info (fst (term_init env m))) = Some ?b1"
    using assms b by (simp add: setCharacterInfo_def term_init_def Let_def print_def moveCursor_def saveCursor_def restoreCursor_def
      resetAttributes_def)
  moreover have "buf_at ?b1 r c = (if r = row + scrollback_lines \<and> c = col then ci_ch info else CHR '' '')" for r c
    unfolding b1 buf_at_write [OF buffer_ok_new [OF b]] using assms dims by (auto simp: scrollback_lines_def buf_at_new [OF b])
  ultimately show ?thesis
    by (simp add: getCharacterRange_def range_cells_def Let_def scrollback_lines_def)
qed

theorem set_character_read_back_witness:
  "let m1 = setCharacterInfo plain_window 3 5 (plain_character CHR ''x'') (fst (term_init plain_window plain_terminal))
   in map ci_ch (snd (getCharacterRange 3 5 3 5 m1)) = '' '' \<and>
      map ci_ch (snd (getCharacterRange (3 + scrollback_lines) 5 (3 + scrollback_lines) 5 m1)) = [ci_ch (plain_character CHR ''x'')]"
  by (rule set_character_read_back [where rows = 24 and cols = 80])
    (simp_all add: plain_window_def getTerminalSize_def scrollback_lines_def)

text \<open>So the command \<open>--char-range\<close>, which runs in a fresh process, prints blanks whatever the screen shows.\<close>

lemma char_range_blank:
  assumes "te_tty_ok env"
  shows "ci_ch ` set (snd (getCharacterRange r1 c1 r2 c2 (fst (term_init env m)))) \<subseteq> {CHR '' ''}"
proof -
  obtain rows cols where size: "getTerminalSize env = (rows, cols)" by fastforce
  obtain b where b: "Buffer_new (rows + scrollback_lines) cols = Some b"
    using Buffer_new_some [of "rows + scrollback_lines" cols] terminal_size_nonneg [OF size] by (auto simp: scrollback_lines_def)
  show ?thesis using assms b by (auto simp: getCharacterRange_def term_init_def size buf_at_new [OF b])
qed

end
