(* ===== verification/Tail_Window.thy ===== *)
theory Tail_Window
  imports Term_Control
begin

text \<open>
  The tool \<open>tailwindow\<close> (\<open>utilities/termcontrol/examples/tailwindow.cpp\<close>), which shows the last lines of a growing file in
  a window of the terminal.

  The file is what it held at the start, by lines, and then a list of events: a line that was appended, or a key that the
  input thread read. The debugging output is part of the standard error. \<open>None\<close> is the erasure of the first element of an
  empty vector, whose behaviour is undefined. There is memory for a window of the size asked for.
\<close>

record tail_window =
  tw_term :: terminal
  tw_lines :: "string list"
  window_size :: nat
  start_row :: int
  tw_running :: bool

definition on_term :: "(terminal \<Rightarrow> terminal) \<Rightarrow> tail_window \<Rightarrow> tail_window" where
  "on_term f w = w\<lparr>tw_term := f (tw_term w)\<rparr>"

definition say_err :: "string \<Rightarrow> terminal \<Rightarrow> terminal" where
  "say_err t m = m\<lparr>tm_err := tm_err m @ t @ NL\<rparr>"

definition tail_init :: "term_env \<Rightarrow> tail_window \<Rightarrow> tail_window \<times> bool" where
  "tail_init env w =
     (let (m, ok) = term_init env (tw_term w) in
      if \<not> ok then (w\<lparr>tw_term := say_err ''Failed to initialize terminal'' m\<rparr>, False)
      else let (m1, row, col) = getCursorPosition env m; (m2, raw) = setRawMode env True m1; w1 = w\<lparr>start_row := row\<rparr>
      in if \<not> raw then (w1\<lparr>tw_term := say_err ''Failed to set raw mode'' m2\<rparr>, False)
         else (w1\<lparr>tw_term := (print NL ^^ window_size w) (moveCursor (row + 1) 0 m2)\<rparr>, True))"

definition print_cell :: "string list \<Rightarrow> nat \<Rightarrow> terminal \<Rightarrow> terminal" where
  "print_cell ls i m =
     (let m1 = clearLine m in
      if i < length ls
      then print (ls ! i @ NL) (say_err (''Debug: Printing line '' @ to_string (int i) @ '': '' @ ls ! i) m1)
      else print NL m1)"

definition updateDisplay :: "tail_window \<Rightarrow> tail_window" where
  "updateDisplay w = on_term (fold (print_cell (tw_lines w)) [0..<window_size w] \<circ> moveCursor (start_row w + 1) 0) w"

definition addLine :: "string \<Rightarrow> tail_window \<Rightarrow> tail_window option" where
  "addLine line w =
     (let w1 = on_term (say_err (''Debug: Adding line: '' @ line)) w in
      if length (tw_lines w1) \<ge> window_size w1
      then (case tw_lines w1 of [] \<Rightarrow> None | l # ls \<Rightarrow> Some (updateDisplay (w1\<lparr>tw_lines := ls @ [line]\<rparr>)))
      else Some (updateDisplay (w1\<lparr>tw_lines := tw_lines w1 @ [line]\<rparr>)))"

fun add_all :: "string list \<Rightarrow> tail_window \<Rightarrow> tail_window option" where
  "add_all [] w = Some w"
| "add_all (l # ls) w = Option.bind (addLine l (on_term (say_err (''Debug: Initial read line: '' @ l)) w)) (add_all ls)"

datatype tail_event = Appended string | Typed char

text \<open>The loop: the state when it ends or when there are no events any more.\<close>

fun tail_loop :: "tail_event list \<Rightarrow> tail_window \<Rightarrow> tail_window option" where
  "tail_loop [] w = Some w"
| "tail_loop (e # es) w =
     (if \<not> tw_running w then Some w
      else case e of
        Typed c \<Rightarrow>
          if c = CHR 0x03 \<or> c = CHR ''q''
          then tail_loop es ((on_term (say_err ''Debug: Received quit signal'') w)\<lparr>tw_running := False\<rparr>)
          else tail_loop es w
      | Appended l \<Rightarrow>
          if l = [] then tail_loop es w
          else Option.bind (addLine l (on_term (say_err (''Debug: New line detected: '' @ l)) w)) (tail_loop es))"

definition tail_end :: "term_env \<Rightarrow> tail_window \<Rightarrow> tail_window" where
  "tail_end env = on_term (\<lambda>m. print NL (fst (setRawMode env False (resetAttributes m))))"

definition tail_run :: "term_env \<Rightarrow> string \<Rightarrow> string list option \<Rightarrow> tail_event list \<Rightarrow> tail_window \<Rightarrow> tail_window option" where
  "tail_run env filename contents es w0 =
     (let w = w0\<lparr>tw_running := True\<rparr> in
      case contents of
        None \<Rightarrow> Some (on_term (say_err (''Error: Cannot open file '' @ filename)) w)
      | Some ls \<Rightarrow>
          Option.bind (add_all ls (on_term (say_err (''Debug: Window size: '' @ to_string (int (window_size w))) \<circ>
            say_err (''Debug: Starting to monitor file: '' @ filename)) w))
          (\<lambda>w1. Option.bind (tail_loop es w1) (\<lambda>w2. Some (if tw_running w2 then w2 else tail_end env w2))))"

subsection \<open>The command line\<close>

definition isPositiveInteger :: "string \<Rightarrow> bool" where
  "isPositiveInteger s \<longleftrightarrow> s \<noteq> [] \<and> list_all is_digit s"

datatype tail_request = TailHelp int | TailWrong string | TailTooBig | TailFile string nat

fun tail_args :: "string list \<Rightarrow> string \<Rightarrow> nat \<Rightarrow> tail_request" where
  "tail_args [] filename n = (if filename = [] then TailHelp 1 else TailFile filename n)"
| "tail_args (a # as) filename n =
     (if a = ''-h'' \<or> a = ''--help'' then TailHelp 0
      else if a = ''-s'' \<or> a = ''--size'' then
        (case as of
           v # rest \<Rightarrow>
             if isPositiveInteger v then (case stoul v of Inr k \<Rightarrow> tail_args rest filename (unat k) | Inl e \<Rightarrow> TailTooBig)
             else TailWrong ''Error: Window size must be a positive integer''
         | [] \<Rightarrow> TailWrong ''Error: Window size must be a positive integer'')
      else if filename = [] then tail_args as a n
      else TailWrong ''Error: Only one file can be monitored at a time'')"

definition tail_help :: string where
  "tail_help = ''Usage: tailWindow [-h|--help] [-s|--size NUM] FILENAME'' @ NL @
     ''Monitor a file with a fixed-size sliding window display.'' @ NL @ NL @ ''Options:'' @ NL @
     ''  -h, --help       Show this help message'' @ NL @
     ''  -s, --size NUM   Set window size (number of lines), default is 5'' @ NL @ NL @
     ''Example:'' @ NL @ ''  tailWindow -s 10 /var/log/syslog'' @ NL"

text \<open>How the program ends with the events given: with an exit code, not yet, or without defined behaviour.\<close>

datatype tail_outcome = TailEnded terminal int | TailRunning tail_window | TailUndefined

definition tail_main :: "term_env \<Rightarrow> string list \<Rightarrow> (string \<Rightarrow> string list option) \<Rightarrow> tail_event list \<Rightarrow> terminal \<Rightarrow> tail_outcome" where
  "tail_main env argv read es m0 = (case tail_args argv [] 5 of
      TailHelp rc \<Rightarrow> TailEnded (print tail_help m0) rc
    | TailWrong t \<Rightarrow> TailEnded (say_err t m0) 1
    | TailTooBig \<Rightarrow> TailEnded m0 134
    | TailFile filename n \<Rightarrow>
        (let (w, ok) = tail_init env \<lparr>tw_term = m0\<lparr>is_raw_mode := False, tm_buffer := None\<rparr>, tw_lines = [], window_size = n,
               start_row = 0, tw_running = False\<rparr>
         in if \<not> ok then TailEnded (term_cleanup env (tw_term w)) 1
            else case tail_run env filename (read filename) es w of
                None \<Rightarrow> TailUndefined
              | Some w1 \<Rightarrow> if read filename \<noteq> None \<and> tw_running w1 then TailRunning w1
                           else TailEnded (term_cleanup env (tw_term w1)) 0))"

subsection \<open>The window\<close>

definition last_lines :: "nat \<Rightarrow> string list \<Rightarrow> string list" where
  "last_lines n ls = drop (length ls - n) ls"

lemma last_lines_snoc: "0 < n \<Longrightarrow> last_lines n (last_lines n ls @ [l]) = last_lines n (ls @ [l])"
  by (cases "length ls \<le> n") (auto simp: last_lines_def Suc_diff_le not_le)

lemma last_lines_append: "0 < n \<Longrightarrow> last_lines n (last_lines n ls @ ms) = last_lines n (ls @ ms)"
proof (induction ms arbitrary: ls)
  case (Cons m ms)
  then show ?case using last_lines_snoc [of n ls m] Cons.IH [of "last_lines n ls @ [m]"] Cons.IH [of "ls @ [m]"] by simp
qed (simp add: last_lines_def)

lemma on_term_fields [simp]:
  "tw_lines (on_term f w) = tw_lines w" "window_size (on_term f w) = window_size w" "tw_running (on_term f w) = tw_running w"
  by (simp_all add: on_term_def)

lemma updateDisplay_fields [simp]:
  "tw_lines (updateDisplay w) = tw_lines w" "window_size (updateDisplay w) = window_size w" "tw_running (updateDisplay w) = tw_running w"
  by (simp_all add: updateDisplay_def)

text \<open>The window has room for at least one line and holds no more than fit.\<close>

definition window_ok :: "tail_window \<Rightarrow> bool" where
  "window_ok w \<longleftrightarrow> 0 < window_size w \<and> length (tw_lines w) \<le> window_size w"

lemma addLine_lines:
  assumes "window_ok w"
  shows "\<exists>w'. addLine line w = Some w' \<and> tw_lines w' = last_lines (window_size w) (tw_lines w @ [line]) \<and>
    window_size w' = window_size w \<and> tw_running w' = tw_running w \<and> window_ok w'"
  using assms by (cases "tw_lines w") (auto simp: addLine_def window_ok_def last_lines_def Let_def Suc_diff_le)

lemma window_ok_on_term [simp]: "window_ok (on_term f w) = window_ok w"
  by (simp add: window_ok_def)

lemma add_all_lines:
  assumes "window_ok w"
  shows "\<exists>w'. add_all ls w = Some w' \<and> tw_lines w' = last_lines (window_size w) (tw_lines w @ ls) \<and>
    window_size w' = window_size w \<and> tw_running w' = tw_running w \<and> window_ok w'"
  using assms
proof (induction ls arbitrary: w)
  case Nil
  then show ?case by (simp add: last_lines_def window_ok_def)
next
  case (Cons l ls)
  obtain w1 where w1: "addLine l (on_term (say_err (''Debug: Initial read line: '' @ l)) w) = Some w1"
      "tw_lines w1 = last_lines (window_size w) (tw_lines w @ [l])" "window_size w1 = window_size w" "tw_running w1 = tw_running w" "window_ok w1"
    using addLine_lines [of "on_term (say_err (''Debug: Initial read line: '' @ l)) w" l] Cons.prems by auto
  have "0 < window_size w" using Cons.prems by (simp add: window_ok_def)
  then show ?case using Cons.IH [OF w1(5)] w1 last_lines_append [of "window_size w" "tw_lines w @ [l]" ls] by auto
qed

text \<open>The appended lines that are shown: those that are not empty, up to the key that ends the program.\<close>

fun shown :: "tail_event list \<Rightarrow> string list" where
  "shown [] = []"
| "shown (Appended l # es) = (if l = [] then shown es else l # shown es)"
| "shown (Typed c # es) = (if c = CHR 0x03 \<or> c = CHR ''q'' then [] else shown es)"

lemma tail_loop_lines:
  assumes "window_ok w" "tw_running w"
  shows "\<exists>w'. tail_loop es w = Some w' \<and> tw_lines w' = last_lines (window_size w) (tw_lines w @ shown es) \<and> window_ok w'"
  using assms
proof (induction es arbitrary: w)
  case Nil
  then show ?case by (simp add: last_lines_def window_ok_def)
next
  case (Cons e es)
  show ?case
  proof (cases e)
    case (Typed c)
    have "tail_loop es (w\<lparr>tw_term := m, tw_running := False\<rparr>) = Some (w\<lparr>tw_term := m, tw_running := False\<rparr>)" for m
      by (cases es) simp_all
    then show ?thesis using Cons Typed by (auto simp: last_lines_def window_ok_def on_term_def)
  next
    case (Appended l)
    show ?thesis
    proof (cases "l = []")
      case False
      obtain w1 where w1: "addLine l (on_term (say_err (''Debug: New line detected: '' @ l)) w) = Some w1"
          "tw_lines w1 = last_lines (window_size w) (tw_lines w @ [l])" "window_size w1 = window_size w" "tw_running w1" "window_ok w1"
        using addLine_lines [of "on_term (say_err (''Debug: New line detected: '' @ l)) w" l] Cons.prems by auto
      have "0 < window_size w" using Cons.prems by (simp add: window_ok_def)
      then show ?thesis
        using Cons.IH [OF w1(5,4)] w1 Cons.prems Appended False last_lines_append [of "window_size w" "tw_lines w @ [l]" "shown es"] by auto
    qed (use Cons Appended in simp)
  qed
qed

text \<open>C39 (equivalence). A window with room for a line ends with the last lines, as many as fit, of the lines of the file at the start
  and the lines the loop reads after that until \<open>q\<close> or Ctrl-C is pressed, whatever the terminal does. Of the lines at the start the empty ones
  count; an empty line that is read later is not shown, and makes no line disappear.\<close>

theorem tail_shows_last_lines:
  assumes "0 < window_size w" "tw_lines w = []"
  shows "\<exists>w'. tail_run env filename (Some ls) es w = Some w' \<and> tw_lines w' = last_lines (window_size w) (ls @ shown es)"
proof -
  define w0 where "w0 = on_term (say_err (''Debug: Window size: '' @ to_string (int (window_size w))) \<circ>
    say_err (''Debug: Starting to monitor file: '' @ filename)) (w\<lparr>tw_running := True\<rparr>)"
  have w0: "window_ok w0" "tw_running w0" "tw_lines w0 = []" "window_size w0 = window_size w" using assms by (simp_all add: w0_def window_ok_def)
  obtain w1 where w1: "add_all ls w0 = Some w1" "tw_lines w1 = last_lines (window_size w) ls" "window_size w1 = window_size w"
      "tw_running w1" "window_ok w1"
    using add_all_lines [OF w0(1), of ls] w0 by auto
  obtain w2 where w2: "tail_loop es w1 = Some w2" "tw_lines w2 = last_lines (window_size w) (last_lines (window_size w) ls @ shown es)"
    using tail_loop_lines [OF w1(5,4), of es] w1 by auto
  have "tail_run env filename (Some ls) es w = Option.bind (add_all ls w0)
      (\<lambda>w1. Option.bind (tail_loop es w1) (\<lambda>w2. Some (if tw_running w2 then w2 else tail_end env w2)))"
    unfolding tail_run_def w0_def Let_def by simp
  then show ?thesis using w1(1) w2 last_lines_append [OF assms(1), of ls "shown es"] by (simp add: tail_end_def)
qed

definition small_window :: tail_window where
  "small_window = \<lparr>tw_term = plain_terminal, tw_lines = [], window_size = 2, start_row = 0, tw_running = False\<rparr>"

theorem tail_shows_last_lines_witness:
  "\<exists>w'. tail_run plain_window ''log'' (Some [''a'', ''b'']) [Appended ''c'', Appended [], Typed CHR ''q'', Appended ''d''] small_window = Some w' \<and>
    tw_lines w' = [''b'', ''c'']"
  using tail_shows_last_lines [of small_window plain_window "''log''" "[''a'', ''b'']"
      "[Appended ''c'', Appended [], Typed CHR ''q'', Appended ''d'']"]
  by (simp add: small_window_def last_lines_def)

text \<open>Zero passes the check of the size, and then the first line is lost in an erasure that has no defined behaviour.\<close>

lemma zero_window_undefined:
  "isPositiveInteger ''0'' \<and> (window_size w = 0 \<longrightarrow> tw_lines w = [] \<longrightarrow> addLine line w = None)"
  by (simp add: isPositiveInteger_def is_digit_def addLine_def Let_def)

subsection \<open>The mode\<close>

text \<open>The query of the cursor position has set the raw mode and put the old setting back, but the flag stays; so the mode that is then
  asked for is never set, and keys reach the program only by whole lines.\<close>

lemma tail_not_raw:
  assumes "\<And>n. te_set_ok env n" "te_tty_ok env" "\<not> is_raw_mode (tw_term w)"
  shows "snd (tail_init env w) \<and> is_raw_mode (tw_term (fst (tail_init env w))) \<and>
    tm_tty (tw_term (fst (tail_init env w))) = tm_tty (tw_term w)"
proof -
  have lines: "tm_tty ((print NL ^^ n) m) = tm_tty m \<and> is_raw_mode ((print NL ^^ n) m) = is_raw_mode m" for n m
    by (induction n) (simp_all add: print_def)
  show ?thesis
    using assms
    by (simp add: tail_init_def term_init_def getCursorPosition_def setRawMode_def tcsetattr_def Let_def split_beta lines moveCursor_def
        print_def read_answer_def)
qed

end
