(* ===== verification/Term_Examples.thy ===== *)
theory Term_Examples
  imports Term_Control
begin

text \<open>
  The programs \<open>terminfo\<close> and the demonstration among the examples of \<open>termcontrol\<close> (\<open>examples/terminfo.cpp\<close>,
  \<open>examples/main.cpp\<close>). The commands \<open>--char\<close> and \<open>--set\<close> of \<open>terminfo\<close> have the code of the handlers of \<open>termcontrol\<close>,
  so they are those handlers here. Nothing catches an exception, and the process then ends without running destructors.
\<close>

definition terminfo_help :: string where
  "terminfo_help = ''Usage: terminfo [OPTIONS]'' @ NL @ ''Get or set terminal buffer and character information.'' @ NL @ NL @
     ''Options:'' @ NL @
     ''  -h, --help                Show this help message'' @ NL @
     ''  -b, --buffer              Show terminal buffer information'' @ NL @
     ''  -c, --char ROW COL        Get character info at position'' @ NL @
     ''  -r, --range R1 C1 R2 C2   Get character info for range'' @ NL @
     ''  -s, --set ROW COL CHAR    Set character at position'' @ NL @
     ''  --color FG BG             Set colors for --set (0-255)'' @ NL @
     ''  --attr ATTRIBUTES         Set attributes for --set (bold,underline,reverse,blink)'' @ NL @ NL @
     ''Example:'' @ NL @ ''  terminfo --buffer'' @ NL @ ''  terminfo --char 0 0'' @ NL @ ''  terminfo --range 0 0 5 10'' @ NL @
     ''  terminfo --set 1 1 X --color 1 2 --attr bold,underline'' @ NL"

definition terminfo_buffer :: "term_env \<Rightarrow> term_handler" where
  "terminfo_buffer env args m =
     (let (m1, info) = getBufferInfo env m in
      (print (''Terminal Buffer Information:'' @ NL @ ''  Rows: '' @ to_string (ti_rows info) @ NL @
        ''  Columns: '' @ to_string (ti_cols info) @ NL @
        ''  Cursor Position: '' @ to_string (ti_cursor_row info) @ '','' @ to_string (ti_cursor_col info) @ NL @
        ''  Raw Mode: '' @ (if ti_raw_mode info then ''Yes'' else ''No'') @ NL) m1, Inr 0))"

definition terminfo_range :: term_handler where
  "terminfo_range args m =
     (if length args < 4 then fails ''Error: --range requires R1 C1 R2 C2 arguments'' m else handleCharRange args m)"

definition terminfo_run :: "term_env \<Rightarrow> term_handler" where
  "terminfo_run env argv m = (case argv of
      [] \<Rightarrow> (print terminfo_help m, Inr 1)
    | arg # args \<Rightarrow>
        if arg = ''-h'' \<or> arg = ''--help'' then (print terminfo_help m, Inr 0)
        else if arg = ''-b'' \<or> arg = ''--buffer'' then terminfo_buffer env args m
        else if arg = ''-c'' \<or> arg = ''--char'' then handleChar args m
        else if arg = ''-r'' \<or> arg = ''--range'' then terminfo_range args m
        else if arg = ''-s'' \<or> arg = ''--set'' then handleSet env args m
        else (print terminfo_help (m\<lparr>tm_err := tm_err m @ ''Error: Unknown option: '' @ arg @ NL\<rparr>), Inr 1))"

definition terminfo_main :: "term_env \<Rightarrow> string list \<Rightarrow> terminal \<Rightarrow> terminal \<times> int result" where
  "terminfo_main env argv m =
     (let (m1, ok) = term_init env (m\<lparr>is_raw_mode := False, tm_buffer := None\<rparr>) in
      if \<not> ok then fails ''Failed to initialize terminal'' m1
      else let (m2, r) = terminfo_run env argv m1 in
           case r of Inr rc \<Rightarrow> (term_cleanup env m2, r) | Inl e \<Rightarrow> (m2, r))"

subsection \<open>The demonstration\<close>

definition demo_main :: "term_env \<Rightarrow> terminal \<Rightarrow> terminal \<times> int" where
  "demo_main env m =
     (let (m1, ok) = term_init env (m\<lparr>is_raw_mode := False, tm_buffer := None\<rparr>) in
      if \<not> ok then (m1\<lparr>tm_err := tm_err m1 @ ''Failed to initialize terminal'' @ NL\<rparr>, 1)
      else let m2 = moveCursor 0 0 (term_clear (fst (setRawMode env True m1)));
               m3 = setBold False (print (''Terminal Control Demo'' @ NL) (setBold True m2));
               m4 = fold (\<lambda>i m. print (''Color '' @ to_string i @ '' '') (setForegroundColor i m)) [0..7] (moveCursor 2 0 m3);
               m5 = print ''Press any key to exit...'' (moveCursor 4 0 (resetAttributes m4));
               (m6, row, col) = getCursorPosition env m5;
               m7 = print (NL @ ''Cursor at: '' @ to_string row @ '','' @ to_string col @ NL) m6;
               (m8, t, more) = readInput m7;
               m9 = fst (setRawMode env False (term_clear m8))
           in (term_cleanup env m9, 0))"

subsection \<open>Facts\<close>

lemma terminfo_is_termcontrol:
  "terminfo_run env (''--char'' # args) m = term_run env (''--char'' # args) m"
  "terminfo_run env (''--set'' # args) m = term_run env (''--set'' # args) m"
  by (simp_all add: terminfo_run_def term_run_def term_handler_of_def)

lemma terminfo_range_is_termcontrol:
  "4 \<le> length args \<Longrightarrow> terminfo_run env (''--range'' # args) m = term_run env (''--char-range'' # args) m"
  by (simp add: terminfo_run_def term_run_def term_handler_of_def terminfo_range_def)

lemma more_keeps_mode [simp]:
  "keeps_mode m (term_clear m') = keeps_mode m m'" "keeps_mode m (setBold b m') = keeps_mode m m'"
  "keeps_mode m (setForegroundColor i m') = keeps_mode m m'" "keeps_mode m (fst (readInput m')) = keeps_mode m m'"
  by (simp_all add: term_clear_def setBold_def setForegroundColor_def print_attribute_def)
    (simp add: readInput_def split_beta keeps_mode_def)

lemma colours_keep_mode [simp]: "keeps_mode m (fold (\<lambda>i m. print (f i) (setForegroundColor i m)) xs m') = keeps_mode m m'"
  by (induction xs arbitrary: m') simp_all

lemma cursor_query_raw:
  "(\<And>n. te_set_ok env n) \<Longrightarrow> is_raw_mode (fst (getCursorPosition env m)) \<and>
     original_termios (fst (getCursorPosition env m)) = original_termios m"
  by (simp add: getCursorPosition_def setRawMode_def tcsetattr_def read_answer_def print_def Let_def split_beta)

lemma cleanup_restores:
  "(\<And>n. te_set_ok env n) \<Longrightarrow> mode_kept t0 m \<Longrightarrow> tm_tty (term_cleanup env m) = t0"
  by (auto simp: mode_kept_def term_cleanup_def tcsetattr_def Let_def)

text \<open>The demonstration also gives the mode back.\<close>

lemma demo_restores_mode:
  assumes "\<And>n. te_set_ok env n"
  shows "tm_tty (fst (demo_main env m)) = tm_tty m"
proof (cases "te_tty_ok env")
  case True
  define m1 where "m1 = fst (term_init env (m\<lparr>is_raw_mode := False, tm_buffer := None\<rparr>))"
  define raw where "raw = fst (setRawMode env True m1)"
  define m4 where "m4 = fold (\<lambda>i m. print (''Color '' @ to_string i @ '' '') (setForegroundColor i m)) [0..7]
    (moveCursor 2 0 (setBold False (print (''Terminal Control Demo'' @ NL) (setBold True (moveCursor 0 0 (term_clear raw))))))"
  define m5 where "m5 = print ''Press any key to exit...'' (moveCursor 4 0 (resetAttributes m4))"
  define m6 where "m6 = fst (getCursorPosition env m5)"
  define t where "t = (case getCursorPosition env m5 of (_, row, col) \<Rightarrow> NL @ ''Cursor at: '' @ to_string row @ '','' @ to_string col @ NL)"
  define m8 where "m8 = fst (readInput (print t m6))"
  have demo: "fst (demo_main env m) = term_cleanup env (fst (setRawMode env False (term_clear m8)))"
    using True unfolding demo_main_def m8_def t_def m6_def m5_def m4_def raw_def m1_def
    by (simp add: Let_def split_beta term_init_def)
  have "original_termios m1 = tm_tty m" using True by (simp add: m1_def term_init_def split_beta)
  then have "original_termios raw = tm_tty m" using raw_mode_entered [OF assms, of m1] by (simp add: raw_def)
  moreover have "keeps_mode raw m5" by (simp add: m5_def m4_def)
  ultimately have "mode_kept (tm_tty m) m6"
    using cursor_query_raw [OF assms, of m5] by (simp add: m6_def mode_kept_def keeps_mode_def)
  moreover have "keeps_mode m6 (term_clear m8)" by (simp add: m8_def)
  ultimately have "mode_kept (tm_tty m) (fst (setRawMode env False (term_clear m8)))"
    using keeps_mode_kept raw_mode_kept by blast
  then show ?thesis unfolding demo by (rule cleanup_restores [OF assms])
qed (simp add: demo_main_def term_init_def)

end
