(* ===== verification/Virtual_Keyboard.thy ===== *)
theory Virtual_Keyboard
  imports Prelude
begin

text \<open>
  The program \<open>sendKeysUInput\<close> (\<open>utilities/sendKeysUInput/sendKeysUInput.c\<close>), which creates a virtual keyboard and keeps it
  until it gets a signal.

  A run is the list of the calls it makes in order, with the exit code of the process that goes on after \<open>daemonize_and_redirect\<close>
  (of a parent, when it goes no further). What the kernel answers is a record; \<open>ue_seconds\<close> is the number of seconds until
  the signal. Messages are left out.
\<close>

datatype uinput_call =
    Fork
  | Setsid
  | RedirectTo string
  | WritePidfile string
  | UnlinkPidfile string
  | OpenUinput
  | SetEvbit string
  | SetKeybit nat
  | SetLedbit string
  | WriteUdev string nat nat nat
  | DevCreate
  | SleepSecond
  | DevDestroy
  | CloseUinput

text \<open>\<open>ue_forks\<close>: what the two forks give, below zero for an error, above zero in the parent.\<close>

record uinput_env =
  ue_forks :: "int \<times> int"
  ue_setsid :: bool
  ue_fd :: int
  ue_evbit :: bool
  ue_write :: bool
  ue_create :: bool
  ue_seconds :: nat

fun uinput_args :: "string list \<Rightarrow> bool \<Rightarrow> string option \<Rightarrow> bool \<times> string option" where
  "uinput_args [] d l = (d, l)"
| "uinput_args (a # as) d l =
     (if a = ''-d'' \<or> a = ''--daemon'' then uinput_args as True l
      else if a = ''--no-log'' then uinput_args as d None
      else uinput_args as d l)"

definition daemonize_and_redirect :: "uinput_env \<Rightarrow> string option \<Rightarrow> uinput_call list \<times> int option" where
  "daemonize_and_redirect env logfile =
     (let (p1, p2) = ue_forks env in
      if p1 < 0 then ([Fork], Some 1)
      else if p1 > 0 then ([Fork], Some 0)
      else if \<not> ue_setsid env then ([Fork, Setsid], Some 1)
      else if p2 < 0 then ([Fork, Setsid, Fork], Some 1)
      else if p2 > 0 then ([Fork, Setsid, Fork], Some 0)
      else ([Fork, Setsid, Fork, RedirectTo (case logfile of Some l \<Rightarrow> l | None \<Rightarrow> ''/dev/null'')], None))"

definition uinput_pidfile :: string where
  "uinput_pidfile = ''/tmp/sendKeysUInput.pid''"

definition enable_keys :: "uinput_call list" where
  "enable_keys = map SetKeybit [0..<256] @ [SetEvbit ''EV_REP'', SetEvbit ''EV_LED'', SetLedbit ''LED_NUML'']"

text \<open>From the opening of the device to the end.\<close>

definition uinput_device :: "uinput_env \<Rightarrow> uinput_call list \<times> int" where
  "uinput_device env =
     (if ue_fd env < 0 then ([OpenUinput, UnlinkPidfile uinput_pidfile], 1)
      else let c1 = [OpenUinput, SetEvbit ''EV_KEY''] in
      if \<not> ue_evbit env then (c1 @ [CloseUinput, UnlinkPidfile uinput_pidfile], 1)
      else let c2 = c1 @ enable_keys @ [WriteUdev ''Virtual Corsair Keyboard'' 0x1234 0x5678 1] in
      if \<not> ue_write env then (c2 @ [CloseUinput, UnlinkPidfile uinput_pidfile], 1)
      else let c3 = c2 @ [DevCreate] in
      if \<not> ue_create env then (c3 @ [CloseUinput, UnlinkPidfile uinput_pidfile], 1)
      else (c3 @ replicate (ue_seconds env) SleepSecond @ [DevDestroy, CloseUinput, UnlinkPidfile uinput_pidfile], 0))"

definition uinput_main :: "uinput_env \<Rightarrow> string list \<Rightarrow> uinput_call list \<times> int" where
  "uinput_main env argv =
     (let (do_daemon, logfile) = uinput_args argv False (Some ''/tmp/sendKeysUInput.log'') in
      if do_daemon then
        (case daemonize_and_redirect env logfile of
           (c, Some rc) \<Rightarrow> (c, rc)
         | (c, None) \<Rightarrow> (let (c1, rc) = uinput_device env in (c @ [WritePidfile uinput_pidfile] @ c1, rc)))
      else uinput_device env)"

subsection \<open>What is given back\<close>

definition closes_what_it_opens :: "uinput_env \<Rightarrow> uinput_call list \<Rightarrow> bool" where
  "closes_what_it_opens env cs \<longleftrightarrow>
     (OpenUinput \<in> set cs \<longrightarrow> last cs = UnlinkPidfile uinput_pidfile \<and>
        (0 \<le> ue_fd env \<longrightarrow> last (butlast cs) = CloseUinput \<and> count_list cs CloseUinput = 1)) \<and>
     (DevCreate \<in> set cs \<and> ue_create env \<longrightarrow> DevDestroy \<in> set cs)"

lemma enable_keys_plain [simp]:
  "CloseUinput \<notin> set enable_keys" "DevCreate \<notin> set enable_keys" "OpenUinput \<notin> set enable_keys"
  by (auto simp: enable_keys_def)

lemma count_list_absent: "x \<notin> set xs \<Longrightarrow> count_list xs x = 0"
  by (induction xs) auto

lemma device_closes: "closes_what_it_opens env (fst (uinput_device env))"
  by (auto simp: closes_what_it_opens_def uinput_device_def Let_def butlast_append last_append count_list_absent)

lemma closes_prefix:
  assumes "closes_what_it_opens env cs" "cs \<noteq> []" "butlast cs \<noteq> []" "set pre \<inter> {OpenUinput, DevCreate, CloseUinput} = {}"
  shows "closes_what_it_opens env (pre @ cs)"
  using assms by (auto simp: closes_what_it_opens_def butlast_append count_list_absent)

lemma device_calls: "\<exists>c c' cs. fst (uinput_device env) = c # c' # cs"
  by (auto simp: uinput_device_def Let_def)

text \<open>C40 (safety). However the kernel answers and whatever the arguments, a run that opens the device ends by closing it, exactly once, and
  removing the file with its number; and a keyboard that was created is destroyed.\<close>

theorem uinput_gives_back:
  "closes_what_it_opens env (fst (uinput_main env argv))"
proof -
  obtain do_daemon logfile where args: "uinput_args argv False (Some ''/tmp/sendKeysUInput.log'') = (do_daemon, logfile)" by fastforce
  obtain c r where d: "daemonize_and_redirect env logfile = (c, r)" by fastforce
  have plain: "set c \<inter> {OpenUinput, DevCreate, CloseUinput} = {}"
    using d by (auto simp: daemonize_and_redirect_def split: prod.splits if_splits)
  then have alone: "closes_what_it_opens env c" by (auto simp: closes_what_it_opens_def)
  have "closes_what_it_opens env ((c @ [WritePidfile uinput_pidfile]) @ fst (uinput_device env))"
    using device_calls [of env] plain by (intro closes_prefix [OF device_closes]) auto
  then show ?thesis
    using device_closes [of env] alone by (cases "uinput_device env") (simp add: uinput_main_def args d split: option.split)
qed

text \<open>A run in the foreground never writes the file and removes it all the same, also when a background process owns it.\<close>

lemma foreground_removes_pidfile:
  "UnlinkPidfile uinput_pidfile \<in> set (fst (uinput_main env [])) \<and> WritePidfile uinput_pidfile \<notin> set (fst (uinput_main env []))"
  by (auto simp: uinput_main_def uinput_device_def enable_keys_def Let_def)

end
