(* ===== verification/Portal_Session.thy ===== *)
theory Portal_Session
  imports Cpp_Strings
begin

text \<open>
  The program \<open>portal-handler\<close> (\<open>utilities/portal-handler/src\<close>): the request for a screen sharing session
  (\<open>PortalManager.cpp\<close>) and its command line (\<open>main.cpp\<close>).

  The desktop portal is outside of the program. What it answers to the call with a number is a parameter: nothing, when the
  call fails, or the contents of the \<open>Response\<close> signal that follows. A portal that never sends the signal keeps the
  program waiting and is not represented. The state holds the static variables of the file, the members of the class, the
  file with the token, and the calls made. The second \<open>CreateSession\<close> is a call like every other here; the code hands it the
  error of the first, which the library does not promise to accept.
\<close>

datatype option_value = Text string | Number nat

datatype portal_call =
    PortalStep string string string "(string \<times> option_value) list"
  | OpenPipeWireRemote string

text \<open>The response code, and of the results the keys that are looked up; the streams with their node numbers.\<close>

record portal_reply =
  response :: "32 word"
  session_handle :: "string option"
  restore_token :: "string option"
  streams :: "32 word list option"

record portal_env =
  pe_name :: "string option"
  pe_rand :: "nat \<Rightarrow> nat"
  pe_reply :: "nat \<Rightarrow> portal_reply option"
  pe_remote :: "nat \<Rightarrow> int option"
  pe_unlink_ok :: bool
  pe_write_ok :: bool

record portal_config =
  appId :: string
  tokenDir :: string

record portal =
  g_session_handle :: string
  g_node_id :: "32 word"
  g_portal_step :: int
  newToken :: string
  m_session_handle :: string
  m_node_id :: "32 word"
  m_pipewire_fd :: int
  m_active :: bool
  po_token_file :: "string option"
  po_rands :: nat
  po_calls :: "portal_call list"

subsection \<open>The file with the token\<close>

definition first_line :: "string \<Rightarrow> string" where
  "first_line t = takeWhile (\<lambda>c. c \<noteq> CHR 0x0A) t"

definition loadRestoreToken :: "portal_config \<Rightarrow> portal \<Rightarrow> string" where
  "loadRestoreToken cfg s =
     (if tokenDir cfg = [] then [] else case po_token_file s of None \<Rightarrow> [] | Some t \<Rightarrow> first_line t)"

definition saveRestoreToken :: "portal_config \<Rightarrow> portal_env \<Rightarrow> string \<Rightarrow> portal \<Rightarrow> portal" where
  "saveRestoreToken cfg env token s =
     (if tokenDir cfg = [] \<or> token = [] then s
      else if pe_write_ok env then s\<lparr>po_token_file := Some token\<rparr> else s)"

definition clearRestoreToken :: "portal_config \<Rightarrow> portal_env \<Rightarrow> portal \<Rightarrow> portal" where
  "clearRestoreToken cfg env s =
     (if tokenDir cfg = [] then s else if pe_unlink_ok env then s\<lparr>po_token_file := None\<rparr> else s)"

subsection \<open>A step of the protocol\<close>

definition on_portal_response_v2 :: "portal_reply \<Rightarrow> portal \<Rightarrow> portal" where
  "on_portal_response_v2 r s =
     (if response r \<noteq> 0 then s
      else if g_portal_step s = 1 then
        (case session_handle r of None \<Rightarrow> s | Some h \<Rightarrow> s\<lparr>g_session_handle := h\<rparr>)
      else if g_portal_step s = 3 then
        (let s1 = (case restore_token r of None \<Rightarrow> s | Some t \<Rightarrow> s\<lparr>newToken := t\<rparr>)
         in case streams r of Some (n # ns) \<Rightarrow> s1\<lparr>g_node_id := n\<rparr> | _ \<Rightarrow> s1)
      else s)"

definition sender_clean :: "string \<Rightarrow> string" where
  "sender_clean name =
     map (\<lambda>c. if c = CHR ''.'' then CHR ''_'' else c) (case name of CHR '':'' # rest \<Rightarrow> rest | _ \<Rightarrow> name)"

definition request_path :: "string \<Rightarrow> string \<Rightarrow> string" where
  "request_path sender token = take 255 (''/org/freedesktop/portal/desktop/request/'' @ sender @ ''/'' @ token)"

definition call_portal_step ::
  "portal_env \<Rightarrow> string \<Rightarrow> string \<Rightarrow> string \<Rightarrow> (string \<times> option_value) list \<Rightarrow> string \<Rightarrow> portal \<Rightarrow> portal \<times> bool" where
  "call_portal_step env sender meth handle opts token s =
     (let k = length (po_calls s);
          s1 = s\<lparr>po_calls := po_calls s @ [PortalStep meth (request_path sender token) handle opts]\<rparr>
      in case pe_reply env k of None \<Rightarrow> (s1, False) | Some r \<Rightarrow> (on_portal_response_v2 r s1, True))"

definition request_token :: "portal_env \<Rightarrow> string \<Rightarrow> portal \<Rightarrow> portal \<times> string" where
  "request_token env tag s =
     (s\<lparr>po_rands := Suc (po_rands s)\<rparr>, take 31 (tag @ to_string (int (pe_rand env (po_rands s) mod 1000))))"

definition buildCreateSession :: "portal_config \<Rightarrow> string \<Rightarrow> string \<Rightarrow> (string \<times> option_value) list" where
  "buildCreateSession cfg token1 token =
     [(''session_handle_token'', Text token1), (''handle_token'', Text token1), (''app_id'', Text (appId cfg))] @
     (if token \<noteq> [] then [(''restore_token'', Text token)] else [])"

subsection \<open>The session\<close>

text \<open>\<open>CreateSession\<close>: whether a token is still in use, and whether it was created.\<close>

definition create_session :: "portal_config \<Rightarrow> portal_env \<Rightarrow> string \<Rightarrow> portal \<Rightarrow> portal \<times> bool \<times> bool" where
  "create_session cfg env sender s0 =
     (let (s, token1) = request_token env ''ph_c'' (s0\<lparr>g_portal_step := 1\<rparr>); token = loadRestoreToken cfg s;
          (s1, ok) = call_portal_step env sender ''CreateSession'' [] (buildCreateSession cfg token1 token) token1 s
      in if ok then (s1, token \<noteq> [], True)
         else if token \<noteq> [] then
           (let (s2, ok2) = call_portal_step env sender ''CreateSession'' [] (buildCreateSession cfg token1 []) token1
                  (clearRestoreToken cfg env s1)
            in (s2, False, ok2))
         else (s1, False, False))"

definition select_sources :: "portal_env \<Rightarrow> string \<Rightarrow> portal \<Rightarrow> portal \<times> bool" where
  "select_sources env sender s0 =
     (let (s, token2) = request_token env ''ph_s'' (s0\<lparr>g_portal_step := 2\<rparr>)
      in call_portal_step env sender ''SelectSources'' (g_session_handle s)
           [(''handle_token'', Text token2), (''types'', Number 1), (''persist_mode'', Number 2)] token2 s)"

definition start_session :: "portal_env \<Rightarrow> string \<Rightarrow> portal \<Rightarrow> portal \<times> bool" where
  "start_session env sender s0 =
     (let (s, token3) = request_token env ''ph_t'' (s0\<lparr>g_portal_step := 3, newToken := []\<rparr>)
      in call_portal_step env sender ''Start'' (g_session_handle s) [(''handle_token'', Text token3)] token3 s)"

definition open_remote :: "portal_config \<Rightarrow> portal_env \<Rightarrow> portal \<Rightarrow> portal \<times> bool" where
  "open_remote cfg env s =
     (if g_node_id s = 0 then (s, False)
      else let s1 = s\<lparr>m_node_id := g_node_id s\<rparr>;
               s2 = (if newToken s1 \<noteq> [] then saveRestoreToken cfg env (newToken s1) s1 else s1);
               k = length (po_calls s2);
               s3 = s2\<lparr>po_calls := po_calls s2 @ [OpenPipeWireRemote (g_session_handle s2)]\<rparr>
           in case pe_remote env k of None \<Rightarrow> (s3, False)
              | Some fd \<Rightarrow> (s3\<lparr>m_pipewire_fd := fd, m_active := True\<rparr>, True))"

text \<open>The function calls itself when the start of a session with a token fails; the first argument counts the calls.\<close>

fun setupPortal :: "portal_config \<Rightarrow> portal_env \<Rightarrow> nat \<Rightarrow> portal \<Rightarrow> (portal \<times> bool) option" where
  "setupPortal cfg env 0 s = None"
| "setupPortal cfg env (Suc n) s =
     (case pe_name env of None \<Rightarrow> Some (s, False)
      | Some name \<Rightarrow>
        (let sender = sender_clean name; (s1, used_restore, created) = create_session cfg env sender s in
         if \<not> created \<or> g_session_handle s1 = [] then Some (s1, False)
         else let (s2, selected) = select_sources env sender (s1\<lparr>m_session_handle := g_session_handle s1\<rparr>) in
         if \<not> selected then Some (s2, False)
         else let (s3, started) = start_session env sender s2 in
         if started then Some (open_remote cfg env s3)
         else if used_restore then setupPortal cfg env n ((clearRestoreToken cfg env s3)\<lparr>g_session_handle := []\<rparr>)
         else Some (s3, False)))"

subsection \<open>The command line\<close>

text \<open>\<open>home\<close> is the variable \<open>HOME\<close>, \<open>pw\<close> the entry of the user in the password file.\<close>

definition expand_user :: "string option \<Rightarrow> string option \<Rightarrow> string \<Rightarrow> string" where
  "expand_user home pw path =
     (if path = [] \<or> hd path \<noteq> CHR ''~'' then path
      else case home of Some h \<Rightarrow> h @ tl path
           | None \<Rightarrow> (case pw of Some h \<Rightarrow> h @ tl path | None \<Rightarrow> path))"

fun portal_args :: "string option \<Rightarrow> string option \<Rightarrow> string list \<Rightarrow> portal_config \<Rightarrow> string + portal_config" where
  "portal_args home pw [] cfg = Inr cfg"
| "portal_args home pw [a] cfg = Inl (''Unknown argument: '' @ a)"
| "portal_args home pw (a # v # rest) cfg =
     (if a = ''--app-id'' then portal_args home pw rest (cfg\<lparr>appId := v\<rparr>)
      else if a = ''--token-dir'' then portal_args home pw rest (cfg\<lparr>tokenDir := expand_user home pw v\<rparr>)
      else Inl (''Unknown argument: '' @ a))"

definition default_portal_config :: "string option \<Rightarrow> string option \<Rightarrow> portal_config" where
  "default_portal_config home pw =
     \<lparr>appId = ''com.automatelinux.portal-handler'', tokenDir = expand_user home pw ''~/.config/portal-handler''\<rparr>"

definition PortalManager_close :: "portal \<Rightarrow> portal" where
  "PortalManager_close s = (if m_pipewire_fd s \<ge> 0 then s\<lparr>m_pipewire_fd := - 1\<rparr> else s)"

datatype portal_outcome = PortalHelp | PortalError string | PortalSession "32 word" int

definition portal_main ::
  "string option \<Rightarrow> string option \<Rightarrow> portal_env \<Rightarrow> nat \<Rightarrow> string list \<Rightarrow> portal \<Rightarrow> (portal \<times> portal_outcome \<times> int) option" where
  "portal_main home pw env n args s = (case args of
      [] \<Rightarrow> Some (s, PortalHelp, 1)
    | command # opts \<Rightarrow> (case portal_args home pw opts (default_portal_config home pw) of
        Inl e \<Rightarrow> Some (s, PortalError e, 1)
      | Inr cfg \<Rightarrow>
          if command \<noteq> ''request-session'' then Some (s, PortalHelp, 1)
          else (case setupPortal cfg env n s of None \<Rightarrow> None
            | Some (s1, ok) \<Rightarrow>
                Some (PortalManager_close s1,
                  (if ok then PortalSession (m_node_id s1) (m_pipewire_fd s1) else PortalError ''Failed to initialize session''),
                  (if ok then 0 else 1)))))"

end
