(* ===== verification/Portal_Facts.thy ===== *)
theory Portal_Facts
  imports Portal_Session
begin

text \<open>
  Facts about \<open>portal-handler\<close>: the order of the calls, what a session that was set up has, that two attempts are
  always enough, and what becomes of the token.
\<close>

subsection \<open>The calls of a step\<close>

fun call_method :: "portal_call \<Rightarrow> string" where
  "call_method (PortalStep m p h opts) = m"
| "call_method (OpenPipeWireRemote h) = ''OpenPipeWireRemote''"

lemma response_calls [simp]: "po_calls (on_portal_response_v2 r s) = po_calls s"
    "po_token_file (on_portal_response_v2 r s) = po_token_file s"
    "m_active (on_portal_response_v2 r s) = m_active s"
  by (auto simp: on_portal_response_v2_def Let_def split: option.split list.split)

lemma step_calls [simp]:
  "po_calls (fst (call_portal_step env sender meth h opts token s)) =
     po_calls s @ [PortalStep meth (request_path sender token) h opts]"
  "po_token_file (fst (call_portal_step env sender meth h opts token s)) = po_token_file s"
  "m_active (fst (call_portal_step env sender meth h opts token s)) = m_active s"
  by (simp_all add: call_portal_step_def Let_def split: option.split)

lemma step_pair:
  assumes "call_portal_step env sender meth h opts token s = (s', ok)"
  shows "po_calls s' = po_calls s @ [PortalStep meth (request_path sender token) h opts]" "po_token_file s' = po_token_file s"
  using step_calls [of env sender meth h opts token s] by (simp_all add: assms)

lemma token_calls [simp]: "po_calls (saveRestoreToken cfg env t s) = po_calls s" "po_calls (clearRestoreToken cfg env s) = po_calls s"
    "g_session_handle (saveRestoreToken cfg env t s) = g_session_handle s" "g_node_id (saveRestoreToken cfg env t s) = g_node_id s"
    "m_node_id (saveRestoreToken cfg env t s) = m_node_id s"
    "m_active (saveRestoreToken cfg env t s) = m_active s" "m_active (clearRestoreToken cfg env s) = m_active s"
  by (simp_all add: saveRestoreToken_def clearRestoreToken_def)

lemma create_used:
  "create_session cfg env sender s = (s1, True, ok) \<Longrightarrow> loadRestoreToken cfg s \<noteq> [] \<and> po_token_file s1 = po_token_file s"
  by (auto simp: create_session_def request_token_def Let_def loadRestoreToken_def split: prod.splits if_splits dest!: step_pair(2))

subsection \<open>The order of the calls\<close>

text \<open>Whether call number \<open>k\<close> of the environment is answered, and the calls of a list from number \<open>k\<close> on with that.\<close>

primrec answered :: "portal_env \<Rightarrow> nat \<Rightarrow> portal_call \<Rightarrow> bool" where
  "answered env k (PortalStep m p h opts) \<longleftrightarrow> pe_reply env k \<noteq> None"
| "answered env k (OpenPipeWireRemote h) \<longleftrightarrow> pe_remote env k \<noteq> None"

primrec outcomes :: "portal_env \<Rightarrow> nat \<Rightarrow> portal_call list \<Rightarrow> (portal_call \<times> bool) list" where
  "outcomes env k [] = []"
| "outcomes env k (c # cs) = (c, answered env k c) # outcomes env (Suc k) cs"

primrec offers_token :: "portal_call \<Rightarrow> bool" where
  "offers_token (PortalStep m p h opts) \<longleftrightarrow> ''restore_token'' \<in> fst ` set opts"
| "offers_token (OpenPipeWireRemote h) \<longleftrightarrow> False"

text \<open>Which call may follow a call with its outcome, and with which call a set-up may end without success.\<close>

fun goes_on :: "portal_call \<times> bool \<Rightarrow> portal_call \<times> bool \<Rightarrow> bool" where
  "goes_on (c, ok) (d, ok') \<longleftrightarrow>
     call_method c = ''CreateSession'' \<and> ok \<and> call_method d = ''SelectSources'' \<or>
     call_method c = ''CreateSession'' \<and> \<not> ok \<and> offers_token c \<and> call_method d = ''CreateSession'' \<and> \<not> offers_token d \<or>
     call_method c = ''SelectSources'' \<and> ok \<and> call_method d = ''Start'' \<or>
     call_method c = ''Start'' \<and> ok \<and> call_method d = ''OpenPipeWireRemote'' \<or>
     call_method c = ''Start'' \<and> \<not> ok \<and> call_method d = ''CreateSession''"

fun gives_up :: "portal \<Rightarrow> portal_call \<times> bool \<Rightarrow> bool" where
  "gives_up s (c, ok) \<longleftrightarrow>
     call_method c = ''CreateSession'' \<and> ok \<and> g_session_handle s = [] \<or>
     call_method c = ''CreateSession'' \<and> \<not> ok \<and> \<not> offers_token c \<or>
     call_method c = ''SelectSources'' \<and> \<not> ok \<or>
     call_method c = ''Start'' \<and> ok \<and> g_node_id s = 0 \<or>
     call_method c = ''Start'' \<and> \<not> ok \<or>
     call_method c = ''OpenPipeWireRemote'' \<and> \<not> ok"

definition trail :: "portal_env \<Rightarrow> portal \<Rightarrow> portal \<Rightarrow> portal_call \<times> bool \<Rightarrow> bool" where
  "trail env s s1 x \<longleftrightarrow> (\<exists>cs. po_calls s1 = po_calls s @ cs \<and> cs \<noteq> [] \<and> call_method (hd cs) = ''CreateSession'' \<and>
     successively goes_on (outcomes env (length (po_calls s)) cs) \<and> last (outcomes env (length (po_calls s)) cs) = x)"

lemma outcomes_append [simp]: "outcomes env k (cs @ ds) = outcomes env k cs @ outcomes env (k + length cs) ds"
  by (induction cs arbitrary: k) simp_all

lemma outcomes_Nil [simp]: "outcomes env k cs = [] \<longleftrightarrow> cs = []"
  by (cases cs) simp_all

lemma hd_outcomes: "cs \<noteq> [] \<Longrightarrow> hd (outcomes env k cs) = (hd cs, answered env k (hd cs))"
  by (cases cs) simp_all

lemma trail_same: "trail env s s1 x \<Longrightarrow> po_calls s2 = po_calls s1 \<Longrightarrow> trail env s s2 x"
  by (simp add: trail_def)

lemma trail_step:
  assumes "trail env s s1 x" "po_calls s2 = po_calls s1 @ [d]" "answered env (length (po_calls s1)) d = ok" "goes_on x (d, ok)"
  shows "trail env s s2 (d, ok)"
proof -
  obtain cs where "po_calls s1 = po_calls s @ cs" "cs \<noteq> []" "call_method (hd cs) = ''CreateSession''"
    "successively goes_on (outcomes env (length (po_calls s)) cs)" "last (outcomes env (length (po_calls s)) cs) = x"
    using assms(1) unfolding trail_def by blast
  then show ?thesis using assms(2-) unfolding trail_def
    by (intro exI [of _ "cs @ [d]"]) (auto simp: successively_append_iff)
qed

lemma trail_join:
  assumes "trail env s s1 (c, False)" "call_method c = ''Start''" "trail env s1 s2 x"
  shows "trail env s s2 x"
proof -
  obtain cs where "po_calls s1 = po_calls s @ cs" "cs \<noteq> []" "call_method (hd cs) = ''CreateSession''"
    "successively goes_on (outcomes env (length (po_calls s)) cs)" "last (outcomes env (length (po_calls s)) cs) = (c, False)"
    using assms(1) unfolding trail_def by blast
  moreover obtain ds where "po_calls s2 = po_calls s1 @ ds" "ds \<noteq> []" "call_method (hd ds) = ''CreateSession''"
    "successively goes_on (outcomes env (length (po_calls s1)) ds)" "last (outcomes env (length (po_calls s1)) ds) = x"
    using assms(3) unfolding trail_def by blast
  ultimately show ?thesis using assms(2) unfolding trail_def
    by (intro exI [of _ "cs @ ds"]) (auto simp: successively_append_iff hd_outcomes)
qed

text \<open>The four calls of an attempt.\<close>

lemma step_answer:
  assumes "call_portal_step env sender meth h opts token s = (s', ok)"
  shows "po_calls s' = po_calls s @ [PortalStep meth (request_path sender token) h opts]"
    "answered env (length (po_calls s)) (PortalStep meth (request_path sender token) h opts) = ok"
  using assms by (auto simp: call_portal_step_def Let_def split: option.splits)

lemma create_trail:
  assumes "create_session cfg env sender s = (s1, used, ok)"
  shows "\<exists>c. trail env s s1 (c, ok) \<and> call_method c = ''CreateSession'' \<and> (\<not> ok \<longrightarrow> \<not> offers_token c)"
proof -
  obtain s0 t where r: "request_token env ''ph_c'' (s\<lparr>g_portal_step := 1\<rparr>) = (s0, t)" "po_calls s0 = po_calls s"
    by (simp add: request_token_def)
  let ?c = "\<lambda>token. PortalStep ''CreateSession'' (request_path sender t) [] (buildCreateSession cfg t token)"
  let ?tok = "loadRestoreToken cfg s0"
  obtain s2 ok1 where c1: "call_portal_step env sender ''CreateSession'' [] (buildCreateSession cfg t ?tok) t s0 = (s2, ok1)"
    by fastforce
  have first: "trail env s s2 (?c ?tok, ok1)"
    using step_answer [OF c1] r(2) unfolding trail_def by (intro exI [of _ "[?c ?tok]"]) simp
  show ?thesis
  proof (cases "ok1 \<or> ?tok = []")
    case True
    then have "s1 = s2" "ok = ok1" using assms by (auto simp: create_session_def r c1 split: if_splits)
    with first True show ?thesis by (intro exI [of _ "?c ?tok"]) (auto simp: buildCreateSession_def)
  next
    case False
    obtain s3 ok2 where c2: "call_portal_step env sender ''CreateSession'' [] (buildCreateSession cfg t []) t
        (clearRestoreToken cfg env s2) = (s3, ok2)" by fastforce
    have "trail env s s3 (?c [], ok2)"
      using step_answer [OF c2] False
      by (intro trail_step [OF first]) (simp_all add: buildCreateSession_def)
    moreover have "s1 = s3" "ok = ok2" using assms False by (auto simp: create_session_def r c1 c2)
    ultimately show ?thesis by (intro exI [of _ "?c []"]) (auto simp: buildCreateSession_def)
  qed
qed

lemma select_call:
  assumes "select_sources env sender s = (s1, ok)"
  shows "\<exists>d. po_calls s1 = po_calls s @ [d] \<and> answered env (length (po_calls s)) d = ok \<and> call_method d = ''SelectSources''"
proof -
  obtain s0 t where r: "request_token env ''ph_s'' (s\<lparr>g_portal_step := 2\<rparr>) = (s0, t)" "po_calls s0 = po_calls s"
    by (simp add: request_token_def)
  then have "call_portal_step env sender ''SelectSources'' (g_session_handle s0)
      [(''handle_token'', Text t), (''types'', Number 1), (''persist_mode'', Number 2)] t s0 = (s1, ok)"
    using assms by (simp add: select_sources_def)
  from step_answer [OF this] r(2) show ?thesis by auto
qed

lemma start_call:
  assumes "start_session env sender s = (s1, ok)"
  shows "\<exists>d. po_calls s1 = po_calls s @ [d] \<and> answered env (length (po_calls s)) d = ok \<and> call_method d = ''Start''"
proof -
  obtain s0 t where r: "request_token env ''ph_t'' (s\<lparr>g_portal_step := 3, newToken := []\<rparr>) = (s0, t)" "po_calls s0 = po_calls s"
    by (simp add: request_token_def)
  then have "call_portal_step env sender ''Start'' (g_session_handle s0)
      [(''handle_token'', Text t)] t s0 = (s1, ok)"
    using assms by (simp add: start_session_def)
  from step_answer [OF this] r(2) show ?thesis by auto
qed

lemma open_call:
  assumes "open_remote cfg env s = (s1, ok)"
  shows "\<not> ok \<and> s1 = s \<and> g_node_id s = 0 \<or>
    (\<exists>d. po_calls s1 = po_calls s @ [d] \<and> answered env (length (po_calls s)) d = ok \<and> call_method d = ''OpenPipeWireRemote'')"
  using assms by (auto simp: open_remote_def Let_def split: if_splits option.splits)

lemma setup_trail:
  assumes "setupPortal cfg env n s = Some (s', ok)" "pe_name env = Some name"
  shows "\<exists>x. trail env s s' x \<and> (if ok then call_method (fst x) = ''OpenPipeWireRemote'' \<and> snd x else gives_up s' x)"
  using assms(1)
proof (induction n arbitrary: s)
  case (Suc n)
  let ?sender = "sender_clean name"
  obtain s1 used ok1 where c: "create_session cfg env ?sender s = (s1, used, ok1)" by (metis prod_cases3)
  let ?s1 = "s1\<lparr>m_session_handle := g_session_handle s1\<rparr>"
  obtain s2 ok2 where s2: "select_sources env ?sender ?s1 = (s2, ok2)" by fastforce
  obtain s3 ok3 where s3: "start_session env ?sender s2 = (s3, ok3)" by fastforce
  note run = Suc.prems [unfolded setupPortal.simps, simplified assms(2) c s2 s3 option.case Let_def prod.case]
  obtain x1 where x1: "trail env s s1 (x1, ok1)" "call_method x1 = ''CreateSession''" "\<not> ok1 \<longrightarrow> \<not> offers_token x1"
    using create_trail [OF c] by blast
  show ?case
  proof (cases "ok1 \<and> g_session_handle s1 \<noteq> []")
    case False
    then have "s' = s1" "\<not> ok" using run by auto
    with x1 False show ?thesis by (intro exI [of _ "(x1, ok1)"]) auto
  next
    case True
    obtain x2 where x2: "po_calls s2 = po_calls ?s1 @ [x2]" "answered env (length (po_calls ?s1)) x2 = ok2"
      "call_method x2 = ''SelectSources''" using select_call [OF s2] by blast
    have t2: "trail env s s2 (x2, ok2)"
      using x1 x2 True by (intro trail_step [OF x1(1)]) auto
    show ?thesis
    proof (cases ok2)
      case False
      then have "s' = s2" "\<not> ok" using run True by auto
      with t2 x2(3) False show ?thesis by (intro exI [of _ "(x2, ok2)"]) auto
    next
      case ok2: True
      obtain x3 where x3: "po_calls s3 = po_calls s2 @ [x3]" "answered env (length (po_calls s2)) x3 = ok3"
        "call_method x3 = ''Start''" using start_call [OF s3] by blast
      have t3: "trail env s s3 (x3, ok3)" using x2(3) x3 ok2 by (intro trail_step [OF t2]) auto
      show ?thesis
      proof (cases ok3)
        case True
        then have o: "open_remote cfg env s3 = (s', ok)" using run \<open>ok1 \<and> _\<close> ok2 by auto
        from open_call [OF o] show ?thesis
        proof (elim disjE exE conjE)
          assume "\<not> ok" "s' = s3" "g_node_id s3 = 0"
          with t3 x3(3) True show ?thesis by (intro exI [of _ "(x3, ok3)"]) auto
        next
          fix d
          assume d: "po_calls s' = po_calls s3 @ [d]" "answered env (length (po_calls s3)) d = ok"
            "call_method d = ''OpenPipeWireRemote''"
          have "trail env s s' (d, ok)" using d x3(3) True by (intro trail_step [OF t3]) auto
          with d(3) show ?thesis by (intro exI [of _ "(d, ok)"]) auto
        qed
      next
        case False
        let ?s3 = "(clearRestoreToken cfg env s3)\<lparr>g_session_handle := []\<rparr>"
        have t3': "trail env s ?s3 (x3, False)" using t3 False by (auto intro: trail_same)
        show ?thesis
        proof (cases used)
          case True
          then have "setupPortal cfg env n ?s3 = Some (s', ok)" using run \<open>ok1 \<and> _\<close> ok2 False by auto
          from Suc.IH [OF this] trail_join [OF t3' x3(3)] show ?thesis by blast
        next
          case unused: False
          then have "s' = s3" "\<not> ok" using run \<open>ok1 \<and> _\<close> ok2 False by auto
          with t3 x3(3) False show ?thesis by (intro exI [of _ "(x3, ok3)"]) auto
        qed
      qed
    qed
  qed
qed simp

text \<open>C37 (invariant). The calls to the portal follow the protocol, whatever it answers and however often the set-up starts again:
  the first is \<open>CreateSession\<close>; \<open>SelectSources\<close> follows only a \<open>CreateSession\<close> that was answered, \<open>Start\<close> only a
  \<open>SelectSources\<close> that was, \<open>OpenPipeWireRemote\<close> only a \<open>Start\<close> that was. After a call that failed no further call is made,
  with two exceptions: a \<open>CreateSession\<close> with a stored token is repeated at once without it, and after a failed \<open>Start\<close>
  everything may begin again. The set-up succeeds exactly when the last call is an \<open>OpenPipeWireRemote\<close> that was answered;
  otherwise the last call failed, or it was answered without a session handle or without a stream. Without a name on the bus
  no call is made.\<close>

theorem portal_call_order:
  assumes "setupPortal cfg env n s = Some (s', ok)"
  shows "if pe_name env = None then s' = s \<and> \<not> ok
    else \<exists>cs. let run = outcomes env (length (po_calls s)) cs in
      po_calls s' = po_calls s @ cs \<and> cs \<noteq> [] \<and> call_method (hd cs) = ''CreateSession'' \<and> successively goes_on run \<and>
      (if ok then call_method (fst (last run)) = ''OpenPipeWireRemote'' \<and> snd (last run) else gives_up s' (last run))"
proof (cases "pe_name env")
  case None
  then show ?thesis using assms by (cases n) auto
next
  case (Some name)
  from setup_trail [OF assms this] Some show ?thesis by (auto simp: trail_def Let_def)
qed

definition willing_portal :: portal_env where
  "willing_portal = \<lparr>pe_name = Some '':1.42'', pe_rand = (\<lambda>k. 7),
     pe_reply = (\<lambda>k. Some \<lparr>response = 0, session_handle = Some ''/session'', restore_token = Some ''tok'', streams = Some [44]\<rparr>),
     pe_remote = (\<lambda>k. Some 5), pe_unlink_ok = True, pe_write_ok = True\<rparr>"

definition fresh_portal :: portal where
  "fresh_portal = \<lparr>g_session_handle = [], g_node_id = 0, g_portal_step = 0, newToken = [], m_session_handle = [], m_node_id = 0,
     m_pipewire_fd = - 1, m_active = False, po_token_file = Some ''old'', po_rands = 0, po_calls = []\<rparr>"

definition portal_cfg :: portal_config where
  "portal_cfg = \<lparr>appId = ''app'', tokenDir = ''/t''\<rparr>"

lemmas portal_samples = willing_portal_def fresh_portal_def portal_cfg_def

lemmas portal_steps = create_session_def select_sources_def start_session_def open_remote_def call_portal_step_def request_token_def
  on_portal_response_v2_def loadRestoreToken_def saveRestoreToken_def clearRestoreToken_def first_line_def

subsection \<open>A session that was set up\<close>

text \<open>Where the set-up says yes, the manager is active, has a session and a stream that is not zero, and its last call opened the
  remote of that session.\<close>

theorem portal_session_complete:
  assumes "setupPortal cfg env n s = Some (s', True)"
  shows "m_active s' \<and> m_node_id s' \<noteq> 0 \<and> m_node_id s' = g_node_id s' \<and>
    (\<exists>calls. po_calls s' = calls @ [OpenPipeWireRemote (g_session_handle s')])"
  using assms
proof (induction cfg env n s rule: setupPortal.induct)
  case (2 cfg env n s)
  obtain name where name: "pe_name env = Some name" using "2.prems" by (auto split: option.splits)
  obtain s1 used ok1 where c: "create_session cfg env (sender_clean name) s = (s1, used, ok1)" by (metis prod_cases3)
  obtain s2 ok2 where s2: "select_sources env (sender_clean name) (s1\<lparr>m_session_handle := g_session_handle s1\<rparr>) = (s2, ok2)" by fastforce
  obtain s3 ok3 where s3: "start_session env (sender_clean name) s2 = (s3, ok3)" by fastforce
  have go: "ok1" "g_session_handle s1 \<noteq> []" "ok2" using "2.prems" by (auto simp: name c s2 Let_def split: if_splits)
  show ?case
  proof (cases ok3)
    case True
    then have "open_remote cfg env s3 = (s', True)" using "2.prems" go by (simp add: name c s2 s3 Let_def)
    then show ?thesis by (auto simp: open_remote_def Let_def split: if_splits option.splits)
  next
    case False
    then have used: "used" using "2.prems" go by (auto simp: name c s2 s3 Let_def split: if_splits)
    then have "setupPortal cfg env n ((clearRestoreToken cfg env s3)\<lparr>g_session_handle := []\<rparr>) = Some (s', True)"
      using "2.prems" go False by (simp add: name c s2 s3 Let_def)
    then show ?thesis using used "2.IH" [OF name refl refl c [symmetric] refl _ refl s2 [symmetric] _ refl s3 [symmetric]] go False by blast
  qed
qed simp

theorem portal_session_complete_witness:
  "\<exists>s'. setupPortal portal_cfg willing_portal 1 fresh_portal = Some (s', True) \<and> m_node_id s' \<noteq> 0 \<and> m_active s'"
proof -
  obtain s' where "setupPortal portal_cfg willing_portal 1 fresh_portal = Some (s', True)"
    by (simp add: portal_samples portal_steps Let_def)
  from portal_session_complete [OF this] this show ?thesis by blast
qed

text \<open>A portal that refuses to start the session with the stored token, so that everything begins again.\<close>

definition retrying_portal :: portal_env where
  "retrying_portal = willing_portal\<lparr>pe_reply := (\<lambda>k. if k = 2 then None else pe_reply willing_portal k)\<rparr>"

theorem portal_call_order_witness:
  "\<exists>s' cs. setupPortal portal_cfg retrying_portal 2 fresh_portal = Some (s', True) \<and> po_calls s' = cs \<and> length cs = 7 \<and>
     successively goes_on (outcomes retrying_portal 0 cs)"
proof -
  have "\<exists>s'. setupPortal portal_cfg retrying_portal (Suc (Suc 0)) fresh_portal = Some (s', True) \<and> length (po_calls s') = 7"
    by (simp add: retrying_portal_def portal_samples portal_steps Let_def)
  then obtain s' where r: "setupPortal portal_cfg retrying_portal 2 fresh_portal = Some (s', True)" "length (po_calls s') = 7"
    unfolding numeral_2_eq_2 by blast
  from portal_call_order [OF r(1)] have "successively goes_on (outcomes retrying_portal 0 (po_calls s'))"
    by (auto simp: retrying_portal_def willing_portal_def fresh_portal_def Let_def)
  with r show ?thesis by blast
qed

subsection \<open>The attempts\<close>

lemma no_token_one_attempt:
  assumes "loadRestoreToken cfg s = []"
  shows "\<exists>r. setupPortal cfg env (Suc n) s = Some r \<and> setupPortal cfg env 1 s = Some r"
proof (cases "pe_name env")
  case (Some name)
  obtain s1 used ok1 where c: "create_session cfg env (sender_clean name) s = (s1, used, ok1)" by (metis prod_cases3)
  then have "\<not> used" using create_used [of cfg env "sender_clean name" s s1 ok1] assms by (cases used) auto
  moreover obtain s2 ok2 where "select_sources env (sender_clean name) (s1\<lparr>m_session_handle := g_session_handle s1\<rparr>) = (s2, ok2)"
    by fastforce
  moreover obtain s3 ok3 where "start_session env (sender_clean name) s2 = (s3, ok3)" by fastforce
  ultimately show ?thesis using Some c by (auto simp: Let_def)
qed auto

text \<open>C38 (termination). When the file with the token can be removed, the function calls itself at most once: two attempts always give a result,
  and more change nothing.\<close>

theorem portal_two_attempts:
  assumes "pe_unlink_ok env"
  shows "\<exists>r. setupPortal cfg env (n + 2) s = Some r \<and> setupPortal cfg env 2 s = Some r"
proof (cases "pe_name env")
  case (Some name)
  obtain s1 used ok1 where c: "create_session cfg env (sender_clean name) s = (s1, used, ok1)" by (metis prod_cases3)
  obtain s2 ok2 where s2: "select_sources env (sender_clean name) (s1\<lparr>m_session_handle := g_session_handle s1\<rparr>) = (s2, ok2)" by fastforce
  obtain s3 ok3 where s3: "start_session env (sender_clean name) s2 = (s3, ok3)" by fastforce
  let ?s = "(clearRestoreToken cfg env s3)\<lparr>g_session_handle := []\<rparr>"
  have "loadRestoreToken cfg ?s = []" using assms by (simp add: loadRestoreToken_def clearRestoreToken_def)
  from no_token_one_attempt [OF this, of env n] show ?thesis
    by (auto simp: numeral_2_eq_2 Some c s2 s3 Let_def)
qed (auto simp: numeral_2_eq_2)

theorem portal_two_attempts_witness:
  "\<exists>r. setupPortal portal_cfg (willing_portal\<lparr>pe_reply := (\<lambda>k. if k = 2 then None else pe_reply willing_portal k)\<rparr>) 2 fresh_portal = Some r"
  using portal_two_attempts [of "willing_portal\<lparr>pe_reply := (\<lambda>k. if k = 2 then None else pe_reply willing_portal k)\<rparr>" portal_cfg 0
      fresh_portal]
  by (auto simp: willing_portal_def)

text \<open>Otherwise there is no end: a token that the portal refuses and that stays on disk is tried for ever.\<close>

lemma portal_never_ends:
  assumes "\<not> pe_unlink_ok env" "pe_name env = Some name" "loadRestoreToken cfg s \<noteq> []"
    and "\<And>k. k mod 3 = 2 \<Longrightarrow> pe_reply env k = None" "length (po_calls s) mod 3 = 0"
    and "\<And>k. k mod 3 \<noteq> 2 \<Longrightarrow> \<exists>r h. pe_reply env k = Some r \<and> response r = 0 \<and> session_handle r = Some h \<and> h \<noteq> []"
  shows "setupPortal cfg env n s = None"
  using assms(3,5)
proof (induction n arbitrary: s)
  case (Suc n)
  let ?k = "length (po_calls s)"
  have "?k mod 3 \<noteq> 2" "Suc ?k mod 3 \<noteq> 2" "Suc (Suc ?k) mod 3 = 2" using Suc.prems(2) by presburger+
  then obtain r h r1 where r: "pe_reply env ?k = Some r" "response r = 0" "session_handle r = Some h" "h \<noteq> []"
      "pe_reply env (Suc ?k) = Some r1" "pe_reply env (Suc (Suc ?k)) = None"
    using assms(4) assms(6) by meson
  define s3 where "s3 = fst (start_session env (sender_clean name) (fst (select_sources env (sender_clean name)
    ((fst (create_session cfg env (sender_clean name) s))\<lparr>m_session_handle := h\<rparr>))))"
  have token: "loadRestoreToken cfg (s\<lparr>g_portal_step := 1, po_rands := Suc (po_rands s)\<rparr>) = loadRestoreToken cfg s"
    by (simp add: loadRestoreToken_def)
  have step: "setupPortal cfg env (Suc n) s = setupPortal cfg env n ((clearRestoreToken cfg env s3)\<lparr>g_session_handle := []\<rparr>)"
    and kept: "po_token_file s3 = po_token_file s" and count: "length (po_calls s3) = ?k + 3"
    using Suc.prems r assms(2) token
    by (simp_all add: s3_def create_session_def select_sources_def start_session_def call_portal_step_def request_token_def
        on_portal_response_v2_def Let_def)
  have "loadRestoreToken cfg ((clearRestoreToken cfg env s3)\<lparr>g_session_handle := []\<rparr>) \<noteq> []"
    using Suc.prems(1) kept assms(1) by (simp add: clearRestoreToken_def loadRestoreToken_def split: if_splits)
  moreover have "length (po_calls ((clearRestoreToken cfg env s3)\<lparr>g_session_handle := []\<rparr>)) mod 3 = 0"
    using Suc.prems(2) by (simp add: count)
  ultimately show ?case using Suc.IH step by simp
qed simp

subsection \<open>The token\<close>

text \<open>A token without line break is read back.\<close>

lemma portal_token_roundtrip:
  "tokenDir cfg \<noteq> [] \<Longrightarrow> pe_write_ok env \<Longrightarrow> t \<noteq> [] \<Longrightarrow> CHR 0x0A \<notin> set t \<Longrightarrow>
   loadRestoreToken cfg (saveRestoreToken cfg env t s) = t"
  by (auto simp: loadRestoreToken_def saveRestoreToken_def first_line_def takeWhile_eq_all_conv)

text \<open>When the portal answers the start of a session with an error, the set-up fails, but the token stays and no attempt is made
  without it; the clean attempt comes only when the call itself fails.\<close>

theorem portal_error_keeps_token:
  assumes "pe_name env = Some name" "g_node_id s = 0" "g_session_handle s = []" "\<And>k. k < length (po_calls s) + 3 \<Longrightarrow> \<exists>r. pe_reply env k = Some r"
    and "\<And>k r. pe_reply env k = Some r \<Longrightarrow> k = length (po_calls s) + 2 \<Longrightarrow> response r \<noteq> 0"
  shows "\<exists>s'. setupPortal cfg env (Suc n) s = Some (s', False) \<and> po_token_file s' = po_token_file s \<and> length (po_calls s') \<le> length (po_calls s) + 3"
proof -
  let ?k = "length (po_calls s)"
  obtain r0 r1 r2 where r: "pe_reply env ?k = Some r0" "pe_reply env (Suc ?k) = Some r1" "pe_reply env (Suc (Suc ?k)) = Some r2"
    using assms(4) [of ?k] assms(4) [of "Suc ?k"] assms(4) [of "Suc (Suc ?k)"] by auto
  have "response r2 \<noteq> 0" using assms(5) [OF r(3)] by simp
  then show ?thesis using assms(1-3) r
    by (auto simp: create_session_def select_sources_def start_session_def call_portal_step_def request_token_def open_remote_def
        on_portal_response_v2_def Let_def split: option.split)
qed

definition refusing_portal :: portal_env where
  "refusing_portal = willing_portal\<lparr>pe_reply := (\<lambda>k. Some \<lparr>response = (if k = 2 then 2 else 0), session_handle = Some ''/session'',
     restore_token = None, streams = None\<rparr>)\<rparr>"

theorem portal_error_keeps_token_witness:
  "\<exists>s'. setupPortal portal_cfg refusing_portal 2 fresh_portal = Some (s', False) \<and> po_token_file s' = Some ''old'' \<and>
    length (po_calls s') \<le> 3"
proof -
  have "\<exists>s'. setupPortal portal_cfg refusing_portal (Suc 1) fresh_portal = Some (s', False) \<and>
      po_token_file s' = po_token_file fresh_portal \<and> length (po_calls s') \<le> length (po_calls fresh_portal) + 3"
    by (rule portal_error_keeps_token [where name = "'':1.42''"])
      (auto simp: refusing_portal_def willing_portal_def fresh_portal_def simp del: setupPortal.simps)
  then show ?thesis by (simp add: fresh_portal_def numeral_2_eq_2 del: setupPortal.simps)
qed

text \<open>The token is never given where sources are selected, only at the creation of the session.\<close>

lemma token_only_at_creation:
  "\<exists>path h token. po_calls (fst (select_sources env sender s)) =
     po_calls s @ [PortalStep ''SelectSources'' path h [(''handle_token'', Text token), (''types'', Number 1), (''persist_mode'', Number 2)]]"
  by (simp add: select_sources_def request_token_def Let_def)

end
