(* ===== verification/Text_Helpers.thy ===== *)
theory Text_Helpers
  imports Cpp_Strings "HOL-Library.Sublist"
begin

text \<open>
  The helpers for scripts of \<open>Utils.cpp\<close>: whether a text has more than one line, the escapes that put it on one, and the
  replacement of a variable. The loop of \<open>substituteVariable\<close> goes on behind what it has replaced, so it is the recursion
  on the rest of the text.
\<close>

definition isMultiline :: "string \<Rightarrow> bool" where
  "isMultiline s =
     (if s = [] then False
      else let stop = (if last s = CHR 0x0A then length s - 1 else length s) in CHR 0x0A \<in> set (take stop s))"

definition escape_char :: "char \<Rightarrow> string" where
  "escape_char c =
     (if c = CHR 0x0A then [CHR 0x5C, CHR ''n'']
      else if c = CHR 0x22 then [CHR 0x5C, CHR 0x22]
      else if c = CHR 0x5C then [CHR 0x5C, CHR 0x5C]
      else [c])"

definition toJsonSingleLine :: "string \<Rightarrow> string" where
  "toJsonSingleLine s = concat (map escape_char s)"

function replace_from :: "string \<Rightarrow> string \<Rightarrow> string \<Rightarrow> string" where
  "replace_from pat v [] = (if pat = [] then v else [])"
| "replace_from pat v (c # t) =
     (if pat \<noteq> [] \<and> prefix pat (c # t) then v @ replace_from pat v (drop (length pat) (c # t)) else c # replace_from pat v t)"
  by pat_completeness auto
termination
  by (relation "measure (\<lambda>(pat, v, t). length t)") auto

definition substituteVariable :: "string \<Rightarrow> string \<Rightarrow> string \<Rightarrow> string" where
  "substituteVariable content var val = replace_from (CHR ''$'' # var) val content"

text \<open>Escapes are read back by a reader of JSON strings.\<close>

fun unescape :: "string \<Rightarrow> string" where
  "unescape (c # d # t) =
     (if c = CHR 0x5C then (if d = CHR ''n'' then CHR 0x0A else d) # unescape t else c # unescape (d # t))"
| "unescape t = t"

lemma unescape_escape: "unescape (escape_char c @ t) = c # unescape t"
  by (cases t) (auto simp: escape_char_def)

lemma escaped_single_line: "CHR 0x0A \<notin> set (toJsonSingleLine s)" "\<not> isMultiline (toJsonSingleLine s)"
proof -
  show 1: "CHR 0x0A \<notin> set (toJsonSingleLine s)" by (auto simp: toJsonSingleLine_def escape_char_def split: if_splits)
  show "\<not> isMultiline (toJsonSingleLine s)" using 1 by (auto simp: isMultiline_def Let_def dest: in_set_takeD)
qed

text \<open>A text put on one line is one line, and is read back as it was, whatever it contains besides.\<close>

theorem single_line_roundtrip:
  "unescape (toJsonSingleLine s) = s \<and> \<not> isMultiline (toJsonSingleLine s)"
proof
  show "unescape (toJsonSingleLine s) = s" by (induction s) (simp_all add: toJsonSingleLine_def unescape_escape)
qed (rule escaped_single_line(2))

text \<open>A text without the variable stays; what is put in is not looked at again.\<close>

lemma replace_absent: "\<not> sublist pat t \<Longrightarrow> replace_from pat v t = t"
proof (induction pat v t rule: replace_from.induct)
  case (2 pat v c t)
  then have "\<not> prefix pat (c # t)" "\<not> sublist pat t" by (auto simp: sublist_Cons_right)
  then show ?case using 2 by simp
qed simp

lemma replace_skip: "\<not> prefix pat (c # t) \<Longrightarrow> replace_from pat v (c # t) = c # replace_from pat v t"
  by simp

lemma substitute_once:
  assumes "\<not> sublist (CHR ''$'' # var) pre" "CHR ''$'' \<notin> set var" "CHR ''$'' \<notin> set post"
  shows "substituteVariable (pre @ (CHR ''$'' # var) @ post) var val = pre @ val @ post"
  using assms
proof (induction pre)
  case Nil
  have "\<not> sublist (CHR ''$'' # var) post" using Nil(3) by (auto simp: sublist_def)
  then show ?case by (simp add: substituteVariable_def replace_absent)
next
  case (Cons c pre)
  have "\<not> prefix (CHR ''$'' # var) (c # pre @ CHR ''$'' # var @ post)"
  proof
    assume p: "prefix (CHR ''$'' # var) (c # pre @ CHR ''$'' # var @ post)"
    show False
    proof (cases "length var \<le> length pre")
      case True
      then have "prefix (CHR ''$'' # var) (c # pre)"
        using p prefix_length_prefix [of "CHR ''$'' # var" _ "c # pre"] by (metis append_Cons prefixI length_Cons Suc_le_mono)
      then show False using Cons.prems(1) by (meson prefix_imp_sublist)
    next
      case False
      have "prefix var (pre @ CHR ''$'' # var @ post)" using p by (metis Cons_prefix_Cons)
      then have "prefix (pre @ [CHR ''$'']) var"
        using False prefix_length_prefix [of "pre @ [CHR ''$'']" "pre @ CHR ''$'' # var @ post" var] by (simp add: prefix_def)
      then show False using Cons.prems(2) by (auto dest: set_mono_prefix)
    qed
  qed
  then have "replace_from (CHR ''$'' # var) val (c # pre @ CHR ''$'' # var @ post) =
      c # replace_from (CHR ''$'' # var) val (pre @ CHR ''$'' # var @ post)" by (rule replace_skip)
  moreover have "\<not> sublist (CHR ''$'' # var) pre" using Cons.prems(1) by (simp add: sublist_Cons_right)
  ultimately show ?case using Cons.IH Cons.prems(2,3) by (simp add: substituteVariable_def del: replace_from.simps)
qed

end
