(* ===== verification/Schema_Setup.thy ===== *)
theory Schema_Setup
  imports Cpp_Strings "HOL-Library.Sublist"
begin

text \<open>
  The statements that prepare the database after the start of the server: \<open>createDatabaseAndUser\<close> of
  \<open>daemon/src/MySQLManager.cpp\<close>. The columns they declare are those of the tables in \<open>Database\<close>.

  The server is a parameter: whether the connection can be made and which statements it accepts. An \<open>SQLException\<close> ends the
  function with a message; only the one of the migration is caught where it is raised.
\<close>

definition mysqlUser :: string where "mysqlUser = ''automate_user''"
definition mysqlPassword :: string where "mysqlPassword = ''automate_password''"
definition mysqlDatabase :: string where "mysqlDatabase = ''automate_db''"

abbreviation QUOTE :: string where "QUOTE \<equiv> [CHR 0x27]"

datatype schema_step = Exec string | Try string | SetSchema string

fun optional_step :: "schema_step \<Rightarrow> bool" where
  "optional_step (Try s) = True"
| "optional_step st = False"

definition schema_script :: "schema_step list" where
  "schema_script =
    [
     Exec (''CREATE DATABASE IF NOT EXISTS '' @ mysqlDatabase),
     Exec (''CREATE USER IF NOT EXISTS '' @ QUOTE @ mysqlUser @ QUOTE @ ''@'' @ QUOTE @ ''localhost'' @ QUOTE @ '' IDENTIFIED BY '' @ QUOTE @ mysqlPassword @ QUOTE),
     Exec (''GRANT ALL PRIVILEGES ON '' @ mysqlDatabase @ ''.* TO '' @ QUOTE @ mysqlUser @ QUOTE @ ''@'' @ QUOTE @ ''localhost'' @ QUOTE),
     Exec (''FLUSH PRIVILEGES''),
     SetSchema mysqlDatabase,
     Exec (''CREATE TABLE IF NOT EXISTS terminal_history (entry_index INT PRIMARY KEY, path TEXT NOT NULL)''),
     Exec (''CREATE TABLE IF NOT EXISTS terminal_sessions (tty INT PRIMARY KEY, history_index INT NOT NULL)''),
     Exec (''CREATE TABLE IF NOT EXISTS automation_configs (config_key VARCHAR(255) PRIMARY KEY, '' @
       ''config_value JSON NOT NULL)''),
     Exec (''CREATE TABLE IF NOT EXISTS device_registry (device_type VARCHAR(50) PRIMARY KEY, path TEXT NOT NULL)''),
     Exec (''CREATE TABLE IF NOT EXISTS system_settings (setting_key VARCHAR(255) PRIMARY KEY, '' @
       ''setting_value TEXT NOT NULL)''),
     Exec (''CREATE TABLE IF NOT EXISTS peer_registry (peer_id VARCHAR(64) PRIMARY KEY, ip_address '' @
       ''VARCHAR(15) NOT NULL, mac_address VARCHAR(17), hostname VARCHAR(255), last_seen TIMESTAMP '' @
       ''DEFAULT CURRENT_TIMESTAMP, is_online BOOLEAN DEFAULT FALSE, daemon_version INT DEFAULT 0)''),
     Try (''ALTER TABLE peer_registry ADD COLUMN daemon_version INT DEFAULT 0''),
     Exec (''CREATE TABLE IF NOT EXISTS app_assignments (app_name VARCHAR(64) PRIMARY KEY, assigned_peer '' @
       ''VARCHAR(64), assigned_at TIMESTAMP DEFAULT CURRENT_TIMESTAMP, last_activity TIMESTAMP DEFAULT '' @
       ''CURRENT_TIMESTAMP)''),
     Exec (''CREATE TABLE IF NOT EXISTS extra_apps (app_id VARCHAR(64) PRIMARY KEY, display_name '' @
       ''VARCHAR(128) NOT NULL, repo_url TEXT NOT NULL, has_server_component BOOLEAN DEFAULT FALSE, '' @
       ''server_service_template VARCHAR(128), client_service_template VARCHAR(128), port_key_client '' @
       ''VARCHAR(64), port_key_server VARCHAR(64), dev_path TEXT NOT NULL, prod_path TEXT NOT NULL, '' @
       ''server_build_subdir VARCHAR(128), client_subdir VARCHAR(128), installed_at TIMESTAMP DEFAULT '' @
       ''CURRENT_TIMESTAMP)'')
    ]"

text \<open>The steps that were tried, and whether the function came to its end.\<close>

fun run_steps :: "(schema_step \<Rightarrow> bool) \<Rightarrow> schema_step list \<Rightarrow> schema_step list \<times> bool" where
  "run_steps accepts [] = ([], True)"
| "run_steps accepts (st # rest) =
     (if accepts st \<or> optional_step st then (let (done_steps, ok) = run_steps accepts rest in (st # done_steps, ok)) else ([st], False))"

definition createDatabaseAndUser :: "bool \<Rightarrow> (schema_step \<Rightarrow> bool) \<Rightarrow> schema_step list \<times> bool" where
  "createDatabaseAndUser connects accepts = (if connects then run_steps accepts schema_script else ([], False))"

definition connection_host :: "int \<Rightarrow> string" where
  "connection_host port = ''tcp://127.0.0.1:'' @ to_string port"

text \<open>\<open>getConnection\<close> gives no connection when the login or the choice of the schema fails.\<close>

definition getConnection :: "(string \<Rightarrow> string \<Rightarrow> string \<Rightarrow> bool) \<Rightarrow> (string \<Rightarrow> bool) \<Rightarrow> int \<Rightarrow> bool" where
  "getConnection login has_schema port = (login (connection_host port) mysqlUser mysqlPassword \<and> has_schema mysqlDatabase)"

subsection \<open>Facts\<close>

lemma run_steps_prefix: "prefix (fst (run_steps accepts steps)) steps"
  by (induction steps) (auto simp: split_beta Let_def)

lemma run_steps_complete:
  "snd (run_steps accepts steps) \<longleftrightarrow> (\<forall>st \<in> set steps. accepts st \<or> optional_step st)"
  by (induction steps) (auto simp: split_beta Let_def)

lemma run_steps_all: "snd (run_steps accepts steps) \<Longrightarrow> fst (run_steps accepts steps) = steps"
  by (induction steps) (auto simp: split_beta Let_def split: if_splits)

text \<open>The set-up runs the script up to the first statement the server does not accept, and only the migration may fail on the way: the
  function comes to its end exactly if all other statements are accepted, and then all have run.\<close>

lemma schema_complete:
  "prefix (fst (createDatabaseAndUser connects accepts)) schema_script \<and>
   (snd (createDatabaseAndUser connects accepts) \<longleftrightarrow>
     connects \<and> (\<forall>st \<in> set schema_script. accepts st \<or> optional_step st)) \<and>
   (snd (createDatabaseAndUser connects accepts) \<longrightarrow> fst (createDatabaseAndUser connects accepts) = schema_script)"
  using run_steps_prefix run_steps_complete run_steps_all by (simp add: createDatabaseAndUser_def)

lemma migration_only_optional:
  "filter optional_step schema_script = [Try (''ALTER TABLE peer_registry ADD COLUMN '' @ ''daemon_version INT DEFAULT 0'')]"
  by (simp add: schema_script_def)

end
