(* ===== verification/Spec2Isabelle.thy ===== *)
theory Spec2Isabelle
  imports Settings_Commands Grab_Behaviour Macro_Json Key_Typing Dispatch_Facts App_Facts Peer_Facts Server_Facts Wireguard_Facts System_Facts
    Startup_Facts Scan_Facts Clean_Between Send_Keys Tail_Window Term_Examples Virtual_Keyboard Portal_Facts Text_Helpers Schema_Setup
begin

text \<open>
  Verification of the C and C++ programs of automateLinux: the daemon (\<open>src/daemon\<close>), the client that talks to it, and the
  small tools under \<open>src/utilities\<close>.

  \<^bold>\<open>The program.\<close> A daemon per machine keeps a MySQL database of its own and answers commands. A client (a shell
  function, an extension of the browser or of the window manager) sends one JSON object per line to a local socket;
  \<open>DaemonServer.cpp\<close> cuts the bytes into lines, \<open>mainCommand.cpp\<close> checks the arguments against a table of signatures and
  calls a handler of one of the files \<open>cmd*.cpp\<close>, and the handlers work on the tables (\<open>DatabaseTableManagers.cpp\<close>), on the
  class \<open>InputMapper\<close>, on the namespace \<open>AppManager\<close> or on the class \<open>PeerManager\<close>. The daemons of several machines are
  joined by connections over WireGuard: workers register with a leader, send heartbeats and run commands for it. The mapper
  grabs the keyboard, matches macros, withholds events while a macro may still fire, and writes to a virtual device.

  \<^bold>\<open>Theories and sources.\<close> Every group of definitions keeps the names of the code.

  \<^item> \<open>Prelude\<close>, \<open>Cpp_Strings\<close>, \<open>Ordered_Map\<close>, \<open>Json_Values\<close>: results and exceptions (\<open>exn + 'a\<close>), \<open>to_string\<close>,
    \<open>stoi\<close>, \<open>stoul\<close>, \<open>std::map\<close> as a sorted association list (locale \<open>ordered_map\<close>), JSON values with the accessors and
    their exceptions. \<open>Std_Sort\<close>: \<open>std::sort\<close> with a comparison that may throw, over every algorithm the standard allows.
  \<^item> \<open>Database\<close>: the eight tables of \<open>MySQLManager.cpp\<close> as lists of records, the operations of
    \<open>DatabaseTableManagers.cpp\<close> as effects of their SQL statements. \<open>Dir_History\<close>: \<open>terminal.cpp\<close>, \<open>cmdTerminal.cpp\<close>;
    the state is the database and the list of terminals. \<open>Settings_Commands\<close>: \<open>cmdPort.cpp\<close>, \<open>cmdDatabase.cpp\<close>.
  \<^item> \<open>Event_Codes\<close>, \<open>Macro_Config\<close>, \<open>Macro_Json\<close>: \<open>InputMapper.h\<close>, \<open>MacroConfig.cpp\<close>, \<open>Types.h\<close>. \<open>Input_Mapper\<close>,
    \<open>Mapper_Invariants\<close>, \<open>Mapper_Behaviour\<close>, \<open>Combo_Behaviour\<close>, \<open>Grab_Behaviour\<close>: \<open>InputMapper.cpp\<close> as functions on the
    record \<open>mapper\<close>, one step per event. \<open>Key_Typing\<close>: \<open>cmdInput.cpp\<close>, \<open>KeyNames.h\<close>.
  \<^item> \<open>Daemon_State\<close> and \<open>App_Manager\<close>, \<open>App_Commands\<close>, \<open>App_Peers\<close>, \<open>App_Facts\<close>: \<open>cmdApp.cpp\<close>. \<open>Peer_Manager\<close>,
    \<open>Peer_Commands\<close>, \<open>Peer_Facts\<close>: \<open>PeerManager.cpp\<close>, \<open>cmdPeer.cpp\<close>. \<open>Wireguard_Commands\<close>, \<open>Wireguard_Facts\<close>:
    \<open>cmdWireGuard.cpp\<close>. \<open>Desktop_Commands\<close>: \<open>cmdSystem.cpp\<close>, \<open>cmdLogging.cpp\<close>, \<open>cmdWindow.cpp\<close>, \<open>cmdBrowser.cpp\<close>,
    \<open>KeyboardManager.cpp\<close>, \<open>AutomationManager.cpp\<close>, \<open>Globals.h\<close>, parts of \<open>Utils.cpp\<close>. \<open>Text_Helpers\<close>: its helpers for scripts.
  \<^item> \<open>Command_Dispatch\<close>, \<open>Dispatch_Facts\<close>: \<open>mainCommand.cpp\<close> over any handlers. \<open>Client_Args\<close>, \<open>Client_Facts\<close>:
    \<open>ClientSender.cpp\<close>. \<open>Daemon_Server\<close>, \<open>Server_Facts\<close>: the connections and the loop of \<open>DaemonServer.cpp\<close>.
    \<open>Daemon_Commands\<close>, \<open>System_Facts\<close>: all handlers on one state, the daemon as a client sees it. \<open>Daemon_Startup\<close>,
    \<open>Startup_Facts\<close>, \<open>Schema_Setup\<close>: start and end (\<open>main.cpp\<close>, the rest of \<open>DaemonServer.cpp\<close> and of
    \<open>MySQLManager.cpp\<close>).
  \<^item> \<open>Ignore_Rules\<close>, \<open>Tree_Scan\<close>, \<open>Scan_Facts\<close>: \<open>utilities/fileSize\<close> and \<open>utilities/lastChanged\<close>. \<open>Clean_Between\<close>:
    \<open>utilities/cleanBetween\<close>. \<open>Send_Keys\<close>: \<open>utilities/sendKeys\<close>. \<open>Virtual_Keyboard\<close>: \<open>utilities/sendKeysUInput\<close>. \<open>Screen_Buffer\<close>, \<open>Term_Control\<close>,
    \<open>Tail_Window\<close>, \<open>Term_Examples\<close>: \<open>utilities/termcontrol\<close>. \<open>Portal_Session\<close>, \<open>Portal_Facts\<close>: \<open>utilities/portal-handler\<close>.

  \<^bold>\<open>State, effects and errors.\<close> A class or a group of static variables is a record, an operation takes it and returns it
  updated. An exception that leaves a function is a value of \<open>exn\<close>, and what was changed before it stays changed. What the
  outside world answers (shell commands, sockets, clocks, devices, the portal) is a parameter: a function of the calls made so
  far or of a counter in the state, so that every behaviour of the environment is one such function; \<open>is_directory\<close> answers or throws, call by call. Where the
  code has no defined behaviour (a freed terminal is read, an assertion of a library fails) the model stops with
  \<open>AssertFail\<close> and the theorems say which runs they exclude. Integers that can
  overflow are words or are cut to their width in the definition; the others carry the range in the text of their theory.

  \<^bold>\<open>What the lemmas show.\<close>

  \<^item> Directory history: along every run of commands (\<open>term_run\<close>) its rows are well-formed, and as long as it is never
    emptied it stays contiguous, bounded and consistent with the pointers of the terminals; visits and moves refine a list
    with one cursor per terminal, exceptions of the file system included.
  \<^item> Input mapper: an invariant of all steps, replacing the macros in between included (\<open>mapper_reach\<close>); when a macro fires, what is withheld and released again, what a change of the
    application does, how the G keys are recognised, and that the wait of the grab ends.
  \<^item> Ports, applications, peers: round trips through the tables, free ports are free, adding and removing an application,
    registration and heartbeats of workers, and what a lost connection leaves behind.
  \<^item> Dispatcher, client and server: each command is answered as its signature and its handler say; the client checks as the
    daemon does; a session does not depend on how its bytes are cut; one slow command of a peer stops the server.
  \<^item> Whole daemon: a port set by the client is read back by the client; no command ever starts the mapper.
  \<^item> Start: a second daemon leaves the socket of the first but ends its database server; the waits for the server and for the
    WireGuard interface end, and the interface is found if it comes up in time.
  \<^item> Tools: the last matching rule decides, rules reach no further than their directory in \<open>fileSize\<close>, and \<open>lastChanged\<close>
    forgets the surrounding rules; sums and reports of the walk; keys are sent as the daemon sends them; the screen buffer keeps its
    shape and gives back what is written; the mode of the terminal is restored; the tail window holds the last lines; the
    virtual keyboard is given back; the calls to the portal come in order and end.

  \<^bold>\<open>Loops and fuel.\<close> Loops over data are structural recursions or have a measure. The loops that wait are bounded in the
  code and recurse on the number of rounds left: 50 for a port and for the database server, 12 rounds of 5 seconds for the peer
  socket; the wait of the grab ends when two seconds have passed, of which every poll takes ten milliseconds.
  \<open>setupPortal\<close>, which calls itself, takes the number of calls: two are enough when the file of the token can be removed,
  and without that there may be no end. Both are proved in \<open>Portal_Facts\<close>. The loop of the daemon, which is meant to run for
  ever, is a list of events.

  \<^bold>\<open>Not modelled.\<close> The parser and printer of JSON, the MySQL server, libevdev, curl and D-Bus are libraries and appear as
  parameters. The text of the log file, permissions of files and pauses are left out. Threads run as steps of their own
  between events; a data race inside one operation is not represented. \<open>on_portal_response\<close> in
  \<open>PortalManager.cpp\<close> and the class \<open>System\<close> in \<open>system.cpp\<close> are used by nothing; \<open>test_*.cpp\<close> are tried by hand. Shell
  functions, browser and window extensions and the servers in other languages are outside of this development.
\<close>

end
